(* ===== verification/Prelude.thy ===== *)
theory Prelude
  imports Main "HOL-Library.Word"
begin

text \<open>
  Shared vocabulary of the development: the machine types of the Rust code, the error values of
  \<^verbatim>\<open>src/src/error/mod.rs\<close>, the state-and-error monad in which every fallible operation is
  written, and generic lemmas on words and lists.

  \<^item> \<^verbatim>\<open>u64\<close>, \<^verbatim>\<open>u32\<close>, \<^verbatim>\<open>u8\<close> are words; arithmetic wraps as in a release build.
  \<^item> \<^verbatim>\<open>i64\<close> is a 64-bit word read with \<open>sint\<close>, so \<^verbatim>\<open>cast_unsigned\<close> and
    \<^verbatim>\<open>cast_signed\<close> are the identity on bits. Where an \<^verbatim>\<open>i64\<close> is the key of an ordered
    map (the deque of \<^verbatim>\<open>concurrent_structures.rs\<close>) it is an integer with the wrap-around
    written out (\<open>wrap_i64\<close>).
  \<^item> Points in time and durations are integers counting nanoseconds.
\<close>

unbundle bit_operations_syntax

type_synonym u64 = "64 word"
type_synonym i64 = "64 word"
type_synonym u32 = "32 word"
type_synonym u8 = "8 word"
type_synonym Uuid = "128 word"
type_synonym CompactString = string
type_synonym Dt = int
type_synonym Instant = int
type_synonym Duration = int

named_theorems kio_simps "unfolding the error monad"
named_theorems store_simps "effect of a store operation on the parts of the store"

section \<open>Errors\<close>

datatype QueueError =
    UnKnownEventMode
  | FailedToObliterate
  | CantObliterateWhileJobsActive
  | CantOperateWhenPaused
  | DelayBelowAllowedLimit (limit_ms: u64) (current_ms: u64)

datatype JobError =
    JobNotFound
  | JobLockNotExist
  | JobNotInState
  | JobPendingDependencies
  | ParentJobNotExist
  | JobLockMismatch
  | MissedDelayDeadline

datatype WorkerError =
    WorkerAlreadyRunningWithId Uuid
  | WorkerAlreadyClosed Uuid
  | FailedToCheckStalledJobs

text \<open>Errors of other crates are carried as their printed text.\<close>

datatype KioError =
    RedisError string
  | RedisParsingError string
  | DealPoolError string
  | DealPoolConfig string
  | JsonError string
  | SerdeDeserializeError string
  | IoError string
  | FmtError string
  | ParseIntError string
  | GeneralError string
  | SystemTimeError string
  | QueueError QueueError
  | ConversionError string string
  | EmitterError string
  | JoinError string
  | WorkerError WorkerError
  | JobError JobError
  | CronerError string
  | InMemoryError string

text \<open>A call fails by returning an error or by panicking.\<close>

datatype Failure = Err KioError | Panic string

fun job_error_code :: "JobError \<Rightarrow> int" where
  "job_error_code JobNotFound = -1"
| "job_error_code JobLockNotExist = -2"
| "job_error_code JobNotInState = -3"
| "job_error_code JobPendingDependencies = -4"
| "job_error_code ParentJobNotExist = -5"
| "job_error_code JobLockMismatch = -6"
| "job_error_code MissedDelayDeadline = -7"

fun job_error_message :: "JobError \<Rightarrow> CompactString" where
  "job_error_message JobNotFound = ''The job does not exist''"
| "job_error_message JobLockNotExist = ''The job lock does not exist''"
| "job_error_message JobNotInState = ''The job is not in the expected state''"
| "job_error_message JobPendingDependencies = ''The job has pending dependencies''"
| "job_error_message ParentJobNotExist = ''The parent job does not exist''"
| "job_error_message JobLockMismatch = ''The job lock does not match''"
| "job_error_message MissedDelayDeadline = ''Job has missed delay deadline''"

section \<open>The error monad\<close>

text \<open>
  A fallible operation takes the state and returns a result with the new state. The state
  survives an error: what was written before an early return stays written, as in the source.
\<close>

type_synonym ('w, 'a) kio = "'w \<Rightarrow> (Failure + 'a) \<times> 'w"

definition kret :: "'a \<Rightarrow> ('w, 'a) kio" where
  "kret a w = (Inr a, w)"

definition kfail :: "Failure \<Rightarrow> ('w, 'a) kio" where
  "kfail e w = (Inl e, w)"

text \<open>\<open>kbind m f\<close> is \<^verbatim>\<open>let x = m.await?; f(x)\<close>.\<close>

definition kbind :: "('w, 'a) kio \<Rightarrow> ('a \<Rightarrow> ('w, 'b) kio) \<Rightarrow> ('w, 'b) kio" where
  "kbind m f w = (case m w of (Inl e, w') \<Rightarrow> (Inl e, w') | (Inr a, w') \<Rightarrow> f a w')"

text \<open>Reading the state, and running an infallible stateful call.\<close>

definition kget :: "('w \<Rightarrow> 'a) \<Rightarrow> ('w, 'a) kio" where
  "kget g w = (Inr (g w), w)"

definition klift :: "('w \<Rightarrow> 'a \<times> 'w) \<Rightarrow> ('w, 'a) kio" where
  "klift g w = (Inr (fst (g w)), snd (g w))"

definition kmod :: "('w \<Rightarrow> 'w) \<Rightarrow> ('w, unit) kio" where
  "kmod g w = (Inr (), g w)"

definition kwhen :: "bool \<Rightarrow> ('w, unit) kio \<Rightarrow> ('w, unit) kio" where
  "kwhen b m = (if b then m else kret ())"

text \<open>A \<^verbatim>\<open>for\<close> loop whose body may return early with \<^verbatim>\<open>?\<close>.\<close>

fun kfor :: "('a \<Rightarrow> ('w, unit) kio) \<Rightarrow> 'a list \<Rightarrow> ('w, unit) kio" where
  "kfor f [] = kret ()"
| "kfor f (x # xs) = kbind (f x) (\<lambda>_. kfor f xs)"

text \<open>\<open>ok_or\<close>: a missing value becomes an error.\<close>

definition kok_or :: "'a option \<Rightarrow> KioError \<Rightarrow> ('w, 'a) kio" where
  "kok_or x e = (case x of Some a \<Rightarrow> kret a | None \<Rightarrow> kfail (Err e))"

text \<open>A pure call that may fail.\<close>

definition kresult :: "Failure + 'a \<Rightarrow> ('w, 'a) kio" where
  "kresult r w = (r, w)"

lemma kresult_apply [simp, kio_simps]: "kresult r w = (r, w)"
  by (simp add: kresult_def)

lemma kret_apply [simp, kio_simps]: "kret a w = (Inr a, w)"
  by (simp add: kret_def)

lemma kfail_apply [simp, kio_simps]: "kfail e w = (Inl e, w)"
  by (simp add: kfail_def)

lemma kget_apply [simp, kio_simps]: "kget g w = (Inr (g w), w)"
  by (simp add: kget_def)

lemma klift_apply [kio_simps]: "klift g w = (Inr (fst (g w)), snd (g w))"
  by (simp add: klift_def)

lemma kmod_apply [simp, kio_simps]: "kmod g w = (Inr (), g w)"
  by (simp add: kmod_def)

lemma kwhen_simps [simp, kio_simps]: "kwhen True m = m" "kwhen False m = kret ()"
  by (simp_all add: kwhen_def)

lemma kok_or_simps [simp, kio_simps]:
  "kok_or (Some a) e = kret a" "kok_or None e = kfail (Err e)"
  by (simp_all add: kok_or_def)

lemma kbind_apply [kio_simps]:
  "kbind m f w = (case fst (m w) of Inl e \<Rightarrow> (Inl e, snd (m w)) | Inr a \<Rightarrow> f a (snd (m w)))"
  by (simp add: kbind_def split: prod.split sum.split)

lemma kbind_kret [simp]: "kbind (kret a) f = f a"
  by (rule ext) (simp add: kbind_apply)

lemma kbind_Pair [simp, kio_simps]:
  "kbind (Pair (Inr a)) f = f a" "kbind (Pair (Inl e)) f = Pair (Inl e)"
  by (rule ext, simp add: kbind_apply)+

lemma kbind_kret_right [simp]: "kbind m kret = m"
  by (rule ext) (simp add: kbind_def split: prod.split sum.split)

lemma kbind_kfail [simp]: "kbind (kfail e) f = kfail e"
  by (rule ext) (simp add: kbind_apply)

lemma kbind_assoc: "kbind (kbind m f) g = kbind m (\<lambda>a. kbind (f a) g)"
  by (rule ext) (simp add: kbind_def split: prod.split sum.split)

lemma kbind_ok: "m w = (Inr a, w') \<Longrightarrow> kbind m f w = f a w'"
  by (simp add: kbind_apply)

lemma kbind_err: "m w = (Inl e, w') \<Longrightarrow> kbind m f w = (Inl e, w')"
  by (simp add: kbind_apply)

lemma kbind_cases:
  assumes "kbind m f w = (r, w')"
  obtains (err) e where "m w = (Inl e, w')" and "r = Inl e"
  | (ok) a w1 where "m w = (Inr a, w1)" and "f a w1 = (r, w')"
  using assms by (auto simp: kbind_def split: prod.splits sum.splits)

lemma kbind_kget: "kbind (kget g) f w = f (g w) w"
  by (simp add: kbind_def kget_def)

lemma kbind_kresult: "kbind (kresult (Inr a)) f = f a"
  by (rule ext) (simp add: kbind_def)

lemma kfor_append: "kfor f (xs @ ys) = kbind (kfor f xs) (\<lambda>_. kfor f ys)"
  by (induction xs) (simp_all add: kbind_assoc)

text \<open>A property that every step of the loop keeps holds after the loop, whether it ends or fails.\<close>

lemma kfor_inv:
  assumes "I w" and "\<And>x w. x \<in> set xs \<Longrightarrow> I w \<Longrightarrow> I (snd (f x w))"
  shows "I (snd (kfor f xs w))"
  using assms
proof (induction xs arbitrary: w)
  case (Cons x xs)
  then have "I (snd (f x w))" by simp
  with Cons show ?case by (auto simp: kbind_apply split: sum.split)
qed simp

lemma kfor_ok:
  assumes "\<And>x w. x \<in> set xs \<Longrightarrow> fst (f x w) = Inr ()"
  shows "fst (kfor f xs w) = Inr ()"
  using assms by (induction xs arbitrary: w) (simp_all add: kbind_apply)

section \<open>Total correctness of operations\<close>

text \<open>\<open>kwp m Q w\<close>: from \<open>w\<close> the operation \<open>m\<close> succeeds and ends with \<open>Q\<close>.\<close>

definition kwp :: "('w, 'a) kio \<Rightarrow> ('a \<Rightarrow> 'w \<Rightarrow> bool) \<Rightarrow> 'w \<Rightarrow> bool" where
  "kwp m Q w \<longleftrightarrow> (\<exists>a w'. m w = (Inr a, w') \<and> Q a w')"

lemma kwp_ret [simp]: "kwp (kret a) Q w \<longleftrightarrow> Q a w"
  by (simp add: kwp_def)

lemma kwp_get [simp]: "kwp (kget g) Q w \<longleftrightarrow> Q (g w) w"
  by (simp add: kwp_def)

lemma kwp_mod [simp]: "kwp (kmod h) Q w \<longleftrightarrow> Q () (h w)"
  by (simp add: kwp_def)

lemma kwp_fail [simp]: "\<not> kwp (kfail e) Q w"
  by (simp add: kwp_def)

lemma kwp_result [simp]: "kwp (kresult r) Q w \<longleftrightarrow> (\<exists>a. r = Inr a \<and> Q a w)"
  by (simp add: kwp_def)

lemma kwp_lift [simp]: "kwp (klift l) Q w \<longleftrightarrow> Q (fst (l w)) (snd (l w))"
  by (simp add: kwp_def klift_def)

lemma kwp_when [simp]: "kwp (kwhen b m) Q w \<longleftrightarrow> (if b then kwp m Q w else Q () w)"
  by (simp add: kwhen_def)

lemma kwp_kok_or [simp]: "kwp (kok_or x e) Q w \<longleftrightarrow> (\<exists>a. x = Some a \<and> Q a w)"
  by (cases x) (simp_all add: kok_or_def)

lemma kwp_bind [simp]: "kwp (kbind m f) Q w \<longleftrightarrow> kwp m (\<lambda>a w'. kwp (f a) Q w') w"
  by (auto simp: kwp_def kbind_def split: prod.splits sum.splits)

lemma kwp_mono: "kwp m P w \<Longrightarrow> (\<And>a w'. P a w' \<Longrightarrow> Q a w') \<Longrightarrow> kwp m Q w"
  by (auto simp: kwp_def)

lemma kwp_seq: "kwp m P w \<Longrightarrow> (\<And>a w'. P a w' \<Longrightarrow> kwp (f a) Q w') \<Longrightarrow> kwp (kbind m f) Q w"
  by (auto simp: kwp_def kbind_def split: prod.splits sum.splits)

lemma kwpD: "kwp m Q w \<Longrightarrow> \<exists>a. fst (m w) = Inr a \<and> Q a (snd (m w))"
  by (auto simp: kwp_def)

lemma kwpI: "m w = (Inr a, w') \<Longrightarrow> Q a w' \<Longrightarrow> kwp m Q w"
  by (auto simp: kwp_def)

section \<open>What operations keep and return\<close>

text \<open>A program keeps what \<open>f\<close> reads, whether it succeeds or fails.\<close>

definition keeps :: "('w \<Rightarrow> 'x) \<Rightarrow> ('w, 'a) kio \<Rightarrow> bool" where
  "keeps f m \<longleftrightarrow> (\<forall>w. f (snd (m w)) = f w)"

lemma keeps_intros [intro!]:
  "keeps f (kret a)" "keeps f (kfail e)" "keeps f (kget g)" "keeps f (kresult r)"
  by (simp_all add: keeps_def kget_def)

lemma keeps_bind [intro]: "keeps f m \<Longrightarrow> (\<And>a. keeps f (g a)) \<Longrightarrow> keeps f (kbind m g)"
  by (auto simp: keeps_def kbind_apply split: sum.split)

lemma keeps_if: "(b \<Longrightarrow> keeps f m) \<Longrightarrow> (\<not> b \<Longrightarrow> keeps f n) \<Longrightarrow> keeps f (if b then m else n)"
  by simp

lemma keeps_option: "keeps f m \<Longrightarrow> (\<And>a. keeps f (n a)) \<Longrightarrow> keeps f (case x of None \<Rightarrow> m | Some a \<Rightarrow> n a)"
  by (simp split: option.split)

lemma keeps_kmod: "(\<And>w. f (h w) = f w) \<Longrightarrow> keeps f (kmod h)"
  by (simp add: keeps_def kmod_def)

lemma keeps_klift: "(\<And>w. f (snd (l w)) = f w) \<Longrightarrow> keeps f (klift l)"
  by (simp add: keeps_def klift_def)

lemma keeps_kok_or: "keeps f (kok_or x e)"
  by (cases x) auto

lemma keeps_kwhen: "keeps f m \<Longrightarrow> keeps f (kwhen b m)"
  by (auto simp: kwhen_def)

lemma keeps_kfor: "(\<And>a. keeps f (g a)) \<Longrightarrow> keeps f (kfor g xs)"
  by (induction xs) auto

lemmas keeps_structure = keeps_bind keeps_intros keeps_if keeps_option keeps_kwhen keeps_kok_or keeps_kfor

lemma kwp_keeps: "kwp m Q w \<Longrightarrow> keeps f m \<Longrightarrow> kwp m (\<lambda>a w'. Q a w' \<and> f w' = f w) w"
  by (auto simp: kwp_def keeps_def) (metis snd_conv)

text \<open>What a program returns when it succeeds.\<close>

definition returns :: "('a \<Rightarrow> bool) \<Rightarrow> ('w, 'a) kio \<Rightarrow> bool" where
  "returns P m \<longleftrightarrow> (\<forall>w a w'. m w = (Inr a, w') \<longrightarrow> P a)"

lemma returns_intros:
  "P a \<Longrightarrow> returns P (kret a)" "returns P (kfail e)" "(\<And>a. returns P (g a)) \<Longrightarrow> returns P (kbind m g)"
  "(b \<Longrightarrow> returns P n) \<Longrightarrow> (\<not> b \<Longrightarrow> returns P n') \<Longrightarrow> returns P (if b then n else n')"
  by (auto simp: returns_def kbind_apply split: sum.splits)

section \<open>Machine integers\<close>

definition wrap_i64 :: "int \<Rightarrow> int" where
  "wrap_i64 x = (x + 2 ^ 63) mod 2 ^ 64 - 2 ^ 63"

lemma wrap_i64_id: "- (2 ^ 63) \<le> x \<Longrightarrow> x < 2 ^ 63 \<Longrightarrow> wrap_i64 x = x"
  by (simp add: wrap_i64_def)

lemma wrap_i64_range: "- (2 ^ 63) \<le> wrap_i64 x" "wrap_i64 x < 2 ^ 63"
  using pos_mod_bound [of "2 ^ 64" "x + 2 ^ 63"] pos_mod_sign [of "2 ^ 64" "x + 2 ^ 63"]
  by (simp_all add: wrap_i64_def)

text \<open>
  Times in nanoseconds as milliseconds and microseconds: \<^verbatim>\<open>timestamp_millis\<close> and
  \<^verbatim>\<open>timestamp_micros\<close> round towards the past, \<^verbatim>\<open>num_milliseconds\<close> of a difference towards zero.
\<close>

definition timestamp_millis :: "Dt \<Rightarrow> i64" where
  "timestamp_millis t = word_of_int (t div 1000000)"

definition timestamp_micros :: "Dt \<Rightarrow> i64" where
  "timestamp_micros t = word_of_int (t div 1000)"

definition num_milliseconds :: "Duration \<Rightarrow> i64" where
  "num_milliseconds d = word_of_int (if 0 \<le> d then d div 1000000 else - ((- d) div 1000000))"

text \<open>\<^verbatim>\<open>i64::unsigned_abs\<close> and \<^verbatim>\<open>i64::is_positive\<close>.\<close>

definition unsigned_abs :: "i64 \<Rightarrow> u64" where
  "unsigned_abs x = (if sint x < 0 then - x else x)"

definition is_positive :: "i64 \<Rightarrow> bool" where
  "is_positive x \<longleftrightarrow> 0 < sint x"

definition i64_max :: i64 where
  "i64_max = 0x7FFFFFFFFFFFFFFF"

text \<open>\<^verbatim>\<open>i64::try_from(id).unwrap_or(i64::MAX)\<close> and \<^verbatim>\<open>u32::try_from(n).unwrap_or(u32::MAX)\<close>.\<close>

definition i64_try_from_u64 :: "u64 \<Rightarrow> i64" where
  "i64_try_from_u64 x = (if sint x < 0 then i64_max else x)"

definition u32_try_from_i64 :: "i64 \<Rightarrow> u32" where
  "u32_try_from_i64 x = (if 0 \<le> sint x \<and> sint x < 2 ^ 32 then ucast x else - 1)"

lemma u64_bounds: "unat (x :: u64) < 2 ^ 64"
  using unsigned_less [of x, where ?'a = nat] by simp

lemma unat_of_nat_u64: "n < 2 ^ 64 \<Longrightarrow> unat (of_nat n :: u64) = n"
  by (simp add: unat_of_nat)

lemma of_nat_u64_eq_0: "n < 2 ^ 64 \<Longrightarrow> (of_nat n :: u64) = 0 \<longleftrightarrow> n = 0"
  using unat_of_nat_u64 [of n] by (auto simp: unat_eq_0)

lemma of_nat_u64_gt_0: "n < 2 ^ 64 \<Longrightarrow> 0 < (of_nat n :: u64) \<longleftrightarrow> 0 < n"
  using of_nat_u64_eq_0 [of n] word_gt_0 [of "of_nat n :: u64"] by simp

lemma i64_sint_range: "- (2 ^ 63) \<le> sint (x :: i64)" "sint (x :: i64) < 2 ^ 63"
  using sint_greater_eq [of x] sint_less [of x] by simp_all

lemma uint_eq_sint: "0 \<le> sint (x :: i64) \<Longrightarrow> uint x = sint x"
  using i64_sint_range [of x] by (simp add: uint_sint take_bit_int_eq_self)

lemma sint_of_int_i64: "- (2 ^ 63) \<le> k \<Longrightarrow> k < 2 ^ 63 \<Longrightarrow> sint (word_of_int k :: i64) = k"
  by (simp add: signed_of_int signed_take_bit_int_eq_self)

lemma u32_try_from_i64_small:
  assumes "0 \<le> sint n" and "sint n < 2 ^ 32"
  shows "unat (u32_try_from_i64 n) = nat (sint n)"
proof -
  have "uint (ucast n :: u32) = sint n"
    using assms by (simp add: unsigned_ucast_eq uint_eq_sint take_bit_int_eq_self)
  then show ?thesis using assms by (simp add: u32_try_from_i64_def unat_eq_nat_uint)
qed

section \<open>Lists\<close>

lemma filter_id_conv_all: "(\<forall>x \<in> set xs. P x) \<Longrightarrow> filter P xs = xs"
  by (induction xs) auto

lemma last_conv_rev: "xs \<noteq> [] \<Longrightarrow> rev xs = last xs # rev (butlast xs)"
  by (cases xs rule: rev_cases) auto

end
