(* ===== verification/Skip_Map.thy ===== *)
theory Skip_Map
  imports Prelude
begin

text \<open>
  The ordered maps the code keeps its collections in. \<^verbatim>\<open>crossbeam_skiplist::SkipMap\<close> and
  \<^verbatim>\<open>SkipSet\<close> are documented as concurrent alternatives of \<^verbatim>\<open>BTreeMap\<close> and
  \<^verbatim>\<open>BTreeSet\<close>; the model keeps the value such a map has between two operations, the list of
  its entries in ascending order of their keys. The interface the other components rely on is
  the locale \<open>ordered_map\<close>, interpreted at the end on the operations defined here.
\<close>

section \<open>Operations\<close>

type_synonym ('k, 'v) skipmap = "('k \<times> 'v) list"

definition sm_ok :: "('k::linorder, 'v) skipmap \<Rightarrow> bool" where
  "sm_ok m \<longleftrightarrow> sorted_wrt (<) (map fst m)"

definition sm_get :: "'k \<Rightarrow> ('k, 'v) skipmap \<Rightarrow> 'v option" where
  "sm_get k m = map_of m k"

definition sm_contains_key :: "'k \<Rightarrow> ('k, 'v) skipmap \<Rightarrow> bool" where
  "sm_contains_key k m \<longleftrightarrow> sm_get k m \<noteq> None"

text \<open>Inserting replaces the value of a key that is already there.\<close>

definition sm_insert :: "'k::linorder \<Rightarrow> 'v \<Rightarrow> ('k, 'v) skipmap \<Rightarrow> ('k, 'v) skipmap" where
  "sm_insert k v m = filter (\<lambda>e. fst e < k) m @ (k, v) # filter (\<lambda>e. k < fst e) m"

definition sm_remove :: "'k \<Rightarrow> ('k, 'v) skipmap \<Rightarrow> ('k, 'v) skipmap" where
  "sm_remove k m = filter (\<lambda>e. fst e \<noteq> k) m"

text \<open>The loop \<^verbatim>\<open>iter().filter(p).for_each(remove)\<close>.\<close>

definition sm_remove_if :: "('k \<times> 'v \<Rightarrow> bool) \<Rightarrow> ('k, 'v) skipmap \<Rightarrow> ('k, 'v) skipmap" where
  "sm_remove_if p m = filter (\<lambda>e. \<not> p e) m"

definition sm_front :: "('k, 'v) skipmap \<Rightarrow> ('k \<times> 'v) option" where
  "sm_front m = (case m of [] \<Rightarrow> None | e # _ \<Rightarrow> Some e)"

definition sm_back :: "('k, 'v) skipmap \<Rightarrow> ('k \<times> 'v) option" where
  "sm_back m = (if m = [] then None else Some (last m))"

definition sm_pop_front :: "('k, 'v) skipmap \<Rightarrow> ('k \<times> 'v) option \<times> ('k, 'v) skipmap" where
  "sm_pop_front m = (case m of [] \<Rightarrow> (None, []) | e # m' \<Rightarrow> (Some e, m'))"

definition sm_pop_back :: "('k, 'v) skipmap \<Rightarrow> ('k \<times> 'v) option \<times> ('k, 'v) skipmap" where
  "sm_pop_back m = (if m = [] then (None, []) else (Some (last m), butlast m))"

text \<open>Ranges: \<^verbatim>\<open>lo..hi\<close>, \<^verbatim>\<open>..hi\<close> and \<^verbatim>\<open>lo..=hi\<close>.\<close>

definition sm_range :: "'k::linorder \<Rightarrow> 'k \<Rightarrow> ('k, 'v) skipmap \<Rightarrow> ('k \<times> 'v) list" where
  "sm_range lo hi m = filter (\<lambda>e. lo \<le> fst e \<and> fst e < hi) m"

definition sm_below :: "'k::linorder \<Rightarrow> ('k, 'v) skipmap \<Rightarrow> ('k \<times> 'v) list" where
  "sm_below hi m = filter (\<lambda>e. fst e < hi) m"

definition sm_range_incl :: "'k::linorder \<Rightarrow> 'k \<Rightarrow> ('k, 'v) skipmap \<Rightarrow> ('k \<times> 'v) list" where
  "sm_range_incl lo hi m = filter (\<lambda>e. lo \<le> fst e \<and> fst e \<le> hi) m"

text \<open>\<^verbatim>\<open>iter().nth(i)\<close>.\<close>

definition sm_nth :: "nat \<Rightarrow> ('k, 'v) skipmap \<Rightarrow> ('k \<times> 'v) option" where
  "sm_nth i m = (if i < length m then Some (m ! i) else None)"

section \<open>The order of the keys\<close>

lemma sm_ok_Nil [simp]: "sm_ok []"
  by (simp add: sm_ok_def)

lemma sm_ok_Cons: "sm_ok (e # m) \<longleftrightarrow> (\<forall>x \<in> set m. fst e < fst x) \<and> sm_ok m"
  by (simp add: sm_ok_def)

lemma sm_ok_append:
  "sm_ok (xs @ ys) \<longleftrightarrow> sm_ok xs \<and> sm_ok ys \<and> (\<forall>x \<in> set xs. \<forall>y \<in> set ys. fst x < fst y)"
  by (auto simp: sm_ok_def sorted_wrt_append)

lemma sm_ok_filter [simp]: "sm_ok m \<Longrightarrow> sm_ok (filter p m)"
  by (induction m) (auto simp: sm_ok_Cons)

lemma sm_ok_distinct: "sm_ok m \<Longrightarrow> distinct (map fst m)"
  by (simp add: sm_ok_def strict_sorted_iff)

lemma sm_ok_insert [simp]: "sm_ok m \<Longrightarrow> sm_ok (sm_insert k v m)"
  by (auto simp: sm_insert_def sm_ok_append sm_ok_Cons intro: less_trans)

lemma sm_ok_remove [simp]: "sm_ok m \<Longrightarrow> sm_ok (sm_remove k m)"
  by (simp add: sm_remove_def)

lemma sm_ok_remove_if [simp]: "sm_ok m \<Longrightarrow> sm_ok (sm_remove_if p m)"
  by (simp add: sm_remove_if_def)

lemma sm_ok_tl: "sm_ok m \<Longrightarrow> sm_ok (tl m)"
  by (cases m) (auto simp: sm_ok_Cons)

lemma sm_ok_butlast: "sm_ok m \<Longrightarrow> sm_ok (butlast m)"
  by (cases m rule: rev_cases) (auto simp: sm_ok_append)

lemma sm_ok_pop [simp]:
  "sm_ok m \<Longrightarrow> sm_ok (snd (sm_pop_front m))" "sm_ok m \<Longrightarrow> sm_ok (snd (sm_pop_back m))"
  by (auto simp: sm_pop_front_def sm_pop_back_def sm_ok_Cons sm_ok_butlast split: list.split)

section \<open>Lookup\<close>

lemma sm_get_in: "sm_ok m \<Longrightarrow> sm_get k m = Some v \<longleftrightarrow> (k, v) \<in> set m"
  by (simp add: sm_get_def sm_ok_distinct)

lemma map_of_filter_key: "map_of (filter (\<lambda>e. P (fst e)) m) k = (if P k then map_of m k else None)"
  by (induction m) auto

lemma sm_get_insert: "sm_get k (sm_insert k' v m) = (if k = k' then Some v else sm_get k m)"
  using map_of_filter_key [of "\<lambda>x. x < k'" m k] map_of_filter_key [of "\<lambda>x. k' < x" m k]
  by (auto simp: sm_get_def sm_insert_def map_add_def split: option.split)

lemma sm_get_remove: "sm_get k (sm_remove k' m) = (if k = k' then None else sm_get k m)"
  using map_of_filter_key [of "\<lambda>x. x \<noteq> k'" m k] by (simp add: sm_get_def sm_remove_def)

lemma sm_get_Nil [simp]: "sm_get k [] = None"
  by (simp add: sm_get_def)

lemma sm_contains_key_iff: "sm_contains_key k m \<longleftrightarrow> k \<in> fst ` set m"
  by (simp add: sm_contains_key_def sm_get_def map_of_eq_None_iff)

lemma set_sm_insert: "set (sm_insert k v m) = insert (k, v) {e \<in> set m. fst e \<noteq> k}"
  by (auto simp: sm_insert_def)

lemma set_sm_remove: "set (sm_remove k m) = {e \<in> set m. fst e \<noteq> k}"
  by (auto simp: sm_remove_def)

lemma set_sm_remove_if: "set (sm_remove_if p m) = {e \<in> set m. \<not> p e}"
  by (auto simp: sm_remove_if_def)

lemma sm_insert_last: "\<forall>e \<in> set m. fst e < k \<Longrightarrow> sm_insert k v m = m @ [(k, v)]"
proof -
  assume "\<forall>e \<in> set m. fst e < k"
  then have "filter (\<lambda>e. fst e < k) m = m" and "filter (\<lambda>e. k < fst e) m = []"
    by (auto simp: filter_empty_conv intro: filter_id_conv_all dest: less_asym)
  then show ?thesis by (simp add: sm_insert_def)
qed

lemma sm_insert_first: "\<forall>e \<in> set m. k < fst e \<Longrightarrow> sm_insert k v m = (k, v) # m"
proof -
  assume "\<forall>e \<in> set m. k < fst e"
  then have "filter (\<lambda>e. fst e < k) m = []" and "filter (\<lambda>e. k < fst e) m = m"
    by (auto simp: filter_empty_conv intro: filter_id_conv_all dest: less_asym)
  then show ?thesis by (simp add: sm_insert_def)
qed

lemma sm_remove_front: "sm_ok (e # m) \<Longrightarrow> sm_remove (fst e) (e # m) = m"
  by (auto simp: sm_remove_def sm_ok_Cons intro!: filter_id_conv_all)

lemma sm_remove_back: "sm_ok (m @ [e]) \<Longrightarrow> sm_remove (fst e) (m @ [e]) = m"
  by (auto simp: sm_remove_def sm_ok_append intro!: filter_id_conv_all)

text \<open>The whole range of an ordered map, from its first to its last key, is the map.\<close>

lemma sm_range_incl_all: "sm_ok m \<Longrightarrow> m \<noteq> [] \<Longrightarrow> sm_range_incl (fst (hd m)) (fst (last m)) m = m"
proof -
  assume ok: "sm_ok m" and ne: "m \<noteq> []"
  have "fst (hd m) \<le> fst e" if "e \<in> set m" for e
    using ok ne that by (cases m) (auto simp: sm_ok_Cons)
  moreover have "fst e \<le> fst (last m)" if "e \<in> set m" for e
    using ok ne that by (cases m rule: rev_cases) (auto simp: sm_ok_append)
  ultimately show ?thesis
    by (simp add: sm_range_incl_def filter_id_conv_all)
qed

lemma length_sm_insert:
  assumes "sm_ok m"
  shows "length (sm_insert k v m) = (if sm_contains_key k m then length m else Suc (length m))"
proof -
  have "card (fst ` set (sm_insert k v m)) = card (insert k (fst ` set m))"
    by (rule arg_cong [where f = card]) (force simp: set_sm_insert)
  moreover have "card (fst ` set x) = length x" if "sm_ok x" for x :: "('a, 'b) skipmap"
    using sm_ok_distinct [OF that] distinct_card [of "map fst x"] by simp
  ultimately show ?thesis
    using assms by (auto simp: sm_contains_key_iff card_insert_if)
qed

section \<open>The interface\<close>

locale ordered_map =
  fixes empty :: 'm
    and get :: "'k::linorder \<Rightarrow> 'm \<Rightarrow> 'v option"
    and insert :: "'k \<Rightarrow> 'v \<Rightarrow> 'm \<Rightarrow> 'm"
    and remove :: "'k \<Rightarrow> 'm \<Rightarrow> 'm"
    and entries :: "'m \<Rightarrow> ('k \<times> 'v) list"
    and invar :: "'m \<Rightarrow> bool"
  assumes invar_empty: "invar empty"
    and invar_insert: "invar m \<Longrightarrow> invar (insert k v m)"
    and invar_remove: "invar m \<Longrightarrow> invar (remove k m)"
    and get_empty: "get k empty = None"
    and get_insert: "invar m \<Longrightarrow> get k (insert k' v m) = (if k = k' then Some v else get k m)"
    and get_remove: "invar m \<Longrightarrow> get k (remove k' m) = (if k = k' then None else get k m)"
    and entries_get: "invar m \<Longrightarrow> (k, v) \<in> set (entries m) \<longleftrightarrow> get k m = Some v"
    and entries_sorted: "invar m \<Longrightarrow> sorted_wrt (<) (map fst (entries m))"
begin

lemma insert_overwrites: "invar m \<Longrightarrow> get k (insert k v' (insert k v m)) = Some v'"
  by (simp add: get_insert invar_insert)

lemma insert_loses_value:
  assumes "invar m" and "v \<noteq> v'" and "\<forall>k'. get k' m \<noteq> Some v"
  shows "v \<notin> snd ` set (entries (insert k v' (insert k v m)))"
proof
  assume "v \<in> snd ` set (entries (insert k v' (insert k v m)))"
  then obtain k' where "(k', v) \<in> set (entries (insert k v' (insert k v m)))" by force
  then have "get k' (insert k v' (insert k v m)) = Some v"
    using assms(1) by (simp add: entries_get invar_insert)
  with assms show False by (auto simp: get_insert invar_insert split: if_splits)
qed

lemma entries_ext:
  assumes "invar m" and "invar m'" and "\<And>k. get k m = get k m'"
  shows "set (entries m) = set (entries m')"
  using assms entries_get by (auto simp del: split_paired_All)

end

interpretation skip: ordered_map "[]" sm_get sm_insert sm_remove "\<lambda>m. m" sm_ok
  by unfold_locales
    (simp_all add: sm_get_insert sm_get_remove sm_get_in [symmetric], simp add: sm_ok_def)

lemmas skip_map_sets = set_sm_insert set_sm_remove set_sm_remove_if

end
