(* ===== verification/Backoff.thy ===== *)
theory Backoff
  imports Skip_Map "HOL-Library.List_Lexorder" "HOL-Library.Char_ord"
begin

text \<open>
  Retry delays, \<^verbatim>\<open>src/src/job/backoff.rs\<close>: the registry of named backoff strategies and the
  computation of the delay before the next attempt. A strategy is a function from the base delay
  to a function from the attempt number to a delay, both in milliseconds.
\<close>

section \<open>Options and registry\<close>

type_synonym StoredFn = "i64 \<Rightarrow> i64"
type_synonym BackoffFn = "i64 \<Rightarrow> StoredFn"

record BackOffOptions =
  type_name :: "CompactString option"
  delay :: "i64 option"

datatype BackOffJobOptions =
    Number i64
  | Opts BackOffOptions

record BackOff =
  builtin_strategies :: "(CompactString, BackoffFn) skipmap"

definition register :: "CompactString \<Rightarrow> BackoffFn \<Rightarrow> BackOff \<Rightarrow> BackOff" where
  "register name strategy backoff =
    backoff\<lparr>builtin_strategies := sm_insert name strategy (builtin_strategies backoff)\<rparr>"

definition exponential :: BackoffFn where
  "exponential base attempts = 2 ^ unat (u32_try_from_i64 attempts) * base"

definition fixed :: BackoffFn where
  "fixed base attempts = base"

definition new :: BackOff where
  "new = register ''fixed'' fixed (register ''exponential'' exponential \<lparr>builtin_strategies = []\<rparr>)"

fun normalize :: "BackOffJobOptions option \<Rightarrow> BackOffOptions option" where
  "normalize None = None"
| "normalize (Some (Number num)) =
    (if num = 0 then None else Some \<lparr>type_name = Some ''fixed'', delay = Some num\<rparr>)"
| "normalize (Some (Opts opts)) = Some opts"

definition has_strategy :: "BackOff \<Rightarrow> CompactString \<Rightarrow> bool" where
  "has_strategy backoff key = sm_contains_key key (builtin_strategies backoff)"

definition lookup_strategy :: "BackOff \<Rightarrow> BackOffOptions \<Rightarrow> StoredFn option \<Rightarrow> StoredFn option" where
  "lookup_strategy self backoff custom_strategy =
    (case type_name backoff of
       None \<Rightarrow> custom_strategy
     | Some t \<Rightarrow>
        (case (sm_get t (builtin_strategies self), delay backoff) of
           (Some strategy, Some d) \<Rightarrow> Some (strategy d)
         | _ \<Rightarrow> custom_strategy))"

definition calculate ::
  "BackOff \<Rightarrow> BackOffOptions option \<Rightarrow> i64 \<Rightarrow> StoredFn option \<Rightarrow> i64 option" where
  "calculate self backoff_opts attempts custom_strategy =
    (case backoff_opts of
       None \<Rightarrow> None
     | Some opts \<Rightarrow>
        (case lookup_strategy self opts custom_strategy of
           None \<Rightarrow> None
         | Some strategy \<Rightarrow> Some (strategy attempts)))"

section \<open>The built-in strategies\<close>

definition backoff_ok :: "BackOff \<Rightarrow> bool" where
  "backoff_ok backoff \<longleftrightarrow> sm_ok (builtin_strategies backoff)"

lemma backoff_ok_register: "backoff_ok b \<Longrightarrow> backoff_ok (register n s b)"
  by (simp add: backoff_ok_def register_def)

lemma backoff_ok_new: "backoff_ok new"
  unfolding new_def by (intro backoff_ok_register) (simp add: backoff_ok_def)

lemma strategies_register [simp]:
  "sm_get n' (builtin_strategies (register n s b)) =
    (if n' = n then Some s else sm_get n' (builtin_strategies b))"
  by (simp add: register_def sm_get_insert)

lemma strategies_new:
  "sm_get t (builtin_strategies new) =
    (if t = ''fixed'' then Some fixed else if t = ''exponential'' then Some exponential else None)"
  by (simp add: new_def)

lemma exponential_small:
  assumes "0 \<le> sint a" and "sint a < 63" and "- (2 ^ 63) \<le> 2 ^ nat (sint a) * sint d"
    and "2 ^ nat (sint a) * sint d < 2 ^ 63"
  shows "sint (exponential d a) = 2 ^ nat (sint a) * sint d"
proof -
  have "unat (u32_try_from_i64 a) = nat (sint a)"
    using assms(1,2) by (simp add: u32_try_from_i64_small)
  then have "exponential d a = word_of_int (2 ^ nat (sint a) * sint d)"
    by (simp add: exponential_def)
  then show ?thesis using assms(3,4) by (simp only: sint_of_int_i64)
qed

lemma exponential_large:
  assumes "64 \<le> sint a \<or> sint a < 0"
  shows "exponential d a = 0"
proof -
  have "64 \<le> unat (u32_try_from_i64 a)"
  proof (cases "0 \<le> sint a \<and> sint a < 2 ^ 32")
    case True
    then show ?thesis using assms by (simp add: u32_try_from_i64_small)
  next
    case False
    then have "u32_try_from_i64 a = - 1" by (auto simp: u32_try_from_i64_def)
    then show ?thesis by (simp add: unsigned_minus_1_eq_mask mask_eq_exp_minus_1)
  qed
  then have "(2 :: i64) ^ unat (u32_try_from_i64 a) = 0" by simp
  then show ?thesis by (simp only: exponential_def mult_zero_left)
qed

section \<open>Properties\<close>

text \<open>
  C34. The delay before a retry, for the registry every queue starts with: a number is a fixed delay
  whatever the attempt, and the exponential strategy doubles the base delay with every attempt as
  long as the product fits an \<^verbatim>\<open>i64\<close>.
\<close>

theorem calculate_builtin:
  assumes "n \<noteq> 0" and "0 \<le> sint a" and "sint a < 63"
    and "- (2 ^ 63) \<le> 2 ^ nat (sint a) * sint d" and "2 ^ nat (sint a) * sint d < 2 ^ 63"
  shows "calculate new (normalize (Some (Number n))) a custom = Some n \<and>
    map_option sint (calculate new
      (normalize (Some (Opts \<lparr>type_name = Some ''exponential'', delay = Some d\<rparr>))) a custom)
      = Some (2 ^ nat (sint a) * sint d)"
  using assms exponential_small [of a d]
  by (simp add: calculate_def lookup_strategy_def strategies_new fixed_def)

theorem calculate_builtin_witness:
  "calculate new (normalize (Some (Number 1000))) 3 None = Some 1000 \<and>
   map_option sint (calculate new
      (normalize (Some (Opts \<lparr>type_name = Some ''exponential'', delay = Some 100\<rparr>))) 3 None)
      = Some 800"
  using calculate_builtin [of 1000 3 100 None] by simp

text \<open>
  From 64 attempts on the exponential strategy gives no delay at all: the power wraps to zero, so
  a job that fails often enough is retried immediately. The same holds for a negative count.
\<close>

theorem exponential_wraps_to_zero:
  assumes "64 \<le> sint a \<or> sint a < 0"
  shows "calculate new
    (normalize (Some (Opts \<lparr>type_name = Some ''exponential'', delay = Some d\<rparr>))) a custom = Some 0"
  using assms by (simp add: calculate_def lookup_strategy_def strategies_new exponential_large)

theorem exponential_wraps_to_zero_witness:
  "calculate new
    (normalize (Some (Opts \<lparr>type_name = Some ''exponential'', delay = Some 200\<rparr>))) 64 None = Some 0"
  using exponential_wraps_to_zero [of 64 200 None] by simp

text \<open>
  Registering a strategy makes every later lookup of its name use it, replacing an earlier one,
  and leaves the other names alone; the registry stays ordered.
\<close>

theorem register_lookup:
  assumes "backoff_ok b"
  shows "backoff_ok (register name strategy b) \<and> has_strategy (register name strategy b) name \<and>
    calculate (register name strategy b) (Some \<lparr>type_name = Some t, delay = Some d\<rparr>) a custom =
      (if t = name then Some (strategy d a)
       else calculate b (Some \<lparr>type_name = Some t, delay = Some d\<rparr>) a custom)"
  using assms
  by (simp add: backoff_ok_register has_strategy_def sm_contains_key_def calculate_def lookup_strategy_def)

theorem register_lookup_witness:
  "calculate (register ''linear'' (\<lambda>d a. d * a) new) (Some \<lparr>type_name = Some ''linear'', delay = Some 7\<rparr>)
    3 None = Some 21"
  using register_lookup [OF backoff_ok_new, of "''linear''" "\<lambda>d a. d * a" "''linear''" 7 3 None] by simp

end
