(* ===== verification/Schedule.thy ===== *)
theory Schedule
  imports Backoff
begin

text \<open>
  When a job runs next: \<^verbatim>\<open>src/src/job/delay.rs\<close> and \<^verbatim>\<open>src/src/job/repeat.rs\<close>. The cron and calendar
  libraries are parameters, collected in the record \<open>externals\<close>; a cron schedule is a value of the
  type variable \<open>'c\<close>. \<open>calendar_laws\<close> states the documented behaviour of calendar
  arithmetic that the properties rely on.
\<close>

section \<open>Calendar and cron libraries\<close>

text \<open>
  \<open>dt_add_ms t ms\<close> is \<^verbatim>\<open>t + TimeDelta::milliseconds(ms)\<close>, which panics (\<open>None\<close>) outside the
  calendar's range; \<open>find_next_occurrence c t\<close> is \<^verbatim>\<open>cron.find_next_occurrence(&t, false).ok()\<close>.
\<close>

record 'c externals =
  dt_add_ms :: "Dt \<Rightarrow> i64 \<Rightarrow> Dt option"
  from_timestamp_micros :: "i64 \<Rightarrow> Dt option"
  find_next_occurrence :: "'c \<Rightarrow> Dt \<Rightarrow> Dt option"
  cron_from_str :: "string \<Rightarrow> string + 'c"

definition calendar_laws :: "'c externals \<Rightarrow> bool" where
  "calendar_laws ext \<longleftrightarrow>
    (\<forall>t ms t'. dt_add_ms ext t ms = Some t' \<longrightarrow> t' = t + sint ms * 1000000)"

section \<open>Delays\<close>

datatype 'c JobDelay = TimeMilis i64 | FromCron 'c

definition default_delay :: "'c JobDelay" where
  "default_delay = TimeMilis 0"

definition dt_plus :: "'c externals \<Rightarrow> Dt \<Rightarrow> i64 \<Rightarrow> Failure + Dt" where
  "dt_plus ext t ms =
    (case dt_add_ms ext t ms of None \<Rightarrow> Inl (Panic ''DateTime overflow'') | Some t' \<Rightarrow> Inr t')"

fun next_occurrance_timestamp_ms :: "'c externals \<Rightarrow> Dt \<Rightarrow> 'c JobDelay \<Rightarrow> Failure + i64 option" where
  "next_occurrance_timestamp_ms ext ts (TimeMilis ms) =
    (if sint ms \<le> 0 then Inr None
     else (case dt_plus ext ts ms of Inl e \<Rightarrow> Inl e | Inr next_ts \<Rightarrow> Inr (Some (timestamp_millis next_ts))))"
| "next_occurrance_timestamp_ms ext ts (FromCron cron) =
    Inr (map_option timestamp_millis (find_next_occurrence ext cron ts))"

fun as_diff_ms :: "'c externals \<Rightarrow> Dt \<Rightarrow> 'c JobDelay \<Rightarrow> Failure + i64" where
  "as_diff_ms ext dt (TimeMilis ms) = Inr ms"
| "as_diff_ms ext dt (FromCron cron) =
    (case find_next_occurrence ext cron dt of
       None \<Rightarrow> Inl (Panic ''failed'')
     | Some next_dt \<Rightarrow> Inr (num_milliseconds (next_dt - dt)))"

definition delay_from_cron :: "'c \<Rightarrow> 'c JobDelay" where
  "delay_from_cron value = FromCron value"

definition delay_from_i64 :: "i64 \<Rightarrow> 'c JobDelay" where
  "delay_from_i64 value = TimeMilis value"

definition delay_try_from_str :: "'c externals \<Rightarrow> string \<Rightarrow> string + 'c JobDelay" where
  "delay_try_from_str ext value =
    (case cron_from_str ext value of Inl e \<Rightarrow> Inl e | Inr parsed \<Rightarrow> Inr (FromCron parsed))"

section \<open>Repetition\<close>

datatype 'c Repeat =
    WithCron 'c
  | WithBackOff BackOffJobOptions
  | Every (delay_ms: i64) (max_attempts: "u64 option")
  | Immediately u64

definition from_cron_str :: "'c externals \<Rightarrow> string \<Rightarrow> string + 'c Repeat" where
  "from_cron_str ext pattern =
    (case cron_from_str ext pattern of Inl e \<Rightarrow> Inl e | Inr cron \<Rightarrow> Inr (WithCron cron))"

definition from_back_off :: "BackOffJobOptions \<Rightarrow> 'c Repeat" where
  "from_back_off opts = WithBackOff opts"

definition repeat_every_for_times :: "i64 \<Rightarrow> u64 option \<Rightarrow> 'c Repeat" where
  "repeat_every_for_times every_ms max_n = Every every_ms max_n"

fun next_occurrence :: "'c externals \<Rightarrow> Dt \<Rightarrow> BackOff \<Rightarrow> u64 \<Rightarrow> 'c Repeat \<Rightarrow> Failure + i64 option" where
  "next_occurrence ext now backoff attempts (WithCron cron) =
    Inr (map_option timestamp_millis (find_next_occurrence ext cron now))"
| "next_occurrence ext now backoff attempts (WithBackOff opts) =
    (case normalize (Some opts) of
       None \<Rightarrow> Inr None
     | Some opts' \<Rightarrow>
        (case lookup_strategy backoff opts' None of
           None \<Rightarrow> Inr None
         | Some delay_fn \<Rightarrow>
            (case dt_plus ext now (delay_fn attempts) of
               Inl e \<Rightarrow> Inl e
             | Inr next_dt \<Rightarrow> Inr (Some (timestamp_millis next_dt)))))"
| "next_occurrence ext now backoff attempts (Every ms max_n) =
    (if (case max_n of Some max_ts \<Rightarrow> max_ts \<le> attempts | None \<Rightarrow> False) then Inr None
     else (case dt_plus ext now ms of
             Inl e \<Rightarrow> Inl e
           | Inr next_dt \<Rightarrow> Inr (Some (timestamp_millis next_dt))))"
| "next_occurrence ext now backoff attempts (Immediately max_n) =
    (if max_n \<le> attempts then Inr None else Inr (Some 0))"

section \<open>Due times\<close>

lemma timestamp_millis_add: "timestamp_millis (t + k * 1000000) = timestamp_millis t + word_of_int k"
  by (simp add: timestamp_millis_def)

lemma dt_plus_millis:
  assumes "calendar_laws ext" and "dt_plus ext t ms = Inr t'"
  shows "timestamp_millis t' = timestamp_millis t + ms"
proof -
  from assms have "t' = t + sint ms * 1000000"
    by (auto simp: calendar_laws_def dt_plus_def split: option.splits)
  then show ?thesis by (simp add: timestamp_millis_add)
qed

section \<open>Properties\<close>

text \<open>
  A delay of a positive number of milliseconds is due exactly that many milliseconds after now
  (unless the calendar overflows, which is a panic and not a wrong time); a delay of zero or less has
  no due time.
\<close>

theorem delay_due:
  assumes "calendar_laws ext"
  shows "next_occurrance_timestamp_ms ext now (TimeMilis ms) =
    (if sint ms \<le> 0 then Inr None
     else case dt_add_ms ext now ms of
            None \<Rightarrow> Inl (Panic ''DateTime overflow'')
          | Some _ \<Rightarrow> Inr (Some (timestamp_millis now + ms)))"
  using dt_plus_millis [OF assms, of now ms]
  by (auto simp: dt_plus_def split: option.splits)

definition simple_calendar :: "nat externals" where
  "simple_calendar = \<lparr>dt_add_ms = (\<lambda>t ms. Some (t + sint ms * 1000000)),
     from_timestamp_micros = (\<lambda>us. Some (sint us * 1000)),
     find_next_occurrence = (\<lambda>c t. Some (t + int c * 1000000)),
     cron_from_str = (\<lambda>s. if s = [] then Inl ''empty'' else Inr (length s))\<rparr>"

lemma simple_calendar_laws: "calendar_laws simple_calendar"
  by (simp add: calendar_laws_def simple_calendar_def)

theorem delay_due_witness:
  "next_occurrance_timestamp_ms simple_calendar 7000000 (TimeMilis 50) = Inr (Some 57)"
  using delay_due [OF simple_calendar_laws, of 7000000 50]
  by (simp add: simple_calendar_def timestamp_millis_def)

text \<open>
  A bounded repetition ends: \<^verbatim>\<open>Every\<close> and \<^verbatim>\<open>Immediately\<close> have a next run exactly while fewer
  than the maximum number of attempts were made; an unbounded \<^verbatim>\<open>Every\<close> always has one, and runs are
  the given number of milliseconds apart.
\<close>

theorem repeat_bounded:
  assumes "calendar_laws ext" and "dt_add_ms ext now ms \<noteq> None"
  shows "next_occurrence ext now b k (Every ms (Some n)) =
      (if k < n then Inr (Some (timestamp_millis now + ms)) else Inr None) \<and>
    next_occurrence ext now b k (Every ms None) = Inr (Some (timestamp_millis now + ms)) \<and>
    next_occurrence ext now b k (Immediately n) = (if k < n then Inr (Some 0) else Inr None)"
proof -
  from assms(2) obtain t where "dt_plus ext now ms = Inr t" by (auto simp: dt_plus_def)
  with dt_plus_millis [OF assms(1) this] show ?thesis by (simp add: not_less)
qed

theorem repeat_bounded_witness:
  "next_occurrence simple_calendar 5000000 Backoff.new 1 (Every 10 (Some 2)) = Inr (Some 15) \<and>
   next_occurrence simple_calendar 5000000 Backoff.new 2 (Every 10 (Some 2)) = Inr None \<and>
   next_occurrence simple_calendar 5000000 Backoff.new 2 (Immediately 2) = Inr None"
  using repeat_bounded [OF simple_calendar_laws, of 5000000 10 Backoff.new 1 2]
    repeat_bounded [OF simple_calendar_laws, of 5000000 10 Backoff.new 2 2]
  by (simp add: simple_calendar_def timestamp_millis_def)

end
