(* ===== verification/Jobs.thy ===== *)
theory Jobs
  imports Schedule
begin

text \<open>
  The job record and its options, \<^verbatim>\<open>src/src/job/mod.rs\<close>. The type variables are the cron schedules
  \<open>'c\<close>, the job's input \<open>'d\<close>, its result \<open>'r\<close> and its progress reports \<open>'p\<close>. The field \<^verbatim>\<open>id\<close> of
  the source is \<open>job_id\<close> here.
\<close>

section \<open>Data\<close>

record JobMetrics =
  ran_for :: Duration
  delayed_for :: Duration
  attempt :: u64
  delay :: u64
  job_id :: u64

datatype JobState =
    Wait
  | Prioritized
  | Stalled
  | Active
  | Paused
  | Resumed
  | Completed
  | Failed
  | Delayed
  | Progress
  | Obliterated
  | Processing

text \<open>States are ordered as they are declared.\<close>

fun state_rank :: "JobState \<Rightarrow> nat" where
  "state_rank JobState.Wait = 0"
| "state_rank JobState.Prioritized = 1"
| "state_rank JobState.Stalled = 2"
| "state_rank JobState.Active = 3"
| "state_rank JobState.Paused = 4"
| "state_rank JobState.Resumed = 5"
| "state_rank JobState.Completed = 6"
| "state_rank JobState.Failed = 7"
| "state_rank JobState.Delayed = 8"
| "state_rank JobState.Progress = 9"
| "state_rank JobState.Obliterated = 10"
| "state_rank JobState.Processing = 11"

lemma state_rank_inj: "state_rank a = state_rank b \<Longrightarrow> a = b"
  by (cases a; cases b; simp)

instantiation JobState :: linorder
begin

definition less_eq_JobState :: "JobState \<Rightarrow> JobState \<Rightarrow> bool" where
  "less_eq_JobState a b \<longleftrightarrow> state_rank a \<le> state_rank b"

definition less_JobState :: "JobState \<Rightarrow> JobState \<Rightarrow> bool" where
  "less_JobState a b \<longleftrightarrow> state_rank a < state_rank b"

instance
  by standard (auto simp: less_eq_JobState_def less_JobState_def intro: state_rank_inj)

end

record KeepJobs =
  age :: "i64 option"
  count :: "i64 option"

datatype RemoveOnCompletionOrFailure =
    Bool bool
  | Int i64
  | Opts KeepJobs

record 'c JobOptions =
  priority :: u64
  delay :: "'c JobDelay"
  job_id :: "u64 option"
  attempts :: u64
  remove_on_complete :: "RemoveOnCompletionOrFailure option"
  remove_on_fail :: "RemoveOnCompletionOrFailure option"
  backoff :: "BackOffJobOptions option"
  repeat :: "'c Repeat option"

definition default_job_options :: "'c JobOptions" where
  "default_job_options = \<lparr>priority = 0, delay = default_delay, job_id = None, attempts = 0,
     remove_on_complete = None, remove_on_fail = None, backoff = None, repeat = None\<rparr>"

record Trace =
  run :: u64
  reason :: CompactString
  frames :: "CompactString list"

record FailedDetails =
  run :: u64
  reason :: CompactString

text \<open>A lock token: the worker that holds the lock, a random id, and the job.\<close>

datatype JobToken = JobToken Uuid Uuid u64

record ('c, 'd, 'r, 'p) Job =
  job_id :: "u64 option"
  ts :: Dt
  name :: CompactString
  state :: JobState
  progress :: "'p option"
  attempts_made :: u64
  opts :: "'c JobOptions"
  delay :: u64
  data :: "'d option"
  returned_value :: "'r option"
  stack_trace :: "Trace list"
  failed_reason :: "FailedDetails option"
  processed_on :: "Dt option"
  finished_on :: "Dt option"
  queue_name :: "CompactString option"
  token :: "JobToken option"
  stalled_counter :: u64
  logs :: "CompactString list"
  priority :: u64

section \<open>Operations\<close>

definition new ::
  "Dt \<Rightarrow> CompactString \<Rightarrow> 'd option \<Rightarrow> u64 option \<Rightarrow> CompactString option \<Rightarrow> ('c, 'd, 'r, 'p) Job" where
  "new now nm dat i qname = \<lparr>job_id = i, ts = now, name = nm, state = JobState.Wait, progress = None,
     attempts_made = 0, opts = default_job_options, delay = 0, data = dat, returned_value = None,
     stack_trace = [], failed_reason = None, processed_on = None, finished_on = None,
     queue_name = qname, token = None, stalled_counter = 0, logs = [], priority = 0\<rparr>"

text \<open>\<^verbatim>\<open>TimeDelta::to_std().unwrap_or_default()\<close>: a negative difference becomes zero.\<close>

definition to_std :: "Duration \<Rightarrow> Duration" where
  "to_std d = (if d < 0 then 0 else d)"

definition unwrap_or :: "'a \<Rightarrow> 'a option \<Rightarrow> 'a" where
  "unwrap_or d x = (case x of None \<Rightarrow> d | Some a \<Rightarrow> a)"

lemma unwrap_or_simps [simp]: "unwrap_or d None = d" "unwrap_or d (Some a) = a"
  by (simp_all add: unwrap_or_def)

definition get_metrics :: "'c externals \<Rightarrow> ('c, 'd, 'r, 'p) Job \<Rightarrow> Failure + JobMetrics option" where
  "get_metrics ext job =
    (case as_diff_ms ext (ts job) (JobOptions.delay (opts job)) of
       Inl e \<Rightarrow> Inl e
     | Inr d \<Rightarrow>
        (let processed = unwrap_or 0 (processed_on job);
             i = unwrap_or 0 (Job.job_id job);
             finished = unwrap_or 0 (finished_on job)
         in Inr (Some \<lparr>ran_for = to_std (finished - processed),
                       delayed_for = to_std (processed - ts job),
                       attempt = attempts_made job, delay = d, job_id = i\<rparr>)))"

definition add_opts ::
  "'c externals \<Rightarrow> 'c JobOptions \<Rightarrow> ('c, 'd, 'r, 'p) Job \<Rightarrow> Failure + ('c, 'd, 'r, 'p) Job" where
  "add_opts ext options job =
    (case as_diff_ms ext (ts job) (JobOptions.delay options) of
       Inl e \<Rightarrow> Inl e
     | Inr d \<Rightarrow> Inr (job\<lparr>Job.priority := JobOptions.priority options, Job.delay := d, opts := options\<rparr>))"

section \<open>Properties\<close>

text \<open>
  The metrics of a job that ran: the processing time and the waiting time add up to the time
  from its creation to its end, and the attempt and id are the job's own. A job that never ran has
  metrics too: \<^verbatim>\<open>get_metrics\<close> never answers that there are none.
\<close>

theorem get_metrics_times:
  assumes "as_diff_ms ext (ts job) (JobOptions.delay (opts job)) = Inr d"
    and "processed_on job = Some p" and "finished_on job = Some f" and "ts job \<le> p" and "p \<le> f"
  shows "(\<exists>m. get_metrics ext job = Inr (Some m) \<and> ran_for m + delayed_for m = f - ts job \<and>
      0 \<le> ran_for m \<and> 0 \<le> delayed_for m \<and> attempt m = attempts_made job \<and> JobMetrics.delay m = d) \<and>
    get_metrics ext (job\<lparr>processed_on := None, finished_on := None\<rparr>) \<noteq> Inr None"
  using assms by (simp add: get_metrics_def to_std_def)

theorem get_metrics_times_witness:
  "\<exists>m. get_metrics simple_calendar
      ((new 10 ''mail'' (Some 1) (Some 4) None :: (nat, nat, unit, unit) Job)
        \<lparr>processed_on := Some 25, finished_on := Some 60\<rparr>) = Inr (Some m) \<and>
    ran_for m + delayed_for m = 50 \<and> 0 \<le> ran_for m \<and> 0 \<le> delayed_for m"
  using get_metrics_times [of simple_calendar
      "(new 10 ''mail'' (Some 1) (Some 4) None :: (nat, nat, unit, unit) Job)
        \<lparr>processed_on := Some 25, finished_on := Some 60\<rparr>" 0 25 60]
  by (auto simp: new_def default_job_options_def default_delay_def)

end
