(* ===== verification/Options.thy ===== *)
theory Options
  imports Jobs
begin

text \<open>
  Queue options, collection names and queue metrics, \<^verbatim>\<open>src/src/queue/options.rs\<close>. The counters of
  \<^verbatim>\<open>QueueMetrics\<close> are shared atomic cells in the source; the record holds their values and the
  component that owns the cells keeps one copy of it.
\<close>

section \<open>Fields of a job and results of a run\<close>

datatype 'r ProcessedResult =
    Failed FailedDetails
  | Success 'r JobMetrics

datatype 'r JobField =
    Token JobToken
  | Payload "'r ProcessedResult"
  | ProcessedOn u64
  | FinishedOn u64
  | State JobState
  | BackTrace Trace

fun field_name :: "'r JobField \<Rightarrow> string" where
  "field_name (Token _) = ''token''"
| "field_name (Payload (ProcessedResult.Success _ _)) = ''returnedValue''"
| "field_name (Payload (ProcessedResult.Failed _)) = ''failedReason''"
| "field_name (ProcessedOn _) = ''processedOn''"
| "field_name (FinishedOn _) = ''finishedOn''"
| "field_name (State _) = ''state''"
| "field_name (BackTrace _) = ''stackTrace''"

section \<open>Collections\<close>

datatype CollectionSuffix =
    Active
  | Completed
  | Delayed
  | Stalled
  | Prioritized
  | PriorityCounter
  | Id
  | Meta
  | Events
  | Wait
  | Paused
  | Failed
  | Marker
  | Job u64
  | Prefix
  | Lock u64
  | StalledCheck
  | WorkerMetrics
  | ProcessMetrics

text \<open>Decimal numbers, as \<^verbatim>\<open>Display\<close> prints them.\<close>

definition digit :: "nat \<Rightarrow> char" where
  "digit n = char_of (48 + n)"

fun decimal :: "nat \<Rightarrow> string" where
  "decimal n = (if n < 10 then [digit n] else decimal (n div 10) @ [digit (n mod 10)])"

declare decimal.simps [simp del]

fun display :: "CollectionSuffix \<Rightarrow> string" where
  "display CollectionSuffix.Active = ''Active''"
| "display CollectionSuffix.Completed = ''Completed''"
| "display CollectionSuffix.Delayed = ''Delayed''"
| "display CollectionSuffix.Stalled = ''Stalled''"
| "display CollectionSuffix.Prioritized = ''Prioritized''"
| "display PriorityCounter = ''PriorityCounter''"
| "display Id = ''Id''"
| "display Meta = ''Meta''"
| "display Events = ''Events''"
| "display CollectionSuffix.Wait = ''Wait''"
| "display CollectionSuffix.Paused = ''Paused''"
| "display CollectionSuffix.Failed = ''Failed''"
| "display Marker = ''Marker''"
| "display (CollectionSuffix.Job i) = decimal (unat i)"
| "display Prefix = []"
| "display (Lock i) = decimal (unat i) @ '':lock''"
| "display StalledCheck = ''stalled_check''"
| "display WorkerMetrics = ''worker_metrics''"
| "display ProcessMetrics = ''process_metrics''"

text \<open>\<^verbatim>\<open>to_lowercase\<close> on ASCII text.\<close>

definition lower_char :: "char \<Rightarrow> char" where
  "lower_char c =
    (let n = of_char c :: nat in if 65 \<le> n \<and> n \<le> 90 then char_of (n + 32) else c)"

definition to_lowercase :: "string \<Rightarrow> string" where
  "to_lowercase s = map lower_char s"

definition to_collection_name :: "string \<Rightarrow> string \<Rightarrow> CollectionSuffix \<Rightarrow> CompactString" where
  "to_collection_name prefix nm suffix =
    to_lowercase (prefix @ '':'' @ nm @ '':'' @ display suffix)"

fun discriminant :: "CollectionSuffix \<Rightarrow> u8" where
  "discriminant CollectionSuffix.Active = 1"
| "discriminant CollectionSuffix.Completed = 2"
| "discriminant CollectionSuffix.Delayed = 3"
| "discriminant CollectionSuffix.Stalled = 4"
| "discriminant CollectionSuffix.Prioritized = 5"
| "discriminant PriorityCounter = 6"
| "discriminant Id = 7"
| "discriminant Meta = 8"
| "discriminant Events = 9"
| "discriminant CollectionSuffix.Wait = 10"
| "discriminant CollectionSuffix.Paused = 11"
| "discriminant CollectionSuffix.Failed = 12"
| "discriminant Marker = 13"
| "discriminant (CollectionSuffix.Job _) = 14"
| "discriminant Prefix = 15"
| "discriminant (Lock _) = 16"
| "discriminant StalledCheck = 17"
| "discriminant WorkerMetrics = 18"
| "discriminant ProcessMetrics = 19"

fun tag :: "CollectionSuffix \<Rightarrow> u64" where
  "tag (CollectionSuffix.Job i) = push_bit 56 (ucast (discriminant (CollectionSuffix.Job i))) OR (i AND 0x00FFFFFFFFFFFFFF)"
| "tag (Lock i) = push_bit 56 (ucast (discriminant (Lock i))) OR (i AND 0x00FFFFFFFFFFFFFF)"
| "tag c = push_bit 56 (ucast (discriminant c))"

text \<open>\<^verbatim>\<open>u64::to_be_bytes\<close>.\<close>

definition to_bytes :: "CollectionSuffix \<Rightarrow> u8 list" where
  "to_bytes c = map (\<lambda>i. ucast (drop_bit (8 * i) (tag c))) [7, 6, 5, 4, 3, 2, 1, 0]"

definition from_tag :: "u64 \<Rightarrow> CollectionSuffix option" where
  "from_tag t =
    (let disc = (ucast (drop_bit 56 t) :: u8);
         payload = t AND 0x00FFFFFFFFFFFFFF
     in if disc = 1 then Some CollectionSuffix.Active
        else if disc = 2 then Some CollectionSuffix.Completed
        else if disc = 3 then Some CollectionSuffix.Delayed
        else if disc = 4 then Some CollectionSuffix.Stalled
        else if disc = 5 then Some CollectionSuffix.Prioritized
        else if disc = 6 then Some PriorityCounter
        else if disc = 7 then Some Id
        else if disc = 8 then Some Meta
        else if disc = 9 then Some Events
        else if disc = 10 then Some CollectionSuffix.Wait
        else if disc = 11 then Some CollectionSuffix.Paused
        else if disc = 12 then Some CollectionSuffix.Failed
        else if disc = 13 then Some Marker
        else if disc = 14 then Some (CollectionSuffix.Job payload)
        else if disc = 15 then Some Prefix
        else if disc = 16 then Some (Lock payload)
        else if disc = 17 then Some StalledCheck
        else None)"

fun suffix_of_state :: "JobState \<Rightarrow> CollectionSuffix" where
  "suffix_of_state JobState.Wait = CollectionSuffix.Wait"
| "suffix_of_state JobState.Stalled = CollectionSuffix.Paused"
| "suffix_of_state JobState.Paused = CollectionSuffix.Paused"
| "suffix_of_state JobState.Active = CollectionSuffix.Active"
| "suffix_of_state JobState.Resumed = CollectionSuffix.Active"
| "suffix_of_state JobState.Completed = CollectionSuffix.Completed"
| "suffix_of_state JobState.Failed = CollectionSuffix.Failed"
| "suffix_of_state JobState.Delayed = CollectionSuffix.Delayed"
| "suffix_of_state JobState.Progress = Prefix"
| "suffix_of_state JobState.Prioritized = CollectionSuffix.Prioritized"
| "suffix_of_state JobState.Processing = Meta"
| "suffix_of_state JobState.Obliterated = Events"

section \<open>Queue options\<close>

datatype QueueEventMode = PubSub | Stream

fun event_mode_u8 :: "QueueEventMode \<Rightarrow> u8" where
  "event_mode_u8 PubSub = 1"
| "event_mode_u8 Stream = 0"

definition event_mode_try_from :: "u8 \<Rightarrow> QueueError + QueueEventMode" where
  "event_mode_try_from v =
    (if v = 1 then Inr PubSub else if v = 0 then Inr Stream else Inl UnKnownEventMode)"

datatype 'c RetryOptions =
    Failed BackOffJobOptions
  | WithRepeat "'c Repeat"

record 'c QueueOpts =
  remove_on_fail :: "RemoveOnCompletionOrFailure option"
  remove_on_complete :: "RemoveOnCompletionOrFailure option"
  attempts :: u64
  default_backoff :: "BackOffJobOptions option"
  event_mode :: "QueueEventMode option"
  repeat :: "'c Repeat option"

definition default_queue_opts :: "'c QueueOpts" where
  "default_queue_opts = \<lparr>remove_on_fail = None, remove_on_complete = None, attempts = 1,
     default_backoff = None, event_mode = Some Stream, repeat = None\<rparr>"

section \<open>Queue metrics\<close>

record QueueMetrics =
  last_id :: u64
  processing :: u64
  prioritized :: u64
  active :: u64
  stalled :: u64
  delayed :: u64
  completed :: u64
  failed :: u64
  paused :: u64
  waiting :: u64
  is_paused :: bool
  event_mode :: QueueEventMode

definition default_metrics :: QueueMetrics where
  "default_metrics = \<lparr>last_id = 0, processing = 0, prioritized = 0, active = 0, stalled = 0,
     delayed = 0, completed = 0, failed = 0, paused = 0, waiting = 0, is_paused = False,
     event_mode = Stream\<rparr>"

definition metrics_new :: "u64 \<Rightarrow> u64 \<Rightarrow> u64 \<Rightarrow> u64 \<Rightarrow> u64 \<Rightarrow> u64 \<Rightarrow> u64 \<Rightarrow> u64 \<Rightarrow> u64 \<Rightarrow> u64 \<Rightarrow>
    bool \<Rightarrow> QueueEventMode \<Rightarrow> QueueMetrics" where
  "metrics_new last_i proc act stal compl del prio paus fai wait is_p mode =
    \<lparr>last_id = last_i, processing = proc, prioritized = prio, active = act, stalled = stal,
     delayed = del, completed = compl, failed = fai, paused = paus, waiting = wait,
     is_paused = is_p, event_mode = mode\<rparr>"

text \<open>\<open>update self other\<close>: the counters and the event mode are swapped in; \<^verbatim>\<open>is_paused\<close> is not.\<close>

definition update :: "QueueMetrics \<Rightarrow> QueueMetrics \<Rightarrow> QueueMetrics" where
  "update self other =
    self\<lparr>paused := paused other, completed := completed other, stalled := stalled other,
      active := active other, last_id := last_id other, delayed := delayed other,
      failed := failed other, waiting := waiting other, processing := processing other,
      prioritized := prioritized other, event_mode := QueueMetrics.event_mode other\<rparr>"

definition has_delayed :: "QueueMetrics \<Rightarrow> bool" where
  "has_delayed m \<longleftrightarrow> delayed m > 0"

definition queue_has_work :: "QueueMetrics \<Rightarrow> bool" where
  "queue_has_work m \<longleftrightarrow> waiting m > 0 \<or> delayed m > 0 \<or> stalled m > 0 \<or> prioritized m > 0"

definition queue_is_paused :: "QueueMetrics \<Rightarrow> bool" where
  "queue_is_paused m \<longleftrightarrow> is_paused m"

definition workers_idle :: "QueueMetrics \<Rightarrow> bool" where
  "workers_idle m \<longleftrightarrow> processing m = 0"

definition has_active_jobs :: "QueueMetrics \<Rightarrow> bool" where
  "has_active_jobs m \<longleftrightarrow> active m > 0"

definition is_idle :: "QueueMetrics \<Rightarrow> bool" where
  "is_idle m \<longleftrightarrow> \<not> queue_has_work m \<and> \<not> has_active_jobs m \<and> workers_idle m"

definition all_jobs_completed :: "QueueMetrics \<Rightarrow> bool" where
  "all_jobs_completed m \<longleftrightarrow>
    last_id m > 0 \<and> completed m = last_id m \<and> active m = 0 \<and> is_idle m"

definition clear :: "QueueMetrics \<Rightarrow> QueueMetrics" where
  "clear m = update m default_metrics"

section \<open>Tags\<close>

lemma payload_mask: "(0x00FFFFFFFFFFFFFF :: u64) = mask 56"
  by (simp add: mask_eq_exp_minus_1)

lemma tag_top:
  fixes d :: u8 and i :: u64
  shows "ucast (drop_bit 56 (push_bit 56 (ucast d :: u64) OR (i AND 0x00FFFFFFFFFFFFFF))) = d"
    and "(push_bit 56 (ucast d :: u64) OR (i AND 0x00FFFFFFFFFFFFFF)) AND 0x00FFFFFFFFFFFFFF = i AND 0x00FFFFFFFFFFFFFF"
  unfolding payload_mask
  by (rule bit_word_eqI; auto simp: bit_simps)+

lemma tag_payload:
  fixes i :: u64
  assumes "unat i < 2 ^ 56"
  shows "i AND 0x00FFFFFFFFFFFFFF = i"
proof -
  have "unat (take_bit 56 i) = unat i"
    using assms by (simp add: unsigned_take_bit_eq take_bit_nat_eq_self)
  then have "take_bit 56 i = i" by (rule unsigned_word_eqI)
  then show ?thesis by (simp only: payload_mask take_bit_eq_mask)
qed

lemma tag_plain:
  fixes d :: u8
  shows "ucast (drop_bit 56 (push_bit 56 (ucast d :: u64))) = d"
  by (rule bit_word_eqI) (auto simp: bit_simps)

lemma tag_inject:
  assumes "unat i < 2 ^ 56" and "unat i' < 2 ^ 56"
  shows "tag (CollectionSuffix.Job i) = tag (CollectionSuffix.Job i') \<longleftrightarrow> i = i'"
    and "tag (Lock i) = tag (Lock i') \<longleftrightarrow> i = i'"
proof -
  have payload: "tag c AND 0x00FFFFFFFFFFFFFF = k"
    if "c = CollectionSuffix.Job k \<or> c = Lock k" "unat k < 2 ^ 56" for c k
    using that(1) by (elim disjE) (simp_all only: tag.simps tag_top(2), simp_all only: tag_payload [OF that(2)])
  from payload [OF _ assms(1)] payload [OF _ assms(2)]
  show "tag (CollectionSuffix.Job i) = tag (CollectionSuffix.Job i') \<longleftrightarrow> i = i'"
    "tag (Lock i) = tag (Lock i') \<longleftrightarrow> i = i'"
    by metis+
qed

lemma from_tag_discriminant:
  assumes "ucast (drop_bit 56 t) = discriminant c"
  shows "from_tag t =
    (case c of CollectionSuffix.Job _ \<Rightarrow> Some (CollectionSuffix.Job (t AND 0x00FFFFFFFFFFFFFF))
       | Lock _ \<Rightarrow> Some (Lock (t AND 0x00FFFFFFFFFFFFFF))
       | WorkerMetrics \<Rightarrow> None | ProcessMetrics \<Rightarrow> None | _ \<Rightarrow> Some c)"
  using assms by (cases c) (simp_all add: from_tag_def Let_def)

section \<open>Names\<close>

definition is_digit :: "char \<Rightarrow> bool" where
  "is_digit c \<longleftrightarrow> (of_char c :: nat) \<in> {48..57}"

definition undecimal :: "string \<Rightarrow> nat" where
  "undecimal s = foldl (\<lambda>a c. 10 * a + (of_char c - 48)) 0 s"

lemma of_char_digit: "n < 10 \<Longrightarrow> of_char (digit n) = 48 + n"
  by (simp add: digit_def)

lemma decimal_digits: "c \<in> set (decimal n) \<Longrightarrow> is_digit c"
proof (induction n arbitrary: c rule: decimal.induct)
  case (1 n)
  then show ?case
    by (subst (asm) (2) decimal.simps) (auto simp: is_digit_def of_char_digit split: if_splits)
qed

lemma undecimal_decimal: "undecimal (decimal n) = n"
proof (induction n rule: decimal.induct)
  case (1 n)
  then show ?case
    by (subst decimal.simps) (auto simp: undecimal_def of_char_digit)
qed

lemma decimal_inj [simp]: "decimal m = decimal n \<longleftrightarrow> m = n"
  by (metis undecimal_decimal)

lemma decimal_not_Nil [simp]: "decimal n \<noteq> []" "[] \<noteq> decimal n"
  using decimal.simps [of n] by auto

lemma lower_digit: "is_digit c \<Longrightarrow> lower_char c = c"
  by (simp add: lower_char_def is_digit_def Let_def)

lemma lower_digits: "(\<And>c. c \<in> set s \<Longrightarrow> is_digit c) \<Longrightarrow> to_lowercase s = s"
  unfolding to_lowercase_def by (rule map_idI) (simp add: lower_digit)

lemma lower_decimal [simp]: "to_lowercase (decimal n) = decimal n"
  using decimal_digits by (rule lower_digits)

lemma to_lowercase_append [simp]: "to_lowercase (a @ b) = to_lowercase a @ to_lowercase b"
  by (simp add: to_lowercase_def)

lemma decimal_head: "decimal n @ r = c # cs \<Longrightarrow> is_digit c"
  using decimal_digits [of c n] by (cases "decimal n") auto

lemma decimal_not_letter [simp]:
  "\<not> is_digit c \<Longrightarrow> decimal n \<noteq> c # cs" "\<not> is_digit c \<Longrightarrow> c # cs \<noteq> decimal n"
  "\<not> is_digit c \<Longrightarrow> decimal n @ r \<noteq> c # cs" "\<not> is_digit c \<Longrightarrow> c # cs \<noteq> decimal n @ r"
  using decimal_head [of n "[]" c cs] decimal_head [of n r c cs] by auto

lemma decimal_not_lock [simp]: "decimal n \<noteq> decimal m @ CHR '':'' # r" "decimal m @ CHR '':'' # r \<noteq> decimal n"
proof -
  have "CHR '':'' \<notin> set (decimal n)"
    using decimal_digits [of "CHR '':''" n] by (auto simp: is_digit_def)
  then show "decimal n \<noteq> decimal m @ CHR '':'' # r" by (metis in_set_conv_decomp)
  then show "decimal m @ CHR '':'' # r \<noteq> decimal n" by metis
qed

definition stem :: "CollectionSuffix \<Rightarrow> string" where
  "stem c = to_lowercase (display c)"

lemma stem_simps [simp]:
  "stem CollectionSuffix.Active = ''active''" "stem CollectionSuffix.Completed = ''completed''"
  "stem CollectionSuffix.Delayed = ''delayed''" "stem CollectionSuffix.Stalled = ''stalled''"
  "stem CollectionSuffix.Prioritized = ''prioritized''" "stem PriorityCounter = ''prioritycounter''"
  "stem Id = ''id''" "stem Meta = ''meta''" "stem Events = ''events''"
  "stem CollectionSuffix.Wait = ''wait''" "stem CollectionSuffix.Paused = ''paused''"
  "stem CollectionSuffix.Failed = ''failed''" "stem Marker = ''marker''"
  "stem (CollectionSuffix.Job i) = decimal (unat i)" "stem Prefix = []"
  "stem (Lock i) = decimal (unat i) @ '':lock''" "stem StalledCheck = ''stalled_check''"
  "stem WorkerMetrics = ''worker_metrics''" "stem ProcessMetrics = ''process_metrics''"
  by (simp_all add: stem_def) (simp_all add: to_lowercase_def lower_char_def char_of_eq_iff)

lemma stem_inj: "stem c = stem c' \<Longrightarrow> c = c'"
  by (cases c; cases c'; simp add: is_digit_def unsigned_word_eqI)

section \<open>Properties\<close>

text \<open>
  C32. Decoding inverts encoding: \<^verbatim>\<open>from_tag(tag(c))\<close> is \<open>c\<close> for every collection whose payload fits
  56 bits, except the two metrics collections, which the decoder does not know.
\<close>

theorem tag_round_trip:
  assumes "\<And>i. c = CollectionSuffix.Job i \<or> c = Lock i \<Longrightarrow> unat i < 2 ^ 56"
  shows "from_tag (tag c) = (if c = WorkerMetrics \<or> c = ProcessMetrics then None else Some c)"
proof (cases "\<exists>i. c = CollectionSuffix.Job i \<or> c = Lock i")
  case True
  then obtain i where c: "c = CollectionSuffix.Job i \<or> c = Lock i" by blast
  then have i: "i AND 0x00FFFFFFFFFFFFFF = i" using assms tag_payload by blast
  have t: "tag c = push_bit 56 (ucast (discriminant c)) OR (i AND 0x00FFFFFFFFFFFFFF)"
    using c by auto
  have d: "ucast (drop_bit 56 (tag c)) = discriminant c" unfolding t by (rule tag_top(1))
  have p: "tag c AND 0x00FFFFFFFFFFFFFF = i" unfolding t tag_top(2) by (rule i)
  from c show ?thesis
    unfolding from_tag_discriminant [OF d] p by (elim disjE) (simp_all del: tag.simps)
next
  case False
  then have t: "tag c = push_bit 56 (ucast (discriminant c))" by (cases c) auto
  have "ucast (drop_bit 56 (tag c)) = discriminant c" unfolding t by (rule tag_plain)
  from from_tag_discriminant [OF this] False show ?thesis
    by (cases c) (simp_all del: tag.simps discriminant.simps)
qed

theorem tag_round_trip_witness:
  "from_tag (tag (Lock 77)) = Some (Lock 77) \<and> from_tag (tag WorkerMetrics) = None"
  using tag_round_trip [of "Lock 77"] tag_round_trip [of WorkerMetrics] by simp

text \<open>
  C33. The keys of a queue's collections are pairwise different: two collections of one queue have
  the same name only if they are the same, job records and job locks of all ids included.
\<close>

theorem collection_names_distinct:
  "to_collection_name prefix nm c = to_collection_name prefix nm c' \<longleftrightarrow> c = c'"
  using stem_inj [of c c'] by (auto simp: to_collection_name_def stem_def to_lowercase_def)

text \<open>
  Refreshing the metrics replaces every counter and the event mode but never the pause flag:
  whatever the store reports, \<^verbatim>\<open>queue_is_paused\<close> keeps its first value.
\<close>

theorem update_forgets_pause:
  "queue_is_paused (update self other) = queue_is_paused self \<and>
   (update self other)\<lparr>is_paused := is_paused other\<rparr> = other"
  by (simp add: update_def queue_is_paused_def)

end
