(* ===== verification/Events.thy ===== *)
theory Events
  imports Options
begin

text \<open>
  Events, \<^verbatim>\<open>src/src/events\<close>: the raw event a store publishes and the typed parameters that listeners
  receive. The conversion panics on the two kinds of event whose payload is missing.
\<close>

section \<open>Raw events\<close>

datatype StreamEventId = StreamEventId Dt u64

record ('r, 'p) QueueStreamEvent =
  event_id :: StreamEventId
  priority :: "u64 option"
  event :: JobState
  delay :: "u64 option"
  prev :: "JobState option"
  job_id :: u64
  returned_value :: "'r option"
  failed_reason :: "FailedDetails option"
  progress_data :: "'p option"
  name :: "CompactString option"
  worker_id :: "Uuid option"
  metrics :: "JobMetrics option"

definition default_event :: "Dt \<Rightarrow> ('r, 'p) QueueStreamEvent" where
  "default_event now = \<lparr>event_id = StreamEventId now 0, priority = None, event = JobState.Wait,
     delay = None, prev = None, job_id = 0, returned_value = None, failed_reason = None,
     progress_data = None, name = None, worker_id = None, metrics = None\<rparr>"

section \<open>Typed events\<close>

datatype ('r, 'p) EventParameters =
    Prioritized u64 "CompactString option" u64
  | Added u64 "CompactString option"
  | WaitingToRun u64 "JobState option"
  | Delayed u64 Duration
  | Active u64 "JobState option"
  | Completed u64 JobMetrics Duration "JobState option" 'r
  | Void
  | Progress u64 'p
  | Stalled u64 JobState
  | Failed FailedDetails u64 JobState
  | Processing Uuid u64 JobState

definition default_job_metrics :: JobMetrics where
  "default_job_metrics = \<lparr>ran_for = 0, delayed_for = 0, attempt = 0, delay = 0, job_id = 0\<rparr>"

definition default_failed :: FailedDetails where
  "default_failed = \<lparr>run = 0, reason = []\<rparr>"

definition from_millis :: "u64 \<Rightarrow> Duration" where
  "from_millis ms = uint ms * 1000000"

definition from_queue_event :: "('r, 'p) QueueStreamEvent \<Rightarrow> Failure + ('r, 'p) EventParameters" where
  "from_queue_event e =
    (case event e of
       JobState.Prioritized \<Rightarrow>
         Inr (EventParameters.Prioritized (QueueStreamEvent.job_id e) (QueueStreamEvent.name e)
           (unwrap_or 0 (QueueStreamEvent.priority e)))
     | JobState.Wait \<Rightarrow>
         (if prev e = None then Inr (Added (QueueStreamEvent.job_id e) (QueueStreamEvent.name e))
          else Inr (WaitingToRun (QueueStreamEvent.job_id e) (prev e)))
     | JobState.Stalled \<Rightarrow>
         Inr (EventParameters.Stalled (QueueStreamEvent.job_id e) (unwrap_or JobState.Wait (prev e)))
     | JobState.Active \<Rightarrow> Inr (EventParameters.Active (QueueStreamEvent.job_id e) (prev e))
     | JobState.Paused \<Rightarrow> Inr Void
     | JobState.Resumed \<Rightarrow> Inr Void
     | JobState.Obliterated \<Rightarrow> Inr Void
     | JobState.Completed \<Rightarrow>
         (let job_metrics = unwrap_or default_job_metrics (metrics e) in
          case QueueStreamEvent.returned_value e of
            None \<Rightarrow> Inl (Panic ''there is no result'')
          | Some r \<Rightarrow> Inr (EventParameters.Completed (QueueStreamEvent.job_id e) job_metrics
              (from_millis (JobMetrics.delay job_metrics)) (prev e) r))
     | JobState.Failed \<Rightarrow>
         Inr (EventParameters.Failed (unwrap_or default_failed (QueueStreamEvent.failed_reason e))
           (QueueStreamEvent.job_id e) (unwrap_or JobState.Wait (prev e)))
     | JobState.Delayed \<Rightarrow>
         Inr (EventParameters.Delayed (QueueStreamEvent.job_id e)
           (from_millis (unwrap_or 0 (QueueStreamEvent.delay e))))
     | JobState.Progress \<Rightarrow>
         (case progress_data e of
            None \<Rightarrow> Inl (Panic ''expecting a value'')
          | Some d \<Rightarrow> Inr (EventParameters.Progress (QueueStreamEvent.job_id e) d))
     | JobState.Processing \<Rightarrow>
         Inr (EventParameters.Processing (unwrap_or 0 (worker_id e)) (QueueStreamEvent.job_id e)
           (unwrap_or JobState.Wait (prev e))))"

section \<open>Properties\<close>

text \<open>
  Converting an event panics exactly for a completion without a returned value and for a progress
  report without data; every other event, however incomplete, becomes a parameter.
\<close>

theorem from_queue_event_panics:
  "(\<exists>f. from_queue_event e = Inl f) \<longleftrightarrow>
    event e = JobState.Completed \<and> QueueStreamEvent.returned_value e = None \<or>
    event e = JobState.Progress \<and> progress_data e = None"
  by (cases "event e") (auto simp: from_queue_event_def Let_def split: option.split)

text \<open>Events that the store and the queue publish convert without a panic.\<close>

definition convertible :: "('r, 'p) QueueStreamEvent \<Rightarrow> bool" where
  "convertible e \<longleftrightarrow> \<not> (event e = JobState.Completed \<and> QueueStreamEvent.returned_value e = None) \<and>
    \<not> (event e = JobState.Progress \<and> progress_data e = None)"

lemma from_queue_event_ok: "convertible e \<Longrightarrow> \<exists>p. from_queue_event e = Inr p"
  by (cases "event e") (auto simp: from_queue_event_def convertible_def Let_def split: option.split)

end
