(* ===== verification/Metrics.thy ===== *)
theory Metrics
  imports Options
begin

text \<open>
  Worker options and the metrics snapshots workers and processes publish:
  \<^verbatim>\<open>src/src/worker/worker_opts.rs\<close>, the states of a worker, and the records of
  \<^verbatim>\<open>src/src/metrics\<close>. Histograms and operating-system statistics come from other crates and are
  opaque types.
\<close>

typedecl Histogram
typedecl SystemStats

section \<open>Worker options\<close>

definition MIN_DELAY_MS_LIMIT :: u64 where
  "MIN_DELAY_MS_LIMIT = 50"

record WorkerOpts =
  stalled_interval :: u64
  lock_duration :: u64
  lock_renew_time :: u64
  max_stalled_count :: u64
  concurrency :: nat
  autorun :: bool
  metrics_update_interval :: u64

text \<open>The number of logical processors is an argument.\<close>

definition default_worker_opts :: "nat \<Rightarrow> WorkerOpts" where
  "default_worker_opts num_cpus = \<lparr>stalled_interval = 30000, lock_duration = 30000,
     lock_renew_time = 15000, max_stalled_count = 1, concurrency = num_cpus, autorun = False,
     metrics_update_interval = 100\<rparr>"

datatype WorkerState = Active | Idle | Closed

section \<open>Snapshots\<close>

record TaskStats =
  total_poll_count :: u64
  total_slow_poll_count :: u64
  total_poll_duration :: Duration
  total_idle_duration :: Duration
  total_scheduled_duration :: Duration

record TaskInfo =
  task_id :: u64
  job_id :: u64
  metrics :: TaskStats
  last_updated :: Dt
  poll_histogram :: Histogram

definition task_info_new :: "Dt \<Rightarrow> u64 \<Rightarrow> u64 \<Rightarrow> TaskStats \<Rightarrow> Histogram \<Rightarrow> TaskInfo" where
  "task_info_new now task job stats histogram =
    \<lparr>task_id = task, job_id = job, metrics = stats, last_updated = now, poll_histogram = histogram\<rparr>"

record WorkerMetrics =
  worker_id :: Uuid
  active_len :: nat
  tasks :: "TaskInfo list"
  last_updated :: Dt
  ttl_ms :: u64

definition worker_metrics_new :: "Dt \<Rightarrow> Uuid \<Rightarrow> nat \<Rightarrow> TaskInfo list \<Rightarrow> u64 \<Rightarrow> WorkerMetrics" where
  "worker_metrics_new now worker len infos ttl =
    \<lparr>worker_id = worker, active_len = len, tasks = infos, last_updated = now, ttl_ms = ttl\<rparr>"

record WorkerMeta =
  worker_id :: Uuid
  started_at :: Dt
  state :: WorkerState
  worker_opts :: WorkerOpts
  last_updated :: Dt
  processing :: nat

definition worker_meta_new :: "Dt \<Rightarrow> Uuid \<Rightarrow> Dt \<Rightarrow> WorkerState \<Rightarrow> WorkerOpts \<Rightarrow> nat \<Rightarrow> WorkerMeta" where
  "worker_meta_new now worker started st wopts n =
    \<lparr>worker_id = worker, started_at = started, state = st, worker_opts = wopts, last_updated = now,
     processing = n\<rparr>"

text \<open>The statistics of the allocator, the processors and the runtime are one opaque value.\<close>

record ProcessMetrics =
  hostname :: CompactString
  pid :: u32
  system_stats :: SystemStats
  workers :: "WorkerMeta list"
  last_updated :: Dt

definition process_metrics_new ::
  "Dt \<Rightarrow> CompactString \<Rightarrow> u32 \<Rightarrow> SystemStats \<Rightarrow> WorkerMeta list \<Rightarrow> ProcessMetrics" where
  "process_metrics_new now host process stats metas =
    \<lparr>hostname = host, pid = process, system_stats = stats, workers = metas, last_updated = now\<rparr>"

end
