(* ===== verification/Store_Trait.thy ===== *)
theory Store_Trait
  imports Events Metrics
begin

text \<open>
  The interface of the storage backends, \<^verbatim>\<open>src/src/stores/mod.rs\<close>, and the helpers of
  \<^verbatim>\<open>src/src/utils/mod.rs\<close> that stores and queues share.

  A queue and its store share atomic cells: the metrics (the store writes into the queue's copy when
  it publishes an event), the flag that pauses the workers and the notifier that wakes them. They are
  fields of the record \<open>World\<close> together with the clocks, the log of emitted events, the queue's own
  cells (its \<^verbatim>\<open>paused\<close> flag and its registry of backoff strategies) and the state \<open>'s\<close> of the
  store. \<^verbatim>\<open>Queue::event_mode\<close> is the event mode cell of the metrics.
\<close>

section \<open>The shared state\<close>

record ('s, 'r, 'p) World =
  wall :: Dt
  mono :: Instant
  current_metrics :: QueueMetrics
  pause_workers :: bool
  notified :: nat
  emitted :: "(JobState \<times> ('r, 'p) EventParameters) list"
  paused_cell :: bool
  backoff_registry :: BackOff
  store :: 's

datatype Lock = Token JobToken | StallCheck

type_synonym ('c, 'd) new_job = "CompactString \<times> 'c JobOptions option \<times> 'd"

section \<open>The interface\<close>

text \<open>
  The dictionary of a backend. Operations that return a \<^verbatim>\<open>KioResult\<close> may fail; the others return
  their result with the new state.
\<close>

record ('w, 'c, 'd, 'r, 'p) Store =
  queue_name :: "'w \<Rightarrow> CompactString"
  queue_prefix :: "'w \<Rightarrow> CompactString"
  fetch_jobs :: "u64 list \<Rightarrow> ('w, ('c, 'd, 'r, 'p) Job list) kio"
  metadata_field_exists :: "string \<Rightarrow> ('w, bool) kio"
  exists_in :: "CollectionSuffix \<Rightarrow> u64 \<Rightarrow> ('w, bool) kio"
  set_event_mode :: "QueueEventMode \<Rightarrow> ('w, unit) kio"
  get_job_ids_in_state :: "JobState \<Rightarrow> nat option \<Rightarrow> nat option \<Rightarrow> ('w, u64 list) kio"
  create_stream_listener :: "QueueEventMode \<Rightarrow> 'w \<Rightarrow> 'w"
  add_bulk_only :: "('c, 'd) new_job list \<Rightarrow> 'c QueueOpts \<Rightarrow> QueueEventMode \<Rightarrow> bool \<Rightarrow> ('w, unit) kio"
  add_bulk :: "('c, 'd) new_job list \<Rightarrow> 'c QueueOpts \<Rightarrow> QueueEventMode \<Rightarrow> bool \<Rightarrow>
    ('w, ('c, 'd, 'r, 'p) Job list) kio"
  get_delayed_at :: "i64 \<Rightarrow> i64 \<Rightarrow> ('w, u64 list \<times> u64 list) kio"
  pop_set :: "CollectionSuffix \<Rightarrow> bool \<Rightarrow> ('w, (u64 \<times> u64) list) kio"
  expire :: "CollectionSuffix \<Rightarrow> i64 \<Rightarrow> ('w, unit) kio"
  get_metrics :: "('w, QueueMetrics) kio"
  get_job :: "u64 \<Rightarrow> 'w \<Rightarrow> ('c, 'd, 'r, 'p) Job option \<times> 'w"
  get_token :: "u64 \<Rightarrow> 'w \<Rightarrow> JobToken option \<times> 'w"
  get_state :: "u64 \<Rightarrow> 'w \<Rightarrow> JobState option \<times> 'w"
  add_item :: "CollectionSuffix \<Rightarrow> u64 \<Rightarrow> i64 option \<Rightarrow> bool \<Rightarrow> ('w, unit) kio"
  pop_back_push_front :: "CollectionSuffix \<Rightarrow> CollectionSuffix \<Rightarrow> 'w \<Rightarrow> u64 option \<times> 'w"
  set_lock :: "CollectionSuffix \<Rightarrow> JobToken option \<Rightarrow> u64 \<Rightarrow> ('w, unit) kio"
  set_fields :: "u64 \<Rightarrow> 'r JobField list \<Rightarrow> ('w, unit) kio"
  incr :: "CollectionSuffix \<Rightarrow> i64 \<Rightarrow> string option \<Rightarrow> ('w, u64) kio"
  get_counter :: "CollectionSuffix \<Rightarrow> string option \<Rightarrow> 'w \<Rightarrow> u64 option \<times> 'w"
  publish_event :: "QueueEventMode \<Rightarrow> ('r, 'p) QueueStreamEvent \<Rightarrow> ('w, unit) kio"
  job_exists :: "u64 \<Rightarrow> 'w \<Rightarrow> bool \<times> 'w"
  remove_item :: "CollectionSuffix \<Rightarrow> u64 \<Rightarrow> ('w, unit) kio"
  remove :: "CollectionSuffix \<Rightarrow> ('w, unit) kio"
  clear_collections :: "('w, unit) kio"
  clear_jobs :: "u64 \<Rightarrow> ('w, unit) kio"
  pause :: "bool \<Rightarrow> QueueEventMode \<Rightarrow> ('w, unit) kio"
  purge_expired :: "'w \<Rightarrow> 'w"
  fetch_worker_metrics :: "('w, (Uuid \<times> WorkerMetrics) list) kio"
  fetch_process_metrics :: "('w, (u32 \<times> ProcessMetrics) list) kio"
  store_process_metrics :: "ProcessMetrics \<Rightarrow> u64 \<Rightarrow> ('w, unit) kio"
  store_worker_metrics :: "WorkerMetrics \<Rightarrow> u64 \<Rightarrow> ('w, unit) kio"
  update_job_progress :: "('c, 'd, 'r, 'p) Job \<Rightarrow> 'p \<Rightarrow> ('w, ('c, 'd, 'r, 'p) Job) kio"

text \<open>\<^verbatim>\<open>Job::update_progress\<close> and its blocking variant; the job passed by reference is returned.\<close>

definition update_progress :: "('w, 'c, 'd, 'r, 'p) Store \<Rightarrow> ('c, 'd, 'r, 'p) Job \<Rightarrow> 'p \<Rightarrow>
    ('w, ('c, 'd, 'r, 'p) Job) kio" where
  "update_progress S j value = Store.update_job_progress S j value"

text \<open>What writing a field means for the job record.\<close>

fun set_field :: "'c externals \<Rightarrow> 'r JobField \<Rightarrow> ('c, 'd, 'r, 'p) Job \<Rightarrow> ('c, 'd, 'r, 'p) Job" where
  "set_field ext (BackTrace trace) j = j\<lparr>stack_trace := stack_trace j @ [trace]\<rparr>"
| "set_field ext (State st) j = j\<lparr>Job.state := st\<rparr>"
| "set_field ext (ProcessedOn t) j = j\<lparr>processed_on := from_timestamp_micros ext t\<rparr>"
| "set_field ext (FinishedOn t) j = j\<lparr>finished_on := from_timestamp_micros ext t\<rparr>"
| "set_field ext (JobField.Token tok) j = j\<lparr>Job.token := Some tok\<rparr>"
| "set_field ext (Payload (ProcessedResult.Failed details)) j = j\<lparr>Job.failed_reason := Some details\<rparr>"
| "set_field ext (Payload (ProcessedResult.Success r _)) j = j\<lparr>Job.returned_value := Some r\<rparr>"

section \<open>Helpers\<close>

definition calculate_next_priority_score :: "u64 \<Rightarrow> u64 \<Rightarrow> u64" where
  "calculate_next_priority_score prio counter = push_bit 32 prio + (counter AND 0xffffffffffff)"

definition update_job_opts :: "'c QueueOpts \<Rightarrow> 'c JobOptions \<Rightarrow> 'c JobOptions" where
  "update_job_opts q o1 =
    (let o2 = (if JobOptions.remove_on_complete o1 = None
               then o1\<lparr>JobOptions.remove_on_complete := QueueOpts.remove_on_complete q\<rparr> else o1);
         o3 = (if JobOptions.remove_on_fail o2 = None
               then o2\<lparr>JobOptions.remove_on_fail := QueueOpts.remove_on_fail q\<rparr> else o2);
         o4 = (if JobOptions.attempts o3 < QueueOpts.attempts q
               then o3\<lparr>JobOptions.attempts := QueueOpts.attempts q\<rparr> else o3);
         o5 = (if JobOptions.backoff o4 = None
               then o4\<lparr>JobOptions.backoff := default_backoff q\<rparr> else o4)
     in if JobOptions.repeat o5 = None then o5\<lparr>JobOptions.repeat := QueueOpts.repeat q\<rparr> else o5)"

definition resume_helper :: "('s, 'r, 'p, 'z) World_scheme \<Rightarrow> ('s, 'r, 'p, 'z) World_scheme" where
  "resume_helper w =
    (if queue_has_work (current_metrics w) \<and> pause_workers w
     then w\<lparr>notified := Suc (notified w), pause_workers := False\<rparr> else w)"

text \<open>
  \<open>pause_or_resume_workers\<close> also reads and writes the cell \<^verbatim>\<open>is_initial\<close>, which belongs to the
  caller: it is an argument, and the new value is returned.
\<close>

definition pause_or_resume_workers ::
  "bool \<Rightarrow> ('s, 'r, 'p, 'z) World_scheme \<Rightarrow> bool \<times> ('s, 'r, 'p, 'z) World_scheme" where
  "pause_or_resume_workers is_initial w =
    (if is_initial then (False, w)
     else if is_idle (current_metrics w) then (is_initial, w\<lparr>pause_workers := True\<rparr>)
     else (is_initial, resume_helper w))"

text \<open>
  \<open>process_each_event\<close> takes the store's \<^verbatim>\<open>get_metrics\<close>. A failure to read the metrics is ignored, a
  panic is not.
\<close>

definition process_each_event ::
  "(('s, 'r, 'p) World, QueueMetrics) kio \<Rightarrow> ('r, 'p) QueueStreamEvent \<Rightarrow> (('s, 'r, 'p) World, unit) kio"
  where
  "process_each_event metrics_op e =
    kbind (kresult (from_queue_event e)) (\<lambda>param.
    kbind (kmod (\<lambda>w. w\<lparr>emitted := emitted w @ [(event e, param)]\<rparr>)) (\<lambda>_ w.
      case metrics_op w of
        (Inr updated, w') \<Rightarrow> (Inr (), w'\<lparr>current_metrics := update (current_metrics w') updated\<rparr>)
      | (Inl (Err _), w') \<Rightarrow> (Inr (), w')
      | (Inl (Panic m), w') \<Rightarrow> (Inl (Panic m), w')))"

section \<open>Lemmas on the helpers\<close>

lemma update_job_opts_fields [simp]:
  "JobOptions.priority (update_job_opts q opt) = JobOptions.priority opt"
  "JobOptions.delay (update_job_opts q opt) = JobOptions.delay opt"
  "JobOptions.job_id (update_job_opts q opt) = JobOptions.job_id opt"
  "JobOptions.attempts (update_job_opts q opt) = max (JobOptions.attempts opt) (QueueOpts.attempts q)"
  "JobOptions.remove_on_complete (update_job_opts q opt) =
    (case JobOptions.remove_on_complete opt of None \<Rightarrow> QueueOpts.remove_on_complete q | r \<Rightarrow> r)"
  "JobOptions.remove_on_fail (update_job_opts q opt) =
    (case JobOptions.remove_on_fail opt of None \<Rightarrow> QueueOpts.remove_on_fail q | r \<Rightarrow> r)"
  "JobOptions.backoff (update_job_opts q opt) =
    (case JobOptions.backoff opt of None \<Rightarrow> default_backoff q | r \<Rightarrow> r)"
  "JobOptions.repeat (update_job_opts q opt) =
    (case JobOptions.repeat opt of None \<Rightarrow> QueueOpts.repeat q | r \<Rightarrow> r)"
  by (auto simp: update_job_opts_def Let_def max_def split: option.split)

lemma resume_helper_fields [simp]:
  "current_metrics (resume_helper w) = current_metrics w"
  "World.store (resume_helper w) = World.store w"
  "wall (resume_helper w) = wall w" "mono (resume_helper w) = mono w"
  "emitted (resume_helper w) = emitted w"
  "paused_cell (resume_helper w) = paused_cell w"
  "backoff_registry (resume_helper w) = backoff_registry w"
  by (simp_all add: resume_helper_def)

lemma pause_or_resume_workers_fields [simp]:
  "current_metrics (snd (pause_or_resume_workers b w)) = current_metrics w"
  "World.store (snd (pause_or_resume_workers b w)) = World.store w"
  "wall (snd (pause_or_resume_workers b w)) = wall w"
  "mono (snd (pause_or_resume_workers b w)) = mono w"
  "emitted (snd (pause_or_resume_workers b w)) = emitted w"
  "paused_cell (snd (pause_or_resume_workers b w)) = paused_cell w"
  "backoff_registry (snd (pause_or_resume_workers b w)) = backoff_registry w"
  by (simp_all add: pause_or_resume_workers_def)

lemma priority_score_unat:
  assumes "unat prio < 2 ^ 32" and "unat counter < 2 ^ 32"
  shows "unat (calculate_next_priority_score prio counter) = unat prio * 2 ^ 32 + unat counter"
proof -
  have "counter AND 0xffffffffffff = counter"
  proof -
    have "unat (take_bit 48 counter) = unat counter"
      using assms(2) by (simp add: unsigned_take_bit_eq take_bit_nat_eq_self)
    then have "take_bit 48 counter = counter" by (rule unsigned_word_eqI)
    then show ?thesis by (simp add: take_bit_eq_mask mask_eq_exp_minus_1)
  qed
  moreover have "unat (push_bit 32 prio) = unat prio * 2 ^ 32"
    using assms(1) by (simp add: push_bit_eq_mult unat_word_ariths(2))
  ultimately show ?thesis
    using assms by (simp add: calculate_next_priority_score_def unat_word_ariths(1))
qed

section \<open>Properties\<close>

text \<open>
  C35. Jobs are taken in the order of their priority, and jobs of equal priority in the order they were
  added: scores compare like the pairs of priority and counter, for priorities and counters below
  \<open>2 ^ 32\<close>.
\<close>

theorem priority_score_order:
  assumes "unat p < 2 ^ 32" and "unat p' < 2 ^ 32" and "unat c < 2 ^ 32" and "unat c' < 2 ^ 32"
  shows "calculate_next_priority_score p c < calculate_next_priority_score p' c' \<longleftrightarrow>
    p < p' \<or> p = p' \<and> c < c'"
proof -
  have nat_lex: "a * 2 ^ 32 + b < a' * 2 ^ 32 + b' \<longleftrightarrow> a < a' \<or> a = a' \<and> b < b'"
    if "b < 2 ^ 32" "b' < 2 ^ 32" for a a' b b' :: nat
    using that by auto
  show ?thesis
    using assms nat_lex [of "unat c" "unat c'" "unat p" "unat p'"]
    by (simp add: word_less_nat_alt priority_score_unat unsigned_word_eqI flip: word_unat_eq_iff)
qed

theorem priority_score_order_witness:
  "calculate_next_priority_score 1 9 < calculate_next_priority_score 2 3"
  using priority_score_order [of 1 2 9 3] by simp

text \<open>
  A priority of \<open>2 ^ 32\<close> or more loses its high bits, so the lowest priority can overtake the
  highest one.
\<close>

theorem priority_score_wraps: "calculate_next_priority_score (p + push_bit 32 q) c = calculate_next_priority_score p c"
proof -
  have "push_bit 32 (push_bit 32 q) = (0 :: u64)" by (rule bit_word_eqI) (simp add: bit_simps)
  then show ?thesis
    by (simp add: calculate_next_priority_score_def push_bit_add)
qed

text \<open>
  A job inherits from its queue exactly the options it leaves open, never gets fewer attempts than
  the queue grants, and inheriting twice changes nothing more.
\<close>

theorem update_job_opts_inherits:
  "update_job_opts q (update_job_opts q opt) = update_job_opts q opt \<and>
   QueueOpts.attempts q \<le> JobOptions.attempts (update_job_opts q opt) \<and>
   JobOptions.attempts opt \<le> JobOptions.attempts (update_job_opts q opt) \<and>
   JobOptions.backoff (update_job_opts q opt) =
     (if JobOptions.backoff opt = None then default_backoff q else JobOptions.backoff opt) \<and>
   JobOptions.repeat (update_job_opts q opt) =
     (if JobOptions.repeat opt = None then QueueOpts.repeat q else JobOptions.repeat opt)"
  by (auto intro!: JobOptions.equality split: option.split)

end
