(* ===== verification/Queues.thy ===== *)
theory Queues
  imports Store_Trait
begin

text \<open>
  The queue, \<^verbatim>\<open>src/src/queue/mod.rs\<close>, generic in the storage backend: every operation takes the
  backend's dictionary \<open>S\<close> and calls it as the source calls the \<^verbatim>\<open>Store\<close> trait, in the same order and
  with the same early returns. The clock is read once per operation.
\<close>

section \<open>The queue\<close>

record 'c Queue =
  queue_id :: Uuid
  opts :: "'c QueueOpts"

type_synonym ('s, 'c, 'd, 'r, 'p) backend = "(('s, 'r, 'p) World, 'c, 'd, 'r, 'p) Store"

datatype ('c, 'd, 'r, 'p) MoveToActiveResult =
    Paused
  | RateLimit u64
  | DelayUntil u64
  | ProcessJob "('c, 'd, 'r, 'p) Job"

definition is_paused :: "('s, 'r, 'p) World \<Rightarrow> bool" where
  "is_paused w = queue_is_paused (current_metrics w)"

definition event_mode :: "('s, 'r, 'p) World \<Rightarrow> QueueEventMode" where
  "event_mode w = QueueMetrics.event_mode (current_metrics w)"

text \<open>
  Opening a queue on a store: \<open>w\<close> holds the store and the clock, the other cells are created. The id
  is a fresh \<^verbatim>\<open>Uuid\<close>, given as an argument.
\<close>

definition queue_new ::
  "('s, 'c, 'd, 'r, 'p) backend \<Rightarrow> Uuid \<Rightarrow> 'c QueueOpts option \<Rightarrow> (('s, 'r, 'p) World, 'c Queue) kio" where
  "queue_new S uuid queue_opts =
    (let qopts = unwrap_or default_queue_opts queue_opts in
    kbind (\<lambda>w. case Store.get_metrics S w of
        (Inr m, w') \<Rightarrow> (Inr m, w')
      | (Inl (Err _), w') \<Rightarrow> (Inr default_metrics, w')
      | (Inl (Panic m), w') \<Rightarrow> (Inl (Panic m), w')) (\<lambda>m.
    kbind (Store.metadata_field_exists S ''event_mode'') (\<lambda>mode_exists.
    kbind (case QueueOpts.event_mode qopts of
        Some passed \<Rightarrow>
          if \<not> mode_exists \<and> passed \<noteq> QueueMetrics.event_mode m
          then kbind (Store.set_event_mode S passed) (\<lambda>_. kret (m\<lparr>QueueMetrics.event_mode := passed\<rparr>))
          else kret m
      | None \<Rightarrow> kret m) (\<lambda>m'.
    kbind (kmod (\<lambda>w. Store.create_stream_listener S (QueueMetrics.event_mode m')
        (w\<lparr>current_metrics := m', pause_workers := False, notified := 0, emitted := [],
           paused_cell := QueueMetrics.is_paused m', backoff_registry := Backoff.new\<rparr>))) (\<lambda>_.
    kret \<lparr>queue_id = uuid, opts = qopts\<rparr>)))))"

section \<open>Adding and reading jobs\<close>

definition bulk_add :: "('s, 'c, 'd, 'r, 'p) backend \<Rightarrow> 'c Queue \<Rightarrow> ('c, 'd) new_job list \<Rightarrow>
    (('s, 'r, 'p) World, ('c, 'd, 'r, 'p) Job list) kio" where
  "bulk_add S q items w = Store.add_bulk S items (Queue.opts q) (event_mode w) (is_paused w) w"

definition bulk_add_only :: "('s, 'c, 'd, 'r, 'p) backend \<Rightarrow> 'c Queue \<Rightarrow> ('c, 'd) new_job list \<Rightarrow>
    (('s, 'r, 'p) World, unit) kio" where
  "bulk_add_only S q items w = Store.add_bulk_only S items (Queue.opts q) (event_mode w) (is_paused w) w"

definition add_job :: "('s, 'c, 'd, 'r, 'p) backend \<Rightarrow> 'c Queue \<Rightarrow> CompactString \<Rightarrow> 'd \<Rightarrow>
    'c JobOptions option \<Rightarrow> (('s, 'r, 'p) World, ('c, 'd, 'r, 'p) Job) kio" where
  "add_job S q nm dat options =
    kbind (\<lambda>w. Store.add_bulk S [(nm, Some (unwrap_or default_job_options options), dat)] (Queue.opts q)
        (event_mode w) (is_paused w) w) (\<lambda>js.
    if js = [] then kfail (Panic ''failed to insert'') else kret (last js))"

definition get_job :: "('s, 'c, 'd, 'r, 'p) backend \<Rightarrow> u64 \<Rightarrow> ('s, 'r, 'p) World \<Rightarrow>
    ('c, 'd, 'r, 'p) Job option \<times> ('s, 'r, 'p) World" where
  "get_job S i = Store.get_job S i"

definition fetch_jobs :: "('s, 'c, 'd, 'r, 'p) backend \<Rightarrow> u64 list \<Rightarrow>
    (('s, 'r, 'p) World, ('c, 'd, 'r, 'p) Job list) kio" where
  "fetch_jobs S ids = Store.fetch_jobs S ids"

definition get_job_ids_in_state :: "('s, 'c, 'd, 'r, 'p) backend \<Rightarrow> JobState \<Rightarrow> nat option \<Rightarrow> nat option \<Rightarrow>
    (('s, 'r, 'p) World, u64 list) kio" where
  "get_job_ids_in_state S st start stop = Store.get_job_ids_in_state S st start stop"

definition get_metrics :: "('s, 'c, 'd, 'r, 'p) backend \<Rightarrow> (('s, 'r, 'p) World, QueueMetrics) kio" where
  "get_metrics S =
    kbind (Store.get_metrics S) (\<lambda>updated.
    kbind (kmod (\<lambda>w. w\<lparr>current_metrics := update (current_metrics w) updated\<rparr>)) (\<lambda>_. kret updated))"

definition fetch_worker_metrics :: "('s, 'c, 'd, 'r, 'p) backend \<Rightarrow>
    (('s, 'r, 'p) World, (Uuid \<times> WorkerMetrics) list) kio" where
  "fetch_worker_metrics S = Store.fetch_worker_metrics S"

definition fetch_proess_metrics :: "('s, 'c, 'd, 'r, 'p) backend \<Rightarrow>
    (('s, 'r, 'p) World, (u32 \<times> ProcessMetrics) list) kio" where
  "fetch_proess_metrics S = Store.fetch_process_metrics S"

definition store_worker_metrics :: "('s, 'c, 'd, 'r, 'p) backend \<Rightarrow> WorkerMetrics \<Rightarrow> u64 \<Rightarrow>
    (('s, 'r, 'p) World, unit) kio" where
  "store_worker_metrics S m ttl = Store.store_worker_metrics S m ttl"

definition store_process_metrics :: "('s, 'c, 'd, 'r, 'p) backend \<Rightarrow> ProcessMetrics \<Rightarrow> u64 \<Rightarrow>
    (('s, 'r, 'p) World, unit) kio" where
  "store_process_metrics S m ttl = Store.store_process_metrics S m ttl"

section \<open>Moving jobs between states\<close>

text \<open>The fields and the event that a move writes.\<close>

definition move_fields ::
  "JobState \<Rightarrow> 'r ProcessedResult option \<Rightarrow> i64 option \<Rightarrow> Trace option \<Rightarrow> 'r JobField list" where
  "move_fields to_st result t trace =
    [State to_st] @ (case trace of None \<Rightarrow> [] | Some b \<Rightarrow> [BackTrace b]) @
    (case result of
       None \<Rightarrow> []
     | Some rec \<Rightarrow> Payload rec # (case t of None \<Rightarrow> [] | Some t' \<Rightarrow> [FinishedOn (unsigned_abs t')]))"

definition move_event ::
  "Dt \<Rightarrow> u64 \<Rightarrow> JobState \<Rightarrow> JobState \<Rightarrow> 'r ProcessedResult option \<Rightarrow> ('r, 'p) QueueStreamEvent" where
  "move_event now i from_st to_st result =
    (let e = (default_event now)\<lparr>event := to_st, prev := Some from_st, QueueStreamEvent.job_id := i\<rparr> in
     case result of
       None \<Rightarrow> e
     | Some (ProcessedResult.Failed details) \<Rightarrow> e\<lparr>QueueStreamEvent.failed_reason := Some details\<rparr>
     | Some (ProcessedResult.Success r m) \<Rightarrow>
         e\<lparr>QueueStreamEvent.returned_value := Some r, QueueStreamEvent.metrics := Some m\<rparr>)"

definition move_job_to_state :: "('s, 'c, 'd, 'r, 'p) backend \<Rightarrow> u64 \<Rightarrow> JobState \<Rightarrow> JobState \<Rightarrow>
    'r ProcessedResult option \<Rightarrow> i64 option \<Rightarrow> Trace option \<Rightarrow> (('s, 'r, 'p) World, unit) kio" where
  "move_job_to_state S i from_st to_st result t trace =
    kbind (kget (\<lambda>w. (event_mode w, is_paused w, wall w))) (\<lambda>(mode, paused_now, now).
    if paused_now then kret ()
    else
    kbind (klift (Store.job_exists S i)) (\<lambda>found.
    if \<not> found then kfail (Err (KioError.JobError JobNotFound))
    else
    kbind
      (if to_st = JobState.Failed \<or> to_st = JobState.Completed then
         kbind (Store.incr S (CollectionSuffix.Job i) 1 (Some ''attemptsMade'')) (\<lambda>_.
         kbind (Store.remove_item S (suffix_of_state from_st) i) (\<lambda>_.
         Store.add_item S (suffix_of_state to_st) i (Some (unwrap_or (timestamp_micros now) t)) False))
       else
         kbind (Store.exists_in S (suffix_of_state to_st) i) (\<lambda>in_list.
         kwhen (\<not> in_list)
           (kbind (Store.remove_item S (suffix_of_state from_st) i) (\<lambda>_.
            Store.add_item S (suffix_of_state to_st) i None False)))) (\<lambda>_.
    kbind (Store.set_fields S i (move_fields to_st result t trace)) (\<lambda>_.
    Store.publish_event S mode (move_event now i from_st to_st result)))))"

definition prepare_job_for_processing :: "('s, 'c, 'd, 'r, 'p) backend \<Rightarrow> JobToken \<Rightarrow> u64 \<Rightarrow> u64 \<Rightarrow>
    WorkerOpts \<Rightarrow> JobState \<Rightarrow> (('s, 'r, 'p) World, ('c, 'd, 'r, 'p) Job) kio" where
  "prepare_job_for_processing S tok i t wopts prev_state =
    kbind (Store.set_lock S (CollectionSuffix.Lock i) (Some tok) (lock_duration wopts)) (\<lambda>_.
    kbind (move_job_to_state S i prev_state JobState.Active None None None) (\<lambda>_.
    kbind (Store.set_fields S i [JobField.Token tok, ProcessedOn t]) (\<lambda>_.
    kbind (klift (Store.get_job S i)) (\<lambda>j.
    kok_or j (KioError.JobError JobNotFound)))))"

definition move_job_from_priorty_to_active ::
  "('s, 'c, 'd, 'r, 'p) backend \<Rightarrow> (('s, 'r, 'p) World, u64 option) kio" where
  "move_job_from_priorty_to_active S =
    kbind (Store.pop_set S CollectionSuffix.Prioritized True) (\<lambda>min_priority_job.
    if min_priority_job = [] then
      kbind (Store.remove S PriorityCounter) (\<lambda>_. kret None)
    else
      (let i = fst (last min_priority_job) in
       kbind (Store.add_item S CollectionSuffix.Active i None True) (\<lambda>_. kret (Some i))))"

definition move_to_active :: "('s, 'c, 'd, 'r, 'p) backend \<Rightarrow> JobToken \<Rightarrow> WorkerOpts \<Rightarrow>
    (('s, 'r, 'p) World, ('c, 'd, 'r, 'p) MoveToActiveResult) kio" where
  "move_to_active S tok wopts =
    kbind (kget (\<lambda>w. timestamp_micros (wall w))) (\<lambda>t.
    kbind (klift (Store.pop_back_push_front S CollectionSuffix.Wait CollectionSuffix.Active)) (\<lambda>popped.
    let prepare = (\<lambda>i.
      kbind (klift (Store.get_state S i)) (\<lambda>prev_state.
      prepare_job_for_processing S tok i t wopts (unwrap_or JobState.Wait prev_state))) in
    case popped of
      Some i \<Rightarrow> kbind (prepare i) (\<lambda>j. kret (ProcessJob j))
    | None \<Rightarrow>
        kbind (move_job_from_priorty_to_active S) (\<lambda>prioritized_id.
        case prioritized_id of
          Some i \<Rightarrow> kbind (prepare i) (\<lambda>j. kret (ProcessJob j))
        | None \<Rightarrow> kret (DelayUntil (1 div 0x1000)))))"

definition move_job_to_finished_or_failed :: "('s, 'c, 'd, 'r, 'p) backend \<Rightarrow> u64 \<Rightarrow> i64 \<Rightarrow> JobToken \<Rightarrow>
    JobState \<Rightarrow> 'r ProcessedResult \<Rightarrow> Trace option \<Rightarrow> (('s, 'r, 'p) World, ('c, 'd, 'r, 'p) Job) kio" where
  "move_job_to_finished_or_failed S i t tok to_st processed trace =
    kbind (klift (Store.get_state S i)) (\<lambda>prev_state.
    kbind (move_job_to_state S i (unwrap_or JobState.Wait prev_state) to_st (Some processed) (Some t) trace) (\<lambda>_.
    kbind (klift (Store.get_job S i)) (\<lambda>j. kok_or j (KioError.JobError JobNotFound))))"

definition pause_or_resume :: "('s, 'c, 'd, 'r, 'p) backend \<Rightarrow> (('s, 'r, 'p) World, unit) kio" where
  "pause_or_resume S =
    kbind (get_metrics S) (\<lambda>m.
    let do_pause = \<not> QueueMetrics.is_paused m in
    kbind (kget (\<lambda>w. (event_mode w, wall w))) (\<lambda>(mode, now).
    kbind (Store.pause S do_pause mode) (\<lambda>_.
    kbind (kmod (\<lambda>w. w\<lparr>paused_cell := do_pause\<rparr>)) (\<lambda>_.
    Store.publish_event S mode ((default_event now)
      \<lparr>event := (if do_pause then JobState.Paused else JobState.Resumed)\<rparr>)))))"

section \<open>Locks and stalled jobs\<close>

definition extend_lock :: "('s, 'c, 'd, 'r, 'p) backend \<Rightarrow> u64 \<Rightarrow> u64 \<Rightarrow> JobToken \<Rightarrow>
    (('s, 'r, 'p) World, bool) kio" where
  "extend_lock S i ms tok =
    kbind (klift (Store.get_token S i)) (\<lambda>previous.
    if previous = Some tok then
      kbind (Store.set_lock S (CollectionSuffix.Lock i) (Some tok) ms) (\<lambda>_.
      kbind (Store.remove_item S CollectionSuffix.Stalled i) (\<lambda>_. kret True))
    else kret False)"

definition get_target_list :: "('s, 'r, 'p) World \<Rightarrow> bool \<times> JobState" where
  "get_target_list w = (if is_paused w then (True, JobState.Paused) else (False, JobState.Wait))"

text \<open>The two loops of \<open>make_stalled_jobs_wait\<close>, with the lists they fill.\<close>

fun recover_stalled :: "('s, 'c, 'd, 'r, 'p) backend \<Rightarrow> WorkerOpts \<Rightarrow> JobState \<Rightarrow> u64 list \<Rightarrow>
    u64 list \<times> u64 list \<Rightarrow> (('s, 'r, 'p) World, u64 list \<times> u64 list) kio" where
  "recover_stalled S wopts target [] acc = kret acc"
| "recover_stalled S wopts target (i # ids) (failed_ids, stall_ids) =
    kbind (Store.exists_in S (CollectionSuffix.Lock i) i) (\<lambda>lock_exists.
    kbind
      (if lock_exists then
         kbind (Store.incr S (CollectionSuffix.Job i) 1 (Some ''stalledCounter'')) (\<lambda>stalled_count.
         kbind (klift (Store.get_counter S (CollectionSuffix.Job i) (Some ''attempts_made''))) (\<lambda>made.
         kbind (klift (Store.get_state S i)) (\<lambda>from_st.
         if stalled_count > max_stalled_count wopts then
           kbind (move_job_to_state S i (unwrap_or JobState.Wait from_st) JobState.Failed
               (Some (ProcessedResult.Failed \<lparr>run = unwrap_or 0 made + 1,
                  reason = ''job stalled more than allowable limit''\<rparr>)) None None)
             (\<lambda>_. kret (failed_ids @ [i], stall_ids))
         else
           kbind (move_job_to_state S i JobState.Active target None None None)
             (\<lambda>_. kret (failed_ids, stall_ids @ [i])))))
       else kret (failed_ids, stall_ids)) (\<lambda>acc.
    recover_stalled S wopts target ids acc))"

definition mark_stalled :: "('s, 'c, 'd, 'r, 'p) backend \<Rightarrow> u64 \<Rightarrow> (('s, 'r, 'p) World, unit) kio" where
  "mark_stalled S i =
    kbind (Store.exists_in S (CollectionSuffix.Lock i) i) (\<lambda>locked.
    kwhen (\<not> locked)
      (kbind (Store.add_item S CollectionSuffix.Stalled i None True) (\<lambda>_.
       Store.remove_item S CollectionSuffix.Active i)))"

definition make_stalled_jobs_wait :: "('s, 'c, 'd, 'r, 'p) backend \<Rightarrow> WorkerOpts \<Rightarrow>
    (('s, 'r, 'p) World, u64 list \<times> u64 list) kio" where
  "make_stalled_jobs_wait S wopts =
    kbind (kget get_target_list) (\<lambda>(_, target).
    kbind (Store.exists_in S StalledCheck (tag StalledCheck)) (\<lambda>check_key_exists.
    if check_key_exists then kret ([], [])
    else
    kbind (Store.set_lock S StalledCheck None (stalled_interval wopts)) (\<lambda>_.
    kbind (Store.get_job_ids_in_state S JobState.Stalled None None) (\<lambda>stalled_ids.
    if stalled_ids = [] then recover_stalled S wopts target stalled_ids ([], [])
    else
      kbind (Store.get_job_ids_in_state S JobState.Active None None) (\<lambda>active_ids.
      kbind (kfor (mark_stalled S) active_ids) (\<lambda>_. kret ([], [])))))))"

section \<open>Retries and retention\<close>

definition register_backoff_strategy :: "CompactString \<Rightarrow> BackoffFn \<Rightarrow> ('s, 'r, 'p) World \<Rightarrow> ('s, 'r, 'p) World"
  where
  "register_backoff_strategy nm strategy w =
    (if has_strategy (backoff_registry w) nm then w
     else w\<lparr>backoff_registry := register nm strategy (backoff_registry w)\<rparr>)"

definition calculate_next_delay_ms :: "BackOff \<Rightarrow> BackOffJobOptions \<Rightarrow> i64 \<Rightarrow> i64 option" where
  "calculate_next_delay_ms registry job_opts tries =
    (case normalize (Some job_opts) of
       None \<Rightarrow> None
     | Some backoff_opts \<Rightarrow> calculate registry (Some backoff_opts) tries None)"

definition retry_failed :: "'c externals \<Rightarrow> ('s, 'c, 'd, 'r, 'p) backend \<Rightarrow> u64 \<Rightarrow> BackOffJobOptions \<Rightarrow> u64 \<Rightarrow>
    (('s, 'r, 'p) World, unit) kio" where
  "retry_failed ext S i job_opts tries =
    kbind (kget (\<lambda>w. (wall w, backoff_registry w))) (\<lambda>(now, registry).
    case calculate_next_delay_ms registry job_opts tries of
      None \<Rightarrow> kret ()
    | Some next_delay \<Rightarrow>
        kbind (kresult (dt_plus ext now next_delay)) (\<lambda>expected_active_time.
        kbind (Store.add_item S CollectionSuffix.Delayed i
            (Some (timestamp_millis expected_active_time)) False) (\<lambda>_.
        Store.remove_item S CollectionSuffix.Failed i)))"

fun retry_job :: "'c externals \<Rightarrow> ('s, 'c, 'd, 'r, 'p) backend \<Rightarrow> u64 \<Rightarrow> 'c RetryOptions \<Rightarrow> u64 \<Rightarrow>
    (('s, 'r, 'p) World, unit) kio" where
  "retry_job ext S i (RetryOptions.Failed job_opts) tries = retry_failed ext S i job_opts tries"
| "retry_job ext S i (WithRepeat rep) tries =
    kbind (kget (\<lambda>w. (wall w, backoff_registry w))) (\<lambda>(now, registry).
    kbind (kresult (next_occurrence ext now registry tries rep)) (\<lambda>next.
    case next of
      None \<Rightarrow> kret ()
    | Some next_delayed_timestamp \<Rightarrow>
        if next_delayed_timestamp = 0 then Store.add_item S CollectionSuffix.Wait i None True
        else Store.add_item S CollectionSuffix.Delayed i (Some next_delayed_timestamp) True))"

definition keep_at_most :: "('s, 'c, 'd, 'r, 'p) backend \<Rightarrow> u64 \<Rightarrow> i64 \<Rightarrow> (('s, 'r, 'p) World, unit) kio" where
  "keep_at_most S i max_to_keep =
    kwhen (is_positive max_to_keep \<and> sint max_to_keep < sint (i64_try_from_u64 i))
      (Store.remove S (CollectionSuffix.Job i))"

fun clean_up_job :: "('s, 'c, 'd, 'r, 'p) backend \<Rightarrow> u64 \<Rightarrow> RemoveOnCompletionOrFailure option \<Rightarrow>
    (('s, 'r, 'p) World, unit) kio" where
  "clean_up_job S i None = kret ()"
| "clean_up_job S i (Some (Bool remove_immediately)) =
    kwhen remove_immediately (Store.remove S (CollectionSuffix.Job i))"
| "clean_up_job S i (Some (RemoveOnCompletionOrFailure.Int max_to_keep)) = keep_at_most S i max_to_keep"
| "clean_up_job S i (Some (RemoveOnCompletionOrFailure.Opts keep)) =
    kbind (case age keep of
        Some expire_in_secs \<Rightarrow> Store.expire S (CollectionSuffix.Job i) expire_in_secs
      | None \<Rightarrow> kret ()) (\<lambda>_.
    case count keep of Some max_to_keep \<Rightarrow> keep_at_most S i max_to_keep | None \<Rightarrow> kret ())"

section \<open>Workers and events\<close>

definition pause_active_workers :: "('s, 'r, 'p) World \<Rightarrow> ('s, 'r, 'p) World" where
  "pause_active_workers w = w\<lparr>pause_workers := True\<rparr>"

definition resume_workers :: "('s, 'r, 'p) World \<Rightarrow> ('s, 'r, 'p) World" where
  "resume_workers w = resume_helper w"

definition emit :: "JobState \<Rightarrow> ('r, 'p) EventParameters \<Rightarrow> ('s, 'r, 'p) World \<Rightarrow> ('s, 'r, 'p) World" where
  "emit ev param w = w\<lparr>emitted := emitted w @ [(ev, param)]\<rparr>"

definition update_processing_count :: "('s, 'c, 'd, 'r, 'p) backend \<Rightarrow> bool \<Rightarrow> Uuid \<Rightarrow> u64 \<Rightarrow> JobState \<Rightarrow>
    (('s, 'r, 'p) World, u64) kio" where
  "update_processing_count S increment worker i st =
    kbind (Store.incr S Meta (if increment then 1 else - 1) (Some ''processing'')) (\<lambda>_.
    kbind (kget (\<lambda>w. (event_mode w, wall w))) (\<lambda>(mode, now).
    kbind (Store.publish_event S mode ((default_event now)
      \<lparr>QueueStreamEvent.job_id := i, event := JobState.Processing, prev := Some st,
       QueueStreamEvent.worker_id := Some worker\<rparr>)) (\<lambda>_.
    kbind (klift (Store.get_counter S Meta (Some ''processing''))) (\<lambda>current.
    kret (unwrap_or 0 current)))))"

definition delete_all_jobs :: "('s, 'c, 'd, 'r, 'p) backend \<Rightarrow> (('s, 'r, 'p) World, unit) kio" where
  "delete_all_jobs S = kbind (kget (\<lambda>w. last_id (current_metrics w))) (Store.clear_jobs S)"

text \<open>
  The store part of \<^verbatim>\<open>obliterate\<close>; closing the timers and leaving the global registry follow in the
  theory of the timers.
\<close>

definition obliterate_store :: "('s, 'c, 'd, 'r, 'p) backend \<Rightarrow> (('s, 'r, 'p) World, unit) kio" where
  "obliterate_store S =
    kbind (delete_all_jobs S) (\<lambda>_.
    kbind (Store.clear_collections S) (\<lambda>_.
    kbind (kget (\<lambda>w. (event_mode w, last_id (current_metrics w), wall w))) (\<lambda>(mode, i, now).
    kbind (Store.publish_event S mode
      ((default_event now)\<lparr>QueueStreamEvent.job_id := i, event := JobState.Obliterated\<rparr>)) (\<lambda>_.
    kbind (kmod (\<lambda>w. w\<lparr>current_metrics := Options.clear (current_metrics w)\<rparr>)) (\<lambda>_.
    Store.clear_collections S)))))"

end
