(* ===== verification/Timed_Map.thy ===== *)
theory Timed_Map
  imports Skip_Map
begin

text \<open>
  The map with expiring entries of \<^verbatim>\<open>src/src/timers/concurrent_timed_map.rs\<close>. The in-memory store
  keeps jobs, lock tokens and worker metrics in it. Operations that read the clock take the instant
  \<open>now\<close> as an argument. Expired entries are evicted lazily, so what a client sees is the \<open>live\<close>
  part of the map; the locale \<open>expiring_map\<close> states the contract in terms of that view.
\<close>

section \<open>The map\<close>

datatype 'v ExpiryValue =
    Constant 'v
  | Expirable (value_of: 'v) (expires_at: Instant)

fun is_expired :: "Instant \<Rightarrow> 'v ExpiryValue \<Rightarrow> bool" where
  "is_expired now (Constant _) = False"
| "is_expired now (Expirable _ at) = (at \<le> now)"

fun is_expirable :: "'v ExpiryValue \<Rightarrow> bool" where
  "is_expirable (Constant _) = False"
| "is_expirable (Expirable _ _) = True"

fun value_get :: "'v ExpiryValue \<Rightarrow> 'v" where
  "value_get (Constant v) = v"
| "value_get (Expirable v _) = v"

record ('k, 'v) TimedMap =
  inner :: "('k, 'v ExpiryValue) skipmap"
  disable_expiration :: bool

definition new :: "('k, 'v) TimedMap" where
  "new = \<lparr>inner = [], disable_expiration = False\<rparr>"

definition toggle_expiration :: "('k, 'v) TimedMap \<Rightarrow> ('k, 'v) TimedMap" where
  "toggle_expiration m = m\<lparr>disable_expiration := \<not> disable_expiration m\<rparr>"

definition insert_constant :: "'k::linorder \<Rightarrow> 'v \<Rightarrow> ('k, 'v) TimedMap \<Rightarrow> ('k, 'v) TimedMap" where
  "insert_constant key val m = m\<lparr>inner := sm_insert key (Constant val) (inner m)\<rparr>"

definition insert_expirable ::
  "Instant \<Rightarrow> 'k::linorder \<Rightarrow> 'v \<Rightarrow> Duration \<Rightarrow> ('k, 'v) TimedMap \<Rightarrow> ('k, 'v) TimedMap" where
  "insert_expirable now key val timeout m =
    (if disable_expiration m then insert_constant key val m
     else m\<lparr>inner := sm_insert key (Expirable val (now + timeout)) (inner m)\<rparr>)"

definition get :: "Instant \<Rightarrow> 'k \<Rightarrow> ('k, 'v) TimedMap \<Rightarrow> 'v option \<times> ('k, 'v) TimedMap" where
  "get now key m =
    (case sm_get key (inner m) of
       None \<Rightarrow> (None, m)
     | Some found \<Rightarrow>
        if is_expired now found then (None, m\<lparr>inner := sm_remove key (inner m)\<rparr>)
        else (Some (value_get found), m))"

text \<open>
  A client that holds the value behind its mutex writes it in place; the entry and its deadline
  stay.
\<close>

fun value_update :: "('v \<Rightarrow> 'v) \<Rightarrow> 'v ExpiryValue \<Rightarrow> 'v ExpiryValue" where
  "value_update f (Constant v) = Constant (f v)"
| "value_update f (Expirable v at) = Expirable (f v) at"

definition write_through :: "'k \<Rightarrow> ('v \<Rightarrow> 'v) \<Rightarrow> ('k, 'v) TimedMap \<Rightarrow> ('k, 'v) TimedMap" where
  "write_through key f m =
    m\<lparr>inner := map (\<lambda>e. if fst e = key then (fst e, value_update f (snd e)) else e) (inner m)\<rparr>"

definition iter :: "Instant \<Rightarrow> ('k, 'v) TimedMap \<Rightarrow> ('k \<times> 'v) list \<times> ('k, 'v) TimedMap" where
  "iter now m =
    (map (\<lambda>e. (fst e, value_get (snd e))) (filter (\<lambda>e. \<not> is_expired now (snd e)) (inner m)),
     m\<lparr>inner := sm_remove_if (\<lambda>e. is_expired now (snd e)) (inner m)\<rparr>)"

definition is_empty :: "('k, 'v) TimedMap \<Rightarrow> bool" where
  "is_empty m \<longleftrightarrow> inner m = []"

definition contains_key :: "Instant \<Rightarrow> 'k \<Rightarrow> ('k, 'v) TimedMap \<Rightarrow> bool \<times> ('k, 'v) TimedMap" where
  "contains_key now key m =
    (if sm_contains_key key (inner m)
     then (let (found, m') = get now key m in (found \<noteq> None, m'))
     else (False, m))"

definition len_expired :: "('k, 'v) TimedMap \<Rightarrow> nat" where
  "len_expired m = length (filter (\<lambda>e. is_expirable (snd e)) (inner m))"

definition remove :: "'k \<Rightarrow> ('k, 'v) TimedMap \<Rightarrow> ('k, 'v) TimedMap" where
  "remove key m = m\<lparr>inner := sm_remove key (inner m)\<rparr>"

definition update_expiration_status ::
  "Instant \<Rightarrow> 'k::linorder \<Rightarrow> Duration \<Rightarrow> ('k, 'v) TimedMap \<Rightarrow> Instant option \<times> ('k, 'v) TimedMap" where
  "update_expiration_status now key duration m =
    (case sm_get key (inner m) of
       None \<Rightarrow> (None, m)
     | Some (Constant _) \<Rightarrow> (None, m)
     | Some (Expirable value _) \<Rightarrow>
        (let next_instant = now + duration in
         (Some next_instant, m\<lparr>inner := sm_insert key (Expirable value next_instant) (inner m)\<rparr>)))"

definition expires_entries :: "('k, 'v) TimedMap \<Rightarrow> bool" where
  "expires_entries m \<longleftrightarrow> \<not> disable_expiration m"

definition clear :: "('k, 'v) TimedMap \<Rightarrow> ('k, 'v) TimedMap" where
  "clear m = m\<lparr>inner := []\<rparr>"

definition purge_expired :: "Instant \<Rightarrow> ('k, 'v) TimedMap \<Rightarrow> ('k, 'v) TimedMap" where
  "purge_expired now m =
    (if \<not> expires_entries m then m
     else m\<lparr>inner := sm_remove_if (\<lambda>e. is_expired now (snd e)) (inner m)\<rparr>)"

section \<open>The live part\<close>

definition timed_ok :: "('k::linorder, 'v) TimedMap \<Rightarrow> bool" where
  "timed_ok m \<longleftrightarrow> sm_ok (inner m)"

definition live :: "Instant \<Rightarrow> ('k, 'v) TimedMap \<Rightarrow> 'k \<Rightarrow> 'v option" where
  "live now m key =
    (case sm_get key (inner m) of
       None \<Rightarrow> None
     | Some found \<Rightarrow> if is_expired now found then None else Some (value_get found))"

lemma sm_get_remove_if:
  assumes "sm_ok m"
  shows "sm_get k (sm_remove_if (\<lambda>e. p (snd e)) m) =
    (case sm_get k m of None \<Rightarrow> None | Some v \<Rightarrow> if p v then None else Some v)"
  using assms
proof (induction m)
  case (Cons e m)
  have "sm_get k m = None" if "fst e = k"
    using Cons.prems that by (auto simp: sm_get_def sm_ok_Cons map_of_eq_None_iff)
  with Cons show ?case
    by (cases e) (auto simp: sm_get_def sm_remove_if_def sm_ok_Cons split: option.split)
qed (simp add: sm_remove_if_def)

lemma sm_get_map_values:
  "sm_get k (map (\<lambda>e. if fst e = key then (fst e, f (snd e)) else e) m) =
    (if k = key then map_option f (sm_get k m) else sm_get k m)"
  by (induction m) (auto simp: sm_get_def)

lemma sm_ok_map_values:
  "sm_ok (map (\<lambda>e. if fst e = key then (fst e, f (snd e)) else e) m) = sm_ok m"
proof -
  have "map fst (map (\<lambda>e. if fst e = key then (fst e, f (snd e)) else e) m) = map fst m"
    by simp
  then show ?thesis unfolding sm_ok_def by (rule arg_cong)
qed

lemma timed_ok_ops [simp]:
  "timed_ok new"
  "timed_ok m \<Longrightarrow> timed_ok (toggle_expiration m)"
  "timed_ok m \<Longrightarrow> timed_ok (insert_constant k v m)"
  "timed_ok m \<Longrightarrow> timed_ok (insert_expirable now k v ttl m)"
  "timed_ok m \<Longrightarrow> timed_ok (snd (get now k m))"
  "timed_ok m \<Longrightarrow> timed_ok (write_through k f m)"
  "timed_ok m \<Longrightarrow> timed_ok (snd (iter now m))"
  "timed_ok m \<Longrightarrow> timed_ok (snd (contains_key now k m))"
  "timed_ok m \<Longrightarrow> timed_ok (remove k m)"
  "timed_ok m \<Longrightarrow> timed_ok (snd (update_expiration_status now k ttl m))"
  "timed_ok m \<Longrightarrow> timed_ok (clear m)"
  "timed_ok m \<Longrightarrow> timed_ok (purge_expired now m)"
  by (simp_all add: timed_ok_def new_def toggle_expiration_def insert_constant_def
      insert_expirable_def get_def write_through_def iter_def contains_key_def remove_def
      update_expiration_status_def clear_def purge_expired_def sm_ok_map_values Let_def split_beta
      split: option.split ExpiryValue.split)

lemma is_expired_mono: "is_expired now x \<Longrightarrow> now \<le> now' \<Longrightarrow> is_expired now' x"
  by (cases x) auto

lemma live_new [simp]: "live now new k = None"
  by (simp add: live_def new_def)

lemma live_insert_constant [simp]:
  "live now (insert_constant k v m) k' = (if k' = k then Some v else live now m k')"
  by (simp add: live_def insert_constant_def sm_get_insert)

lemma live_insert_expirable:
  "live now' (insert_expirable now k v ttl m) k' =
    (if k' = k then (if disable_expiration m \<or> now' < now + ttl then Some v else None)
     else live now' m k')"
  by (auto simp: live_def insert_expirable_def insert_constant_def sm_get_insert)

lemma get_live: "fst (get now k m) = live now m k"
  by (simp add: get_def live_def split: option.split)

lemma live_get [simp]: "now \<le> now' \<Longrightarrow> live now' (snd (get now k m)) k' = live now' m k'"
  by (auto simp: get_def live_def sm_get_remove is_expired_mono split: option.split)

lemma contains_key_live: "fst (contains_key now k m) \<longleftrightarrow> live now m k \<noteq> None"
  by (auto simp: contains_key_def get_def live_def sm_contains_key_def split_beta Let_def
      split: option.split)

lemma live_contains_key [simp]: "now \<le> now' \<Longrightarrow> live now' (snd (contains_key now k m)) = live now' m"
  by (rule ext) (simp add: contains_key_def split_beta Let_def)

lemma live_remove_expired:
  assumes "timed_ok m" and "now \<le> now'"
  shows "live now' (m\<lparr>inner := sm_remove_if (\<lambda>e. is_expired now (snd e)) (inner m)\<rparr>) k = live now' m k"
  using assms is_expired_mono [OF _ assms(2)]
  by (auto simp: live_def sm_get_remove_if timed_ok_def split: option.split)

lemma live_iter [simp]: "timed_ok m \<Longrightarrow> now \<le> now' \<Longrightarrow> live now' (snd (iter now m)) k = live now' m k"
  using live_remove_expired [of m now now' k] by (simp add: iter_def)

lemma live_purge [simp]:
  "timed_ok m \<Longrightarrow> now \<le> now' \<Longrightarrow> live now' (purge_expired now m) k = live now' m k"
  using live_remove_expired [of m now now' k] by (simp add: purge_expired_def)

lemma iter_live:
  assumes "timed_ok m"
  shows "(k, v) \<in> set (fst (iter now m)) \<longleftrightarrow> live now m k = Some v"
proof -
  have "(k, v) \<in> set (fst (iter now m)) \<longleftrightarrow>
      (\<exists>x. (k, x) \<in> set (inner m) \<and> \<not> is_expired now x \<and> value_get x = v)"
    by (auto simp: iter_def image_iff)
  also have "\<dots> \<longleftrightarrow> (\<exists>x. sm_get k (inner m) = Some x \<and> \<not> is_expired now x \<and> value_get x = v)"
    using assms by (simp add: timed_ok_def sm_get_in)
  finally show ?thesis by (auto simp: live_def split: option.split)
qed

lemma live_remove [simp]: "live now (remove k m) k' = (if k' = k then None else live now m k')"
  by (simp add: live_def remove_def sm_get_remove)

lemma live_clear [simp]: "live now (clear m) k = None"
  by (simp add: live_def clear_def)

lemma live_toggle [simp]: "live now (toggle_expiration m) = live now m"
  by (rule ext) (simp add: live_def toggle_expiration_def)

lemma value_update_simps [simp]:
  "is_expired now (value_update f x) = is_expired now x" "value_get (value_update f x) = f (value_get x)"
  by (cases x; simp)+

lemma live_write_through [simp]:
  "live now (write_through k f m) k' =
    (if k' = k then map_option f (live now m k') else live now m k')"
  by (simp add: live_def write_through_def sm_get_map_values split: option.split)

text \<open>Time only takes entries away.\<close>

lemma live_mono: "now \<le> now' \<Longrightarrow> live now' m k = Some v \<Longrightarrow> live now m k = Some v"
  by (auto simp: live_def split: option.splits if_splits dest: is_expired_mono)

section \<open>The contract of an expiring map\<close>

text \<open>
  What the store relies on: reads return the live value, inserting makes a value live until its
  deadline, and the calls that evict (\<open>sweeps\<close>) do not change what is live from then on.
\<close>

datatype 'k sweep = SweepGet 'k | SweepContains 'k | SweepIter | SweepPurge

locale expiring_map =
  fixes ok :: "'m \<Rightarrow> bool"
    and view :: "Instant \<Rightarrow> 'm \<Rightarrow> 'k \<Rightarrow> 'v option"
    and enabled :: "'m \<Rightarrow> bool"
    and put :: "'k \<Rightarrow> 'v \<Rightarrow> 'm \<Rightarrow> 'm"
    and put_ttl :: "Instant \<Rightarrow> 'k \<Rightarrow> 'v \<Rightarrow> Duration \<Rightarrow> 'm \<Rightarrow> 'm"
    and lookup :: "Instant \<Rightarrow> 'k \<Rightarrow> 'm \<Rightarrow> 'v option \<times> 'm"
    and drop_key :: "'k \<Rightarrow> 'm \<Rightarrow> 'm"
    and sweep :: "Instant \<Rightarrow> 'k sweep \<Rightarrow> 'm \<Rightarrow> 'm"
  assumes put_ok: "ok m \<Longrightarrow> ok (put k v m)"
    and put_ttl_ok: "ok m \<Longrightarrow> ok (put_ttl now k v ttl m)"
    and drop_ok: "ok m \<Longrightarrow> ok (drop_key k m)"
    and sweep_ok: "ok m \<Longrightarrow> ok (sweep now c m)"
    and lookup_view: "ok m \<Longrightarrow> fst (lookup now k m) = view now m k"
    and put_view: "ok m \<Longrightarrow> view now (put k v m) k' = (if k' = k then Some v else view now m k')"
    and put_ttl_view: "ok m \<Longrightarrow> view now' (put_ttl now k v ttl m) k' =
      (if k' = k then (if enabled m \<longrightarrow> now' < now + ttl then Some v else None) else view now' m k')"
    and drop_view: "ok m \<Longrightarrow> view now (drop_key k m) k' = (if k' = k then None else view now m k')"
    and sweep_view: "ok m \<Longrightarrow> now \<le> now' \<Longrightarrow> view now' (sweep now c m) k = view now' m k"
begin

definition sweeps :: "(Instant \<times> 'k sweep) list \<Rightarrow> 'm \<Rightarrow> 'm" where
  "sweeps cs m = fold (\<lambda>(at, c). sweep at c) cs m"

lemma sweeps_view:
  assumes "ok m" and "\<forall>(at, c) \<in> set cs. at \<le> now"
  shows "ok (sweeps cs m) \<and> view now (sweeps cs m) k = view now m k"
  using assms
proof (induction cs arbitrary: m)
  case (Cons c cs)
  then show ?case by (cases c) (simp add: sweeps_def sweep_ok sweep_view)
qed (simp add: sweeps_def)

text \<open>A value inserted with a deadline is returned exactly until the deadline.\<close>

theorem lookup_after_put_ttl:
  assumes "ok m" and "enabled m" and "\<forall>(at, c) \<in> set cs. at \<le> now'"
  shows "fst (lookup now' k (sweeps cs (put_ttl now k v ttl m))) =
    (if now' < now + ttl then Some v else None)"
  using sweeps_view [of "put_ttl now k v ttl m" cs now' k] assms
  by (simp add: lookup_view put_ttl_ok put_ttl_view)

theorem lookup_after_put:
  assumes "ok m" and "\<forall>(at, c) \<in> set cs. at \<le> now'"
  shows "fst (lookup now' k (sweeps cs (put k v m))) = Some v"
  using sweeps_view [of "put k v m" cs now' k] assms by (simp add: lookup_view put_ok put_view)

end

fun timed_sweep :: "Instant \<Rightarrow> 'k::linorder sweep \<Rightarrow> ('k, 'v) TimedMap \<Rightarrow> ('k, 'v) TimedMap" where
  "timed_sweep now (SweepGet k) m = snd (get now k m)"
| "timed_sweep now (SweepContains k) m = snd (contains_key now k m)"
| "timed_sweep now SweepIter m = snd (iter now m)"
| "timed_sweep now SweepPurge m = purge_expired now m"

lemma timed_sweep_laws:
  "timed_ok m \<Longrightarrow> timed_ok (timed_sweep now c m)"
  "timed_ok m \<Longrightarrow> now \<le> now' \<Longrightarrow> live now' (timed_sweep now c m) k = live now' m k"
  by (cases c; simp)+

interpretation timed: expiring_map timed_ok live expires_entries insert_constant insert_expirable
  get remove timed_sweep
  by unfold_locales
    (simp_all add: get_live live_insert_expirable timed_sweep_laws expires_entries_def)

section \<open>Properties\<close>

text \<open>
  C23. An entry inserted with a time to live into a map that expires entries is returned by \<^verbatim>\<open>get\<close>
  exactly until its deadline, whatever reads, scans and purges run in between; the deadline itself
  already counts as expired.
\<close>

theorem get_until_deadline:
  assumes "timed_ok m" and "expires_entries m" and "\<forall>(at, c) \<in> set cs. at \<le> now'"
  shows "fst (get now' k (fold (\<lambda>(at, c). timed_sweep at c) cs (insert_expirable now k v ttl m))) =
    (if now' < now + ttl then Some v else None)"
  using timed.lookup_after_put_ttl [OF assms] unfolding timed.sweeps_def .

theorem get_until_deadline_witness:
  "fst (get 40 (7::nat) (fold (\<lambda>(at, c). timed_sweep at c) [(20, SweepIter), (30, SweepPurge)]
      (insert_expirable 10 7 (1::nat) 50 new))) = Some 1 \<and>
   fst (get 60 (7::nat) (fold (\<lambda>(at, c). timed_sweep at c) [(20, SweepIter), (60, SweepGet 7)]
      (insert_expirable 10 7 (1::nat) 50 new))) = None"
  using get_until_deadline [of "new :: (nat, nat) TimedMap" "[(20, SweepIter), (30, SweepPurge)]" 40 7 10 1 50]
    get_until_deadline [of "new :: (nat, nat) TimedMap" "[(20, SweepIter), (60, SweepGet 7)]" 60 7 10 1 50]
  by (simp add: expires_entries_def new_def timed_ok_def)

text \<open>
  \<^verbatim>\<open>update_expiration_status\<close> moves the deadline of an expirable entry to \<open>duration\<close> from now and
  leaves everything else as it is; on an entry without a deadline it returns nothing and changes
  nothing, so no deadline can be given to an entry that was inserted without one.
\<close>

theorem update_expiration_status_spec:
  "(\<forall>v. sm_get k (inner m) = Some (Constant v) \<longrightarrow> update_expiration_status now k d m = (None, m)) \<and>
    (sm_get k (inner m) = None \<longrightarrow> update_expiration_status now k d m = (None, m)) \<and>
    (\<forall>v at. sm_get k (inner m) = Some (Expirable v at) \<longrightarrow>
      fst (update_expiration_status now k d m) = Some (now + d) \<and>
      (\<forall>now' k'. live now' (snd (update_expiration_status now k d m)) k' =
        (if k' = k then (if now' < now + d then Some v else None) else live now' m k')))"
  by (auto simp: update_expiration_status_def Let_def live_def sm_get_insert)

theorem update_expiration_status_spec_witness:
  "update_expiration_status 5 (1::nat) 10 (insert_constant 1 (3::nat) new) = (None, insert_constant 1 3 new)"
  using update_expiration_status_spec [of 1 "insert_constant 1 3 new :: (nat, nat) TimedMap" 5 10]
  by (simp add: insert_constant_def sm_get_insert)

text \<open>
  Switching expiration off does not keep entries that already have a deadline: \<^verbatim>\<open>get\<close> evicts an
  expired entry in either mode, although \<^verbatim>\<open>purge_expired\<close> then leaves it alone.
\<close>

theorem disabled_map_still_evicts:
  assumes "expires_entries m" and "now + ttl \<le> now'"
    and "m' = toggle_expiration (insert_expirable now k v ttl m)"
  shows "\<not> expires_entries m' \<and> purge_expired now' m' = m' \<and> sm_contains_key k (inner m') \<and>
    fst (get now' k m') = None \<and> \<not> sm_contains_key k (inner (snd (get now' k m')))"
  using assms
  by (simp add: expires_entries_def insert_expirable_def toggle_expiration_def purge_expired_def
      get_def sm_get_insert sm_get_remove sm_contains_key_def)

theorem disabled_map_still_evicts_witness:
  "fst (get 9 (1::nat) (toggle_expiration (insert_expirable 0 1 (2::nat) 5 new))) = None"
  using disabled_map_still_evicts [of "new :: (nat, nat) TimedMap" 0 5 9 _ 1 2]
  by (simp add: expires_entries_def new_def)

end
