(* ===== verification/Coordinator.thy ===== *)
theory Coordinator
  imports Timed_Map Store_Trait
begin

text \<open>
  The process-wide coordinator of timers and workers: \<^verbatim>\<open>TimerType\<close> of
  \<^verbatim>\<open>src/src/timers/delay_queue_timer.rs\<close> and \<^verbatim>\<open>ProcessMetricsCollector\<close> of
  \<^verbatim>\<open>src/src/metrics/process_metrics.rs\<close>. One task owns the \<^verbatim>\<open>DelayQueue\<close> and answers requests and
  expiries; the registries are shared with the queues.

  The \<^verbatim>\<open>DelayQueue\<close> of \<^verbatim>\<open>tokio_util\<close> is the list of entries that were inserted and have not come out, each
  with its deadline. Which entry comes out next is not fixed: any one whose deadline has passed may.
  The state cell and the task tracker of a worker are addressed by the worker's id, so an entry of the
  registry keeps the other two components. The channel of a queue is the list of commands that were
  sent and not yet handled.
\<close>

section \<open>Timers\<close>

datatype TimerType =
    StalledCheck Duration
  | ExtendLock Duration
  | PromotedDelayed u64 Uuid
  | CollectMetrics Duration
  | ReregisterWorker

definition WORKER_STATE_TTL :: u64 where
  "WORKER_STATE_TTL = 100000"

definition PROCESS_METRIC_UPDATE_INTERVAL :: u64 where
  "PROCESS_METRIC_UPDATE_INTERVAL = 300"

fun next_duration :: "TimerType \<Rightarrow> Duration" where
  "next_duration (StalledCheck duration) = duration"
| "next_duration (ExtendLock duration) = duration"
| "next_duration (CollectMetrics duration) = duration"
| "next_duration (PromotedDelayed _ _) = from_millis MIN_DELAY_MS_LIMIT"
| "next_duration ReregisterWorker = from_millis WORKER_STATE_TTL"

datatype TimerCommand = RespondToTimer TimerType

section \<open>The collector\<close>

record WorkerEntry =
  entry_opts :: WorkerOpts
  created_at :: Dt

text \<open>The key of the scheduled entry, which the source stores beside the queues, is never read.\<close>

record TimerData =
  queues :: "(Uuid, unit) skipmap"

record Collector =
  workers :: "(Uuid, WorkerEntry) TimedMap"
  queues :: "(Uuid, unit) skipmap"
  global_timers :: "(Duration, TimerData) skipmap"
  delayed_queue :: "(Instant \<times> Duration \<times> TimerType) list"
  commands :: "Uuid \<Rightarrow> TimerCommand list"

definition collector_new :: Collector where
  "collector_new = \<lparr>workers = Timed_Map.new, queues = [], global_timers = [], delayed_queue = [],
     commands = (\<lambda>_. [])\<rparr>"

definition register_queue :: "Uuid \<Rightarrow> Collector \<Rightarrow> Collector" where
  "register_queue q c =
    (if sm_contains_key q (Collector.queues c) then c
     else c\<lparr>Collector.queues := sm_insert q () (Collector.queues c)\<rparr>)"

definition from_secs :: "u64 \<Rightarrow> Duration" where
  "from_secs s = uint s * 1000000000"

definition register_worker :: "Instant \<Rightarrow> Uuid \<Rightarrow> WorkerEntry \<Rightarrow> Collector \<Rightarrow> Collector" where
  "register_worker now w entry c =
    (let (found, m) = Timed_Map.contains_key now w (workers c) in
     if found then c\<lparr>workers := m\<rparr>
     else c\<lparr>workers := insert_expirable now w entry (from_secs WORKER_STATE_TTL) m\<rparr>)"

definition timer_exists :: "TimerType \<Rightarrow> Uuid \<Rightarrow> Collector \<Rightarrow> bool" where
  "timer_exists timer q c =
    (case sm_get (next_duration timer) (global_timers c) of
       Some existing_timer \<Rightarrow> sm_contains_key q (TimerData.queues existing_timer)
     | None \<Rightarrow> False)"

definition unregister_worker :: "Uuid \<Rightarrow> Collector \<Rightarrow> Collector" where
  "unregister_worker w c = c\<lparr>workers := Timed_Map.remove w (workers c)\<rparr>"

definition unregister_queue :: "Uuid \<Rightarrow> Collector \<Rightarrow> Collector" where
  "unregister_queue q c =
    c\<lparr>Collector.queues := sm_remove q (Collector.queues c),
      global_timers := map (\<lambda>(d, v). (d, v\<lparr>TimerData.queues := sm_remove q (TimerData.queues v)\<rparr>)) (global_timers c)\<rparr>"

text \<open>
  The two branches of the coordinator's \<^verbatim>\<open>select\<close> that answer a request and an expiry.
\<close>

definition on_request :: "Instant \<Rightarrow> Uuid \<Rightarrow> TimerType \<Rightarrow> Collector \<Rightarrow> Collector" where
  "on_request now q timer c =
    (let duration = next_duration timer;
         value = (case sm_get duration (global_timers c) of
             Some v \<Rightarrow> v
           | None \<Rightarrow> \<lparr>TimerData.queues = []\<rparr>)
     in c\<lparr>global_timers := sm_insert duration
            (value\<lparr>TimerData.queues := sm_insert q () (TimerData.queues value)\<rparr>) (global_timers c),
          delayed_queue := delayed_queue c @ [(now + duration, duration, timer)]\<rparr>)"

definition send_command :: "TimerCommand \<Rightarrow> Uuid \<Rightarrow> Collector \<Rightarrow> Collector" where
  "send_command cmd q c =
    (if sm_contains_key q (Collector.queues c) then c\<lparr>commands := (commands c)(q := commands c q @ [cmd])\<rparr> else c)"

definition on_expired :: "Instant \<times> Duration \<times> TimerType \<Rightarrow> Collector \<Rightarrow> Collector" where
  "on_expired expired c =
    (let (deadline, duration, timer) = expired;
         c1 = c\<lparr>delayed_queue := remove1 expired (delayed_queue c)\<rparr>
     in case sm_get duration (global_timers c) of
          None \<Rightarrow> c1
        | Some v \<Rightarrow>
           (let targets = (case timer of
                  PromotedDelayed _ q \<Rightarrow> sm_insert q () (TimerData.queues v)
                | _ \<Rightarrow> TimerData.queues v)
            in fold (send_command (RespondToTimer timer)) (map fst targets)
                 (c1\<lparr>global_timers := sm_remove duration (global_timers c)\<rparr>)))"

text \<open>
  A sample of the process: the registry drops its expired workers and lists the others with the values
  of their cells.
\<close>

definition sample_workers :: "Instant \<Rightarrow> Dt \<Rightarrow> (Uuid \<Rightarrow> WorkerState \<times> nat) \<Rightarrow> Collector \<Rightarrow>
    WorkerMeta list \<times> Collector" where
  "sample_workers now wall_now cells c =
    (let (entries, m) = Timed_Map.iter now (Timed_Map.purge_expired now (workers c)) in
     (map (\<lambda>(w, e). worker_meta_new wall_now w (created_at e) (fst (cells w)) (entry_opts e) (snd (cells w))) entries,
      c\<lparr>workers := m\<rparr>))"

section \<open>What can happen to the coordinator\<close>

text \<open>A queue takes the next command out of its channel.\<close>

definition take_command :: "Uuid \<Rightarrow> Collector \<Rightarrow> TimerCommand option \<times> Collector" where
  "take_command q c =
    (case commands c q of
       [] \<Rightarrow> (None, c)
     | cmd # cmds \<Rightarrow> (Some cmd, c\<lparr>commands := (commands c)(q := cmds)\<rparr>))"

inductive coordinator_step :: "Instant \<times> Collector \<Rightarrow> Instant \<times> Collector \<Rightarrow> bool" where
  tick: "now \<le> now' \<Longrightarrow> coordinator_step (now, c) (now', c)"
| request: "coordinator_step (now, c) (now, on_request now q timer c)"
| expire: "(deadline, duration, timer) \<in> set (delayed_queue c) \<Longrightarrow> deadline \<le> now \<Longrightarrow>
    coordinator_step (now, c) (now, on_expired (deadline, duration, timer) c)"
| join: "coordinator_step (now, c) (now, register_queue q c)"
| leave: "coordinator_step (now, c) (now, unregister_queue q c)"
| worker_joins: "coordinator_step (now, c) (now, register_worker now w entry c)"
| worker_leaves: "coordinator_step (now, c) (now, unregister_worker w c)"
| handle: "coordinator_step (now, c) (now, snd (take_command q c))"
| sample: "coordinator_step (now, c) (now, snd (sample_workers now wall_now cells c))"

section \<open>The invariant of the timer table\<close>

text \<open>
  Every queue that the table lists under a duration waits for an entry of that duration, at most that
  long from now.
\<close>

definition pending :: "Instant \<Rightarrow> Duration \<Rightarrow> (Instant \<times> Duration \<times> TimerType) list \<Rightarrow> bool" where
  "pending now d es \<longleftrightarrow> (\<exists>deadline timer. (deadline, d, timer) \<in> set es \<and> deadline \<le> now + d)"

definition timers_inv :: "Instant \<Rightarrow> Collector \<Rightarrow> bool" where
  "timers_inv now c \<longleftrightarrow> sm_ok (global_timers c) \<and> sm_ok (Collector.queues c) \<and>
    (\<forall>d v. (d, v) \<in> set (global_timers c) \<longrightarrow> sm_ok (TimerData.queues v) \<and>
      (TimerData.queues v \<noteq> [] \<longrightarrow> pending now d (delayed_queue c)))"

lemma pending_append [simp]: "pending now d es \<Longrightarrow> pending now d (es @ fs)"
  by (auto simp: pending_def)

lemma pending_new [simp]: "pending now d (es @ [(now + d, d, timer)])"
  by (auto simp: pending_def)

lemma pending_later: "pending now d es \<Longrightarrow> now \<le> now' \<Longrightarrow> pending now' d es"
  by (fastforce simp: pending_def)

lemma pending_remove1: "d \<noteq> d' \<Longrightarrow> pending now d (remove1 (dl, d', timer) es) = pending now d es"
  by (auto simp: pending_def in_set_remove1)

lemma send_command_fields [simp]:
  "global_timers (fold (send_command cmd) qs c) = global_timers c"
  "delayed_queue (fold (send_command cmd) qs c) = delayed_queue c"
  "Collector.queues (fold (send_command cmd) qs c) = Collector.queues c"
  "workers (fold (send_command cmd) qs c) = workers c"
  by (induction qs arbitrary: c) (simp_all add: send_command_def)

lemma send_commands:
  "distinct qs \<Longrightarrow> commands (fold (send_command cmd) qs c) q =
    (if q \<in> set qs \<and> sm_contains_key q (Collector.queues c) then commands c q @ [cmd] else commands c q)"
  by (induction qs arbitrary: c) (auto simp: send_command_def)

lemma timers_inv_request: "timers_inv now c \<Longrightarrow> timers_inv now (on_request now q timer c)"
  by (auto simp: timers_inv_def on_request_def Let_def set_sm_insert sm_get_in split: option.split)

lemma timers_inv_expired:
  assumes "timers_inv now c"
  shows "timers_inv now (on_expired (deadline, d, timer) c)"
proof (cases "sm_get d (global_timers c)")
  case None
  then have "(d, v) \<notin> set (global_timers c)" for v by (force simp: sm_get_def map_of_eq_None_iff)
  then have "d' \<noteq> d" if "(d', v) \<in> set (global_timers c)" for d' v using that by blast
  with assms None show ?thesis by (simp add: timers_inv_def on_expired_def pending_remove1)
next
  case (Some v)
  with assms show ?thesis
    by (auto simp: timers_inv_def on_expired_def Let_def set_sm_remove pending_remove1)
qed

lemma sm_ok_same_keys: "map fst m = map fst n \<Longrightarrow> sm_ok m = sm_ok n"
  by (metis sm_ok_def sorted_wrt_map)

lemma sm_remove_Nil: "sm_remove q m \<noteq> [] \<Longrightarrow> m \<noteq> []"
  by (auto simp: sm_remove_def)

lemma timers_inv_unregister:
  assumes "timers_inv now c"
  shows "timers_inv now (unregister_queue q c)"
proof -
  let ?m = "global_timers (unregister_queue q c)"
  have "sm_ok ?m = sm_ok (global_timers c)"
    by (rule sm_ok_same_keys) (simp add: unregister_queue_def comp_def case_prod_unfold)
  with assms show ?thesis
    unfolding timers_inv_def by (auto simp: unregister_queue_def dest!: sm_remove_Nil)
qed

lemma timers_inv_frame [simp]:
  "timers_inv now (c\<lparr>workers := m\<rparr>) = timers_inv now c"
  "timers_inv now (c\<lparr>commands := f\<rparr>) = timers_inv now c"
  "timers_inv now c \<Longrightarrow> timers_inv now (c\<lparr>Collector.queues := sm_insert q () (Collector.queues c)\<rparr>)"
  by (auto simp: timers_inv_def)

lemma timers_inv_step:
  assumes "coordinator_step s s'" and "timers_inv (fst s) (snd s)"
  shows "timers_inv (fst s') (snd s')"
  using assms
proof (induction rule: coordinator_step.induct)
  case (tick now now' c)
  then show ?case by (fastforce simp: timers_inv_def intro: pending_later)
qed (auto simp: timers_inv_request timers_inv_expired timers_inv_unregister register_queue_def register_worker_def
    unregister_worker_def take_command_def sample_workers_def Let_def split: prod.split list.split)

lemma timers_inv_new: "timers_inv now collector_new"
  by (simp add: timers_inv_def collector_new_def)

lemma timers_inv_reachable:
  "coordinator_step\<^sup>*\<^sup>* (now, collector_new) s \<Longrightarrow> timers_inv (fst s) (snd s)"
  by (induction rule: rtranclp_induct) (auto simp: timers_inv_new intro: timers_inv_step)

section \<open>Properties\<close>

text \<open>
  C20. A suppressed timer still comes. In every state the coordinator can reach, when \<^verbatim>\<open>timer_exists\<close>
  says that a queue already has a timer of this duration (so that \<^verbatim>\<open>TimerSender::send\<close> drops the request),
  some entry of that duration is due no later than the dropped one would have been, and when it comes
  out, the queue gets exactly one command and its slot is free again. The command carries the timer of
  that entry, which need not be the one that was dropped.
\<close>

theorem suppressed_timer_fires:
  assumes "coordinator_step\<^sup>*\<^sup>* (start, collector_new) (now, c)"
    and "timer_exists timer q c" and "sm_contains_key q (Collector.queues c)"
  shows "\<exists>deadline timer'. (deadline, next_duration timer, timer') \<in> set (delayed_queue c) \<and>
    deadline \<le> now + next_duration timer \<and>
    commands (on_expired (deadline, next_duration timer, timer') c) q = commands c q @ [RespondToTimer timer'] \<and>
    \<not> timer_exists timer q (on_expired (deadline, next_duration timer, timer') c)"
proof -
  let ?d = "next_duration timer"
  from assms(2) obtain v where v: "sm_get ?d (global_timers c) = Some v" "sm_contains_key q (TimerData.queues v)"
    by (auto simp: timer_exists_def split: option.splits)
  have inv: "timers_inv now c" using timers_inv_reachable [OF assms(1)] by simp
  then have "(?d, v) \<in> set (global_timers c)" using v(1) by (simp add: timers_inv_def sm_get_in)
  moreover have "TimerData.queues v \<noteq> []" using v(2) by (auto simp: sm_contains_key_iff)
  ultimately have ok: "sm_ok (TimerData.queues v)" and "pending now ?d (delayed_queue c)"
    using inv unfolding timers_inv_def by blast+
  then obtain deadline timer' where e: "(deadline, ?d, timer') \<in> set (delayed_queue c)" "deadline \<le> now + ?d"
    by (auto simp: pending_def)
  let ?targets = "case timer' of PromotedDelayed _ q' \<Rightarrow> sm_insert q' () (TimerData.queues v) | _ \<Rightarrow> TimerData.queues v"
  have "sm_ok ?targets" "q \<in> fst ` set ?targets"
    using ok v(2) by (auto simp: sm_contains_key_iff set_sm_insert image_iff split: TimerType.split)
  then have "distinct (map fst ?targets)" "q \<in> set (map fst ?targets)" by (simp_all add: sm_ok_distinct)
  with e v assms(3) show ?thesis
    by (intro exI [of _ deadline] exI [of _ timer'])
      (simp add: on_expired_def send_commands timer_exists_def sm_get_remove)
qed

text \<open>A worker's lock and stalled timers with the same interval: the second request is dropped.\<close>

definition demo_collector :: Collector where
  "demo_collector = on_request 0 7 (ExtendLock 30) (register_queue 7 collector_new)"

theorem suppressed_timer_fires_witness:
  "timer_exists (StalledCheck 30) 7 demo_collector \<and>
    (\<exists>deadline timer'. (deadline, 30, timer') \<in> set (delayed_queue demo_collector) \<and> deadline \<le> 30 \<and>
      commands (on_expired (deadline, 30, timer') demo_collector) 7 = [RespondToTimer timer'])"
proof -
  have "coordinator_step\<^sup>*\<^sup>* (0, collector_new) (0, demo_collector)"
    unfolding demo_collector_def
    by (rule rtranclp_trans [OF r_into_rtranclp r_into_rtranclp]) (rule coordinator_step.intros)+
  moreover have e: "timer_exists (StalledCheck 30) 7 demo_collector"
    by (simp add: demo_collector_def on_request_def register_queue_def collector_new_def timer_exists_def
        sm_get_insert sm_contains_key_iff set_sm_insert)
  moreover have "sm_contains_key 7 (Collector.queues demo_collector)" "commands demo_collector 7 = []"
    by (simp_all add: demo_collector_def on_request_def register_queue_def collector_new_def sm_contains_key_iff
        set_sm_insert)
  ultimately show ?thesis using suppressed_timer_fires [of 0 0 demo_collector "StalledCheck 30" 7] by auto
qed

end
