(* ===== verification/Engine.thy ===== *)
theory Engine
  imports Queues Coordinator
begin

text \<open>
  A queue with the things that run around it: its workers, the jobs in progress, its timer task
  (\<^verbatim>\<open>src/src/timers/delay_queue_timer.rs\<close>), the promotion of delayed jobs (\<^verbatim>\<open>src/src/utils/mod.rs\<close>) and its
  place in the coordinator. The record \<open>Engine\<close> extends the state of the queue and its store by these
  parts; operations of the queue run inside it by \<open>on_world\<close>.
\<close>

section \<open>State\<close>

text \<open>
  Monitors and histograms belong to other crates. What the source asks of them is a parameter: the
  totals of a monitor, a fresh histogram, a recorded value, and the frames of the running backtrace.
\<close>

typedecl TaskMonitor

record runtime =
  monitor_new :: TaskMonitor
  cumulative :: "TaskMonitor \<Rightarrow> TaskStats"
  histogram_new :: Histogram
  histogram_record :: "u64 \<Rightarrow> Histogram \<Rightarrow> Histogram"
  backtrace_frames :: "CompactString list option"

definition HISTOGRAM_MAX_NS :: u64 where
  "HISTOGRAM_MAX_NS = 100000000000"

text \<open>An entry of the map of jobs in progress; the handle is the number of the task, once stored.\<close>

record ('c, 'd, 'r, 'p) JobMeta =
  job :: "('c, 'd, 'r, 'p) Job"
  token :: JobToken
  handle :: "u64 option"
  monitor :: TaskMonitor
  histogram :: Histogram
  opts :: WorkerOpts

text \<open>A spawned \<^verbatim>\<open>process_job\<close> that has not finished, with the loop whose permit it owns.\<close>

record ('c, 'd, 'r, 'p) Task =
  task_job :: "('c, 'd, 'r, 'p) Job"
  task_token :: JobToken
  task_id :: u64
  task_loop :: nat

text \<open>
  A main loop that \<^verbatim>\<open>run\<close> spawned: where it stands and the free permits of its semaphore. The places
  are the points between two accesses to cells that other tasks share. A loop starts by registering
  timers; it has found itself not cancelled (\<open>Checked\<close>); it has set the state to idle (\<open>Parking\<close>) and waits,
  with the number of notifications it has seen (\<open>Parked\<close>); it is about to look for room (\<open>Guard\<close>); it owns a
  permit (\<open>Acquired\<close>); it has found itself not cancelled again and is asking for a job under its token
  (\<open>Fetching\<close>); after a spawn it still has to store the handle of job and task; it drains after a
  cancellation.
\<close>

datatype loop_pc =
    Starting
  | Head
  | Checked
  | Parking
  | Parked nat
  | Guard
  | Acquired
  | Fetching JobToken
  | Store_Handle u64 u64
  | Draining
  | Finished

record main_loop =
  pc :: loop_pc
  permits :: nat

record ('c, 'd, 'r, 'p) Worker =
  created_at :: Dt
  opts :: WorkerOpts
  cancelled :: bool
  state :: WorkerState
  processing_closed :: bool
  processing :: "('c, 'd, 'r, 'p) Task list"
  active_job_count :: u64
  block_until :: u64
  main_loops :: "main_loop list"

record ('s, 'c, 'd, 'r, 'p) Engine =
  world :: "('s, 'r, 'p) World"
  workers :: "(Uuid, WorkerEntry) skipmap"
  jobs_in_progress :: "(u64, ('c, 'd, 'r, 'p) JobMeta) skipmap"
  timers_running :: bool
  cancel_token :: bool
  worker_cells :: "Uuid \<Rightarrow> ('c, 'd, 'r, 'p) Worker"
  collector :: Collector

section \<open>Running operations of the queue\<close>

definition on_world :: "(('s, 'r, 'p) World, 'a) kio \<Rightarrow> (('s, 'c, 'd, 'r, 'p) Engine, 'a) kio" where
  "on_world m e = (case m (world e) of (r, w) \<Rightarrow> (r, e\<lparr>world := w\<rparr>))"

text \<open>A call whose error is dropped; a panic is not caught.\<close>

definition kignore :: "('w, 'a) kio \<Rightarrow> ('w, unit) kio" where
  "kignore m w = (case m w of
      (Inl (Panic msg), w') \<Rightarrow> (Inl (Panic msg), w')
    | (_, w') \<Rightarrow> (Inr (), w'))"

lemma kwp_on_world [simp]:
  "kwp (on_world m) Q e \<longleftrightarrow> kwp m (\<lambda>a w. Q a (e\<lparr>world := w\<rparr>)) (world e)"
  by (auto simp: kwp_def on_world_def split: prod.splits)

lemma kwp_ignore: "kwp m (\<lambda>_. Q ()) w \<Longrightarrow> kwp (kignore m) Q w"
  by (auto simp: kwp_def kignore_def)

lemma on_world_bind: "on_world (kbind m f) = kbind (on_world m) (\<lambda>a. on_world (f a))"
  by (rule ext) (simp add: on_world_def kbind_def split: prod.split sum.split)

lemma on_world_frame [simp]:
  "workers (snd (on_world m e)) = workers e"
  "jobs_in_progress (snd (on_world m e)) = jobs_in_progress e"
  "timers_running (snd (on_world m e)) = timers_running e"
  "cancel_token (snd (on_world m e)) = cancel_token e"
  "worker_cells (snd (on_world m e)) = worker_cells e"
  "collector (snd (on_world m e)) = collector e"
  "world (snd (on_world m e)) = snd (m (world e))"
  by (simp_all add: on_world_def split: prod.split)

section \<open>Registries\<close>

text \<open>The part of \<^verbatim>\<open>Queue::new\<close> that joins the coordinator and starts the timer task.\<close>

definition queue_open :: "('s, 'c, 'd, 'r, 'p) backend \<Rightarrow> Uuid \<Rightarrow> 'c QueueOpts option \<Rightarrow>
    (('s, 'c, 'd, 'r, 'p) Engine, 'c Queue) kio" where
  "queue_open S uuid queue_opts =
    kbind (on_world (queue_new S uuid queue_opts)) (\<lambda>q.
    kbind (kmod (\<lambda>e. e\<lparr>workers := [], jobs_in_progress := [], timers_running := True, cancel_token := False,
        collector := register_queue uuid (collector e)\<rparr>)) (\<lambda>_.
    kret q))"

definition add_worker :: "Uuid \<Rightarrow> WorkerOpts \<Rightarrow> Dt \<Rightarrow> ('s, 'c, 'd, 'r, 'p) Engine \<Rightarrow>
    ('s, 'c, 'd, 'r, 'p) Engine" where
  "add_worker i wopts created e =
    (let entry = \<lparr>entry_opts = wopts, WorkerEntry.created_at = created\<rparr>;
         e1 = (if sm_contains_key i (workers e) then e else e\<lparr>workers := sm_insert i entry (workers e)\<rparr>)
     in e1\<lparr>collector := register_worker (mono (world e)) i entry (collector e1)\<rparr>)"

definition add_worker_heartbeat :: "Uuid \<Rightarrow> ('s, 'c, 'd, 'r, 'p) Engine \<Rightarrow> ('s, 'c, 'd, 'r, 'p) Engine" where
  "add_worker_heartbeat i e =
    (case sm_get i (workers e) of
       Some entry \<Rightarrow> e\<lparr>collector := register_worker (mono (world e)) i entry (collector e)\<rparr>
     | None \<Rightarrow> e)"

definition remove_worker :: "Uuid \<Rightarrow> ('s, 'c, 'd, 'r, 'p) Engine \<Rightarrow> ('s, 'c, 'd, 'r, 'p) Engine" where
  "remove_worker i e =
    e\<lparr>workers := sm_remove i (workers e), collector := unregister_worker i (collector e)\<rparr>"

text \<open>\<^verbatim>\<open>TimerSender::send\<close>: the request is dropped when the queue has a timer of that duration.\<close>

definition send :: "'c Queue \<Rightarrow> TimerType \<Rightarrow> ('s, 'c, 'd, 'r, 'p) Engine \<Rightarrow> ('s, 'c, 'd, 'r, 'p) Engine" where
  "send q timer e =
    (if timer_exists timer (queue_id q) (collector e) then e
     else e\<lparr>collector := on_request (mono (world e)) (queue_id q) timer (collector e)\<rparr>)"

definition register_worker_timers :: "'c Queue \<Rightarrow> WorkerOpts \<Rightarrow> ('s, 'c, 'd, 'r, 'p) Engine \<Rightarrow>
    ('s, 'c, 'd, 'r, 'p) Engine" where
  "register_worker_timers q wopts e =
    send q ReregisterWorker
      (send q (CollectMetrics (from_millis (metrics_update_interval wopts)))
        (send q (TimerType.StalledCheck (from_millis (stalled_interval wopts)))
          (send q (ExtendLock (from_millis (lock_duration wopts))) e)))"

text \<open>\<^verbatim>\<open>DelayQueueTimer::close\<close>: the workers are forgotten and the timer task is aborted.\<close>

definition close_timers :: "('s, 'c, 'd, 'r, 'p) Engine \<Rightarrow> ('s, 'c, 'd, 'r, 'p) Engine" where
  "close_timers e = e\<lparr>workers := [], timers_running := False, cancel_token := True\<rparr>"

definition obliterate :: "('s, 'c, 'd, 'r, 'p) backend \<Rightarrow> 'c Queue \<Rightarrow>
    (('s, 'c, 'd, 'r, 'p) Engine, unit) kio" where
  "obliterate S q =
    kbind (on_world (obliterate_store S)) (\<lambda>_.
    kmod (\<lambda>e. let e1 = close_timers e in e1\<lparr>collector := unregister_queue (queue_id q) (collector e1)\<rparr>))"

section \<open>Promotion of delayed jobs\<close>

text \<open>
  \<^verbatim>\<open>JobToken::default\<close> draws two random ids. \<open>drawn i\<close> are the ones that come out for job \<open>i\<close>.
\<close>

definition default_token :: "Uuid \<times> Uuid \<Rightarrow> JobToken" where
  "default_token ids = JobToken (fst ids) (snd ids) 0"

definition fail_missed :: "(u64 \<Rightarrow> Uuid \<times> Uuid) \<Rightarrow> ('s, 'c, 'd, 'r, 'p) backend \<Rightarrow> i64 \<Rightarrow> u64 \<Rightarrow> (('s, 'r, 'p) World, unit) kio" where
  "fail_missed drawn S t i =
    kbind (klift (Store.get_counter S (CollectionSuffix.Job i) (Some ''attemptsMade''))) (\<lambda>made.
    kbind (klift (Store.get_token S i)) (\<lambda>tok.
    kbind (move_job_to_finished_or_failed S i t (unwrap_or (default_token (drawn i)) tok) JobState.Failed
        (ProcessedResult.Failed \<lparr>run = unwrap_or 0 made, reason = job_error_message MissedDelayDeadline\<rparr>) None)
      (\<lambda>_. kret ())))"

definition promote_jobs :: "(u64 \<Rightarrow> Uuid \<times> Uuid) \<Rightarrow> 'c externals \<Rightarrow> ('s, 'c, 'd, 'r, 'p) backend \<Rightarrow> 'c Queue \<Rightarrow> Dt \<Rightarrow> i64 \<Rightarrow>
    (('s, 'c, 'd, 'r, 'p) Engine, unit) kio" where
  "promote_jobs drawn ext S q date_time interval_ms =
    kbind (kget (\<lambda>e. has_delayed (current_metrics (world e)))) (\<lambda>any.
    if \<not> any then kret ()
    else
    kbind (kresult (dt_plus ext date_time interval_ms)) (\<lambda>until.
    kbind (on_world (Store.get_delayed_at S (timestamp_millis date_time) (timestamp_millis until))) (\<lambda>(due, missed).
    kbind (kfor (\<lambda>i. kmod (send q (PromotedDelayed i (queue_id q)))) due) (\<lambda>_.
    on_world (kfor (\<lambda>i. kignore (fail_missed drawn S (timestamp_micros date_time) i)) missed)))))"

definition promote_delayed_jobs :: "(u64 \<Rightarrow> Uuid \<times> Uuid) \<Rightarrow> 'c externals \<Rightarrow> ('s, 'c, 'd, 'r, 'p) backend \<Rightarrow> 'c Queue \<Rightarrow> Dt \<Rightarrow> i64 \<Rightarrow>
    (('s, 'c, 'd, 'r, 'p) Engine, unit) kio" where
  "promote_delayed_jobs drawn ext S q date_time interval_ms = promote_jobs drawn ext S q date_time interval_ms"

section \<open>Answering a timer\<close>

definition sample_task :: "runtime \<Rightarrow> Dt \<Rightarrow> u64 \<Rightarrow> ('c, 'd, 'r, 'p) JobMeta \<Rightarrow>
    TaskInfo \<times> ('c, 'd, 'r, 'p) JobMeta" where
  "sample_task rt now i meta =
    (let stats = cumulative rt (monitor meta);
         mean = (if total_poll_count stats > 0 then total_poll_duration stats div uint (total_poll_count stats) else 0);
         mean_ns = (if mean < 2 ^ 64 then word_of_int mean else 0 :: u64);
         hist = (if mean_ns > 0 then histogram_record rt (min mean_ns HISTOGRAM_MAX_NS) (histogram meta)
                 else histogram meta)
     in (task_info_new now (unwrap_or i (handle meta)) i stats hist, meta\<lparr>histogram := hist\<rparr>))"

definition token_worker :: "JobToken \<Rightarrow> Uuid" where
  "token_worker tok = (case tok of JobToken w _ _ \<Rightarrow> w)"

text \<open>
  The sampled tasks by worker, in the order in which the workers appear; the source uses a hash map,
  whose order does not matter because each worker's metrics are stored under its own key.
\<close>

fun add_sample :: "Uuid \<times> TaskInfo \<times> WorkerOpts \<Rightarrow> (Uuid \<times> TaskInfo list \<times> WorkerOpts) list \<Rightarrow>
    (Uuid \<times> TaskInfo list \<times> WorkerOpts) list" where
  "add_sample (w, info, o1) [] = [(w, [info], o1)]"
| "add_sample (w, info, o1) ((w', infos, o2) # groups) =
    (if w = w' then (w', infos @ [info], o2) # groups else (w', infos, o2) # add_sample (w, info, o1) groups)"

definition collect_metrics :: "runtime \<Rightarrow> ('s, 'c, 'd, 'r, 'p) backend \<Rightarrow> Duration \<Rightarrow>
    (('s, 'c, 'd, 'r, 'p) Engine, unit) kio" where
  "collect_metrics rt S duration =
    kbind (on_world (kmod (Store.purge_expired S))) (\<lambda>_.
    kbind (on_world (Queues.get_metrics S)) (\<lambda>updated.
    kbind (on_world (kmod (\<lambda>w. w\<lparr>current_metrics := update (current_metrics w) updated\<rparr>))) (\<lambda>_.
    kbind (on_world (kmod (\<lambda>w. snd (pause_or_resume_workers False w)))) (\<lambda>_.
    kbind (kget (\<lambda>e. (wall (world e), jobs_in_progress e))) (\<lambda>(now, jobs).
    let chosen = filter (\<lambda>(i, meta). from_millis (metrics_update_interval (JobMeta.opts meta)) = duration) jobs;
        samples = map (\<lambda>(i, meta). (token_worker (token meta), fst (sample_task rt now i meta), JobMeta.opts meta)) chosen
    in
    kbind (kmod (\<lambda>e. e\<lparr>jobs_in_progress := map (\<lambda>(i, meta).
        (i, if from_millis (metrics_update_interval (JobMeta.opts meta)) = duration
            then snd (sample_task rt now i meta) else meta)) (jobs_in_progress e)\<rparr>)) (\<lambda>_.
    on_world (kfor (\<lambda>(w, infos, wopts). Queues.store_worker_metrics S
        (worker_metrics_new now w (length infos) infos (metrics_update_interval wopts)) (metrics_update_interval wopts))
      (fold add_sample samples []))))))))"

definition extend_locks :: "('s, 'c, 'd, 'r, 'p) backend \<Rightarrow> Duration \<Rightarrow>
    (('s, 'c, 'd, 'r, 'p) Engine, unit) kio" where
  "extend_locks S duration =
    kbind (kget (\<lambda>e. (map fst (filter (\<lambda>(w, entry). from_millis (lock_duration (entry_opts entry)) = duration) (workers e)),
        jobs_in_progress e))) (\<lambda>(holders, jobs).
    on_world (kfor (\<lambda>(_, meta).
      case Job.job_id (job meta) of
        None \<Rightarrow> kret ()
      | Some i \<Rightarrow> kbind (extend_lock S i (lock_duration (JobMeta.opts meta)) (token meta)) (\<lambda>_. kret ()))
      (filter (\<lambda>(_, meta). token_worker (token meta) \<in> set holders) jobs)))"

definition reregister_workers :: "'c Queue \<Rightarrow> ('s, 'c, 'd, 'r, 'p) Engine \<Rightarrow> ('s, 'c, 'd, 'r, 'p) Engine" where
  "reregister_workers q e =
    (let e1 = fold (\<lambda>(w, _) e'. if state (worker_cells e' w) \<noteq> Closed then add_worker_heartbeat w e' else e') (workers e) e
     in e1\<lparr>collector := register_queue (queue_id q) (collector e1)\<rparr>)"

definition process_timer :: "runtime \<Rightarrow> ('s, 'c, 'd, 'r, 'p) backend \<Rightarrow> 'c Queue \<Rightarrow> TimerType \<Rightarrow>
    (('s, 'c, 'd, 'r, 'p) Engine, unit) kio" where
  "process_timer rt S q key =
    kbind (case key of
        TimerType.StalledCheck duration \<Rightarrow>
          kbind (kget (\<lambda>e. find (\<lambda>(_, entry). from_millis (stalled_interval (entry_opts entry)) = duration) (workers e)))
            (\<lambda>found.
          kbind (case found of
              Some (_, entry) \<Rightarrow> on_world (kbind (make_stalled_jobs_wait S (entry_opts entry)) (\<lambda>_. kret ()))
            | None \<Rightarrow> kret ()) (\<lambda>_.
          kret (Some key)))
      | ExtendLock duration \<Rightarrow> kbind (extend_locks S duration) (\<lambda>_. kret (Some key))
      | CollectMetrics duration \<Rightarrow> kbind (collect_metrics rt S duration) (\<lambda>_. kret (Some key))
      | PromotedDelayed i _ \<Rightarrow>
          kbind (on_world (Store.add_item S CollectionSuffix.Wait i None True)) (\<lambda>_. kret None)
      | ReregisterWorker \<Rightarrow> kbind (kmod (reregister_workers q)) (\<lambda>_. kret (Some key)))
    (\<lambda>next_timer. case next_timer of None \<Rightarrow> kret () | Some timer \<Rightarrow> kmod (send q timer))"

text \<open>
  One turn of the timer task: a promotion when jobs are delayed, then what the \<^verbatim>\<open>select\<close> yields. The result
  says whether the loop goes on.
\<close>

datatype timer_event =
    Cancelled
  | Command TimerCommand
  | Sampled "ProcessMetrics option"

definition timer_task :: "(u64 \<Rightarrow> Uuid \<times> Uuid) \<Rightarrow> 'c externals \<Rightarrow> runtime \<Rightarrow> ('s, 'c, 'd, 'r, 'p) backend \<Rightarrow> 'c Queue \<Rightarrow> timer_event \<Rightarrow>
    (('s, 'c, 'd, 'r, 'p) Engine, bool) kio" where
  "timer_task drawn ext rt S q ev =
    kbind (kget (\<lambda>e. (wall (world e), current_metrics (world e)))) (\<lambda>(date_time, m).
    kbind (kwhen (has_delayed m \<and> \<not> is_idle m) (promote_delayed_jobs drawn ext S q date_time MIN_DELAY_MS_LIMIT)) (\<lambda>_.
    case ev of
      Cancelled \<Rightarrow> kret False
    | Command (RespondToTimer timer) \<Rightarrow> kbind (process_timer rt S q timer) (\<lambda>_. kret True)
    | Sampled sample \<Rightarrow>
        kbind (case sample of
            Some m \<Rightarrow> on_world (Store.store_process_metrics S m PROCESS_METRIC_UPDATE_INTERVAL)
          | None \<Rightarrow> kret ()) (\<lambda>_. kret True)))"

end
