(* ===== verification/Workers.thy ===== *)
theory Workers
  imports Engine
begin

text \<open>
  The workers: \<^verbatim>\<open>src/src/worker/mod.rs\<close>, the main loop and the processing of one job of
  \<^verbatim>\<open>src/src/utils/mod.rs\<close>, and the capture of failures of \<^verbatim>\<open>src/src/error/backtrace_utils.rs\<close>.

  A worker's loops and its spawned tasks run concurrently. Each step of a loop goes from one place where
  it can be observed to the next, the processing of a job is one step of its task, and the relation
  \<open>worker_step\<close> interleaves them in any order with anything else that happens to the queue.
\<close>

section \<open>Capturing the outcome of a job\<close>

text \<open>
  What the code of the user does: it returns, it fails with an error (kept as its printed text), or it
  panics, with what the panic hook captured and the text that joining a blocking task reports.
\<close>

record CaughtPanicInfo =
  payload :: CompactString
  backtrace :: "CompactString list option"

datatype 'r Outcome =
    Returned 'r
  | Errored CompactString
  | Panicked "CaughtPanicInfo option" CompactString

datatype CaughtError =
    Panic CaughtPanicInfo
  | Error CompactString "CompactString list option"
  | JoinError CompactString

definition default_panic_info :: CaughtPanicInfo where
  "default_panic_info = \<lparr>payload = ''Panic occurred but failed to capture backtrace'', backtrace = None\<rparr>"

fun catch :: "CompactString list option \<Rightarrow> 'r Outcome \<Rightarrow> CaughtError + 'r" where
  "catch bt (Returned r) = Inr r"
| "catch bt (Errored e) = Inl (Error e bt)"
| "catch bt (Panicked info _) = Inl (Panic (unwrap_or default_panic_info info))"

text \<open>
  A blocking callback runs in a task of its own: its panic arrives as the error of the join, not as a
  panic.
\<close>

fun catch_blocking :: "CompactString list option \<Rightarrow> 'r Outcome \<Rightarrow> CaughtError + 'r" where
  "catch_blocking bt (Returned r) = Inr r"
| "catch_blocking bt (Errored e) = Inl (Error e bt)"
| "catch_blocking bt (Panicked _ join_error) = Inl (Error join_error bt)"

datatype ('s, 'c, 'd, 'r, 'p) Callback =
    Async "('c, 'd, 'r, 'p) Job \<Rightarrow> ('s, 'r, 'p) World \<Rightarrow> 'r Outcome \<times> ('s, 'r, 'p) World"
  | Sync "('c, 'd, 'r, 'p) Job \<Rightarrow> ('s, 'r, 'p) World \<Rightarrow> 'r Outcome \<times> ('s, 'r, 'p) World"

fun run_callback :: "runtime \<Rightarrow> ('s, 'c, 'd, 'r, 'p) Callback \<Rightarrow> ('c, 'd, 'r, 'p) Job \<Rightarrow> ('s, 'r, 'p) World \<Rightarrow>
    (CaughtError + 'r) \<times> ('s, 'r, 'p) World" where
  "run_callback rt (Sync cb) j w = (let (out, w') = cb j w in (catch_blocking (backtrace_frames rt) out, w'))"
| "run_callback rt (Async cb) j w = (let (out, w') = cb j w in (catch (backtrace_frames rt) out, w'))"

fun failed_reason_of :: "CaughtError \<Rightarrow> CompactString \<times> CompactString list option" where
  "failed_reason_of (Panic info) = (payload info, backtrace info)"
| "failed_reason_of (Error e bt) = (e, bt)"
| "failed_reason_of (JoinError e) = (e, None)"

section \<open>Processing one job\<close>

definition update_worker :: "Uuid \<Rightarrow> (('c, 'd, 'r, 'p) Worker \<Rightarrow> ('c, 'd, 'r, 'p) Worker) \<Rightarrow>
    ('s, 'c, 'd, 'r, 'p) Engine \<Rightarrow> ('s, 'c, 'd, 'r, 'p) Engine" where
  "update_worker i f e = e\<lparr>worker_cells := (worker_cells e)(i := f (worker_cells e i))\<rparr>"

text \<open>\<^verbatim>\<open>jobs_in_progress.remove\<close>, with the entry that was there.\<close>

definition remove_in_progress :: "u64 \<Rightarrow> ('s, 'c, 'd, 'r, 'p) Engine \<Rightarrow>
    ('c, 'd, 'r, 'p) JobMeta option \<times> ('s, 'c, 'd, 'r, 'p) Engine" where
  "remove_in_progress i e =
    (sm_get i (jobs_in_progress e), e\<lparr>jobs_in_progress := sm_remove i (jobs_in_progress e)\<rparr>)"

text \<open>
  The branches after the callback. They return what is left to report: nothing when the job is not in
  the map or its handle was not stored yet.
\<close>

definition on_success :: "'c externals \<Rightarrow> ('s, 'c, 'd, 'r, 'p) backend \<Rightarrow> ('c, 'd, 'r, 'p) Job \<Rightarrow> JobToken \<Rightarrow>
    JobMetrics \<Rightarrow> 'r \<Rightarrow> (('s, 'c, 'd, 'r, 'p) Engine, JobState option) kio" where
  "on_success ext S j tok m0 result =
    kbind (kget (\<lambda>e. wall (world e))) (\<lambda>now.
    let i = unwrap_or 0 (Job.job_id j);
        m = (case processed_on j of
               Some processed_at \<Rightarrow> m0\<lparr>JobMetrics.job_id := i, delayed_for := to_std (processed_at - Job.ts j),
                 ran_for := to_std (now - processed_at)\<rparr>
             | None \<Rightarrow> m0)
    in
    kbind (on_world (move_job_to_finished_or_failed S i (timestamp_micros now) tok JobState.Completed
        (ProcessedResult.Success result m) None)) (\<lambda>completed.
    kbind (klift (remove_in_progress i)) (\<lambda>entry.
    case entry of
      None \<Rightarrow> kret None
    | Some meta \<Rightarrow>
        kbind (on_world
          (if attempts_made completed < JobOptions.attempts (Job.opts (job meta)) then
             (case JobOptions.repeat (Job.opts completed) of
                Some rep \<Rightarrow> retry_job ext S i (WithRepeat rep) (attempts_made completed - 1)
              | None \<Rightarrow> kret ())
           else clean_up_job S i (JobOptions.remove_on_complete (Job.opts (job meta))))) (\<lambda>_.
        kret (map_option (\<lambda>_. JobState.Completed) (handle meta))))))"

definition on_failure :: "'c externals \<Rightarrow> ('s, 'c, 'd, 'r, 'p) backend \<Rightarrow> ('c, 'd, 'r, 'p) Job \<Rightarrow> JobToken \<Rightarrow>
    CaughtError \<Rightarrow> (('s, 'c, 'd, 'r, 'p) Engine, JobState option) kio" where
  "on_failure ext S j tok err =
    (let i = unwrap_or 0 (Job.job_id j);
         attempt_no = attempts_made j + 1;
         (msg, bt) = failed_reason_of err;
         trace = map_option (\<lambda>fs. \<lparr>Trace.run = attempt_no, reason = msg, frames = fs\<rparr>) bt
     in
    kbind (kget (\<lambda>e. timestamp_micros (wall (world e)))) (\<lambda>t.
    kbind (on_world (move_job_to_finished_or_failed S i t tok JobState.Failed
        (ProcessedResult.Failed \<lparr>FailedDetails.run = attempt_no, reason = msg\<rparr>) trace)) (\<lambda>failed_job.
    kbind (klift (remove_in_progress i)) (\<lambda>entry.
    case entry of
      None \<Rightarrow> kret None
    | Some meta \<Rightarrow>
        let limit = JobOptions.attempts (Job.opts (job meta)) in
        kbind (on_world
          (if attempts_made failed_job < limit then
             (case JobOptions.backoff (Job.opts (job meta)) of
                Some backoff_opts \<Rightarrow> retry_job ext S i (RetryOptions.Failed backoff_opts) (attempts_made failed_job - 1)
              | None \<Rightarrow> kret ())
           else kret ())) (\<lambda>_.
        kbind (on_world (kwhen (attempts_made failed_job = limit)
            (clean_up_job S i (JobOptions.remove_on_fail (Job.opts (job meta)))))) (\<lambda>_.
        kret (map_option (\<lambda>_. JobState.Failed) (handle meta))))))))"

text \<open>The end of \<^verbatim>\<open>process_job\<close>: both counters of running jobs go down for a job that is reported.\<close>

definition report_job :: "('s, 'c, 'd, 'r, 'p) backend \<Rightarrow> Uuid \<Rightarrow> u64 \<Rightarrow> JobState option \<Rightarrow>
    (('s, 'c, 'd, 'r, 'p) Engine, unit) kio" where
  "report_job S worker i reported =
    (case reported of
       None \<Rightarrow> kret ()
     | Some st \<Rightarrow>
         kbind (kmod (update_worker worker (\<lambda>w. w\<lparr>active_job_count := active_job_count w - 1\<rparr>))) (\<lambda>_.
         kbind (on_world (update_processing_count S False worker i st)) (\<lambda>_. kret ())))"

definition process_job :: "'c externals \<Rightarrow> runtime \<Rightarrow> ('s, 'c, 'd, 'r, 'p) backend \<Rightarrow>
    ('s, 'c, 'd, 'r, 'p) Callback \<Rightarrow> Uuid \<Rightarrow> ('c, 'd, 'r, 'p) Job \<Rightarrow> JobToken \<Rightarrow>
    (('s, 'c, 'd, 'r, 'p) Engine, unit) kio" where
  "process_job ext rt S cb worker j tok =
    kbind (kresult (Jobs.get_metrics ext j)) (\<lambda>m.
    let m0 = (unwrap_or default_job_metrics m)\<lparr>attempt := attempts_made j + 1\<rparr> in
    kbind (on_world (klift (run_callback rt cb j))) (\<lambda>returned.
    kbind (case returned of
        Inr result \<Rightarrow> on_success ext S j tok m0 result
      | Inl err \<Rightarrow> on_failure ext S j tok err) (\<lambda>reported.
    report_job S worker (unwrap_or 0 (Job.job_id j)) reported)))"

section \<open>Taking the next job\<close>

definition get_next_job :: "('s, 'c, 'd, 'r, 'p) backend \<Rightarrow> JobToken \<Rightarrow> u64 \<Rightarrow> bool \<Rightarrow> WorkerOpts \<Rightarrow> u64 option \<Rightarrow>
    (('s, 'r, 'p) World, ('c, 'd, 'r, 'p) Job option) kio" where
  "get_next_job S tok block_delay is_closed wopts passed_id =
    (if is_closed then kret None
     else case passed_id of
       Some i \<Rightarrow>
         kbind (kget (\<lambda>w. timestamp_micros (wall w))) (\<lambda>t.
         kbind (prepare_job_for_processing S tok i t wopts JobState.Wait) (\<lambda>j. kret (Some j)))
     | None \<Rightarrow>
         kbind (move_to_active S tok wopts) (\<lambda>moved.
         kret (case moved of ProcessJob j \<Rightarrow> Some j | _ \<Rightarrow> None)))"

text \<open>A call whose error becomes \<open>None\<close>; a panic ends the task that made it.\<close>

definition kattempt :: "('w, 'a) kio \<Rightarrow> ('w, 'a option) kio" where
  "kattempt m w = (case m w of
      (Inr a, w') \<Rightarrow> (Inr (Some a), w')
    | (Inl (Err _), w') \<Rightarrow> (Inr None, w')
    | (Inl (Failure.Panic msg), w') \<Rightarrow> (Inl (Failure.Panic msg), w'))"

section \<open>The main loop\<close>

definition update_loop :: "Uuid \<Rightarrow> nat \<Rightarrow> (main_loop \<Rightarrow> main_loop) \<Rightarrow>
    ('s, 'c, 'd, 'r, 'p) Engine \<Rightarrow> ('s, 'c, 'd, 'r, 'p) Engine" where
  "update_loop i k f = update_worker i (\<lambda>w. w\<lparr>main_loops := (main_loops w)[k := f (main_loops w ! k)]\<rparr>)"

definition go :: "Uuid \<Rightarrow> nat \<Rightarrow> loop_pc \<Rightarrow> ('s, 'c, 'd, 'r, 'p) Engine \<Rightarrow> ('s, 'c, 'd, 'r, 'p) Engine" where
  "go i k place = update_loop i k (\<lambda>l. l\<lparr>pc := place\<rparr>)"

definition acquire :: "Uuid \<Rightarrow> nat \<Rightarrow> ('s, 'c, 'd, 'r, 'p) Engine \<Rightarrow> ('s, 'c, 'd, 'r, 'p) Engine" where
  "acquire i k = update_loop i k (\<lambda>l. l\<lparr>permits := permits l - 1\<rparr>)"

definition release :: "Uuid \<Rightarrow> nat \<Rightarrow> ('s, 'c, 'd, 'r, 'p) Engine \<Rightarrow> ('s, 'c, 'd, 'r, 'p) Engine" where
  "release i k = update_loop i k (\<lambda>l. l\<lparr>permits := Suc (permits l)\<rparr>)"

text \<open>Looking for room, and taking a permit.\<close>

definition loop_guard :: "Uuid \<Rightarrow> nat \<Rightarrow> ('s, 'c, 'd, 'r, 'p) Engine \<Rightarrow> ('s, 'c, 'd, 'r, 'p) Engine" where
  "loop_guard i k e =
    (let w = worker_cells e i in
     if permits (main_loops w ! k) = 0 \<or> concurrency (Worker.opts w) \<le> length (processing w) then go i k Head e
     else go i k Acquired (acquire i k e))"

text \<open>
  The token of the next job, with the fresh \<^verbatim>\<open>Uuid\<close> \<open>next_id\<close>, and the last look at the cancellation, which
  \<^verbatim>\<open>get_next_job\<close> gets as its argument: a cancelled loop gets no job and drops its permit.
\<close>

definition loop_token :: "Uuid \<Rightarrow> nat \<Rightarrow> Uuid \<Rightarrow> ('s, 'c, 'd, 'r, 'p) Engine \<Rightarrow> ('s, 'c, 'd, 'r, 'p) Engine" where
  "loop_token i k next_id e =
    (let w = worker_cells e i in
     if cancelled w then go i k Head (release i k e)
     else go i k (Fetching (JobToken i next_id (active_job_count w))) e)"

text \<open>
  The rest of the iteration: one job is taken and its task spawned; \<open>tid\<close> is the number that the runtime
  gives the task.
\<close>

definition spawn_job :: "runtime \<Rightarrow> Uuid \<Rightarrow> nat \<Rightarrow> JobToken \<Rightarrow> u64 \<Rightarrow> u64 \<Rightarrow> ('c, 'd, 'r, 'p) Job \<Rightarrow>
    ('s, 'c, 'd, 'r, 'p) Engine \<Rightarrow> ('s, 'c, 'd, 'r, 'p) Engine" where
  "spawn_job rt i k tok tid jid j e =
    (let meta = \<lparr>JobMeta.job = j, token = tok, handle = None, monitor = monitor_new rt,
           histogram = histogram_new rt, JobMeta.opts = Worker.opts (worker_cells e i)\<rparr>
     in go i k (Store_Handle jid tid)
          (update_worker i (\<lambda>w. w\<lparr>processing := processing w @
               [\<lparr>task_job = j, task_token = tok, task_id = tid, task_loop = k\<rparr>]\<rparr>)
            (e\<lparr>jobs_in_progress := sm_insert jid meta (jobs_in_progress e)\<rparr>)))"

definition loop_body :: "runtime \<Rightarrow> ('s, 'c, 'd, 'r, 'p) backend \<Rightarrow> Uuid \<Rightarrow> nat \<Rightarrow> JobToken \<Rightarrow> u64 \<Rightarrow>
    (('s, 'c, 'd, 'r, 'p) Engine, unit) kio" where
  "loop_body rt S i k tok tid =
    kbind (kget (\<lambda>e. worker_cells e i)) (\<lambda>w.
    kbind (kattempt (on_world (get_next_job S tok (block_until w) False (Worker.opts w) None))) (\<lambda>result.
    case result of
      Some (Some j) \<Rightarrow>
        (case Job.job_id j of
           Some jid \<Rightarrow>
             kbind (on_world (update_processing_count S True i jid (Job.state j))) (\<lambda>_.
             kmod (spawn_job rt i k tok tid jid j))
         | None \<Rightarrow> kmod (\<lambda>e. go i k Head (release i k e)))
    | _ \<Rightarrow> kmod (\<lambda>e. go i k Head (release i k e))))"

text \<open>An error or a panic in the body ends the loop.\<close>

definition run_body :: "runtime \<Rightarrow> ('s, 'c, 'd, 'r, 'p) backend \<Rightarrow> Uuid \<Rightarrow> nat \<Rightarrow> JobToken \<Rightarrow> u64 \<Rightarrow>
    ('s, 'c, 'd, 'r, 'p) Engine \<Rightarrow> ('s, 'c, 'd, 'r, 'p) Engine" where
  "run_body rt S i k tok tid e =
    (case loop_body rt S i k tok tid e of
       (Inr _, e') \<Rightarrow> e'
     | (Inl _, e') \<Rightarrow> go i k Finished e')"

definition set_state :: "Uuid \<Rightarrow> WorkerState \<Rightarrow> ('s, 'c, 'd, 'r, 'p) Engine \<Rightarrow> ('s, 'c, 'd, 'r, 'p) Engine" where
  "set_state i st = update_worker i (\<lambda>w. w\<lparr>Worker.state := st\<rparr>)"

definition store_handle :: "u64 \<Rightarrow> u64 \<Rightarrow> ('s, 'c, 'd, 'r, 'p) Engine \<Rightarrow> ('s, 'c, 'd, 'r, 'p) Engine" where
  "store_handle jid tid e =
    (case sm_get jid (jobs_in_progress e) of
       Some meta \<Rightarrow> e\<lparr>jobs_in_progress := sm_insert jid (meta\<lparr>handle := Some tid\<rparr>) (jobs_in_progress e)\<rparr>
     | None \<Rightarrow> e)"

text \<open>
  A step of loop \<open>k\<close> from where it stands. A parked loop that is both notified and cancelled may see
  either: \<open>sees_cancel\<close> says which.
\<close>

definition main_loop_step :: "runtime \<Rightarrow> ('s, 'c, 'd, 'r, 'p) backend \<Rightarrow> 'c Queue \<Rightarrow> Uuid \<Rightarrow> nat \<Rightarrow> bool \<Rightarrow> Uuid \<Rightarrow>
    u64 \<Rightarrow> ('s, 'c, 'd, 'r, 'p) Engine \<Rightarrow> ('s, 'c, 'd, 'r, 'p) Engine" where
  "main_loop_step rt S q i k sees_cancel next_id tid e =
    (let w = worker_cells e i in
     case pc (main_loops w ! k) of
       Starting \<Rightarrow> go i k Head (register_worker_timers q (Worker.opts w) e)
     | Head \<Rightarrow>
        if cancelled w then go i k Draining e else go i k Checked e
     | Checked \<Rightarrow>
        if pause_workers (world e) then go i k Parking (set_state i Idle e) else go i k Guard e
     | Parking \<Rightarrow> go i k (Parked (notified (world e))) e
     | Parked n \<Rightarrow>
        if cancelled w \<and> sees_cancel then go i k Draining e
        else if n < notified (world e) then go i k Guard (set_state i WorkerState.Active e)
        else e
     | Guard \<Rightarrow> loop_guard i k e
     | Acquired \<Rightarrow> loop_token i k next_id e
     | Fetching tok \<Rightarrow> run_body rt S i k tok tid e
     | Store_Handle jid tid' \<Rightarrow> go i k Head (store_handle jid tid' e)
     | Draining \<Rightarrow>
        if processing_closed w \<and> processing w = [] then go i k Finished (set_state i Closed e) else e
     | Finished \<Rightarrow> e)"

text \<open>The step of a task: the job is processed, and the permit and the place in the tracker are given back.\<close>

definition task_step :: "'c externals \<Rightarrow> runtime \<Rightarrow> ('s, 'c, 'd, 'r, 'p) backend \<Rightarrow> ('s, 'c, 'd, 'r, 'p) Callback \<Rightarrow>
    Uuid \<Rightarrow> nat \<Rightarrow> ('s, 'c, 'd, 'r, 'p) Engine \<Rightarrow> ('s, 'c, 'd, 'r, 'p) Engine" where
  "task_step ext rt S cb i n e =
    (let t = processing (worker_cells e i) ! n;
         e' = snd (process_job ext rt S cb i (task_job t) (task_token t) e)
     in release i (task_loop t)
          (update_worker i (\<lambda>w. w\<lparr>processing := take n (processing w) @ drop (Suc n) (processing w)\<rparr>) e'))"

section \<open>The methods of a worker\<close>

definition is_running :: "('c, 'd, 'r, 'p) Worker \<Rightarrow> bool" where
  "is_running w \<longleftrightarrow> Worker.state w = WorkerState.Active \<and> \<not> cancelled w"

definition is_idle :: "('c, 'd, 'r, 'p) Worker \<Rightarrow> bool" where
  "is_idle w \<longleftrightarrow> Worker.state w = Idle"

definition closed :: "('c, 'd, 'r, 'p) Worker \<Rightarrow> bool" where
  "closed w \<longleftrightarrow> cancelled w \<or> Worker.state w = Closed"

definition run :: "Uuid \<Rightarrow> (('s, 'c, 'd, 'r, 'p) Engine, unit) kio" where
  "run i =
    kbind (kget (\<lambda>e. worker_cells e i)) (\<lambda>w.
    if Worker.state w \<noteq> Idle \<and> Worker.state w = WorkerState.Active \<and> \<not> cancelled w
    then kfail (Err (KioError.WorkerError (WorkerAlreadyRunningWithId i)))
    else if Worker.state w \<noteq> Idle \<and> (Worker.state w = Closed \<or> cancelled w)
    then kfail (Err (KioError.WorkerError (WorkerAlreadyClosed i)))
    else kmod (update_worker i (\<lambda>w. w\<lparr>Worker.state := WorkerState.Active,
      main_loops := main_loops w @ [\<lparr>pc = Starting, permits = concurrency (Worker.opts w)\<rparr>]\<rparr>)))"

definition new_worker :: "Dt \<Rightarrow> WorkerOpts \<Rightarrow> ('c, 'd, 'r, 'p) Worker" where
  "new_worker created wopts = \<lparr>Worker.created_at = created, opts = wopts, cancelled = False, state = Idle,
     processing_closed = False, processing = [], active_job_count = 0, block_until = 0, main_loops = []\<rparr>"

text \<open>\<^verbatim>\<open>Worker::new\<close> with the fresh id \<open>i\<close>; the default options depend on the number of processors.\<close>

definition worker_new :: "nat \<Rightarrow> Uuid \<Rightarrow> WorkerOpts option \<Rightarrow> (('s, 'c, 'd, 'r, 'p) Engine, unit) kio" where
  "worker_new num_cpus i passed =
    (let wopts = unwrap_or (default_worker_opts num_cpus) passed in
    kbind (kmod (\<lambda>e. let created = wall (world e) in
        add_worker i wopts created (update_worker i (\<lambda>_. new_worker created wopts) e))) (\<lambda>_.
    kwhen (autorun wopts) (run i)))"

text \<open>
  \<^verbatim>\<open>close\<close> up to the wait for the main task, with whether it goes on, and the rest of it after the wait.
\<close>

definition close_request :: "Uuid \<Rightarrow> ('s, 'c, 'd, 'r, 'p) Engine \<Rightarrow> bool \<times> ('s, 'c, 'd, 'r, 'p) Engine" where
  "close_request i e =
    (if \<not> is_running (worker_cells e i) then (False, e)
     else (True, update_worker i (\<lambda>w. w\<lparr>processing_closed := True, cancelled := True\<rparr>)
       (e\<lparr>world := (let w = resume_workers (world e) in
            w\<lparr>notified := Suc (notified w), pause_workers := False\<rparr>)\<rparr>)))"

definition main_task_finished :: "('c, 'd, 'r, 'p) Worker \<Rightarrow> bool" where
  "main_task_finished w \<longleftrightarrow> main_loops w = [] \<or> pc (last (main_loops w)) = Finished"

definition close_finish :: "Uuid \<Rightarrow> ('s, 'c, 'd, 'r, 'p) Engine \<Rightarrow> ('s, 'c, 'd, 'r, 'p) Engine" where
  "close_finish i e = (if main_task_finished (worker_cells e i) then remove_worker i e else e)"

end
