(* ===== verification/Worker_Lifecycle.thy ===== *)
theory Worker_Lifecycle
  imports Workers
begin

text \<open>
  The life of a worker as a state machine: its loops, its tasks, the calls of its methods and the rest
  of the program interleave in any order. The theory shows that a loop never runs more jobs than the
  concurrency allows, that a closed worker stays closed and takes no further job, and that closing it
  ends. Every step of the engine is first shown to be a move of one worker, and the invariants and
  measures are then about these moves alone.
\<close>

section \<open>Steps\<close>

text \<open>
  \<open>create\<close> needs an id for which no loop was spawned, which holds for a fresh \<^verbatim>\<open>Uuid\<close>. \<open>other\<close> is anything that does
  not touch the cells of the workers: calls of the queue, timers, the clock, other queues.
\<close>

inductive worker_step :: "'c externals \<Rightarrow> runtime \<Rightarrow> ('s, 'c, 'd, 'r, 'p) backend \<Rightarrow> 'c Queue \<Rightarrow>
    ('s, 'c, 'd, 'r, 'p) Callback \<Rightarrow> ('s, 'c, 'd, 'r, 'p) Engine \<Rightarrow> ('s, 'c, 'd, 'r, 'p) Engine \<Rightarrow> bool"
  for ext rt S q cb where
  create: "main_loops (worker_cells e i) = [] \<Longrightarrow>
    worker_step ext rt S q cb e (snd (worker_new num_cpus i passed e))"
| run: "worker_step ext rt S q cb e (snd (run i e))"
| loop: "k < length (main_loops (worker_cells e i)) \<Longrightarrow>
    worker_step ext rt S q cb e (main_loop_step rt S q i k sees_cancel next_id tid e)"
| task: "n < length (processing (worker_cells e i)) \<Longrightarrow>
    worker_step ext rt S q cb e (task_step ext rt S cb i n e)"
| close: "worker_step ext rt S q cb e (snd (close_request i e))"
| close_ends: "worker_step ext rt S q cb e (close_finish i e)"
| other: "worker_cells e' = worker_cells e \<Longrightarrow> worker_step ext rt S q cb e e'"

section \<open>What a step does to the cells\<close>

definition at_loop :: "nat \<Rightarrow> (main_loop \<Rightarrow> main_loop) \<Rightarrow> ('c, 'd, 'r, 'p) Worker \<Rightarrow> ('c, 'd, 'r, 'p) Worker" where
  "at_loop k f w = w\<lparr>main_loops := (main_loops w)[k := f (main_loops w ! k)]\<rparr>"

lemma at_loop_fields [simp]:
  "main_loops (at_loop k f w) = (main_loops w)[k := f (main_loops w ! k)]"
  "processing (at_loop k f w) = processing w" "Worker.opts (at_loop k f w) = Worker.opts w"
  "cancelled (at_loop k f w) = cancelled w" "Worker.state (at_loop k f w) = Worker.state w"
  "processing_closed (at_loop k f w) = processing_closed w"
  "active_job_count (at_loop k f w) = active_job_count w"
  by (simp_all add: at_loop_def)

lemma cells_update_worker [simp]: "worker_cells (update_worker i f e) = (worker_cells e)(i := f (worker_cells e i))"
  by (simp add: update_worker_def)

lemma cells_update_loop [simp]:
  "worker_cells (update_loop i k f e) = (worker_cells e)(i := at_loop k f (worker_cells e i))"
  by (simp add: update_loop_def at_loop_def)

lemma cells_loop_ops [simp]:
  "worker_cells (go i k place e) = (worker_cells e)(i := at_loop k (\<lambda>l. l\<lparr>pc := place\<rparr>) (worker_cells e i))"
  "worker_cells (acquire i k e) = (worker_cells e)(i := at_loop k (\<lambda>l. l\<lparr>permits := permits l - 1\<rparr>) (worker_cells e i))"
  "worker_cells (release i k e) = (worker_cells e)(i := at_loop k (\<lambda>l. l\<lparr>permits := Suc (permits l)\<rparr>) (worker_cells e i))"
  "worker_cells (set_state i st e) = (worker_cells e)(i := (worker_cells e i)\<lparr>Worker.state := st\<rparr>)"
  by (simp_all add: go_def acquire_def release_def set_state_def)

lemma cells_send [simp]: "worker_cells (send q timer e) = worker_cells e"
  by (simp add: send_def)

lemma cells_engine_ops [simp]:
  "worker_cells (register_worker_timers q wopts e) = worker_cells e"
  "worker_cells (store_handle jid tid e) = worker_cells e"
  "worker_cells (remove_worker i e) = worker_cells e"
  "worker_cells (add_worker i wopts created e) = worker_cells e"
  by (simp_all add: register_worker_timers_def store_handle_def remove_worker_def add_worker_def Let_def
      split: option.split)

lemma at_loop_twice: "k < length (main_loops w) \<Longrightarrow> at_loop k f (at_loop k g w) = at_loop k (f \<circ> g) w"
  by (simp add: at_loop_def)

subsection \<open>Processing a job\<close>

text \<open>Everything of the workers except the job counter of worker \<open>i\<close>.\<close>

definition uncounted :: "Uuid \<Rightarrow> ('s, 'c, 'd, 'r, 'p) Engine \<Rightarrow> Uuid \<Rightarrow> ('c, 'd, 'r, 'p) Worker" where
  "uncounted i e = (worker_cells e)(i := (worker_cells e i)\<lparr>active_job_count := 0\<rparr>)"

lemma keeps_on_world: "(\<And>w e. f (e\<lparr>world := w\<rparr>) = f e) \<Longrightarrow> keeps f (on_world m)"
  by (simp add: keeps_def on_world_def split: prod.split)

lemma uncounted_frame [simp]:
  "uncounted i (e\<lparr>world := w\<rparr>) = uncounted i e"
  "uncounted i (e\<lparr>jobs_in_progress := jobs\<rparr>) = uncounted i e"
  "uncounted i (update_worker i (\<lambda>w. w\<lparr>active_job_count := f w\<rparr>) e) = uncounted i e"
  by (simp_all add: uncounted_def)

lemma process_job_uncounted: "keeps (uncounted i) (process_job ext rt S cb i j tok)"
proof -
  have removed: "keeps (uncounted i) (klift (remove_in_progress jid))" for jid
    by (rule keeps_klift) (simp add: remove_in_progress_def)
  have counted: "keeps (uncounted i) (kmod (update_worker i (\<lambda>w. w\<lparr>active_job_count := active_job_count w - 1\<rparr>)))"
    by (rule keeps_kmod) simp
  have "keeps (uncounted i) (on_success ext S j tok m result)" for m result
    unfolding on_success_def Let_def
    by (intro keeps_structure removed keeps_on_world) simp_all
  moreover have "keeps (uncounted i) (on_failure ext S j tok err)" for err
    unfolding on_failure_def Let_def split_beta
    by (intro keeps_structure removed keeps_on_world) simp_all
  ultimately show ?thesis
    unfolding process_job_def report_job_def Let_def
    by (auto intro!: keeps_structure keeps_on_world counted split: sum.split)
qed

lemma count_only:
  fixes w w' :: "('c, 'd, 'r, 'p) Worker"
  shows "w\<lparr>active_job_count := 0\<rparr> = w'\<lparr>active_job_count := 0\<rparr> \<Longrightarrow> w = w'\<lparr>active_job_count := active_job_count w\<rparr>"
  by (cases w, cases w') simp

lemma cells_process_job:
  obtains c where "worker_cells (snd (process_job ext rt S cb i j tok e)) =
    (worker_cells e)(i := (worker_cells e i)\<lparr>active_job_count := c\<rparr>)"
proof -
  let ?e = "snd (process_job ext rt S cb i j tok e)"
  have eq: "uncounted i ?e = uncounted i e"
    using process_job_uncounted unfolding keeps_def by blast
  have "worker_cells ?e i' = worker_cells e i'" if "i' \<noteq> i" for i'
    using fun_cong [OF eq, of i'] that by (simp add: uncounted_def)
  moreover have "worker_cells ?e i = (worker_cells e i)\<lparr>active_job_count := active_job_count (worker_cells ?e i)\<rparr>"
    using fun_cong [OF eq, of i] by (intro count_only) (simp add: uncounted_def)
  ultimately have "worker_cells ?e =
      (worker_cells e)(i := (worker_cells e i)\<lparr>active_job_count := active_job_count (worker_cells ?e i)\<rparr>)"
    by (auto simp: fun_eq_iff)
  then show thesis by (rule that)
qed

subsection \<open>The body of the loop\<close>

text \<open>
  The body gives the permit back and comes to the head, or ends the loop, or spawns one task that keeps
  the permit.
\<close>

lemma get_next_job_cancelled: "get_next_job S tok d True wopts passed = kret None"
  by (simp add: get_next_job_def)

lemma cells_kattempt_on_world:
  "worker_cells (snd (kattempt (on_world m) e)) = worker_cells e"
  by (auto simp: kattempt_def on_world_def split: prod.split sum.split Failure.split)

abbreviation goto :: "nat \<Rightarrow> loop_pc \<Rightarrow> ('c, 'd, 'r, 'p) Worker \<Rightarrow> ('c, 'd, 'r, 'p) Worker" where
  "goto k place \<equiv> at_loop k (\<lambda>l. l\<lparr>pc := place\<rparr>)"

definition returns_permit :: "nat \<Rightarrow> ('c, 'd, 'r, 'p) Worker \<Rightarrow> ('c, 'd, 'r, 'p) Worker" where
  "returns_permit k = at_loop k (\<lambda>l. l\<lparr>permits := Suc (permits l), pc := Head\<rparr>)"

definition takes_permit :: "nat \<Rightarrow> ('c, 'd, 'r, 'p) Worker \<Rightarrow> ('c, 'd, 'r, 'p) Worker" where
  "takes_permit k = at_loop k (\<lambda>l. l\<lparr>permits := permits l - 1, pc := Acquired\<rparr>)"

definition spawns_task :: "nat \<Rightarrow> u64 \<Rightarrow> ('c, 'd, 'r, 'p) Task \<Rightarrow> ('c, 'd, 'r, 'p) Worker \<Rightarrow> ('c, 'd, 'r, 'p) Worker" where
  "spawns_task k jid t w = goto k (Store_Handle jid (task_id t)) (w\<lparr>processing := processing w @ [t]\<rparr>)"

lemma release_head:
  "k < length (main_loops w) \<Longrightarrow> goto k Head (at_loop k (\<lambda>l. l\<lparr>permits := Suc (permits l)\<rparr>) w) = returns_permit k w"
  by (simp add: at_loop_twice comp_def returns_permit_def)

lemma loop_body_cases:
  assumes "w = worker_cells e i"
    and "kattempt (on_world (get_next_job S tok (block_until w) False (Worker.opts w) None)) e = (r, e1)"
  shows "loop_body rt S i k tok tid e =
    (case r of
       Inl err \<Rightarrow> (Inl err, e1)
     | Inr result \<Rightarrow>
        (case Option.bind (Option.bind result id) (\<lambda>j. map_option (Pair j) (Job.job_id j)) of
           Some (j, jid) \<Rightarrow>
             kbind (on_world (update_processing_count S True i jid (Job.state j)))
               (\<lambda>_. kmod (spawn_job rt i k tok tid jid j)) e1
         | None \<Rightarrow> (Inr (), go i k Head (release i k e1))))"
proof (cases r)
  case (Inl err)
  then show ?thesis using assms by (simp add: loop_body_def kbind_kget kbind_apply)
next
  case (Inr result)
  note facts = assms(2) Inr assms(1)
  show ?thesis
  proof (cases "Option.bind result id")
    case None
    then show ?thesis
      using facts by (cases result) (simp_all add: loop_body_def kbind_kget kbind_apply kmod_def)
  next
    case (Some j)
    then have "result = Some (Some j)" by (cases result) simp_all
    then show ?thesis
      using facts by (cases "Job.job_id j") (simp_all add: loop_body_def kbind_kget kbind_apply kmod_def)
  qed
qed

text \<open>Counting the job and spawning its task.\<close>

lemma cells_spawning:
  fixes e e1 :: "('s, 'c, 'd, 'r, 'p) Engine"
  assumes "worker_cells e1 = worker_cells e"
    and "kbind (on_world m) (\<lambda>_. kmod (spawn_job rt i k tok tid jid j)) e1 = (r, e2)"
  shows "case r of
      Inl err \<Rightarrow> worker_cells e2 = worker_cells e
    | Inr _ \<Rightarrow> worker_cells e2 = (worker_cells e)(i := spawns_task k jid
        \<lparr>task_job = j, task_token = tok, task_id = tid, task_loop = k\<rparr> (worker_cells e i))"
proof -
  have c: "worker_cells (snd (on_world m e1)) = worker_cells e" using assms(1) by simp
  from assms(2) show ?thesis
  proof (cases rule: kbind_cases)
    case (err f)
    then show ?thesis using c by simp
  next
    case (ok a e')
    then have "worker_cells e' = worker_cells e" using c by simp
    then show ?thesis
      using ok(2) by (auto simp: kmod_def spawn_job_def spawns_task_def Let_def)
  qed
qed

lemma cells_run_body:
  fixes e :: "('s, 'c, 'd, 'r, 'p) Engine"
  assumes "k < length (main_loops (worker_cells e i))"
  obtains (idle) "worker_cells (run_body rt S i k tok tid e) = (worker_cells e)(i := returns_permit k (worker_cells e i))"
  | (ends) "worker_cells (run_body rt S i k tok tid e) = (worker_cells e)(i := goto k Finished (worker_cells e i))"
  | (spawns) jid t where "worker_cells (run_body rt S i k tok tid e) =
        (worker_cells e)(i := spawns_task k jid t (worker_cells e i))" and "task_loop t = k"
proof -
  define w where "w = worker_cells e i"
  define m where "m = get_next_job S tok (block_until w) False (Worker.opts w) None"
  obtain r e1 where att: "kattempt (on_world m) e = (r, e1)" by fastforce
  note body = loop_body_cases [OF w_def att [unfolded m_def], of rt k tid]
  have c1: "worker_cells e1 = worker_cells e" using cells_kattempt_on_world [of m e] att by simp
  show thesis
  proof (cases r)
    case (Inl err)
    then show thesis using c1 by (intro ends) (simp add: run_body_def body)
  next
    case (Inr result)
    show thesis
    proof (cases "Option.bind (Option.bind result id) (\<lambda>j. map_option (Pair j) (Job.job_id j))")
      case None
      then show thesis using Inr c1 assms by (intro idle) (simp add: run_body_def body release_head)
    next
      case (Some jj)
      obtain j jid where jj: "jj = (j, jid)" by fastforce
      obtain r2 e2 where run: "kbind (on_world (update_processing_count S True i jid (Job.state j)))
          (\<lambda>_. kmod (spawn_job rt i k tok tid jid j)) e1 = (r2, e2)" by fastforce
      show thesis
        using cells_spawning [OF c1 run] run Some Inr jj ends spawns
        by (cases r2) (simp_all add: run_body_def body)
    qed
  qed
qed

section \<open>The protocol of one worker\<close>

text \<open>
  What can happen to the cells of one worker, without the queue, the store and the clock. \<open>edge\<close> lists
  where a loop can go without touching another cell, given whether the worker is cancelled.
\<close>

inductive edge :: "bool \<Rightarrow> loop_pc \<Rightarrow> loop_pc \<Rightarrow> bool" for c where
  registers: "edge c Starting Head"
| stores: "edge c (Store_Handle jid tid) Head"
| checks: "\<not> c \<Longrightarrow> edge c Head Checked"
| drains: "c \<Longrightarrow> edge c Head Draining"
| drains_parked: "c \<Longrightarrow> edge c (Parked n) Draining"
| goes_on: "edge c Checked Guard"
| waits: "edge c Parking (Parked n)"
| full: "edge c Guard Head"
| commits: "\<not> c \<Longrightarrow> edge c Acquired (Fetching tok)"
| ends: "edge c (Fetching tok) Finished"

definition started :: "('c, 'd, 'r, 'p) Worker \<Rightarrow> ('c, 'd, 'r, 'p) Worker" where
  "started w = w\<lparr>Worker.state := WorkerState.Active,
     main_loops := main_loops w @ [\<lparr>pc = Starting, permits = concurrency (Worker.opts w)\<rparr>]\<rparr>"

definition pc_at :: "('c, 'd, 'r, 'p) Worker \<Rightarrow> nat \<Rightarrow> loop_pc option" where
  "pc_at w k = (if k < length (main_loops w) then Some (pc (main_loops w ! k)) else None)"

definition gives_back :: "nat \<Rightarrow> u64 \<Rightarrow> ('c, 'd, 'r, 'p) Worker \<Rightarrow> ('c, 'd, 'r, 'p) Worker" where
  "gives_back n c w = at_loop (task_loop (processing w ! n)) (\<lambda>l. l\<lparr>permits := Suc (permits l)\<rparr>)
     (w\<lparr>active_job_count := c, processing := take n (processing w) @ drop (Suc n) (processing w)\<rparr>)"

inductive moves :: "('c, 'd, 'r, 'p) Worker \<Rightarrow> ('c, 'd, 'r, 'p) Worker \<Rightarrow> bool" for w where
  stays: "moves w w"
| created: "main_loops w = [] \<Longrightarrow> moves w (new_worker now wopts)"
| created_running: "main_loops w = [] \<Longrightarrow> moves w (started (new_worker now wopts))"
| starts: "is_idle w \<Longrightarrow> moves w (started w)"
| goes: "pc_at w k = Some p \<Longrightarrow> edge (cancelled w) p p' \<Longrightarrow> moves w (goto k p' w)"
| parks: "pc_at w k = Some Checked \<Longrightarrow> moves w (goto k Parking (w\<lparr>Worker.state := Idle\<rparr>))"
| wakes: "pc_at w k = Some (Parked n) \<Longrightarrow> moves w (goto k Guard (w\<lparr>Worker.state := WorkerState.Active\<rparr>))"
| acquires: "pc_at w k = Some Guard \<Longrightarrow> 0 < permits (main_loops w ! k) \<Longrightarrow> moves w (takes_permit k w)"
| gives_up: "pc_at w k = Some Acquired \<Longrightarrow> cancelled w \<Longrightarrow> moves w (returns_permit k w)"
| finds_nothing: "pc_at w k = Some (Fetching tok) \<Longrightarrow> moves w (returns_permit k w)"
| spawns: "pc_at w k = Some (Fetching tok) \<Longrightarrow> task_loop t = k \<Longrightarrow> moves w (spawns_task k jid t w)"
| finishes: "pc_at w k = Some Draining \<Longrightarrow> processing_closed w \<Longrightarrow> processing w = [] \<Longrightarrow>
    moves w (goto k Finished (w\<lparr>Worker.state := Closed\<rparr>))"
| completes: "n < length (processing w) \<Longrightarrow> moves w (gives_back n c w)"
| closes: "is_running w \<Longrightarrow> moves w (w\<lparr>processing_closed := True, cancelled := True\<rparr>)"

text \<open>Every step of the engine is a move of one worker.\<close>

lemma run_cells: "worker_cells (snd (run i e)) =
    (if is_idle (worker_cells e i) then (worker_cells e)(i := started (worker_cells e i)) else worker_cells e)"
  by (cases "Worker.state (worker_cells e i)")
    (auto simp: run_def kbind_kget kmod_def is_idle_def started_def)

lemma run_body_moves:
  assumes "pc_at (worker_cells e i) k = Some (Fetching tok)"
  shows "\<exists>w'. worker_cells (run_body rt S i k tok tid e) = (worker_cells e)(i := w') \<and> moves (worker_cells e i) w'"
proof -
  have "k < length (main_loops (worker_cells e i))" using assms by (simp add: pc_at_def split: if_splits)
  then show ?thesis
    using assms
    by (cases rule: cells_run_body [of k e i rt S tok tid])
      (blast intro: moves.finds_nothing moves.goes edge.ends moves.spawns)+
qed

lemma main_loop_step_moves:
  fixes e :: "('s, 'c, 'd, 'r, 'p) Engine"
  assumes "k < length (main_loops (worker_cells e i))"
  shows "\<exists>w'. worker_cells (main_loop_step rt S q i k sees_cancel next_id tid e) = (worker_cells e)(i := w') \<and>
    moves (worker_cells e i) w'"
proof -
  have h: "pc_at (worker_cells e i) k = Some (pc (main_loops (worker_cells e i) ! k))"
    using assms by (simp add: pc_at_def)
  note goes = moves.goes [OF h] and stay = moves.stays [of "worker_cells e i"] fun_upd_triv [symmetric]
  show ?thesis
  proof (cases "pc (main_loops (worker_cells e i) ! k)")
    case (Fetching tok)
    then show ?thesis using run_body_moves h by (simp add: main_loop_step_def Let_def)
  next
    case (Parked n)
    then show ?thesis
      using h moves.wakes by (auto simp: main_loop_step_def Let_def intro!: goes edge.intros stay)
  next
    case Guard
    then show ?thesis
      using h assms moves.acquires
      by (auto simp: main_loop_step_def loop_guard_def Let_def at_loop_twice comp_def takes_permit_def
          intro!: goes edge.intros)
  next
    case Acquired
    then show ?thesis
      using h assms moves.gives_up
      by (auto simp: main_loop_step_def loop_token_def Let_def release_head intro!: goes edge.intros)
  next
    case Draining
    then show ?thesis
      using h moves.finishes by (auto simp: main_loop_step_def Let_def intro!: stay)
  next
    case Checked
    then show ?thesis
      using h moves.parks by (auto simp: main_loop_step_def Let_def intro!: goes edge.intros)
  next
    case Finished
    then show ?thesis by (auto simp: main_loop_step_def Let_def intro!: stay)
  qed (auto simp: main_loop_step_def Let_def intro!: goes edge.intros)
qed

lemma task_step_moves:
  assumes "n < length (processing (worker_cells e i))"
  shows "\<exists>w'. worker_cells (task_step ext rt S cb i n e) = (worker_cells e)(i := w') \<and> moves (worker_cells e i) w'"
proof -
  obtain c where c: "worker_cells (snd (process_job ext rt S cb i (task_job (processing (worker_cells e i) ! n))
      (task_token (processing (worker_cells e i) ! n)) e)) = (worker_cells e)(i := (worker_cells e i)\<lparr>active_job_count := c\<rparr>)"
    by (rule cells_process_job)
  show ?thesis using moves.completes [OF assms, of c] by (auto simp: task_step_def gives_back_def Let_def c)
qed

lemma worker_new_moves:
  assumes "main_loops (worker_cells e i) = []"
  shows "\<exists>w'. worker_cells (snd (worker_new num_cpus i passed e)) = (worker_cells e)(i := w') \<and>
    moves (worker_cells e i) w'"
  using moves.created [OF assms] moves.created_running [OF assms]
  by (auto simp: worker_new_def Let_def kbind_apply kmod_def kwhen_def run_cells is_idle_def new_worker_def)

lemma worker_step_moves:
  assumes "worker_step ext rt S q cb e e'"
  shows "\<exists>i w'. worker_cells e' = (worker_cells e)(i := w') \<and> moves (worker_cells e i) w'"
  using assms
proof (cases rule: worker_step.cases)
  case (run i)
  then show ?thesis by (auto simp: run_cells intro: moves.starts moves.stays fun_upd_triv [symmetric])
next
  case (close i)
  then show ?thesis
    by (auto simp: close_request_def intro: moves.closes moves.stays fun_upd_triv [symmetric])
next
  case (close_ends i)
  then show ?thesis by (auto simp: close_finish_def intro: moves.stays fun_upd_triv [symmetric])
next
  case other
  then show ?thesis by (auto intro: moves.stays fun_upd_triv [symmetric])
qed (blast intro: worker_new_moves main_loop_step_moves task_step_moves)+

section \<open>The invariant\<close>

definition running :: "nat \<Rightarrow> ('c, 'd, 'r, 'p) Worker \<Rightarrow> nat" where
  "running k w = length (filter (\<lambda>t. task_loop t = k) (processing w))"

text \<open>The permit that a loop holds between taking it and handing it to a task.\<close>

fun held :: "loop_pc \<Rightarrow> nat" where
  "held Acquired = 1"
| "held (Fetching _) = 1"
| "held _ = 0"

text \<open>Free permits, running tasks and the permit in hand of each loop fit its semaphore.\<close>

definition room_inv :: "('c, 'd, 'r, 'p) Worker \<Rightarrow> bool" where
  "room_inv w \<longleftrightarrow>
    (\<forall>k < length (main_loops w). permits (main_loops w ! k) + running k w + held (pc (main_loops w ! k))
      \<le> concurrency (Worker.opts w)) \<and>
    (\<forall>t \<in> set (processing w). task_loop t < length (main_loops w))"

text \<open>
  How state, cancellation and the places of the loops fit together. A cancelled worker may be idle: a
  loop that saw neither the cancellation nor the end of a pause still stores that state.
\<close>

definition state_inv :: "('c, 'd, 'r, 'p) Worker \<Rightarrow> bool" where
  "state_inv w \<longleftrightarrow> (Worker.state w = Closed \<longrightarrow> cancelled w) \<and> (Worker.state w = WorkerState.Active \<longrightarrow> main_loops w \<noteq> []) \<and>
    (cancelled w \<longrightarrow> processing_closed w \<and> main_loops w \<noteq> []) \<and>
    (\<forall>l \<in> set (main_loops w). pc l = Draining \<longrightarrow> cancelled w)"

definition worker_inv :: "('c, 'd, 'r, 'p) Worker \<Rightarrow> bool" where
  "worker_inv w \<longleftrightarrow> room_inv w \<and> state_inv w"

lemma running_fields [simp]:
  "running k (at_loop k' f w) = running k w" "running k (w\<lparr>Worker.state := st\<rparr>) = running k w"
  "running k (w\<lparr>active_job_count := c\<rparr>) = running k w" "running k (w\<lparr>main_loops := ls\<rparr>) = running k w"
  "running k (w\<lparr>processing_closed := b, cancelled := b'\<rparr>) = running k w"
  by (simp_all add: running_def)

lemma running_append [simp]:
  "running k (w\<lparr>processing := processing w @ [t]\<rparr>) = running k w + (if task_loop t = k then 1 else 0)"
  by (simp add: running_def)

lemma remove_nth:
  assumes "n < length xs"
  shows "length (filter P (take n xs @ drop (Suc n) xs)) + (if P (xs ! n) then 1 else 0) = length (filter P xs)"
proof -
  have "length (filter P (take n xs @ xs ! n # drop (Suc n) xs)) =
      length (filter P (take n xs @ drop (Suc n) xs)) + (if P (xs ! n) then 1 else 0)" by simp
  then show ?thesis by (simp only: id_take_nth_drop [OF assms, symmetric])
qed

lemma set_remove_nth: "x \<in> set (take n xs @ drop m xs) \<Longrightarrow> x \<in> set xs"
  by (auto dest: in_set_takeD in_set_dropD)

lemma pc_at_less: "pc_at w k = Some p \<Longrightarrow> k < length (main_loops w) \<and> pc (main_loops w ! k) = p"
  by (simp add: pc_at_def split: if_splits)

lemma edge_held: "edge c p p' \<Longrightarrow> held p' \<le> held p"
  by (induction rule: edge.induct) simp_all

lemma room_inv_at_loop:
  assumes "room_inv w" and "k < length (main_loops w)"
    and "permits (f (main_loops w ! k)) + held (pc (f (main_loops w ! k))) \<le> permits (main_loops w ! k) + held (pc (main_loops w ! k))"
  shows "room_inv (at_loop k f w)"
  unfolding room_inv_def
proof (intro conjI allI impI)
  show "\<forall>t \<in> set (processing (at_loop k f w)). task_loop t < length (main_loops (at_loop k f w))"
    using assms(1) by (simp add: room_inv_def)
  fix k' assume k': "k' < length (main_loops (at_loop k f w))"
  then have "permits (main_loops w ! k') + running k' w + held (pc (main_loops w ! k')) \<le> concurrency (Worker.opts w)"
    using assms(1) by (simp add: room_inv_def)
  then show "permits (main_loops (at_loop k f w) ! k') + running k' (at_loop k f w) + held (pc (main_loops (at_loop k f w) ! k'))
      \<le> concurrency (Worker.opts (at_loop k f w))"
    using assms(3) k' by (cases "k' = k") simp_all
qed

lemma room_inv_state [simp]: "room_inv (w\<lparr>Worker.state := st\<rparr>) = room_inv w"
  by (simp add: room_inv_def)

lemma room_inv_spawn:
  assumes "room_inv w" and "task_loop t = k" and "pc_at w k = Some (Fetching tok)"
  shows "room_inv (spawns_task k jid t w)"
  unfolding room_inv_def
proof (intro conjI allI impI ballI)
  note k = pc_at_less [OF assms(3)]
  fix k' assume "k' < length (main_loops (spawns_task k jid t w))"
  then have k': "k' < length (main_loops w)" by (simp add: spawns_task_def)
  then have "permits (main_loops w ! k') + running k' w + held (pc (main_loops w ! k')) \<le> concurrency (Worker.opts w)"
    using assms(1) by (simp add: room_inv_def)
  then show "permits (main_loops (spawns_task k jid t w) ! k') + running k' (spawns_task k jid t w) +
      held (pc (main_loops (spawns_task k jid t w) ! k')) \<le> concurrency (Worker.opts (spawns_task k jid t w))"
    using assms(2) k k' by (cases "k' = k") (auto simp: spawns_task_def)
qed (use assms pc_at_less [OF assms(3)] in \<open>auto simp: spawns_task_def room_inv_def\<close>)

lemma gives_back_fields [simp]:
  "processing (gives_back n c w) = take n (processing w) @ drop (Suc n) (processing w)"
  "Worker.opts (gives_back n c w) = Worker.opts w" "length (main_loops (gives_back n c w)) = length (main_loops w)"
  "cancelled (gives_back n c w) = cancelled w" "Worker.state (gives_back n c w) = Worker.state w"
  "processing_closed (gives_back n c w) = processing_closed w"
  by (simp_all add: gives_back_def)

lemma room_inv_complete:
  assumes "room_inv w" and "n < length (processing w)"
  shows "room_inv (gives_back n c w)"
  unfolding room_inv_def
proof (intro conjI allI impI ballI)
  fix k assume "k < length (main_loops (gives_back n c w))"
  then have k: "k < length (main_loops w)" by simp
  then have "permits (main_loops w ! k) + running k w + held (pc (main_loops w ! k)) \<le> concurrency (Worker.opts w)"
    using assms(1) by (simp add: room_inv_def)
  then show "permits (main_loops (gives_back n c w) ! k) + running k (gives_back n c w) +
      held (pc (main_loops (gives_back n c w) ! k)) \<le> concurrency (Worker.opts (gives_back n c w))"
    using remove_nth [OF assms(2), of "\<lambda>t. task_loop t = k"] k
    by (cases "task_loop (processing w ! n) = k") (simp_all add: running_def gives_back_def)
next
  fix t assume "t \<in> set (processing (gives_back n c w))"
  then have "t \<in> set (processing w)" using set_remove_nth [of t n "processing w" "Suc n"] by simp
  then show "task_loop t < length (main_loops (gives_back n c w))" using assms(1) by (simp add: room_inv_def)
qed

lemma room_inv_started:
  assumes "room_inv w"
  shows "room_inv (started w)"
proof -
  have "running (length (main_loops w)) w = 0"
    using assms by (auto simp: room_inv_def running_def filter_empty_conv)
  then show ?thesis
    using assms by (auto simp: room_inv_def started_def nth_append less_Suc_eq running_def)
qed

lemma room_inv_new: "room_inv (new_worker now wopts)"
  by (simp add: room_inv_def new_worker_def)

lemma room_inv_moves:
  assumes "moves w w'" and "room_inv w"
  shows "room_inv w'"
  using assms
proof (induction rule: moves.induct)
  case (goes k p p')
  then show ?case using pc_at_less [of w k] edge_held [OF goes.hyps(2)] by (simp add: room_inv_at_loop)
next
  case (parks k)
  then show ?case using pc_at_less [of w k] by (simp add: room_inv_at_loop)
next
  case (wakes k n)
  then show ?case using pc_at_less [of w k] by (simp add: room_inv_at_loop)
next
  case (acquires k)
  then show ?case using pc_at_less [of w k] by (simp add: takes_permit_def room_inv_at_loop)
next
  case (gives_up k)
  then show ?case using pc_at_less [of w k] by (simp add: returns_permit_def room_inv_at_loop)
next
  case (finds_nothing k tok)
  then show ?case using pc_at_less [of w k] by (simp add: returns_permit_def room_inv_at_loop)
next
  case (finishes k)
  then show ?case using pc_at_less [of w k] by (simp add: room_inv_at_loop)
next
  case closes
  then show ?case by (simp add: room_inv_def)
qed (simp_all add: room_inv_complete room_inv_started room_inv_new room_inv_spawn)

text \<open>All tasks of a worker, by the loop that spawned them.\<close>

lemma length_by_class:
  fixes n :: nat
  shows "\<forall>x \<in> set xs. f x < n \<Longrightarrow> length xs = (\<Sum>k<n. length (filter (\<lambda>x. f x = k) xs))"
proof (induction xs)
  case (Cons x xs)
  have "(\<Sum>k<n. length (filter (\<lambda>y. f y = k) (x # xs))) =
      (\<Sum>k<n. (if k = f x then 1 else 0) + length (filter (\<lambda>y. f y = k) xs))"
    by (rule sum.cong) auto
  also have "\<dots> = (\<Sum>k<n. if k = f x then 1 else 0) + length xs" using Cons by (simp add: sum.distrib)
  also have "(\<Sum>k<n. if k = f x then 1 else 0) = (1 :: nat)" using Cons.prems by (subst sum.delta) auto
  finally show ?case by simp
qed simp

lemma room_inv_total:
  assumes "room_inv w"
  shows "length (processing w) \<le> length (main_loops w) * concurrency (Worker.opts w)"
proof -
  have "length (processing w) = (\<Sum>k<length (main_loops w). running k w)"
    unfolding running_def using assms by (intro length_by_class) (simp add: room_inv_def)
  also have "\<dots> \<le> (\<Sum>k<length (main_loops w). concurrency (Worker.opts w))"
    using assms by (intro sum_mono) (force simp: room_inv_def)
  finally show ?thesis by simp
qed

lemma state_inv_at_loop:
  assumes "state_inv w" and "pc (f (main_loops w ! k)) = Draining \<longrightarrow> cancelled w \<or> pc (main_loops w ! k) = Draining"
    and "k < length (main_loops w)"
  shows "state_inv (at_loop k f w)"
  using assms nth_mem [OF assms(3)] set_update_subset_insert [of "main_loops w" k "f (main_loops w ! k)"]
  by (auto simp: state_inv_def)

lemma state_inv_processing [simp]: "state_inv (w\<lparr>processing := us\<rparr>) = state_inv w"
  "state_inv (w\<lparr>active_job_count := c\<rparr>) = state_inv w"
  by (simp_all add: state_inv_def)

lemma at_loop_oob: "\<not> k < length (main_loops w) \<Longrightarrow> at_loop k f w = w"
  by (cases w) (simp add: at_loop_def not_less list_update_beyond)

lemma edge_drains: "edge c p p' \<Longrightarrow> p' = Draining \<longrightarrow> c"
  by (induction rule: edge.induct) simp_all

lemma state_inv_idle: "state_inv w \<Longrightarrow> state_inv (w\<lparr>Worker.state := Idle\<rparr>)"
  by (simp add: state_inv_def)

lemma state_inv_active: "state_inv w \<Longrightarrow> main_loops w \<noteq> [] \<Longrightarrow> state_inv (w\<lparr>Worker.state := WorkerState.Active\<rparr>)"
  by (simp add: state_inv_def)

lemma state_inv_moves:
  assumes "moves w w'" and "state_inv w"
  shows "state_inv w'"
  using assms
proof (induction rule: moves.induct)
  case starts
  then show ?case by (auto simp: state_inv_def started_def is_idle_def)
next
  case (goes k p p')
  then show ?case using pc_at_less [of w k] edge_drains [OF goes.hyps(2)] by (simp add: state_inv_at_loop)
next
  case (parks k)
  then show ?case using pc_at_less [of w k] by (simp add: state_inv_at_loop state_inv_idle)
next
  case (wakes k n)
  then have "k < length (main_loops w)" using pc_at_less by blast
  moreover from this have "main_loops w \<noteq> []" by auto
  ultimately show ?case using wakes by (simp add: state_inv_at_loop state_inv_active)
next
  case (acquires k)
  then show ?case using pc_at_less [of w k] by (simp add: takes_permit_def state_inv_at_loop)
next
  case (gives_up k)
  then show ?case using pc_at_less [of w k] by (simp add: returns_permit_def state_inv_at_loop)
next
  case (finds_nothing k tok)
  then show ?case using pc_at_less [of w k] by (simp add: returns_permit_def state_inv_at_loop)
next
  case (spawns k tok t jid)
  then show ?case using pc_at_less [of w k] by (simp add: spawns_task_def state_inv_at_loop)
next
  case (finishes k)
  then have k: "k < length (main_loops w)" "pc (main_loops w ! k) = Draining" using pc_at_less by blast+
  then have "cancelled w" using finishes.prems nth_mem unfolding state_inv_def by metis
  then have "state_inv (w\<lparr>Worker.state := Closed\<rparr>)" using finishes.prems by (simp add: state_inv_def)
  then show ?case using k by (simp add: state_inv_at_loop)
next
  case (completes n c)
  then show ?case
    by (cases "task_loop (processing w ! n) < length (main_loops w)")
      (simp_all add: gives_back_def state_inv_at_loop at_loop_oob)
next
  case closes
  then show ?case by (auto simp: state_inv_def is_running_def)
qed (simp_all add: state_inv_def new_worker_def started_def)

lemma worker_inv_moves: "moves w w' \<Longrightarrow> worker_inv w \<Longrightarrow> worker_inv w'"
  by (simp add: worker_inv_def room_inv_moves state_inv_moves)

text \<open>An engine whose workers have not been started, and the states it can reach.\<close>

definition fresh_worker :: "('c, 'd, 'r, 'p) Worker \<Rightarrow> bool" where
  "fresh_worker w \<longleftrightarrow> Worker.state w = Idle \<and> \<not> cancelled w \<and> processing w = [] \<and> main_loops w = []"

definition reachable :: "'c externals \<Rightarrow> runtime \<Rightarrow> ('s, 'c, 'd, 'r, 'p) backend \<Rightarrow> 'c Queue \<Rightarrow>
    ('s, 'c, 'd, 'r, 'p) Callback \<Rightarrow> ('s, 'c, 'd, 'r, 'p) Engine \<Rightarrow> bool" where
  "reachable ext rt S q cb e \<longleftrightarrow>
    (\<exists>e0. (\<forall>i. fresh_worker (worker_cells e0 i)) \<and> (worker_step ext rt S q cb)\<^sup>*\<^sup>* e0 e)"

lemma worker_inv_step:
  assumes "worker_step ext rt S q cb e e'" and "\<forall>i. worker_inv (worker_cells e i)"
  shows "\<forall>i. worker_inv (worker_cells e' i)"
  using worker_step_moves [OF assms(1)] assms(2) worker_inv_moves by fastforce

lemma worker_inv_steps:
  "(worker_step ext rt S q cb)\<^sup>*\<^sup>* e e' \<Longrightarrow> \<forall>i. worker_inv (worker_cells e i) \<Longrightarrow> \<forall>i. worker_inv (worker_cells e' i)"
proof (induction rule: rtranclp_induct)
  case (step y z)
  then show ?case using worker_inv_step [OF step.hyps(2)] by simp
qed simp

lemma worker_inv_reachable: "reachable ext rt S q cb e \<Longrightarrow> worker_inv (worker_cells e i)"
  unfolding reachable_def
  using worker_inv_steps by (fastforce simp: fresh_worker_def worker_inv_def room_inv_def state_inv_def)

lemma reachable_steps:
  "reachable ext rt S q cb e \<Longrightarrow> (worker_step ext rt S q cb)\<^sup>*\<^sup>* e e' \<Longrightarrow> reachable ext rt S q cb e'"
  unfolding reachable_def by (blast intro: rtranclp_trans)

section \<open>Shutting down\<close>

text \<open>
  What is left to do for a worker that was cancelled: its tasks, and for each loop the way to its end.
  An idle worker can be run once more, which adds a loop; a loop that has not yet looked at the pause
  can still make the worker idle.
\<close>

fun steps_left :: "loop_pc \<Rightarrow> nat" where
  "steps_left Finished = 0"
| "steps_left Draining = 1"
| "steps_left Head = 2"
| "steps_left Starting = 3"
| "steps_left (Store_Handle _ _) = 3"
| "steps_left Acquired = 3"
| "steps_left (Fetching _) = 5"
| "steps_left Guard = 4"
| "steps_left (Parked _) = 5"
| "steps_left Parking = 6"
| "steps_left Checked = 11"

definition work_left :: "('c, 'd, 'r, 'p) Worker \<Rightarrow> nat" where
  "work_left w = length (processing w) + (\<Sum>l\<leftarrow>main_loops w. steps_left (pc l)) + (if is_idle w then 4 else 0)"

definition shut_down :: "('c, 'd, 'r, 'p) Worker \<Rightarrow> bool" where
  "shut_down w \<longleftrightarrow> processing w = [] \<and> (\<forall>l \<in> set (main_loops w). pc l = Finished)"

text \<open>The loops that have seen no cancellation and are asking for a job: each may still spawn one task.\<close>

definition committed :: "('c, 'd, 'r, 'p) Worker \<Rightarrow> nat" where
  "committed w = (\<Sum>l\<leftarrow>main_loops w. case pc l of Fetching _ \<Rightarrow> 1 | _ \<Rightarrow> 0)"

definition jobs_to_come :: "('c, 'd, 'r, 'p) Worker \<Rightarrow> nat" where
  "jobs_to_come w = length (processing w) + committed w"

lemma sum_list_at:
  fixes f :: "'a \<Rightarrow> nat"
  assumes "k < length xs"
  shows "(\<Sum>x\<leftarrow>xs[k := y]. f x) + f (xs ! k) = (\<Sum>x\<leftarrow>xs. f x) + f y"
  using assms
proof (induction xs arbitrary: k)
  case (Cons x xs)
  then show ?case by (cases k) (simp_all add: add.commute add.left_commute)
qed simp

lemma work_left_at_loop:
  assumes "k < length (main_loops w)"
  shows "work_left (at_loop k f w) + steps_left (pc (main_loops w ! k)) = work_left w + steps_left (pc (f (main_loops w ! k)))"
  using sum_list_at [OF assms, of "\<lambda>l. steps_left (pc l)"] by (simp add: work_left_def is_idle_def)

lemma jobs_to_come_at_loop:
  assumes "k < length (main_loops w)"
  shows "jobs_to_come (at_loop k f w) + (case pc (main_loops w ! k) of Fetching _ \<Rightarrow> 1 | _ \<Rightarrow> 0) =
    jobs_to_come w + (case pc (f (main_loops w ! k)) of Fetching _ \<Rightarrow> 1 | _ \<Rightarrow> 0)"
  using sum_list_at [OF assms, of "\<lambda>l. case pc l of Fetching _ \<Rightarrow> 1 | _ \<Rightarrow> 0"]
  by (simp add: jobs_to_come_def committed_def)

lemma jobs_to_come_state [simp]: "jobs_to_come (w\<lparr>Worker.state := st\<rparr>) = jobs_to_come w"
  by (simp add: jobs_to_come_def committed_def)

lemma work_left_state:
  "st \<noteq> Idle \<Longrightarrow> work_left (w\<lparr>Worker.state := st\<rparr>) \<le> work_left w"
  "work_left (w\<lparr>Worker.state := Idle\<rparr>) \<le> work_left w + 4"
  by (simp_all add: work_left_def is_idle_def)

lemma measures_spawn [simp]:
  "work_left (w\<lparr>processing := processing w @ [t]\<rparr>) = Suc (work_left w)"
  "jobs_to_come (w\<lparr>processing := processing w @ [t]\<rparr>) = Suc (jobs_to_come w)"
  by (simp_all add: work_left_def jobs_to_come_def committed_def is_idle_def)

lemma measures_started:
  "is_idle w \<Longrightarrow> work_left (started w) < work_left w" "jobs_to_come (started w) = jobs_to_come w"
  by (simp_all add: work_left_def jobs_to_come_def committed_def is_idle_def started_def)

lemma measures_gives_back:
  assumes "n < length (processing w)" and "room_inv w"
  shows "work_left (gives_back n c w) < work_left w \<and> jobs_to_come (gives_back n c w) < jobs_to_come w"
proof -
  define us where "us = take n (processing w) @ drop (Suc n) (processing w)"
  let ?k = "task_loop (processing w ! n)" and ?f = "\<lambda>l. l\<lparr>permits := Suc (permits l)\<rparr>"
  let ?w = "w\<lparr>active_job_count := c, processing := us\<rparr>"
  have eq: "gives_back n c w = at_loop ?k ?f ?w" by (simp add: gives_back_def us_def)
  have k: "?k < length (main_loops ?w)" using assms nth_mem by (auto simp: room_inv_def)
  have us: "length us < length (processing w)" using assms(1) by (simp add: us_def)
  have "work_left ?w < work_left w" using us by (simp add: work_left_def is_idle_def)
  moreover have "jobs_to_come ?w < jobs_to_come w" using us by (simp add: jobs_to_come_def committed_def)
  ultimately show ?thesis
    unfolding eq using work_left_at_loop [OF k, of ?f] jobs_to_come_at_loop [OF k, of ?f] by simp
qed

lemma edge_cancelled:
  "edge c p p' \<Longrightarrow> c \<Longrightarrow> steps_left p' < steps_left p \<and> (\<forall>tok. p' \<noteq> Fetching tok)"
  by (induction rule: edge.induct) simp_all

lemma no_fetch: "(\<forall>tok. p \<noteq> Fetching tok) \<Longrightarrow> (case p of Fetching _ \<Rightarrow> 1 | _ \<Rightarrow> 0) = (0::nat)"
  by (cases p) simp_all

text \<open>A move of a cancelled worker changes nothing or leaves less to do, and brings no new job.\<close>

lemma cancelled_moves:
  assumes "moves w w'" and "worker_inv w" and "cancelled w"
  shows "cancelled w' \<and> (w' = w \<or> work_left w' < work_left w) \<and> jobs_to_come w' \<le> jobs_to_come w"
  using assms
proof (induction rule: moves.induct)
  case starts
  then show ?case using measures_started [of w] by (simp add: started_def)
next
  case (goes k p p')
  note k = pc_at_less [OF goes.hyps(1)]
  have "jobs_to_come (goto k p' w) \<le> jobs_to_come w"
    using jobs_to_come_at_loop [of k w "\<lambda>l. l\<lparr>pc := p'\<rparr>"] k edge_cancelled [OF goes.hyps(2)] goes.prems by (simp add: no_fetch)
  then show ?case
    using work_left_at_loop [of k w "\<lambda>l. l\<lparr>pc := p'\<rparr>"] k edge_cancelled [OF goes.hyps(2)] goes.prems by simp
next
  case (parks k)
  let ?w = "w\<lparr>Worker.state := Idle\<rparr>"
  have "work_left ?w \<le> work_left w + 4" by (rule work_left_state)
  then show ?case
    using parks pc_at_less [of w k] work_left_at_loop [of k ?w "\<lambda>l. l\<lparr>pc := Parking\<rparr>"]
      jobs_to_come_at_loop [of k ?w "\<lambda>l. l\<lparr>pc := Parking\<rparr>"] by simp
next
  case (wakes k n)
  let ?w = "w\<lparr>Worker.state := WorkerState.Active\<rparr>"
  have "work_left ?w \<le> work_left w" by (rule work_left_state) simp
  then show ?case
    using wakes pc_at_less [of w k] work_left_at_loop [of k ?w "\<lambda>l. l\<lparr>pc := Guard\<rparr>"]
      jobs_to_come_at_loop [of k ?w "\<lambda>l. l\<lparr>pc := Guard\<rparr>"] by simp
next
  case (acquires k)
  then show ?case
    using pc_at_less [of w k] work_left_at_loop [of k w "\<lambda>l. l\<lparr>permits := permits l - 1, pc := Acquired\<rparr>"]
      jobs_to_come_at_loop [of k w "\<lambda>l. l\<lparr>permits := permits l - 1, pc := Acquired\<rparr>"] by (simp add: takes_permit_def)
next
  case (gives_up k)
  then show ?case
    using pc_at_less [of w k] work_left_at_loop [of k w "\<lambda>l. l\<lparr>permits := Suc (permits l), pc := Head\<rparr>"]
      jobs_to_come_at_loop [of k w "\<lambda>l. l\<lparr>permits := Suc (permits l), pc := Head\<rparr>"] by (simp add: returns_permit_def)
next
  case (finds_nothing k tok)
  then show ?case
    using pc_at_less [of w k] work_left_at_loop [of k w "\<lambda>l. l\<lparr>permits := Suc (permits l), pc := Head\<rparr>"]
      jobs_to_come_at_loop [of k w "\<lambda>l. l\<lparr>permits := Suc (permits l), pc := Head\<rparr>"] by (simp add: returns_permit_def)
next
  case (spawns k tok t jid)
  let ?w = "w\<lparr>processing := processing w @ [t]\<rparr>"
  show ?case
    using spawns pc_at_less [of w k] work_left_at_loop [of k ?w "\<lambda>l. l\<lparr>pc := Store_Handle jid (task_id t)\<rparr>"]
      jobs_to_come_at_loop [of k ?w "\<lambda>l. l\<lparr>pc := Store_Handle jid (task_id t)\<rparr>"] by (simp add: spawns_task_def)
next
  case (finishes k)
  let ?w = "w\<lparr>Worker.state := Closed\<rparr>"
  have "work_left ?w \<le> work_left w" by (rule work_left_state) simp
  then show ?case
    using finishes pc_at_less [of w k] work_left_at_loop [of k ?w "\<lambda>l. l\<lparr>pc := Finished\<rparr>"]
      jobs_to_come_at_loop [of k ?w "\<lambda>l. l\<lparr>pc := Finished\<rparr>"] by simp
next
  case (completes n c)
  then show ?case using measures_gives_back [of n w c] by (auto simp: worker_inv_def)
qed (auto simp: worker_inv_def state_inv_def is_running_def)

lemma cancelled_step:
  assumes "worker_step ext rt S q cb e e'" and "worker_inv (worker_cells e i)" and "cancelled (worker_cells e i)"
  shows "cancelled (worker_cells e' i) \<and>
    (worker_cells e' i = worker_cells e i \<or> work_left (worker_cells e' i) < work_left (worker_cells e i)) \<and>
    jobs_to_come (worker_cells e' i) \<le> jobs_to_come (worker_cells e i)"
proof -
  obtain i' w' where "worker_cells e' = (worker_cells e)(i' := w')" "moves (worker_cells e i') w'"
    using worker_step_moves [OF assms(1)] by blast
  then show ?thesis using cancelled_moves [of "worker_cells e i" w'] assms(2,3) by (cases "i' = i") auto
qed

lemma cancelled_steps:
  assumes "(worker_step ext rt S q cb)\<^sup>*\<^sup>* e e'" and "reachable ext rt S q cb e" and "cancelled (worker_cells e i)"
  shows "cancelled (worker_cells e' i) \<and> jobs_to_come (worker_cells e' i) \<le> jobs_to_come (worker_cells e i)"
  using assms(1)
proof (induction rule: rtranclp_induct)
  case (step y z)
  have "worker_inv (worker_cells y i)"
    using reachable_steps [OF assms(2) step.hyps(1)] by (rule worker_inv_reachable)
  then show ?case using cancelled_step [OF step.hyps(2)] step.IH by fastforce
qed (simp add: assms(3))

lemma run_body_leaves:
  assumes "k < length (main_loops (worker_cells e i))"
  shows "pc (main_loops (worker_cells (run_body rt S i k tok tid e) i) ! k) \<noteq> Fetching tok'"
  by (rule cells_run_body [OF assms, of rt S tok tid]) (use assms in \<open>simp_all add: returns_permit_def spawns_task_def\<close>)

text \<open>As long as it is not shut down, some loop or task of the worker can move on.\<close>

lemma cancelled_progress:
  assumes "worker_inv (worker_cells e i)" and "cancelled (worker_cells e i)" and "\<not> shut_down (worker_cells e i)"
  shows "\<exists>e'. worker_step ext rt S q cb e e' \<and> worker_cells e' i \<noteq> worker_cells e i"
proof -
  let ?w = "worker_cells e i"
  consider (task) "processing ?w \<noteq> []" | (loop) "processing ?w = []" "\<exists>l \<in> set (main_loops ?w). pc l \<noteq> Finished"
    using assms(3) by (auto simp: shut_down_def)
  then show ?thesis
  proof cases
    case task
    then have n: "0 < length (processing ?w)" by simp
    obtain c where "worker_cells (snd (process_job ext rt S cb i (task_job (processing ?w ! 0))
        (task_token (processing ?w ! 0)) e)) = (worker_cells e)(i := ?w\<lparr>active_job_count := c\<rparr>)"
      by (rule cells_process_job)
    then have "length (processing (worker_cells (task_step ext rt S cb i 0 e) i)) < length (processing ?w)"
      using n by (simp add: task_step_def Let_def)
    then show ?thesis using worker_step.task [OF n, of ext rt S q cb] by auto
  next
    case loop
    then obtain k where k: "k < length (main_loops ?w)" "pc (main_loops ?w ! k) \<noteq> Finished"
      by (auto simp: in_set_conv_nth)
    let ?e = "main_loop_step rt S q i k True 0 0 e"
    have "pc (main_loops (worker_cells ?e i) ! k) \<noteq> pc (main_loops ?w ! k)"
      using k loop(1) assms(1,2) run_body_leaves [OF k(1)]
      by (cases "pc (main_loops ?w ! k)")
        (simp_all add: main_loop_step_def loop_guard_def loop_token_def Let_def worker_inv_def state_inv_def)
    then have "worker_cells ?e i \<noteq> ?w" by auto
    then show ?thesis using worker_step.loop [OF k(1)] by blast
  qed
qed

end
