(* ===== verification/Concurrent_Deque.thy ===== *)
theory Concurrent_Deque
  imports Skip_Map "HOL-Library.Multiset"
begin

text \<open>
  The double-ended queue of \<^verbatim>\<open>src/src/utils/concurrent_structures.rs\<close>, which the in-memory store
  keeps its waiting, active and paused lists in: an ordered map from \<^verbatim>\<open>i64\<close> indices to values
  with the next free index at either end.

  The first half takes every call as one step and shows that the deque implements a list
  (locale \<open>deque_contract\<close>, interpreted on the operations of the file). The second half splits
  pushes and pops at the point where the code does, between taking an index and touching the map,
  and shows that no interleaving loses or duplicates a value.
\<close>

section \<open>The deque\<close>

record 'a ConcurrentDeque =
  data :: "(int, 'a) skipmap"
  head_idx :: int
  tail_idx :: int

definition new :: "'a ConcurrentDeque" where
  "new = \<lparr>data = [], head_idx = 0, tail_idx = 1\<rparr>"

definition push_front :: "'a \<Rightarrow> 'a ConcurrentDeque \<Rightarrow> 'a ConcurrentDeque" where
  "push_front value d =
    (let idx = head_idx d in
     d\<lparr>head_idx := wrap_i64 (idx - 1), data := sm_insert idx value (data d)\<rparr>)"

definition push_back :: "'a \<Rightarrow> 'a ConcurrentDeque \<Rightarrow> 'a ConcurrentDeque" where
  "push_back value d =
    (let idx = tail_idx d in
     d\<lparr>tail_idx := wrap_i64 (idx + 1), data := sm_insert idx value (data d)\<rparr>)"

definition clear :: "'a ConcurrentDeque \<Rightarrow> 'a ConcurrentDeque" where
  "clear d = d\<lparr>data := [], head_idx := 0, tail_idx := 1\<rparr>"

definition pop_front :: "'a ConcurrentDeque \<Rightarrow> 'a option \<times> 'a ConcurrentDeque" where
  "pop_front d =
    (case sm_front (data d) of
       None \<Rightarrow> (None, d)
     | Some entry \<Rightarrow>
        (let key = fst entry in
         (sm_get key (data d), d\<lparr>data := sm_remove key (data d)\<rparr>)))"

definition pop_back :: "'a ConcurrentDeque \<Rightarrow> 'a option \<times> 'a ConcurrentDeque" where
  "pop_back d =
    (case sm_back (data d) of
       None \<Rightarrow> (None, d)
     | Some entry \<Rightarrow>
        (let key = fst entry in
         (sm_get key (data d), d\<lparr>data := sm_remove key (data d)\<rparr>)))"

definition len :: "'a ConcurrentDeque \<Rightarrow> nat" where
  "len d = length (data d)"

definition is_empty :: "'a ConcurrentDeque \<Rightarrow> bool" where
  "is_empty d \<longleftrightarrow> data d = []"

definition contains_value :: "'a ConcurrentDeque \<Rightarrow> 'a \<Rightarrow> bool" where
  "contains_value d value \<longleftrightarrow> list_ex (\<lambda>entry. snd entry = value) (data d)"

definition iter :: "'a ConcurrentDeque \<Rightarrow> (int \<times> 'a) list" where
  "iter d = data d"

text \<open>The values of the deque, front first.\<close>

definition to_list :: "'a ConcurrentDeque \<Rightarrow> 'a list" where
  "to_list d = map snd (data d)"

text \<open>
  Popping does not give an index back, so the number of pushes left at either end only falls:
  \<open>front_room\<close> and \<open>back_room\<close> count how many are left before an index wraps around.
\<close>

definition deque_ok :: "'a ConcurrentDeque \<Rightarrow> bool" where
  "deque_ok d \<longleftrightarrow> sm_ok (data d) \<and> (\<forall>e \<in> set (data d). head_idx d < fst e \<and> fst e < tail_idx d)
     \<and> - (2 ^ 63) \<le> head_idx d \<and> head_idx d \<le> 0 \<and> 1 \<le> tail_idx d \<and> tail_idx d < 2 ^ 63"

definition front_room :: "'a ConcurrentDeque \<Rightarrow> nat" where
  "front_room d = nat (head_idx d + 2 ^ 63)"

definition back_room :: "'a ConcurrentDeque \<Rightarrow> nat" where
  "back_room d = nat (2 ^ 63 - 1 - tail_idx d)"

lemma deque_ok_new: "deque_ok new"
  by (simp add: deque_ok_def new_def)

lemma deque_new [simp]: "to_list new = []" "front_room new = 2 ^ 63" "back_room new = 2 ^ 63 - 2"
  by (simp_all add: to_list_def new_def front_room_def back_room_def)

lemma push_front_data:
  assumes "deque_ok d"
  shows "data (push_front v d) = (head_idx d, v) # data d"
  using assms by (simp add: push_front_def Let_def deque_ok_def sm_insert_first)

lemma push_back_data:
  assumes "deque_ok d"
  shows "data (push_back v d) = data d @ [(tail_idx d, v)]"
  using assms by (simp add: push_back_def Let_def deque_ok_def sm_insert_last)

lemma push_front_ok:
  assumes "deque_ok d" and "0 < front_room d"
  shows "deque_ok (push_front v d)" and "front_room (push_front v d) = front_room d - 1"
    and "back_room (push_front v d) = back_room d"
proof -
  from assms have room: "- (2 ^ 63) \<le> head_idx d - 1" and top: "head_idx d - 1 < 2 ^ 63"
    by (simp_all add: deque_ok_def front_room_def)
  then have "head_idx (push_front v d) = head_idx d - 1" and "tail_idx (push_front v d) = tail_idx d"
    by (simp_all add: push_front_def Let_def wrap_i64_id)
  then show "deque_ok (push_front v d)" "front_room (push_front v d) = front_room d - 1"
    "back_room (push_front v d) = back_room d"
    using assms(1) room top unfolding deque_ok_def push_front_data [OF assms(1)]
    by (auto simp: sm_ok_Cons front_room_def back_room_def)
qed

lemma push_back_ok:
  assumes "deque_ok d" and "0 < back_room d"
  shows "deque_ok (push_back v d)" and "back_room (push_back v d) = back_room d - 1"
    and "front_room (push_back v d) = front_room d"
proof -
  from assms have room: "- (2 ^ 63) \<le> tail_idx d + 1" and top: "tail_idx d + 1 < 2 ^ 63"
    by (simp_all add: deque_ok_def back_room_def)
  then have "tail_idx (push_back v d) = tail_idx d + 1" and "head_idx (push_back v d) = head_idx d"
    by (simp_all add: push_back_def Let_def wrap_i64_id)
  then show "deque_ok (push_back v d)" "back_room (push_back v d) = back_room d - 1"
    "front_room (push_back v d) = front_room d"
    using assms(1) room top unfolding deque_ok_def push_back_data [OF assms(1)]
    by (auto simp: sm_ok_append sm_ok_Cons front_room_def back_room_def)
qed

lemma pop_front_data:
  assumes "deque_ok d"
  shows "pop_front d = (case data d of [] \<Rightarrow> (None, d) | e # r \<Rightarrow> (Some (snd e), d\<lparr>data := r\<rparr>))"
proof (cases "data d")
  case Nil
  then show ?thesis by (simp add: pop_front_def sm_front_def)
next
  case (Cons e r)
  with assms have "sm_ok (e # r)" by (simp add: deque_ok_def)
  from sm_remove_front [OF this] Cons show ?thesis
    by (cases e) (simp add: pop_front_def sm_front_def Let_def sm_get_def)
qed

lemma pop_back_data:
  assumes "deque_ok d"
  shows "pop_back d =
    (if data d = [] then (None, d) else (Some (snd (last (data d))), d\<lparr>data := butlast (data d)\<rparr>))"
proof (cases "data d" rule: rev_cases)
  case Nil
  then show ?thesis by (simp add: pop_back_def sm_back_def)
next
  case (snoc r e)
  with assms have ok: "sm_ok (r @ [e])" by (simp add: deque_ok_def)
  have "sm_get (fst e) (r @ [e]) = Some (snd e)"
    using sm_get_in [OF ok, of "fst e" "snd e"] by simp
  with sm_remove_back [OF ok] snoc show ?thesis
    by (simp add: pop_back_def sm_back_def Let_def)
qed

lemma pop_ok:
  assumes "deque_ok d"
  shows "deque_ok (snd (pop_front d))" and "deque_ok (snd (pop_back d))"
proof -
  show "deque_ok (snd (pop_front d))"
    unfolding pop_front_data [OF assms] using assms
    by (auto simp: deque_ok_def sm_ok_Cons split: list.split)
  show "deque_ok (snd (pop_back d))"
    unfolding pop_back_data [OF assms] using assms
    by (auto simp: deque_ok_def sm_ok_butlast dest: in_set_butlastD)
qed

section \<open>The contract of a double-ended queue\<close>

text \<open>
  A deque promises the behaviour of a list while indices are left. \<open>deque_step\<close> runs one call
  and \<open>run_calls\<close> a sequence of them, collecting what the calls return.
\<close>

datatype 'a deque_call = PushFront 'a | PushBack 'a | PopFront | PopBack | Clear

fun deque_step :: "('a \<Rightarrow> 'd \<Rightarrow> 'd) \<Rightarrow> ('a \<Rightarrow> 'd \<Rightarrow> 'd) \<Rightarrow> ('d \<Rightarrow> 'a option \<times> 'd) \<Rightarrow>
    ('d \<Rightarrow> 'a option \<times> 'd) \<Rightarrow> ('d \<Rightarrow> 'd) \<Rightarrow> 'a deque_call \<Rightarrow> 'd \<Rightarrow> 'a option \<times> 'd" where
  "deque_step pf pb qf qb cl (PushFront v) d = (None, pf v d)"
| "deque_step pf pb qf qb cl (PushBack v) d = (None, pb v d)"
| "deque_step pf pb qf qb cl PopFront d = qf d"
| "deque_step pf pb qf qb cl PopBack d = qb d"
| "deque_step pf pb qf qb cl Clear d = (None, cl d)"

primrec run_calls :: "('c \<Rightarrow> 's \<Rightarrow> 'o \<times> 's) \<Rightarrow> 'c list \<Rightarrow> 's \<Rightarrow> 'o list \<times> 's" where
  "run_calls step [] s = ([], s)"
| "run_calls step (c # cs) s =
    (let (out, s') = step c s; (outs, s'') = run_calls step cs s' in (out # outs, s''))"

fun list_step :: "'a deque_call \<Rightarrow> 'a list \<Rightarrow> 'a option \<times> 'a list" where
  "list_step (PushFront v) xs = (None, v # xs)"
| "list_step (PushBack v) xs = (None, xs @ [v])"
| "list_step PopFront [] = (None, [])"
| "list_step PopFront (x # xs) = (Some x, xs)"
| "list_step PopBack xs = (if xs = [] then (None, []) else (Some (last xs), butlast xs))"
| "list_step Clear xs = (None, [])"

definition fronts :: "'a deque_call list \<Rightarrow> nat" where
  "fronts cs = length (filter (\<lambda>c. case c of PushFront _ \<Rightarrow> True | _ \<Rightarrow> False) cs)"

definition backs :: "'a deque_call list \<Rightarrow> nat" where
  "backs cs = length (filter (\<lambda>c. case c of PushBack _ \<Rightarrow> True | _ \<Rightarrow> False) cs)"

locale deque_contract =
  fixes pf pb :: "'a \<Rightarrow> 'd \<Rightarrow> 'd"
    and qf qb :: "'d \<Rightarrow> 'a option \<times> 'd"
    and cl :: "'d \<Rightarrow> 'd"
    and lst :: "'d \<Rightarrow> 'a list"
    and ok :: "'d \<Rightarrow> bool"
    and froom broom :: "'d \<Rightarrow> nat"
  assumes pf_ok: "ok d \<Longrightarrow> 0 < froom d \<Longrightarrow>
      ok (pf v d) \<and> froom (pf v d) = froom d - 1 \<and> broom (pf v d) = broom d"
    and pb_ok: "ok d \<Longrightarrow> 0 < broom d \<Longrightarrow>
      ok (pb v d) \<and> broom (pb v d) = broom d - 1 \<and> froom (pb v d) = froom d"
    and pop_invar: "ok d \<Longrightarrow> ok (snd (qf d)) \<and> ok (snd (qb d))"
    and pop_room: "ok d \<Longrightarrow> froom (snd (qf d)) = froom d \<and> broom (snd (qf d)) = broom d \<and>
      froom (snd (qb d)) = froom d \<and> broom (snd (qb d)) = broom d"
    and cl_ok: "ok d \<Longrightarrow> ok (cl d) \<and> froom d \<le> froom (cl d) \<and> broom d \<le> broom (cl d)"
    and pf_lst: "ok d \<Longrightarrow> lst (pf v d) = v # lst d"
    and pb_lst: "ok d \<Longrightarrow> lst (pb v d) = lst d @ [v]"
    and qf_lst: "ok d \<Longrightarrow> (fst (qf d), lst (snd (qf d))) = list_step PopFront (lst d)"
    and qb_lst: "ok d \<Longrightarrow> (fst (qb d), lst (snd (qb d))) = list_step PopBack (lst d)"
    and cl_lst: "lst (cl d) = []"
begin

abbreviation step :: "'a deque_call \<Rightarrow> 'd \<Rightarrow> 'a option \<times> 'd" where
  "step \<equiv> deque_step pf pb qf qb cl"

lemma step_refines:
  assumes "ok d" and "fronts [c] \<le> froom d" and "backs [c] \<le> broom d"
  shows "list_step c (lst d) = (fst (step c d), lst (snd (step c d)))"
  using assms qf_lst [of d] qb_lst [of d]
  by (cases c) (simp_all add: pf_lst pb_lst cl_lst)

lemma step_room:
  assumes "ok d" and "fronts (c # cs) \<le> froom d" and "backs (c # cs) \<le> broom d"
  shows "ok (snd (step c d)) \<and> fronts cs \<le> froom (snd (step c d)) \<and> backs cs \<le> broom (snd (step c d))"
  using assms pf_ok [of d] pb_ok [of d] pop_invar [of d] pop_room [of d] cl_ok [of d]
  by (cases c) (auto simp: fronts_def backs_def)

theorem run_refines:
  assumes "ok d" and "fronts cs \<le> froom d" and "backs cs \<le> broom d"
  shows "run_calls list_step cs (lst d) =
    (fst (run_calls step cs d), lst (snd (run_calls step cs d)))"
  using assms
proof (induction cs arbitrary: d)
  case (Cons c cs)
  have "fronts [c] \<le> froom d" "backs [c] \<le> broom d"
    using Cons.prems(2,3) by (cases c; simp add: fronts_def backs_def)+
  from step_refines [OF Cons.prems(1) this]
  have hd: "list_step c (lst d) = (fst (step c d), lst (snd (step c d)))" .
  from step_room [OF Cons.prems] have
    "run_calls list_step cs (lst (snd (step c d))) =
      (fst (run_calls step cs (snd (step c d))), lst (snd (run_calls step cs (snd (step c d)))))"
    by (intro Cons.IH) simp_all
  with hd show ?case by (simp add: split_beta Let_def)
qed simp

text \<open>Pushing at the front and popping at the back is first in, first out.\<close>

lemma run_push_fronts: "run_calls list_step (map PushFront vs) xs = (map (\<lambda>_. None) vs, rev vs @ xs)"
  by (induction vs arbitrary: xs) simp_all

lemma run_pop_backs:
  "run_calls list_step (replicate (length xs) PopBack) xs = (map Some (rev xs), [])"
  by (induction xs rule: rev_induct) simp_all

lemma run_append:
  "run_calls f (as @ bs) s =
    (fst (run_calls f as s) @ fst (run_calls f bs (snd (run_calls f as s))),
     snd (run_calls f bs (snd (run_calls f as s))))"
  by (induction as arbitrary: s) (simp_all add: split_beta Let_def)

theorem fifo:
  assumes "ok d" and "lst d = []" and "length vs \<le> froom d"
  shows "fst (run_calls step (map PushFront vs @ replicate (length vs) PopBack) d) =
    map (\<lambda>_. None) vs @ map Some vs"
proof -
  let ?cs = "map PushFront vs @ replicate (length vs) (PopBack :: 'a deque_call)"
  have "filter (\<lambda>c. case c of PushFront _ \<Rightarrow> True | _ \<Rightarrow> False) (map PushFront vs) = map PushFront vs"
    by (induction vs) simp_all
  then have "fronts ?cs = length vs" by (simp add: fronts_def)
  moreover have "backs ?cs = 0" by (auto simp: backs_def filter_empty_conv)
  ultimately have "fst (run_calls step ?cs d) = fst (run_calls list_step ?cs [])"
    using run_refines [of d ?cs] assms by simp
  then show ?thesis
    using run_pop_backs [of "rev vs"] by (simp add: run_append run_push_fronts)
qed

end

interpretation cdeque: deque_contract push_front push_back pop_front pop_back clear
  to_list deque_ok front_room back_room
proof unfold_locales
  fix d :: "'a ConcurrentDeque" and v :: 'a
  assume ok: "deque_ok d"
  show "0 < front_room d \<Longrightarrow> deque_ok (push_front v d) \<and>
      front_room (push_front v d) = front_room d - 1 \<and> back_room (push_front v d) = back_room d"
    using push_front_ok [OF ok] by simp
  show "0 < back_room d \<Longrightarrow> deque_ok (push_back v d) \<and>
      back_room (push_back v d) = back_room d - 1 \<and> front_room (push_back v d) = front_room d"
    using push_back_ok [OF ok] by simp
  show "deque_ok (snd (pop_front d)) \<and> deque_ok (snd (pop_back d))"
    using pop_ok [OF ok] by simp
  show "front_room (snd (pop_front d)) = front_room d \<and> back_room (snd (pop_front d)) = back_room d \<and>
      front_room (snd (pop_back d)) = front_room d \<and> back_room (snd (pop_back d)) = back_room d"
    by (simp add: pop_front_data [OF ok] pop_back_data [OF ok] front_room_def back_room_def
        split: list.split)
  show "to_list (push_front v d) = v # to_list d" "to_list (push_back v d) = to_list d @ [v]"
    by (simp_all add: to_list_def push_front_data [OF ok] push_back_data [OF ok])
  show "(fst (pop_front d), to_list (snd (pop_front d))) = list_step PopFront (to_list d)"
    by (simp add: to_list_def pop_front_data [OF ok] split: list.split)
  show "(fst (pop_back d), to_list (snd (pop_back d))) = list_step PopBack (to_list d)"
    by (simp add: to_list_def pop_back_data [OF ok] last_map map_butlast)
  show "deque_ok (clear d) \<and> front_room d \<le> front_room (clear d) \<and> back_room d \<le> back_room (clear d)"
    using ok by (auto simp: clear_def deque_ok_def front_room_def back_room_def)
next
  fix d :: "'a ConcurrentDeque"
  show "to_list (clear d) = []" by (simp add: clear_def to_list_def)
qed

section \<open>Interleaved calls\<close>

text \<open>
  A push takes its index with \<^verbatim>\<open>fetch_sub\<close> or \<^verbatim>\<open>fetch_add\<close> and inserts afterwards; a pop
  reads the first or last key and removes it afterwards. Between the two halves any other call may
  run. \<open>Inserting\<close> and \<open>Removing\<close> are calls that have done their first half, and \<open>Finish i\<close>
  runs the second half of the \<open>i\<close>-th of them, so a list of events is a schedule of any number of
  threads. \<open>pushed\<close> and \<open>popped\<close> record the arguments and results of the calls.
\<close>

datatype 'a half_call = Inserting int 'a | Removing int

datatype 'a event = BeginPushFront 'a | BeginPushBack 'a | BeginPopFront | BeginPopBack | Finish nat

record 'a shared =
  deque :: "'a ConcurrentDeque"
  inflight :: "'a half_call list"
  pushed :: "'a list"
  popped :: "'a list"

definition idle_system :: "'a shared" where
  "idle_system = \<lparr>deque = new, inflight = [], pushed = [], popped = []\<rparr>"

fun finish :: "'a half_call \<Rightarrow> 'a shared \<Rightarrow> 'a shared" where
  "finish (Inserting idx value) s =
    s\<lparr>deque := (deque s)\<lparr>data := sm_insert idx value (data (deque s))\<rparr>\<rparr>"
| "finish (Removing key) s =
    (case sm_get key (data (deque s)) of
       None \<Rightarrow> s
     | Some value \<Rightarrow> s\<lparr>deque := (deque s)\<lparr>data := sm_remove key (data (deque s))\<rparr>,
                       popped := value # popped s\<rparr>)"

fun interleave :: "'a event \<Rightarrow> 'a shared \<Rightarrow> 'a shared" where
  "interleave (BeginPushFront v) s =
    s\<lparr>deque := (deque s)\<lparr>head_idx := wrap_i64 (head_idx (deque s) - 1)\<rparr>,
      inflight := inflight s @ [Inserting (head_idx (deque s)) v], pushed := v # pushed s\<rparr>"
| "interleave (BeginPushBack v) s =
    s\<lparr>deque := (deque s)\<lparr>tail_idx := wrap_i64 (tail_idx (deque s) + 1)\<rparr>,
      inflight := inflight s @ [Inserting (tail_idx (deque s)) v], pushed := v # pushed s\<rparr>"
| "interleave BeginPopFront s =
    (case sm_front (data (deque s)) of
       None \<Rightarrow> s
     | Some entry \<Rightarrow> s\<lparr>inflight := inflight s @ [Removing (fst entry)]\<rparr>)"
| "interleave BeginPopBack s =
    (case sm_back (data (deque s)) of
       None \<Rightarrow> s
     | Some entry \<Rightarrow> s\<lparr>inflight := inflight s @ [Removing (fst entry)]\<rparr>)"
| "interleave (Finish i) s =
    (if i < length (inflight s)
     then finish (inflight s ! i) (s\<lparr>inflight := take i (inflight s) @ drop (Suc i) (inflight s)\<rparr>)
     else s)"

definition schedule :: "'a event list \<Rightarrow> 'a shared \<Rightarrow> 'a shared" where
  "schedule es s = fold interleave es s"

text \<open>The indices and values of the pushes that have not inserted yet.\<close>

fun claim :: "'a half_call \<Rightarrow> (int \<times> 'a) list" where
  "claim (Inserting idx value) = [(idx, value)]"
| "claim (Removing key) = []"

definition claims :: "'a shared \<Rightarrow> (int \<times> 'a) list" where
  "claims s = concat (map claim (inflight s))"

text \<open>
  The invariant: the indices in the map and those of unfinished pushes are distinct and lie
  strictly between the two ends, \<open>n\<close> more pushes fit at either end, and every value pushed is in
  exactly one place.
\<close>

definition places :: "'a shared \<Rightarrow> (int \<times> 'a) list" where
  "places s = data (deque s) @ claims s"

definition shared_ok :: "nat \<Rightarrow> 'a shared \<Rightarrow> bool" where
  "shared_ok n s \<longleftrightarrow> sm_ok (data (deque s)) \<and> distinct (map fst (places s)) \<and>
     (\<forall>k \<in> fst ` set (places s). head_idx (deque s) < k \<and> k < tail_idx (deque s)) \<and>
     - (2 ^ 63) + int n \<le> head_idx (deque s) \<and> head_idx (deque s) < tail_idx (deque s) \<and>
     tail_idx (deque s) + int n < 2 ^ 63 \<and>
     mset (pushed s) = mset (map snd (places s)) + mset (popped s)"

lemma mset_sm_insert:
  assumes "sm_ok m" and "k \<notin> fst ` set m"
  shows "mset (sm_insert k v m) = add_mset (k, v) (mset m)"
proof -
  have "distinct (sm_insert k v m)" "distinct ((k, v) # m)"
    using assms sm_ok_distinct [of m] sm_ok_distinct [of "sm_insert k v m"]
    by (auto simp: distinct_map image_iff)
  moreover have "set (sm_insert k v m) = set ((k, v) # m)"
    using assms(2) by (auto simp: set_sm_insert)
  ultimately show ?thesis by (metis mset.simps(2) set_eq_iff_mset_eq_distinct)
qed

lemma mset_sm_remove:
  assumes "sm_ok m" and "sm_get k m = Some v"
  shows "mset m = add_mset (k, v) (mset (sm_remove k m))"
proof -
  have mem: "(k, v) \<in> set m" using assms(2) sm_get_in [OF assms(1)] by simp
  have uniq: "e = (k, v)" if "e \<in> set m" and "fst e = k" for e
    using eq_key_imp_eq_value [OF sm_ok_distinct [OF assms(1)] mem, of "snd e"] that by (cases e) simp
  have "distinct m" "distinct ((k, v) # sm_remove k m)"
    using sm_ok_distinct [OF assms(1)] by (auto simp: distinct_map sm_remove_def)
  moreover have "set m = set ((k, v) # sm_remove k m)"
    unfolding list.set set_sm_remove using mem uniq by blast
  ultimately show ?thesis by (metis mset.simps(2) set_eq_iff_mset_eq_distinct)
qed

lemma claims_split:
  assumes "i < length (inflight s)"
  shows "mset (claims s) = mset (claim (inflight s ! i)) +
    mset (claims (s\<lparr>inflight := take i (inflight s) @ drop (Suc i) (inflight s)\<rparr>))"
proof -
  have "concat (map claim (inflight s)) =
      concat (map claim (take i (inflight s) @ inflight s ! i # drop (Suc i) (inflight s)))"
    using id_take_nth_drop [OF assms] by simp
  then show ?thesis by (simp add: claims_def)
qed

text \<open>The invariant depends on the places only as a multiset, and survives taking one out.\<close>

lemma places_smaller:
  assumes "mset xs = A + mset ys"
  shows "distinct (map fst xs) \<Longrightarrow> distinct (map fst ys)" and "set ys \<subseteq> set xs"
proof -
  obtain zs where A: "A = mset zs" by (metis ex_mset)
  then have eq: "mset xs = mset (zs @ ys)" using assms by simp
  then have "mset (map fst xs) = mset (map fst (zs @ ys))" by (metis mset_map)
  then show "distinct (map fst xs) \<Longrightarrow> distinct (map fst ys)"
    by (metis distinct_append map_append mset_eq_imp_distinct_iff)
  from eq show "set ys \<subseteq> set xs" by (metis Un_upper2 mset_eq_setD set_append)
qed

lemma shared_ok_transfer:
  assumes "shared_ok n s" and "m \<le> n" and "sm_ok (data (deque t))"
    and "mset (places s) = A + mset (places t)"
    and "head_idx (deque t) = head_idx (deque s)" and "tail_idx (deque t) = tail_idx (deque s)"
    and "pushed t = pushed s" and "mset (popped t) = image_mset snd A + mset (popped s)"
  shows "shared_ok m t"
proof -
  have "mset (map snd (places s)) = image_mset snd A + mset (map snd (places t))"
    using assms(4) by (metis image_mset_union mset_map)
  moreover note places_smaller [OF assms(4)]
  ultimately show ?thesis using assms by (auto simp: shared_ok_def ac_simps)
qed

lemma interleave_finish:
  assumes ok: "shared_ok n s"
  shows "shared_ok n (interleave (Finish i) s)"
proof (cases "i < length (inflight s)")
  case True
  define t where "t = s\<lparr>inflight := take i (inflight s) @ drop (Suc i) (inflight s)\<rparr>"
  have same: "deque t = deque s" "pushed t = pushed s" "popped t = popped s" by (simp_all add: t_def)
  have sm: "sm_ok (data (deque s))" and dist: "distinct (map fst (places s))"
    using ok by (simp_all add: shared_ok_def)
  have split: "mset (claims s) = mset (claim (inflight s ! i)) + mset (claims t)"
    using claims_split [OF True] by (simp add: t_def)
  have "shared_ok n (finish (inflight s ! i) t)"
  proof (cases "inflight s ! i")
    case (Inserting idx v)
    then have "set (claims s) = insert (idx, v) (set (claims t))"
      using arg_cong [OF split, of set_mset] by simp
    then have "idx \<notin> fst ` set (data (deque s))" using dist by (auto simp: places_def)
    from mset_sm_insert [OF sm this] Inserting show ?thesis
      using split sm
      by (intro shared_ok_transfer [OF ok, where A = "{#}"])
        (simp_all add: same places_def claims_def)
  next
    case (Removing key)
    show ?thesis
    proof (cases "sm_get key (data (deque s))")
      case None
      with Removing show ?thesis
        using split sm
        by (intro shared_ok_transfer [OF ok, where A = "{#}"])
          (simp_all add: same places_def claims_def)
    next
      case (Some v)
      with mset_sm_remove [OF sm Some] Removing show ?thesis
        using split sm
        by (intro shared_ok_transfer [OF ok, where A = "{#(key, v)#}"])
          (simp_all add: same places_def claims_def)
    qed
  qed
  with True show ?thesis by (simp add: t_def)
qed (simp add: ok)

lemma shared_ok_claim:
  assumes ok: "shared_ok n s" and places: "places t = places s @ [(k, v)]"
    and same: "data (deque t) = data (deque s)" "pushed t = v # pushed s" "popped t = popped s"
    and ends: "head_idx (deque t) \<le> head_idx (deque s)" "tail_idx (deque s) \<le> tail_idx (deque t)"
    and key: "head_idx (deque t) < k" "k < tail_idx (deque t)"
      "k \<le> head_idx (deque s) \<or> tail_idx (deque s) \<le> k"
    and room: "- (2 ^ 63) + int m \<le> head_idx (deque t)" "tail_idx (deque t) + int m < 2 ^ 63"
  shows "shared_ok m t"
proof -
  have old: "head_idx (deque s) < k'" "k' < tail_idx (deque s)" if "k' \<in> fst ` set (places s)" for k'
    using ok that unfolding shared_ok_def by blast+
  have "k \<notin> fst ` set (places s)" using old [of k] key(3) by linarith
  then have "distinct (map fst (places t))"
    using ok by (simp add: shared_ok_def places)
  moreover have "head_idx (deque t) < k' \<and> k' < tail_idx (deque t)" if "k' \<in> fst ` set (places t)" for k'
  proof -
    from that consider "k' = k" | "k' \<in> fst ` set (places s)" by (auto simp: places)
    then show ?thesis using old [of k'] ends key(1,2) by cases auto
  qed
  moreover have "mset (pushed t) = mset (map snd (places t)) + mset (popped t)"
    using ok by (simp add: shared_ok_def places same)
  ultimately show ?thesis
    using ok room key(1,2) unfolding shared_ok_def same by simp
qed

lemma interleave_ok:
  assumes "shared_ok (Suc n) s"
  shows "shared_ok n (interleave e s)"
proof -
  have sm: "sm_ok (data (deque s))" using assms by (simp add: shared_ok_def)
  have ends: "- (2 ^ 63) + int n \<le> head_idx (deque s) - 1" "head_idx (deque s) < tail_idx (deque s)"
    "tail_idx (deque s) + 1 + int n < 2 ^ 63"
    using assms by (simp_all add: shared_ok_def)
  then have wrap: "wrap_i64 (head_idx (deque s) - 1) = head_idx (deque s) - 1"
    "wrap_i64 (tail_idx (deque s) + 1) = tail_idx (deque s) + 1"
    by (simp_all add: wrap_i64_id)
  note same = shared_ok_transfer [OF assms, where A = "{#}" and m = n]
  show ?thesis
  proof (cases e)
    case (Finish i)
    with same [of s] sm interleave_finish [of n s i] show ?thesis by simp
  next
    case BeginPopFront
    then show ?thesis using sm
      by (cases "sm_front (data (deque s))") (auto simp: places_def claims_def intro!: same)
  next
    case BeginPopBack
    then show ?thesis using sm
      by (cases "sm_back (data (deque s))") (auto simp: places_def claims_def intro!: same)
  next
    case (BeginPushFront v)
    then show ?thesis using ends
      by (intro shared_ok_claim [OF assms, where k = "head_idx (deque s)" and v = v])
        (simp_all add: places_def claims_def wrap)
  next
    case (BeginPushBack v)
    then show ?thesis using ends
      by (intro shared_ok_claim [OF assms, where k = "tail_idx (deque s)" and v = v])
        (simp_all add: places_def claims_def wrap)
  qed
qed

lemma schedule_ok: "shared_ok (length es + n) s \<Longrightarrow> shared_ok n (schedule es s)"
  by (induction es arbitrary: s) (auto simp: schedule_def intro: interleave_ok)

lemma idle_system_ok: "n < 2 ^ 62 \<Longrightarrow> shared_ok n (idle_system :: 'a shared)"
proof -
  assume "n < 2 ^ 62"
  then have "int n < 2 ^ 62" using of_nat_less_iff [of n "2 ^ 62", where 'a = int] by simp
  then show ?thesis by (simp add: shared_ok_def places_def claims_def idle_system_def new_def)
qed

section \<open>Properties\<close>

text \<open>
  C9. Any sequence of pushes, pops and clears on a deque returns exactly what the same sequence
  returns on a list, and leaves the deque with the list's contents, as long as no more pushes are
  made at an end than it has indices left (a new deque has \<open>2 ^ 63\<close> at the front and
  \<open>2 ^ 63 - 2\<close> at the back).
\<close>

theorem deque_refines_list:
  assumes "deque_ok d" and "fronts cs \<le> front_room d" and "backs cs \<le> back_room d"
  shows "run_calls list_step cs (to_list d) =
    (fst (run_calls (deque_step push_front push_back pop_front pop_back clear) cs d),
     to_list (snd (run_calls (deque_step push_front push_back pop_front pop_back clear) cs d)))"
  using assms by (rule cdeque.run_refines)

theorem deque_refines_list_witness:
  "run_calls list_step [PushFront (1::nat), PushFront 2, PushBack 3, PopBack, PopBack, PopFront] [] =
    (fst (run_calls (deque_step push_front push_back pop_front pop_back clear)
       [PushFront 1, PushFront 2, PushBack 3, PopBack, PopBack, PopFront] new),
     to_list (snd (run_calls (deque_step push_front push_back pop_front pop_back clear)
       [PushFront 1, PushFront 2, PushBack 3, PopBack, PopBack, PopFront] new))) \<and>
   fst (run_calls list_step [PushFront (1::nat), PushFront 2, PushBack 3, PopBack, PopBack, PopFront] [])
     = [None, None, None, Some 3, Some 1, Some 2]"
  using deque_refines_list [of new "[PushFront (1::nat), PushFront 2, PushBack 3, PopBack, PopBack, PopFront]"]
  by (simp add: deque_ok_new fronts_def backs_def)

text \<open>
  Values pushed at the front come out at the back in the order they were pushed: the waiting
  list is first in, first out.
\<close>

theorem deque_fifo:
  assumes "deque_ok d" and "to_list d = []" and "length vs \<le> front_room d"
  shows "fst (run_calls (deque_step push_front push_back pop_front pop_back clear)
      (map PushFront vs @ replicate (length vs) PopBack) d) = map (\<lambda>_. None) vs @ map Some vs"
  using assms by (rule cdeque.fifo)

theorem deque_fifo_witness:
  "fst (run_calls (deque_step push_front push_back pop_front pop_back clear)
      (map PushFront [7::nat, 8, 9] @ replicate 3 PopBack) new)
    = [None, None, None, Some 7, Some 8, Some 9]"
  using deque_fifo [of new "[7::nat, 8, 9]"]
  by (simp add: deque_ok_new numeral_3_eq_3)

text \<open>
  C22. Under every interleaving of the halves of concurrent pushes and pops, a value that was
  pushed is in exactly one place: in the map, in an unfinished push, or returned by one pop. Nothing
  is lost or returned twice.
\<close>

theorem interleaving_conserves:
  assumes "length es < 2 ^ 62"
  shows "mset (pushed (schedule es (idle_system :: 'a shared))) =
    mset (to_list (deque (schedule es idle_system))) +
    mset (map snd (claims (schedule es idle_system))) + mset (popped (schedule es idle_system))"
proof -
  have "shared_ok 0 (schedule es (idle_system :: 'a shared))"
    using schedule_ok [of es 0] idle_system_ok [of "length es"] assms by simp
  then show ?thesis by (simp add: shared_ok_def places_def to_list_def)
qed

theorem interleaving_conserves_witness:
  "(let es = [BeginPushFront (5::nat), BeginPushBack 6, Finish 1, BeginPopFront, BeginPopFront,
       Finish 1, Finish 1, Finish 0]
    in mset (pushed (schedule es idle_system)) =
      mset (to_list (deque (schedule es idle_system))) +
      mset (map snd (claims (schedule es idle_system))) + mset (popped (schedule es idle_system))
     \<and> popped (schedule es idle_system) = [6])"
  using interleaving_conserves [of "[BeginPushFront (5::nat), BeginPushBack 6, Finish 1, BeginPopFront,
      BeginPopFront, Finish 1, Finish 1, Finish 0]"]
  by (simp add: schedule_def idle_system_def new_def wrap_i64_def sm_front_def sm_insert_def
      sm_get_def sm_remove_def)

end
