(* ===== verification/In_Memory_Store.thy ===== *)
theory In_Memory_Store
  imports Store_Trait Concurrent_Deque Timed_Map
begin

text \<open>
  The in-memory backend, \<^verbatim>\<open>src/src/stores/inmemory_store.rs\<close>: the record \<open>InMemoryStore\<close> with the
  struct's fields and one definition per operation of the \<^verbatim>\<open>Store\<close> trait, collected at the end in
  the dictionary \<open>mem_store\<close>. The pointers the store keeps to the queue's emitter, metrics, notifier
  and pause flag are options that are set once; what they point to lives in the \<open>World\<close>.
\<close>

section \<open>State\<close>

record ('c, 'd, 'r, 'p) InMemoryStore =
  name :: CompactString
  prefix :: CompactString
  processing :: u64
  is_paused :: bool
  jobs :: "(u64, ('c, 'd, 'r, 'p) Job) TimedMap"
  worker_metrics :: "(Uuid, WorkerMetrics) TimedMap"
  process_metrics :: "(u32, ProcessMetrics) TimedMap"
  locks :: "(u64, Lock) TimedMap"
  has_events :: bool
  id_counter :: u64
  has_stored_metrics :: bool
  has_pause_workers :: bool
  is_inital :: bool
  has_notifier :: bool
  priority_counter :: u64
  completed :: "(u64, u64) skipmap"
  prioritized :: "(u64, u64) skipmap"
  delayed :: "(u64, u64) skipmap"
  failed :: "(u64, u64) skipmap"
  stalled :: "(u64, unit) skipmap"
  active :: "u64 ConcurrentDeque"
  waiting :: "u64 ConcurrentDeque"
  paused :: "u64 ConcurrentDeque"
  event_mode :: QueueEventMode

type_synonym ('c, 'd, 'r, 'p) mem_world = "(('c, 'd, 'r, 'p) InMemoryStore, 'r, 'p) World"

definition new :: "CompactString option \<Rightarrow> CompactString \<Rightarrow> ('c, 'd, 'r, 'p) InMemoryStore" where
  "new pre nm = \<lparr>name = nm, prefix = unwrap_or ''kio'' pre, processing = 0, is_paused = False,
     jobs = Timed_Map.new, worker_metrics = Timed_Map.new, process_metrics = Timed_Map.new,
     locks = Timed_Map.new, has_events = False, id_counter = 0, has_stored_metrics = False,
     has_pause_workers = False, is_inital = False, has_notifier = False, priority_counter = 0,
     completed = [], prioritized = [], delayed = [], failed = [], stalled = [],
     active = Concurrent_Deque.new, waiting = Concurrent_Deque.new, paused = Concurrent_Deque.new,
     event_mode = PubSub\<rparr>"

definition toggle_expiration :: "('c, 'd, 'r, 'p) InMemoryStore \<Rightarrow> ('c, 'd, 'r, 'p) InMemoryStore" where
  "toggle_expiration s =
    s\<lparr>locks := Timed_Map.toggle_expiration (locks s), jobs := Timed_Map.toggle_expiration (jobs s),
      worker_metrics := Timed_Map.toggle_expiration (worker_metrics s)\<rparr>"

text \<open>Reading and changing the store inside the world.\<close>

abbreviation mem :: "('c, 'd, 'r, 'p) mem_world \<Rightarrow> ('c, 'd, 'r, 'p) InMemoryStore" where
  "mem w \<equiv> World.store w"

definition on_store :: "(('c, 'd, 'r, 'p) InMemoryStore \<Rightarrow> ('c, 'd, 'r, 'p) InMemoryStore) \<Rightarrow>
    ('c, 'd, 'r, 'p) mem_world \<Rightarrow> ('c, 'd, 'r, 'p) mem_world" where
  "on_store f w = w\<lparr>World.store := f (mem w)\<rparr>"

lemma on_store_fields [simp]:
  "mem (on_store f w) = f (mem w)" "wall (on_store f w) = wall w" "mono (on_store f w) = mono w"
  "current_metrics (on_store f w) = current_metrics w" "emitted (on_store f w) = emitted w"
  "pause_workers (on_store f w) = pause_workers w" "notified (on_store f w) = notified w"
  "paused_cell (on_store f w) = paused_cell w" "backoff_registry (on_store f w) = backoff_registry w"
  by (simp_all add: on_store_def)

section \<open>Collections\<close>

definition add_item ::
  "CollectionSuffix \<Rightarrow> u64 \<Rightarrow> i64 option \<Rightarrow> bool \<Rightarrow> (('c, 'd, 'r, 'p) mem_world, unit) kio" where
  "add_item col item score app = kmod (on_store (\<lambda>s.
    case col of
      CollectionSuffix.Active \<Rightarrow>
        s\<lparr>active := (if app then push_front item (active s) else push_back item (active s))\<rparr>
    | CollectionSuffix.Wait \<Rightarrow>
        s\<lparr>waiting := (if app then push_front item (waiting s) else push_back item (waiting s))\<rparr>
    | CollectionSuffix.Paused \<Rightarrow>
        s\<lparr>paused := (if app then push_front item (paused s) else push_back item (paused s))\<rparr>
    | CollectionSuffix.Completed \<Rightarrow>
        (case score of None \<Rightarrow> s | Some sc \<Rightarrow> s\<lparr>completed := sm_insert sc item (completed s)\<rparr>)
    | CollectionSuffix.Failed \<Rightarrow>
        (case score of None \<Rightarrow> s | Some sc \<Rightarrow> s\<lparr>failed := sm_insert sc item (failed s)\<rparr>)
    | CollectionSuffix.Prioritized \<Rightarrow>
        (case score of None \<Rightarrow> s | Some sc \<Rightarrow> s\<lparr>prioritized := sm_insert sc item (prioritized s)\<rparr>)
    | CollectionSuffix.Delayed \<Rightarrow>
        (case score of None \<Rightarrow> s | Some sc \<Rightarrow> s\<lparr>delayed := sm_insert sc item (delayed s)\<rparr>)
    | CollectionSuffix.Stalled \<Rightarrow> s\<lparr>stalled := sm_insert item () (stalled s)\<rparr>
    | _ \<Rightarrow> s))"

definition exists_in :: "CollectionSuffix \<Rightarrow> u64 \<Rightarrow> (('c, 'd, 'r, 'p) mem_world, bool) kio" where
  "exists_in col item w =
    (let s = mem w in
     case col of
       CollectionSuffix.Active \<Rightarrow> (Inr (contains_value (active s) item), w)
     | CollectionSuffix.Wait \<Rightarrow> (Inr (contains_value (waiting s) item), w)
     | CollectionSuffix.Paused \<Rightarrow> (Inr (contains_value (paused s) item), w)
     | CollectionSuffix.Completed \<Rightarrow> (Inr (list_ex (\<lambda>e. snd e = item) (completed s)), w)
     | CollectionSuffix.Failed \<Rightarrow> (Inr (list_ex (\<lambda>e. snd e = item) (failed s)), w)
     | CollectionSuffix.Prioritized \<Rightarrow> (Inr (list_ex (\<lambda>e. snd e = item) (prioritized s)), w)
     | CollectionSuffix.Delayed \<Rightarrow> (Inr (list_ex (\<lambda>e. snd e = item) (delayed s)), w)
     | CollectionSuffix.Stalled \<Rightarrow> (Inr (sm_contains_key item (stalled s)), w)
     | CollectionSuffix.Job _ \<Rightarrow>
        (let (b, m) = contains_key (mono w) (tag col) (jobs s)
         in (Inr b, on_store (\<lambda>s. s\<lparr>jobs := m\<rparr>) w))
     | CollectionSuffix.Lock _ \<Rightarrow>
        (let (b, m) = contains_key (mono w) (tag col) (locks s)
         in (Inr b, on_store (\<lambda>s. s\<lparr>locks := m\<rparr>) w))
     | StalledCheck \<Rightarrow>
        (let (b, m) = contains_key (mono w) (tag col) (locks s)
         in (Inr b, on_store (\<lambda>s. s\<lparr>locks := m\<rparr>) w))
     | _ \<Rightarrow> (Inr False, w))"

text \<open>
  Removing from a scored collection first looks for an entry whose score is the given id, and only
  then for entries that hold the id.
\<close>

definition remove_scored :: "u64 \<Rightarrow> (u64, u64) skipmap \<Rightarrow> (u64, u64) skipmap" where
  "remove_scored item m =
    (if sm_contains_key item m then sm_remove item m else sm_remove_if (\<lambda>e. snd e = item) m)"

definition remove_value :: "u64 \<Rightarrow> u64 ConcurrentDeque \<Rightarrow> u64 ConcurrentDeque" where
  "remove_value item d = d\<lparr>data := sm_remove_if (\<lambda>e. snd e = item) (data d)\<rparr>"

definition remove_item :: "CollectionSuffix \<Rightarrow> u64 \<Rightarrow> (('c, 'd, 'r, 'p) mem_world, unit) kio" where
  "remove_item col item = kmod (on_store (\<lambda>s.
    case col of
      CollectionSuffix.Active \<Rightarrow> s\<lparr>active := remove_value item (active s)\<rparr>
    | CollectionSuffix.Wait \<Rightarrow> s\<lparr>waiting := remove_value item (waiting s)\<rparr>
    | CollectionSuffix.Paused \<Rightarrow> s\<lparr>paused := remove_value item (paused s)\<rparr>
    | CollectionSuffix.Completed \<Rightarrow> s\<lparr>completed := remove_scored item (completed s)\<rparr>
    | CollectionSuffix.Failed \<Rightarrow> s\<lparr>failed := remove_scored item (failed s)\<rparr>
    | CollectionSuffix.Prioritized \<Rightarrow> s\<lparr>prioritized := remove_scored item (prioritized s)\<rparr>
    | CollectionSuffix.Delayed \<Rightarrow> s\<lparr>delayed := remove_scored item (delayed s)\<rparr>
    | CollectionSuffix.Stalled \<Rightarrow> s\<lparr>stalled := sm_remove item (stalled s)\<rparr>
    | CollectionSuffix.Job _ \<Rightarrow> s\<lparr>jobs := Timed_Map.remove (tag col) (jobs s)\<rparr>
    | CollectionSuffix.Lock _ \<Rightarrow> s\<lparr>locks := Timed_Map.remove (tag col) (locks s)\<rparr>
    | _ \<Rightarrow> s))"

definition remove :: "CollectionSuffix \<Rightarrow> (('c, 'd, 'r, 'p) mem_world, unit) kio" where
  "remove key = kmod (on_store (\<lambda>s.
    case key of
      CollectionSuffix.Active \<Rightarrow> s\<lparr>active := Concurrent_Deque.clear (active s)\<rparr>
    | CollectionSuffix.Completed \<Rightarrow> s\<lparr>active := Concurrent_Deque.clear (active s)\<rparr>
    | CollectionSuffix.Delayed \<Rightarrow> s\<lparr>delayed := []\<rparr>
    | CollectionSuffix.Stalled \<Rightarrow> s\<lparr>stalled := []\<rparr>
    | CollectionSuffix.Prioritized \<Rightarrow> s\<lparr>prioritized := []\<rparr>
    | CollectionSuffix.Wait \<Rightarrow> s\<lparr>waiting := Concurrent_Deque.clear (waiting s)\<rparr>
    | CollectionSuffix.Paused \<Rightarrow> s\<lparr>paused := Concurrent_Deque.clear (paused s)\<rparr>
    | CollectionSuffix.Failed \<Rightarrow> s\<lparr>failed := []\<rparr>
    | CollectionSuffix.Job _ \<Rightarrow> s\<lparr>jobs := Timed_Map.remove (tag key) (jobs s)\<rparr>
    | CollectionSuffix.Lock _ \<Rightarrow> s\<lparr>locks := Timed_Map.remove (tag key) (locks s)\<rparr>
    | StalledCheck \<Rightarrow> s\<lparr>locks := Timed_Map.remove (tag key) (locks s)\<rparr>
    | _ \<Rightarrow> s))"

definition clear_collections :: "(('c, 'd, 'r, 'p) mem_world, unit) kio" where
  "clear_collections = kmod (on_store (\<lambda>s.
    s\<lparr>completed := [], failed := [], delayed := [], prioritized := [], stalled := [],
      waiting := Concurrent_Deque.clear (waiting s), paused := Concurrent_Deque.clear (paused s),
      active := Concurrent_Deque.clear (active s)\<rparr>))"

definition pop_back_push_front ::
  "CollectionSuffix \<Rightarrow> CollectionSuffix \<Rightarrow> ('c, 'd, 'r, 'p) mem_world \<Rightarrow>
    u64 option \<times> ('c, 'd, 'r, 'p) mem_world" where
  "pop_back_push_front src dst w =
    (if src = CollectionSuffix.Wait \<and> dst = CollectionSuffix.Active then
       (case pop_back (waiting (mem w)) of
          (None, d) \<Rightarrow> (None, on_store (\<lambda>s. s\<lparr>waiting := d\<rparr>) w)
        | (Some v, d) \<Rightarrow>
           (Some v, on_store (\<lambda>s. s\<lparr>waiting := d, active := push_front v (active s)\<rparr>) w))
     else (None, w))"

text \<open>A popped entry is returned as the pair of the id and the score.\<close>

definition popped_pair :: "(u64 \<times> u64) option \<Rightarrow> (u64 \<times> u64) list" where
  "popped_pair e = (case e of None \<Rightarrow> [] | Some (score, i) \<Rightarrow> [(i, score)])"

definition pop_end :: "bool \<Rightarrow> (u64, u64) skipmap \<Rightarrow> (u64 \<times> u64) option \<times> (u64, u64) skipmap" where
  "pop_end from_min m = (if from_min then sm_pop_front m else sm_pop_back m)"

definition pop_set :: "CollectionSuffix \<Rightarrow> bool \<Rightarrow> (('c, 'd, 'r, 'p) mem_world, (u64 \<times> u64) list) kio" where
  "pop_set col from_min w =
    (case col of
       CollectionSuffix.Completed \<Rightarrow>
        (let (e, m) = pop_end from_min (completed (mem w))
         in (Inr (popped_pair e), on_store (\<lambda>s. s\<lparr>completed := m\<rparr>) w))
     | CollectionSuffix.Delayed \<Rightarrow>
        (let (e, m) = pop_end from_min (delayed (mem w))
         in (Inr (popped_pair e), on_store (\<lambda>s. s\<lparr>delayed := m\<rparr>) w))
     | CollectionSuffix.Failed \<Rightarrow>
        (let (e, m) = pop_end from_min (failed (mem w))
         in (Inr (popped_pair e), on_store (\<lambda>s. s\<lparr>failed := m\<rparr>) w))
     | CollectionSuffix.Prioritized \<Rightarrow>
        (let (e, m) = pop_end from_min (prioritized (mem w))
         in (Inr (popped_pair e), on_store (\<lambda>s. s\<lparr>prioritized := m\<rparr>) w))
     | _ \<Rightarrow> (Inr [], w))"

text \<open>Due jobs are taken first, then those whose time has passed.\<close>

definition get_delayed_at :: "i64 \<Rightarrow> i64 \<Rightarrow> (('c, 'd, 'r, 'p) mem_world, u64 list \<times> u64 list) kio" where
  "get_delayed_at start stop w =
    (let before = start - 1;
         due = sm_range start stop (delayed (mem w));
         rest = sm_remove_if (\<lambda>e. start \<le> fst e \<and> fst e < stop) (delayed (mem w));
         missed = sm_below before rest
     in (Inr (map snd due, map snd missed),
         on_store (\<lambda>s. s\<lparr>delayed := sm_remove_if (\<lambda>e. fst e < before) rest\<rparr>) w))"

text \<open>
  A page of a collection: positions \<open>start\<close> to \<open>end\<close>, both included. The source writes it out once
  for every collection.
\<close>

definition page :: "nat \<Rightarrow> nat option \<Rightarrow> ('k::linorder, 'v) skipmap \<Rightarrow> ('k \<times> 'v) list" where
  "page start stop m =
    (if m = [] then []
     else let stop' = unwrap_or (length m - 1) stop in
       case (sm_nth start m, sm_nth stop' m) of
         (Some e, Some e') \<Rightarrow> sm_range_incl (fst e) (fst e') m
       | _ \<Rightarrow> [])"

definition get_job_ids_in_state ::
  "JobState \<Rightarrow> nat option \<Rightarrow> nat option \<Rightarrow> (('c, 'd, 'r, 'p) mem_world, u64 list) kio" where
  "get_job_ids_in_state st start stop = kget (\<lambda>w.
    let s = mem w; start' = unwrap_or 0 start in
    case st of
      JobState.Wait \<Rightarrow> map snd (page start' stop (data (waiting s)))
    | JobState.Prioritized \<Rightarrow> map snd (page start' stop (prioritized s))
    | JobState.Stalled \<Rightarrow> map fst (page start' stop (stalled s))
    | JobState.Active \<Rightarrow> map snd (page start' stop (data (active s)))
    | JobState.Paused \<Rightarrow> map snd (page start' stop (data (paused s)))
    | JobState.Completed \<Rightarrow> map snd (page start' stop (completed s))
    | JobState.Failed \<Rightarrow> map snd (page start' stop (failed s))
    | JobState.Delayed \<Rightarrow> map snd (page start' stop (delayed s))
    | _ \<Rightarrow> [])"

text \<open>The loop \<^verbatim>\<open>while let Some(entry) = src.pop_front() { dst.push_back(entry) }\<close>.\<close>

function drain :: "'a ConcurrentDeque \<Rightarrow> 'a ConcurrentDeque \<Rightarrow> 'a ConcurrentDeque \<times> 'a ConcurrentDeque" where
  "drain src dst =
    (case pop_front src of
       (None, src') \<Rightarrow> (src', dst)
     | (Some entry, src') \<Rightarrow> drain src' (push_back entry dst))"
  by pat_completeness auto

lemma pop_front_shorter: "pop_front src = (Some v, src') \<Longrightarrow> length (data src') < length (data src)"
  by (auto simp: pop_front_def sm_front_def sm_remove_def Let_def less_Suc_eq_le
      split: list.splits option.splits)

termination drain
  by (relation "measure (\<lambda>(src, dst). length (data src))") (auto dest: pop_front_shorter [OF sym])

declare drain.simps [simp del]

definition pause :: "bool \<Rightarrow> QueueEventMode \<Rightarrow> (('c, 'd, 'r, 'p) mem_world, unit) kio" where
  "pause do_pause mode = kmod (on_store (\<lambda>s.
    if do_pause then
      (let (w', p') = drain (waiting s) (paused s) in s\<lparr>waiting := w', paused := p', is_paused := do_pause\<rparr>)
    else
      (let (p', w') = drain (paused s) (waiting s) in s\<lparr>waiting := w', paused := p', is_paused := do_pause\<rparr>)))"

section \<open>Jobs, locks and counters\<close>

definition get_job ::
  "u64 \<Rightarrow> ('c, 'd, 'r, 'p) mem_world \<Rightarrow> ('c, 'd, 'r, 'p) Job option \<times> ('c, 'd, 'r, 'p) mem_world" where
  "get_job i w =
    (let (found, m) = Timed_Map.get (mono w) (tag (CollectionSuffix.Job i)) (jobs (mem w))
     in (found, on_store (\<lambda>s. s\<lparr>jobs := m\<rparr>) w))"

definition get_state ::
  "u64 \<Rightarrow> ('c, 'd, 'r, 'p) mem_world \<Rightarrow> JobState option \<times> ('c, 'd, 'r, 'p) mem_world" where
  "get_state i w = (let (found, w') = get_job i w in (map_option Job.state found, w'))"

fun fetch_jobs :: "u64 list \<Rightarrow> (('c, 'd, 'r, 'p) mem_world, ('c, 'd, 'r, 'p) Job list) kio" where
  "fetch_jobs [] = kret []"
| "fetch_jobs (i # ids) =
    kbind (klift (get_job i)) (\<lambda>found.
    kbind (fetch_jobs ids) (\<lambda>rest. kret (case found of None \<Rightarrow> rest | Some j \<Rightarrow> j # rest)))"

definition get_token ::
  "u64 \<Rightarrow> ('c, 'd, 'r, 'p) mem_world \<Rightarrow> JobToken option \<times> ('c, 'd, 'r, 'p) mem_world" where
  "get_token i w =
    (let (found, m) = Timed_Map.get (mono w) (tag (CollectionSuffix.Lock i)) (locks (mem w))
     in (case found of Some (Lock.Token tok) \<Rightarrow> Some tok | _ \<Rightarrow> None,
         on_store (\<lambda>s. s\<lparr>locks := m\<rparr>) w))"

definition set_lock ::
  "CollectionSuffix \<Rightarrow> JobToken option \<Rightarrow> u64 \<Rightarrow> (('c, 'd, 'r, 'p) mem_world, unit) kio" where
  "set_lock col tok ms = kmod (\<lambda>w. on_store (\<lambda>s.
    s\<lparr>locks := insert_expirable (mono w) (tag col)
       (case tok of None \<Rightarrow> StallCheck | Some t \<Rightarrow> Lock.Token t) (from_millis ms) (locks s)\<rparr>) w)"

definition job_exists :: "u64 \<Rightarrow> ('c, 'd, 'r, 'p) mem_world \<Rightarrow> bool \<times> ('c, 'd, 'r, 'p) mem_world" where
  "job_exists i w =
    (case exists_in (CollectionSuffix.Job i) i w of (Inr b, w') \<Rightarrow> (b, w') | (Inl _, w') \<Rightarrow> (False, w'))"

definition set_fields ::
  "'c externals \<Rightarrow> u64 \<Rightarrow> 'r JobField list \<Rightarrow> (('c, 'd, 'r, 'p) mem_world, unit) kio" where
  "set_fields ext i fs = kmod (\<lambda>w.
    let key = tag (CollectionSuffix.Job i); (found, m) = Timed_Map.get (mono w) key (jobs (mem w)) in
    on_store (\<lambda>s. s\<lparr>jobs :=
      (case found of None \<Rightarrow> m | Some _ \<Rightarrow> write_through key (fold (set_field ext) fs) m)\<rparr>) w)"

definition update_job_progress ::
  "('c, 'd, 'r, 'p) Job \<Rightarrow> 'p \<Rightarrow> (('c, 'd, 'r, 'p) mem_world, ('c, 'd, 'r, 'p) Job) kio" where
  "update_job_progress j value w =
    (case Job.job_id j of
       None \<Rightarrow> (Inr j, w)
     | Some i \<Rightarrow>
        (let key = tag (CollectionSuffix.Job i); (found, m) = Timed_Map.get (mono w) key (jobs (mem w)) in
         (Inr (j\<lparr>progress := Some value\<rparr>),
          on_store (\<lambda>s. s\<lparr>jobs := (case found of None \<Rightarrow> m
            | Some _ \<Rightarrow> write_through key (\<lambda>job. job\<lparr>progress := Some value\<rparr>) m)\<rparr>) w)))"

definition handle_counter :: "i64 \<Rightarrow> u64 \<Rightarrow> u64" where
  "handle_counter delta counter =
    (if is_positive delta then counter + unsigned_abs delta else counter - unsigned_abs delta)"

text \<open>\<^verbatim>\<open>(n.cast_signed() + delta).max(0).cast_unsigned()\<close>.\<close>

definition bump :: "i64 \<Rightarrow> u64 \<Rightarrow> u64" where
  "bump delta n = (if sint (n + delta) < 0 then 0 else n + delta)"

definition bump_field ::
  "string \<Rightarrow> i64 \<Rightarrow> ('c, 'd, 'r, 'p) Job \<Rightarrow> u64 \<times> ('c, 'd, 'r, 'p) Job" where
  "bump_field field delta j =
    (if field = ''attempts_made'' \<or> field = ''attemptsMade'' then
       (let n = bump delta (attempts_made j) in (n, j\<lparr>attempts_made := n\<rparr>))
     else if field = ''stalled_counter'' \<or> field = ''stalledCounter'' then
       (let n = bump delta (stalled_counter j) in (n, j\<lparr>stalled_counter := n\<rparr>))
     else (0, j))"

definition incr ::
  "CollectionSuffix \<Rightarrow> i64 \<Rightarrow> string option \<Rightarrow> (('c, 'd, 'r, 'p) mem_world, u64) kio" where
  "incr key delta hash_key w =
    (case key of
       Id \<Rightarrow>
        (let n = handle_counter delta (id_counter (mem w)) in (Inr n, on_store (\<lambda>s. s\<lparr>id_counter := n\<rparr>) w))
     | PriorityCounter \<Rightarrow>
        (let n = handle_counter delta (priority_counter (mem w))
         in (Inr n, on_store (\<lambda>s. s\<lparr>priority_counter := n\<rparr>) w))
     | Meta \<Rightarrow>
        (let n = handle_counter delta (processing (mem w)) in (Inr n, on_store (\<lambda>s. s\<lparr>processing := n\<rparr>) w))
     | CollectionSuffix.Job _ \<Rightarrow>
        (case hash_key of
           None \<Rightarrow> (Inr 0, w)
         | Some field \<Rightarrow>
            (let (found, m) = Timed_Map.get (mono w) (tag key) (jobs (mem w)) in
             case found of
               None \<Rightarrow> (Inr 0, on_store (\<lambda>s. s\<lparr>jobs := m\<rparr>) w)
             | Some j \<Rightarrow>
                (Inr (fst (bump_field field delta j)),
                 on_store (\<lambda>s. s\<lparr>jobs := write_through (tag key) (\<lambda>j. snd (bump_field field delta j)) m\<rparr>) w)))
     | _ \<Rightarrow> (Inr 0, w))"

definition get_counter ::
  "CollectionSuffix \<Rightarrow> string option \<Rightarrow> ('c, 'd, 'r, 'p) mem_world \<Rightarrow>
    u64 option \<times> ('c, 'd, 'r, 'p) mem_world" where
  "get_counter key hash_key w =
    (case key of
       Id \<Rightarrow> (Some (id_counter (mem w)), w)
     | PriorityCounter \<Rightarrow> (Some (priority_counter (mem w)), w)
     | Meta \<Rightarrow> (Some (processing (mem w)), w)
     | CollectionSuffix.Job _ \<Rightarrow>
        (case hash_key of
           None \<Rightarrow> (None, w)
         | Some field \<Rightarrow>
            (let (found, m) = Timed_Map.get (mono w) (tag key) (jobs (mem w));
                 f = to_lowercase field in
             (case found of
                None \<Rightarrow> None
              | Some j \<Rightarrow>
                 if f = ''stalled_counter'' \<or> f = ''stalledcounter'' then Some (stalled_counter j)
                 else if f = ''attempts_made'' \<or> f = ''attemptsmade'' then Some (attempts_made j)
                 else None,
              on_store (\<lambda>s. s\<lparr>jobs := m\<rparr>) w)))
     | _ \<Rightarrow> (None, w))"

definition expire :: "CollectionSuffix \<Rightarrow> i64 \<Rightarrow> (('c, 'd, 'r, 'p) mem_world, unit) kio" where
  "expire col secs = kmod (\<lambda>w.
    let duration = uint (unsigned_abs secs) * 1000000000; key = tag col in
    case col of
      CollectionSuffix.Lock _ \<Rightarrow>
        on_store (\<lambda>s. s\<lparr>locks := snd (update_expiration_status (mono w) key duration (locks s))\<rparr>) w
    | StalledCheck \<Rightarrow>
        on_store (\<lambda>s. s\<lparr>locks := snd (update_expiration_status (mono w) key duration (locks s))\<rparr>) w
    | CollectionSuffix.Job _ \<Rightarrow>
        on_store (\<lambda>s. s\<lparr>jobs := snd (update_expiration_status (mono w) key duration (jobs s))\<rparr>) w
    | _ \<Rightarrow> w)"

definition clear_jobs :: "u64 \<Rightarrow> (('c, 'd, 'r, 'p) mem_world, unit) kio" where
  "clear_jobs upto_id = kmod (on_store (\<lambda>s. s\<lparr>jobs := Timed_Map.clear (jobs s)\<rparr>))"

section \<open>Metrics and events\<close>

definition get_metrics :: "(('c, 'd, 'r, 'p) mem_world, QueueMetrics) kio" where
  "get_metrics = kget (\<lambda>w. let s = mem w in
    metrics_new (id_counter s) (processing s) (of_nat (len (active s))) (of_nat (length (stalled s)))
      (of_nat (length (completed s))) (of_nat (length (delayed s))) (of_nat (length (prioritized s)))
      (of_nat (len (paused s))) (of_nat (length (failed s))) (of_nat (len (waiting s)))
      (is_paused s) (InMemoryStore.event_mode s))"

definition publish_event ::
  "QueueEventMode \<Rightarrow> ('r, 'p) QueueStreamEvent \<Rightarrow> (('c, 'd, 'r, 'p) mem_world, unit) kio" where
  "publish_event mode e w =
    (if has_events (mem w) \<and> has_stored_metrics (mem w) \<and> has_notifier (mem w) \<and> has_pause_workers (mem w)
     then kbind (process_each_event get_metrics e) (\<lambda>_ w'.
       let (initial, w'') = pause_or_resume_workers (is_inital (mem w')) w'
       in (Inr (), on_store (\<lambda>s. s\<lparr>is_inital := initial\<rparr>) w'')) w
     else (Inr (), w))"

definition metadata_field_exists :: "string \<Rightarrow> (('c, 'd, 'r, 'p) mem_world, bool) kio" where
  "metadata_field_exists field = kret True"

definition set_event_mode :: "QueueEventMode \<Rightarrow> (('c, 'd, 'r, 'p) mem_world, unit) kio" where
  "set_event_mode mode = kret ()"

definition create_stream_listener ::
  "QueueEventMode \<Rightarrow> ('c, 'd, 'r, 'p) mem_world \<Rightarrow> ('c, 'd, 'r, 'p) mem_world" where
  "create_stream_listener mode = on_store (\<lambda>s.
    s\<lparr>has_events := True, has_notifier := True, has_pause_workers := True, has_stored_metrics := True\<rparr>)"

definition store_worker_metrics :: "WorkerMetrics \<Rightarrow> u64 \<Rightarrow> (('c, 'd, 'r, 'p) mem_world, unit) kio" where
  "store_worker_metrics m ttl = kmod (\<lambda>w.
    let key = WorkerMetrics.worker_id m; (found, t) = Timed_Map.get (mono w) key (worker_metrics (mem w)) in
    on_store (\<lambda>s. s\<lparr>worker_metrics := (case found of
        Some _ \<Rightarrow> write_through key (\<lambda>_. m) t
      | None \<Rightarrow> insert_expirable (mono w) key m (from_millis ttl) t)\<rparr>) w)"

definition fetch_worker_metrics :: "(('c, 'd, 'r, 'p) mem_world, (Uuid \<times> WorkerMetrics) list) kio" where
  "fetch_worker_metrics w =
    (let (es, t) = Timed_Map.iter (mono w) (worker_metrics (mem w)) in
     (Inr (map (\<lambda>(i, m). (i, worker_metrics_new (wall w) (WorkerMetrics.worker_id m) (active_len m)
        (tasks m) (ttl_ms m))) es), on_store (\<lambda>s. s\<lparr>worker_metrics := t\<rparr>) w))"

definition store_process_metrics :: "ProcessMetrics \<Rightarrow> u64 \<Rightarrow> (('c, 'd, 'r, 'p) mem_world, unit) kio" where
  "store_process_metrics m ttl = kmod (\<lambda>w.
    let key = pid m; (found, t) = Timed_Map.get (mono w) key (process_metrics (mem w)) in
    on_store (\<lambda>s. s\<lparr>process_metrics := (case found of
        Some _ \<Rightarrow> write_through key (\<lambda>_. m) t
      | None \<Rightarrow> insert_expirable (mono w) key m (from_millis ttl) t)\<rparr>) w)"

definition fetch_process_metrics :: "(('c, 'd, 'r, 'p) mem_world, (u32 \<times> ProcessMetrics) list) kio" where
  "fetch_process_metrics w =
    (let (es, t) = Timed_Map.iter (mono w) (process_metrics (mem w))
     in (Inr es, on_store (\<lambda>s. s\<lparr>process_metrics := t\<rparr>) w))"

definition purge_expired :: "('c, 'd, 'r, 'p) mem_world \<Rightarrow> ('c, 'd, 'r, 'p) mem_world" where
  "purge_expired w = on_store (\<lambda>s.
    s\<lparr>jobs := (if 0 < len_expired (jobs s) then Timed_Map.purge_expired (mono w) (jobs s) else jobs s),
      locks := (if 0 < len_expired (locks s) then Timed_Map.purge_expired (mono w) (locks s) else locks s),
      worker_metrics := (if 0 < len_expired (worker_metrics s)
        then Timed_Map.purge_expired (mono w) (worker_metrics s) else worker_metrics s),
      process_metrics := (if 0 < len_expired (process_metrics s)
        then Timed_Map.purge_expired (mono w) (process_metrics s) else process_metrics s)\<rparr>) w"

section \<open>Insertion\<close>

text \<open>
  \<open>insert_job\<close> is \<^verbatim>\<open>InMemoryStore::insert\<close>; it returns the job it was given by reference. The clock
  is read once.
\<close>

definition insert_job :: "'c externals \<Rightarrow> ('c, 'd, 'r, 'p) Job \<Rightarrow> 'c JobOptions \<Rightarrow> u64 \<Rightarrow> u64 \<Rightarrow>
    CompactString \<Rightarrow> bool \<Rightarrow> (('c, 'd, 'r, 'p) mem_world, ('c, 'd, 'r, 'p) Job) kio" where
  "insert_job ext job options pc i nm paused_flag =
    kbind (kget wall) (\<lambda>dt.
    kbind (kresult (next_occurrance_timestamp_ms ext dt (JobOptions.delay options))) (\<lambda>expected_dt_ts.
    kbind (kresult (as_diff_ms ext dt (JobOptions.delay options))) (\<lambda>delay_ms.
    kbind (kresult (add_opts ext options job)) (\<lambda>job1.
    if 0 < delay_ms \<and> delay_ms < MIN_DELAY_MS_LIMIT
    then kfail (Err (KioError.QueueError (DelayBelowAllowedLimit MIN_DELAY_MS_LIMIT delay_ms)))
    else
      let to_delay = (0 < delay_ms);
          to_priorize = (0 < JobOptions.priority options \<and> \<not> to_delay);
          base = (if paused_flag then JobState.Paused else JobState.Wait)
      in kbind
        (if to_delay then
           (case expected_dt_ts of
              None \<Rightarrow> kret (job1, base)
            | Some expected_active_time \<Rightarrow>
               kbind (add_item CollectionSuffix.Delayed i (Some expected_active_time) False)
                 (\<lambda>_. kret (job1\<lparr>Job.state := JobState.Delayed\<rparr>, JobState.Delayed)))
         else if to_priorize then
           kbind (add_item CollectionSuffix.Prioritized i
               (Some (calculate_next_priority_score (JobOptions.priority options) pc)) True)
             (\<lambda>_. kret (job1\<lparr>Job.state := JobState.Prioritized\<rparr>, JobState.Prioritized))
         else
           kbind (add_item (if paused_flag then CollectionSuffix.Paused else CollectionSuffix.Wait) i None True)
             (\<lambda>_. kret (job1, base)))
        (\<lambda>(job2, ev).
          let job3 = job2\<lparr>Job.job_id := Some i\<rparr> in
          kbind (kmod (on_store (\<lambda>s. s\<lparr>jobs := insert_constant (tag (CollectionSuffix.Job i)) job3 (jobs s)\<rparr>)))
            (\<lambda>_.
          kbind (\<lambda>w. publish_event (InMemoryStore.event_mode (mem w))
            ((default_event dt)\<lparr>QueueStreamEvent.job_id := i, event := ev, QueueStreamEvent.name := Some nm,
               QueueStreamEvent.delay := (if to_delay then Some delay_ms else None),
               QueueStreamEvent.priority :=
                 (if to_priorize then Some (JobOptions.priority options) else None)\<rparr>) w)
            (\<lambda>_. kret job3)))))))"

definition add_one :: "'c externals \<Rightarrow> 'c QueueOpts \<Rightarrow> bool \<Rightarrow> ('c, 'd) new_job \<Rightarrow>
    (('c, 'd, 'r, 'p) mem_world, ('c, 'd, 'r, 'p) Job) kio" where
  "add_one ext q paused_flag = (\<lambda>(nm, opt, dat).
    let options = update_job_opts q (unwrap_or default_job_options opt) in
    kbind (if 0 < JobOptions.priority options then incr PriorityCounter 1 None else kret 0) (\<lambda>pc.
    kbind (kget (\<lambda>w. (prefix (mem w) @ '':'' @ InMemoryStore.name (mem w), wall w))) (\<lambda>(qname, now).
    kbind (incr Id 1 None) (\<lambda>i.
      insert_job ext (Jobs.new now nm (Some dat) (JobOptions.job_id options) (Some qname)) options pc i nm
        paused_flag))))"

fun add_bulk :: "'c externals \<Rightarrow> ('c, 'd) new_job list \<Rightarrow> 'c QueueOpts \<Rightarrow> QueueEventMode \<Rightarrow> bool \<Rightarrow>
    (('c, 'd, 'r, 'p) mem_world, ('c, 'd, 'r, 'p) Job list) kio" where
  "add_bulk ext [] q mode paused_flag = kret []"
| "add_bulk ext (x # xs) q mode paused_flag =
    kbind (add_one ext q paused_flag x) (\<lambda>job.
    kbind (add_bulk ext xs q mode paused_flag) (\<lambda>rest. kret (job # rest)))"

fun add_bulk_only :: "'c externals \<Rightarrow> ('c, 'd) new_job list \<Rightarrow> 'c QueueOpts \<Rightarrow> QueueEventMode \<Rightarrow> bool \<Rightarrow>
    (('c, 'd, 'r, 'p) mem_world, unit) kio" where
  "add_bulk_only ext [] q mode paused_flag = kret ()"
| "add_bulk_only ext (x # xs) q mode paused_flag =
    kbind (add_one ext q paused_flag x) (\<lambda>job. add_bulk_only ext xs q mode paused_flag)"

section \<open>The dictionary\<close>

definition mem_store :: "'c externals \<Rightarrow> (('c, 'd, 'r, 'p) mem_world, 'c, 'd, 'r, 'p) Store" where
  "mem_store ext = \<lparr>queue_name = (\<lambda>w. InMemoryStore.name (mem w)), queue_prefix = (\<lambda>w. prefix (mem w)),
     fetch_jobs = fetch_jobs, metadata_field_exists = metadata_field_exists, exists_in = exists_in,
     set_event_mode = set_event_mode, get_job_ids_in_state = get_job_ids_in_state,
     create_stream_listener = create_stream_listener, add_bulk_only = add_bulk_only ext,
     add_bulk = add_bulk ext, get_delayed_at = get_delayed_at, pop_set = pop_set, expire = expire,
     get_metrics = get_metrics, get_job = get_job, get_token = get_token, get_state = get_state,
     add_item = add_item, pop_back_push_front = pop_back_push_front, set_lock = set_lock,
     set_fields = set_fields ext, incr = incr, get_counter = get_counter, publish_event = publish_event,
     job_exists = job_exists, remove_item = remove_item, remove = remove,
     clear_collections = clear_collections, clear_jobs = clear_jobs, pause = pause,
     purge_expired = purge_expired, fetch_worker_metrics = fetch_worker_metrics,
     fetch_process_metrics = fetch_process_metrics, store_process_metrics = store_process_metrics,
     store_worker_metrics = store_worker_metrics, update_job_progress = update_job_progress\<rparr>"

end
