(* ===== verification/Collection_Contract.thy ===== *)
theory Collection_Contract
  imports Queues "HOL-Library.Multiset"
begin

text \<open>
  What a queue relies on in the collections of its store. The locale \<open>collection_contract\<close> fixes a backend with
  a view of its state: the items of every collection, the scores in use, the job records and the lock
  tokens. Its laws are total-correctness statements (\<open>kwp\<close>), one per operation on collections. The smaller
  \<open>list_contract\<close> has only the lists; any sequence of operations on them is shown to do what it does on plain
  lists, for every backend that satisfies its laws.
\<close>

section \<open>Views\<close>

record ('c, 'd, 'r, 'p) StoreView =
  items :: "CollectionSuffix \<Rightarrow> u64 list"
  scores :: "CollectionSuffix \<Rightarrow> u64 set"
  job :: "u64 \<Rightarrow> ('c, 'd, 'r, 'p) Job option"
  lock :: "u64 \<Rightarrow> JobToken option"

definition list_cols :: "CollectionSuffix set" where
  "list_cols = {CollectionSuffix.Active, CollectionSuffix.Wait, CollectionSuffix.Paused}"

definition scored_cols :: "CollectionSuffix set" where
  "scored_cols = {CollectionSuffix.Completed, CollectionSuffix.Failed, CollectionSuffix.Prioritized,
     CollectionSuffix.Delayed}"

definition small_id :: "u64 \<Rightarrow> bool" where
  "small_id i \<longleftrightarrow> unat i < 2 ^ 56"

text \<open>Only the given collections change.\<close>

definition changes :: "CollectionSuffix set \<Rightarrow> ('c, 'd, 'r, 'p) StoreView \<Rightarrow> ('c, 'd, 'r, 'p) StoreView \<Rightarrow> bool"
  where
  "changes C v v' \<longleftrightarrow> job v' = job v \<and> lock v' = lock v \<and>
     (\<forall>c. c \<notin> C \<longrightarrow> items v' c = items v c \<and> scores v' c = scores v c)"

lemma changes_refl [simp]: "changes C v v"
  by (simp add: changes_def)

lemma changes_trans: "changes C v v' \<Longrightarrow> changes D v' v'' \<Longrightarrow> changes (C \<union> D) v v''"
  by (simp add: changes_def)

text \<open>The cells of the world that a store operation leaves alone unless it publishes an event.\<close>

definition cells :: "('s, 'r, 'p) World \<Rightarrow> Dt \<times> Instant \<times> QueueMetrics \<times>
    (JobState \<times> ('r, 'p) EventParameters) list \<times> bool \<times> BackOff" where
  "cells w = (wall w, mono w, current_metrics w, emitted w, paused_cell w, backoff_registry w)"

text \<open>What publishing may change is the log and the metrics, but not the pause flag.\<close>

definition published :: "('r, 'p) QueueStreamEvent \<Rightarrow> ('s, 'r, 'p) World \<Rightarrow> ('s, 'r, 'p) World \<Rightarrow> bool" where
  "published e w w' \<longleftrightarrow> wall w' = wall w \<and> mono w' = mono w \<and> is_paused w' = is_paused w \<and>
     paused_cell w' = paused_cell w \<and> backoff_registry w' = backoff_registry w \<and>
     (\<exists>p. from_queue_event e = Inr p \<and> emitted w' = emitted w @ [(event e, p)])"

lemma cells_fields:
  assumes "cells w' = cells w"
  shows "wall w' = wall w" "mono w' = mono w" "is_paused w' = is_paused w" "emitted w' = emitted w"
    "backoff_registry w' = backoff_registry w" "paused_cell w' = paused_cell w" "event_mode w' = event_mode w"
  using assms by (auto simp: cells_def is_paused_def event_mode_def)

lemma published_cells: "cells w' = cells w \<Longrightarrow> published e w' w'' \<longleftrightarrow> published e w w''"
  by (auto simp: published_def cells_def is_paused_def)

section \<open>Sequences of operations on lists\<close>

text \<open>
  The operations on lists that the queue uses, what they do on plain lists, and as calls of a store. \<open>Take\<close> is
  \<^verbatim>\<open>pop_back_push_front\<close> from \<^verbatim>\<open>Wait\<close> to \<^verbatim>\<open>Active\<close>.
\<close>

datatype list_op = Add CollectionSuffix u64 bool | Drop CollectionSuffix u64 | Take

fun op_ok :: "list_op \<Rightarrow> bool" where
  "op_ok (Add c _ _) \<longleftrightarrow> c \<in> list_cols"
| "op_ok (Drop c _) \<longleftrightarrow> c \<in> list_cols"
| "op_ok Take \<longleftrightarrow> True"

fun list_step :: "list_op \<Rightarrow> (CollectionSuffix \<Rightarrow> u64 list) \<Rightarrow> u64 option \<times> (CollectionSuffix \<Rightarrow> u64 list)" where
  "list_step (Add c i app) f = (None, f(c := (if app then i # f c else f c @ [i])))"
| "list_step (Drop c i) f = (None, f(c := removeAll i (f c)))"
| "list_step Take f =
    (if f CollectionSuffix.Wait = [] then (None, f)
     else (Some (last (f CollectionSuffix.Wait)),
       f(CollectionSuffix.Wait := butlast (f CollectionSuffix.Wait),
         CollectionSuffix.Active := last (f CollectionSuffix.Wait) # f CollectionSuffix.Active)))"

fun list_steps :: "list_op list \<Rightarrow> (CollectionSuffix \<Rightarrow> u64 list) \<Rightarrow> u64 option list \<times> (CollectionSuffix \<Rightarrow> u64 list)" where
  "list_steps [] f = ([], f)"
| "list_steps (x # xs) f =
    (let (r, f1) = list_step x f; (rs, f2) = list_steps xs f1 in (r # rs, f2))"

fun run_op :: "('s, 'c, 'd, 'r, 'p) backend \<Rightarrow> list_op \<Rightarrow> (('s, 'r, 'p) World, u64 option) kio" where
  "run_op S (Add c i app) = kbind (Store.add_item S c i None app) (\<lambda>_. kret None)"
| "run_op S (Drop c i) = kbind (Store.remove_item S c i) (\<lambda>_. kret None)"
| "run_op S Take = klift (Store.pop_back_push_front S CollectionSuffix.Wait CollectionSuffix.Active)"

fun run_ops :: "('s, 'c, 'd, 'r, 'p) backend \<Rightarrow> list_op list \<Rightarrow> (('s, 'r, 'p) World, u64 option list) kio" where
  "run_ops S [] = kret []"
| "run_ops S (x # xs) = kbind (run_op S x) (\<lambda>r. kbind (run_ops S xs) (\<lambda>rs. kret (r # rs)))"

definition same_lists :: "(CollectionSuffix \<Rightarrow> u64 list) \<Rightarrow> (CollectionSuffix \<Rightarrow> u64 list) \<Rightarrow> bool" where
  "same_lists f g \<longleftrightarrow> (\<forall>c \<in> list_cols. f c = g c)"

lemma list_step_same:
  assumes "op_ok x" and "same_lists f g"
  shows "fst (list_step x f) = fst (list_step x g) \<and> same_lists (snd (list_step x f)) (snd (list_step x g))"
  using assms by (cases x) (auto simp: same_lists_def list_cols_def)

lemma list_steps_same:
  "list_all op_ok xs \<Longrightarrow> same_lists f g \<Longrightarrow>
    fst (list_steps xs f) = fst (list_steps xs g) \<and> same_lists (snd (list_steps xs f)) (snd (list_steps xs g))"
proof (induction xs arbitrary: f g)
  case (Cons x xs)
  then show ?case using list_step_same [of x f g] Cons.IH [of "snd (list_step x f)" "snd (list_step x g)"]
    by (simp add: split_beta)
qed (simp add: same_lists_def)

text \<open>
  Removing an item is asked for only where the backend promises to remove every occurrence of it, \<open>apt\<close>.
\<close>

fun drops_ok :: "(u64 list \<Rightarrow> u64 \<Rightarrow> bool) \<Rightarrow> list_op list \<Rightarrow> (CollectionSuffix \<Rightarrow> u64 list) \<Rightarrow> bool" where
  "drops_ok apt [] f \<longleftrightarrow> True"
| "drops_ok apt (x # xs) f \<longleftrightarrow> (case x of Drop c i \<Rightarrow> apt (f c) i | _ \<Rightarrow> True) \<and> drops_ok apt xs (snd (list_step x f))"

lemma drops_ok_any [simp]: "drops_ok (\<lambda>_ _. True) xs f"
  by (induction xs arbitrary: f) (simp_all split: list_op.split)

lemma drops_ok_same:
  "list_all op_ok xs \<Longrightarrow> same_lists f g \<Longrightarrow> drops_ok apt xs f = drops_ok apt xs g"
proof (induction xs arbitrary: f g)
  case (Cons x xs)
  then have "drops_ok apt xs (snd (list_step x f)) = drops_ok apt xs (snd (list_step x g))"
    using list_step_same [of x f g] Cons.IH by simp
  then show ?case
    unfolding drops_ok.simps using Cons.prems by (cases x) (auto simp: same_lists_def simp del: list_step.simps)
qed simp

section \<open>The contract of lists\<close>

text \<open>
  The lists of a backend: what each operation does to them, as long as there is room. \<open>apt\<close> says on which lists
  the removal of an item removes every occurrence.
\<close>

locale list_contract =
  fixes S :: "('s, 'c, 'd, 'r, 'p) backend"
    and ok :: "('s, 'r, 'p) World \<Rightarrow> bool"
    and lists :: "('s, 'r, 'p) World \<Rightarrow> CollectionSuffix \<Rightarrow> u64 list"
    and room :: "('s, 'r, 'p) World \<Rightarrow> nat"
    and apt :: "u64 list \<Rightarrow> u64 \<Rightarrow> bool"
  assumes list_add: "ok w \<Longrightarrow> c \<in> list_cols \<Longrightarrow> 0 < room w \<Longrightarrow>
      kwp (Store.add_item S c i None app) (\<lambda>_ w'. ok w' \<and> room w - 1 \<le> room w' \<and>
        same_lists (lists w') (snd (list_step (Add c i app) (lists w)))) w"
    and list_drop: "ok w \<Longrightarrow> c \<in> list_cols \<Longrightarrow> 0 < room w \<Longrightarrow> apt (lists w c) i \<Longrightarrow>
      kwp (Store.remove_item S c i) (\<lambda>_ w'. ok w' \<and> room w - 1 \<le> room w' \<and>
        same_lists (lists w') (snd (list_step (Drop c i) (lists w)))) w"
    and list_take: "ok w \<Longrightarrow> 0 < room w \<Longrightarrow>
      kwp (klift (Store.pop_back_push_front S CollectionSuffix.Wait CollectionSuffix.Active))
        (\<lambda>r w'. ok w' \<and> room w - 1 \<le> room w' \<and> r = fst (list_step Take (lists w)) \<and>
          same_lists (lists w') (snd (list_step Take (lists w)))) w"
begin

lemma run_op_refines:
  assumes "ok w" and "op_ok x" and "0 < room w" and "drops_ok apt (x # xs) (lists w)"
  shows "kwp (run_op S x) (\<lambda>r w'. ok w' \<and> room w - 1 \<le> room w' \<and> r = fst (list_step x (lists w)) \<and>
    same_lists (lists w') (snd (list_step x (lists w)))) w"
proof (cases x)
  case (Add c i app)
  then have c: "c \<in> list_cols" using assms(2) by simp
  show ?thesis
    unfolding Add run_op.simps kwp_bind kwp_ret by (rule kwp_mono [OF list_add [OF assms(1) c assms(3)]]) simp
next
  case (Drop c i)
  then have c: "c \<in> list_cols" "apt (lists w c) i" using assms(2,4) by simp_all
  show ?thesis
    unfolding Drop run_op.simps kwp_bind kwp_ret
    by (rule kwp_mono [OF list_drop [OF assms(1) c(1) assms(3) c(2)]]) simp
next
  case Take
  show ?thesis unfolding Take run_op.simps by (rule list_take [OF assms(1,3)])
qed

lemma run_ops_refine:
  "ok w \<Longrightarrow> list_all op_ok xs \<Longrightarrow> length xs \<le> room w \<Longrightarrow> drops_ok apt xs (lists w) \<Longrightarrow>
    kwp (run_ops S xs) (\<lambda>rs w'. ok w' \<and> rs = fst (list_steps xs (lists w)) \<and>
      same_lists (lists w') (snd (list_steps xs (lists w)))) w"
proof (induction xs arbitrary: w)
  case (Cons x xs)
  then have x: "op_ok x" "list_all op_ok xs" "0 < room w" by simp_all
  have "kwp (run_ops S xs) (\<lambda>rs w2. ok w2 \<and> r # rs = fst (list_steps (x # xs) (lists w)) \<and>
      same_lists (lists w2) (snd (list_steps (x # xs) (lists w)))) w1"
    if w1: "ok w1 \<and> room w - 1 \<le> room w1 \<and> r = fst (list_step x (lists w)) \<and>
      same_lists (lists w1) (snd (list_step x (lists w)))" for r w1
  proof (rule kwp_mono [OF Cons.IH [of w1]])
    show "ok w1" "list_all op_ok xs" "length xs \<le> room w1" using w1 x Cons.prems by auto
    show "drops_ok apt xs (lists w1)" using Cons.prems drops_ok_same [OF x(2), of "lists w1"] w1 by auto
  qed (use w1 list_steps_same [OF x(2), of "lists w1" "snd (list_step x (lists w))"] in
      \<open>auto simp: split_beta same_lists_def\<close>)
  then show ?case
    unfolding run_ops.simps kwp_bind kwp_ret
    by (rule kwp_mono [OF run_op_refines [OF Cons.prems(1) x(1,3) Cons.prems(4)]])
qed (simp add: same_lists_def)

end

section \<open>The contract\<close>

locale collection_contract =
  fixes S :: "('s, 'c, 'd, 'r, 'p) backend"
    and ok :: "('s, 'r, 'p) World \<Rightarrow> bool"
    and view :: "('s, 'r, 'p) World \<Rightarrow> ('c, 'd, 'r, 'p) StoreView"
    and room :: "('s, 'r, 'p) World \<Rightarrow> nat"
  assumes exists_in_law: "ok w \<Longrightarrow> c \<in> list_cols \<union> scored_cols \<Longrightarrow>
      kwp (Store.exists_in S c i) (\<lambda>b w'. b = (i \<in> set (items (view w) c)) \<and>
        ok w' \<and> view w' = view w \<and> room w' = room w \<and> cells w' = cells w) w"
    and add_list_law: "ok w \<Longrightarrow> c \<in> list_cols \<Longrightarrow> 0 < room w \<Longrightarrow>
      kwp (Store.add_item S c i osc app) (\<lambda>_ w'. ok w' \<and> cells w' = cells w \<and> room w - 1 \<le> room w' \<and>
        changes {c} (view w) (view w') \<and>
        items (view w') c = (if app then i # items (view w) c else items (view w) c @ [i])) w"
    and add_scored_law: "ok w \<Longrightarrow> c \<in> scored_cols \<Longrightarrow> sc \<notin> scores (view w) c \<Longrightarrow>
      kwp (Store.add_item S c i (Some sc) app) (\<lambda>_ w'. ok w' \<and> cells w' = cells w \<and> room w' = room w \<and>
        changes {c} (view w) (view w') \<and>
        mset (items (view w') c) = add_mset i (mset (items (view w) c)) \<and>
        scores (view w') c = insert sc (scores (view w) c)) w"
    and remove_law: "ok w \<Longrightarrow> c \<in> list_cols \<or> c = CollectionSuffix.Stalled \<or>
        c \<in> scored_cols \<and> i \<notin> scores (view w) c \<Longrightarrow>
      kwp (Store.remove_item S c i) (\<lambda>_ w'. ok w' \<and> cells w' = cells w \<and> room w' = room w \<and>
        changes {c} (view w) (view w') \<and> items (view w') c = removeAll i (items (view w) c)) w"
    and pop_wait_law: "ok w \<Longrightarrow> 0 < room w \<Longrightarrow>
      w' = snd (Store.pop_back_push_front S CollectionSuffix.Wait CollectionSuffix.Active w) \<Longrightarrow>
      r = fst (Store.pop_back_push_front S CollectionSuffix.Wait CollectionSuffix.Active w) \<Longrightarrow>
      ok w' \<and> cells w' = cells w \<and> room w - 1 \<le> room w' \<and>
      (if items (view w) CollectionSuffix.Wait = [] then r = None \<and> view w' = view w \<and> room w' = room w
       else r = Some (last (items (view w) CollectionSuffix.Wait)) \<and>
         changes {CollectionSuffix.Wait, CollectionSuffix.Active} (view w) (view w') \<and>
         items (view w') CollectionSuffix.Wait = butlast (items (view w) CollectionSuffix.Wait) \<and>
         items (view w') CollectionSuffix.Active =
           last (items (view w) CollectionSuffix.Wait) # items (view w) CollectionSuffix.Active)"
    and pop_prioritized_law: "ok w \<Longrightarrow>
      kwp (Store.pop_set S CollectionSuffix.Prioritized True) (\<lambda>r w'. ok w' \<and> cells w' = cells w \<and>
        room w' = room w \<and>
        (if items (view w) CollectionSuffix.Prioritized = [] then r = [] \<and> view w' = view w
         else (\<exists>sc. r = [(hd (items (view w) CollectionSuffix.Prioritized), sc)]) \<and>
           changes {CollectionSuffix.Prioritized} (view w) (view w') \<and>
           items (view w') CollectionSuffix.Prioritized =
             tl (items (view w) CollectionSuffix.Prioritized))) w"
    and remove_counter_law: "ok w \<Longrightarrow>
      kwp (Store.remove S PriorityCounter) (\<lambda>_ w'. ok w' \<and> view w' = view w \<and> room w' = room w \<and>
        cells w' = cells w) w"

text \<open>A backend that satisfies the contract of collections satisfies the one of lists, on every list.\<close>

sublocale collection_contract \<subseteq> list_contract S ok "\<lambda>w. items (view w)" room "\<lambda>_ _. True"
proof
  fix w c i app
  assume w: "ok w" and c: "c \<in> list_cols" and r: "0 < room w"
  show "kwp (Store.add_item S c i None app) (\<lambda>_ w'. ok w' \<and> room w - 1 \<le> room w' \<and>
      same_lists (items (view w')) (snd (list_step (Add c i app) (items (view w))))) w"
    by (rule kwp_mono [OF add_list_law [OF w c r]]) (auto simp: same_lists_def changes_def)
  have "c \<in> list_cols \<or> c = CollectionSuffix.Stalled \<or> c \<in> scored_cols \<and> i \<notin> scores (view w) c" using c by simp
  from remove_law [OF w this]
  show "kwp (Store.remove_item S c i) (\<lambda>_ w'. ok w' \<and> room w - 1 \<le> room w' \<and>
      same_lists (items (view w')) (snd (list_step (Drop c i) (items (view w))))) w"
    by (rule kwp_mono) (auto simp: same_lists_def changes_def)
next
  fix w
  assume w: "ok w" and r: "0 < room w"
  show "kwp (klift (Store.pop_back_push_front S CollectionSuffix.Wait CollectionSuffix.Active))
      (\<lambda>r w'. ok w' \<and> room w - 1 \<le> room w' \<and> r = fst (list_step Take (items (view w))) \<and>
        same_lists (items (view w')) (snd (list_step Take (items (view w))))) w"
    using pop_wait_law [OF w r refl refl] by (auto simp: same_lists_def changes_def split: if_splits)
qed

end
