(* ===== verification/Queue_Contract.thy ===== *)
theory Queue_Contract
  imports Collection_Contract
begin

text \<open>
  What the queue relies on in its store, and what follows for the queue. The locale \<open>store_contract\<close>
  extends \<open>collection_contract\<close> by the laws of job records, locks and events, one per operation of
  the \<^verbatim>\<open>Store\<close> trait that the queue's transitions call. The lemmas about the queue's transitions are
  proved once, here, for every backend that satisfies the laws.
\<close>

section \<open>The contract\<close>

locale store_contract = collection_contract S ok view room
  for S :: "('s, 'c, 'd, 'r, 'p) backend"
    and ext :: "'c externals"
    and ok :: "('s, 'r, 'p) World \<Rightarrow> bool"
    and view :: "('s, 'r, 'p) World \<Rightarrow> ('c, 'd, 'r, 'p) StoreView"
    and room :: "('s, 'r, 'p) World \<Rightarrow> nat" +
  assumes job_exists_law: "ok w \<Longrightarrow> small_id i \<Longrightarrow> fst (Store.job_exists S i w) \<longleftrightarrow> job (view w) i \<noteq> None"
    and job_exists_view: "ok w \<Longrightarrow> w' = snd (Store.job_exists S i w) \<Longrightarrow>
      ok w' \<and> view w' = view w \<and> room w' = room w \<and> cells w' = cells w"
    and get_job_law: "ok w \<Longrightarrow> small_id i \<Longrightarrow> fst (Store.get_job S i w) = job (view w) i"
    and get_job_view: "ok w \<Longrightarrow> w' = snd (Store.get_job S i w) \<Longrightarrow>
      ok w' \<and> view w' = view w \<and> room w' = room w \<and> cells w' = cells w"
    and get_state_law: "ok w \<Longrightarrow> small_id i \<Longrightarrow> fst (Store.get_state S i w) = map_option Job.state (job (view w) i)"
    and get_state_view: "ok w \<Longrightarrow> w' = snd (Store.get_state S i w) \<Longrightarrow>
      ok w' \<and> view w' = view w \<and> room w' = room w \<and> cells w' = cells w"
    and get_token_law: "ok w \<Longrightarrow> small_id i \<Longrightarrow> fst (Store.get_token S i w) = lock (view w) i"
    and get_token_view: "ok w \<Longrightarrow> w' = snd (Store.get_token S i w) \<Longrightarrow>
      ok w' \<and> view w' = view w \<and> room w' = room w \<and> cells w' = cells w"
    and attempts_law: "ok w \<Longrightarrow> small_id i \<Longrightarrow> job (view w) i = Some j \<Longrightarrow>
      unat (attempts_made j) < 2 ^ 62 \<Longrightarrow>
      kwp (Store.incr S (CollectionSuffix.Job i) 1 (Some ''attemptsMade'')) (\<lambda>n w'.
        n = attempts_made j + 1 \<and> ok w' \<and> cells w' = cells w \<and> room w' = room w \<and>
        view w' = (view w)\<lparr>job := (job (view w))(i := Some (j\<lparr>attempts_made := attempts_made j + 1\<rparr>))\<rparr>) w"
    and set_fields_law: "ok w \<Longrightarrow> small_id i \<Longrightarrow> job (view w) i = Some j \<Longrightarrow>
      kwp (Store.set_fields S i fs) (\<lambda>_ w'. ok w' \<and> cells w' = cells w \<and> room w' = room w \<and>
        view w' = (view w)\<lparr>job := (job (view w))(i := Some (fold (set_field ext) fs j))\<rparr>) w"
    and set_lock_law: "ok w \<Longrightarrow> small_id i \<Longrightarrow> 0 < ms \<Longrightarrow>
      kwp (Store.set_lock S (CollectionSuffix.Lock i) (Some tok) ms) (\<lambda>_ w'. ok w' \<and> cells w' = cells w \<and>
        room w' = room w \<and> view w' = (view w)\<lparr>lock := (lock (view w))(i := Some tok)\<rparr>) w"
    and remove_job_law: "ok w \<Longrightarrow> small_id i \<Longrightarrow>
      kwp (Store.remove S (CollectionSuffix.Job i)) (\<lambda>_ w'. ok w' \<and> cells w' = cells w \<and> room w' = room w \<and>
        view w' = (view w)\<lparr>job := (job (view w))(i := None)\<rparr>) w"
    and publish_law: "ok w \<Longrightarrow> convertible e \<Longrightarrow>
      kwp (Store.publish_event S mode e) (\<lambda>_ w'. ok w' \<and> view w' = view w \<and> room w' = room w \<and>
        published e w w') w"
begin

lemma write_and_publish:
  assumes "ok w" and "small_id i" and "job (view w) i = Some j" and "convertible e"
  shows "kwp (kbind (Store.set_fields S i fs) (\<lambda>_. Store.publish_event S mode e)) (\<lambda>_ w'.
    ok w' \<and> room w' = room w \<and> published e w w' \<and>
    view w' = (view w)\<lparr>job := (job (view w))(i := Some (fold (set_field ext) fs j))\<rparr>) w"
proof (rule kwp_seq [OF set_fields_law [OF assms(1-3)]])
  fix w1 :: "('s, 'r, 'p) World"
  assume w1: "ok w1 \<and> cells w1 = cells w \<and> room w1 = room w \<and>
    view w1 = (view w)\<lparr>job := (job (view w))(i := Some (fold (set_field ext) fs j))\<rparr>"
  from publish_law [of w1 e mode] w1 assms(4)
  show "kwp (Store.publish_event S mode e) (\<lambda>_ w'. ok w' \<and> room w' = room w \<and> published e w w' \<and>
      view w' = (view w)\<lparr>job := (job (view w))(i := Some (fold (set_field ext) fs j))\<rparr>) w1"
    by (auto elim!: kwp_mono simp: published_cells [of w1 w])
qed

text \<open>A move to a terminal state: the job leaves its collection and enters the terminal one.\<close>

lemma move_items:
  assumes "ok w" and "small_id i" and "job (view w) i = Some j" and "unat (attempts_made j) < 2 ^ 62"
    and c0: "c0 \<in> list_cols \<or> c0 = CollectionSuffix.Stalled \<or> c0 \<in> scored_cols \<and> i \<notin> scores (view w) c0"
    and c1: "c1 \<in> scored_cols" "c0 \<noteq> c1" "sc \<notin> scores (view w) c1"
  shows "kwp (kbind (Store.incr S (CollectionSuffix.Job i) 1 (Some ''attemptsMade'')) (\<lambda>_.
      kbind (Store.remove_item S c0 i) (\<lambda>_. Store.add_item S c1 i (Some sc) False))) (\<lambda>_ w'.
    ok w' \<and> cells w' = cells w \<and> room w' = room w \<and>
    items (view w') c0 = removeAll i (items (view w) c0) \<and>
    mset (items (view w') c1) = add_mset i (mset (items (view w) c1)) \<and>
    scores (view w') c1 = insert sc (scores (view w) c1) \<and>
    changes {c0, c1} ((view w)\<lparr>job := (job (view w))(i := Some (j\<lparr>attempts_made := attempts_made j + 1\<rparr>))\<rparr>)
      (view w')) w"
proof (rule kwp_seq [OF attempts_law [OF assms(1-4)]])
  let ?v = "(view w)\<lparr>job := (job (view w))(i := Some (j\<lparr>attempts_made := attempts_made j + 1\<rparr>))\<rparr>"
  fix n and w1 :: "('s, 'r, 'p) World"
  assume w1: "n = attempts_made j + 1 \<and> ok w1 \<and> cells w1 = cells w \<and> room w1 = room w \<and> view w1 = ?v"
  then have rm: "kwp (Store.remove_item S c0 i) (\<lambda>_ w'. ok w' \<and> cells w' = cells w1 \<and> room w' = room w1 \<and>
        changes {c0} (view w1) (view w') \<and> items (view w') c0 = removeAll i (items (view w1) c0)) w1"
    using c0 by (intro remove_law) auto
  show "kwp (kbind (Store.remove_item S c0 i) (\<lambda>_. Store.add_item S c1 i (Some sc) False)) (\<lambda>_ w'.
    ok w' \<and> cells w' = cells w \<and> room w' = room w \<and>
    items (view w') c0 = removeAll i (items (view w) c0) \<and>
    mset (items (view w') c1) = add_mset i (mset (items (view w) c1)) \<and>
        scores (view w') c1 = insert sc (scores (view w) c1) \<and> changes {c0, c1} ?v (view w')) w1"
  proof (rule kwp_seq [OF rm])
    fix w2 :: "('s, 'r, 'p) World"
    assume w2: "ok w2 \<and> cells w2 = cells w1 \<and> room w2 = room w1 \<and>
        changes {c0} (view w1) (view w2) \<and> items (view w2) c0 = removeAll i (items (view w1) c0)"
    then have "scores (view w2) c1 = scores (view w) c1" "items (view w2) c1 = items (view w) c1"
      using w1 c1(2) by (simp_all add: changes_def)
    with add_scored_law [of w2 c1 sc i False] w2 c1
    show "kwp (Store.add_item S c1 i (Some sc) False) (\<lambda>_ w'.
        ok w' \<and> cells w' = cells w \<and> room w' = room w \<and>
        items (view w') c0 = removeAll i (items (view w) c0) \<and>
        mset (items (view w') c1) = add_mset i (mset (items (view w) c1)) \<and>
        scores (view w') c1 = insert sc (scores (view w) c1) \<and> changes {c0, c1} ?v (view w')) w2"
      using w1 by (auto elim!: kwp_mono simp: changes_def)
  qed
qed

lemma move_to_terminal:
  assumes "ok w" and np: "\<not> is_paused w" and "small_id i" and jb: "job (view w) i = Some j"
    and "unat (attempts_made j) < 2 ^ 62"
    and c0: "suffix_of_state from_st \<in> list_cols \<or> suffix_of_state from_st = CollectionSuffix.Stalled \<or>
      suffix_of_state from_st \<in> scored_cols \<and> i \<notin> scores (view w) (suffix_of_state from_st)"
    and to_st: "to_st = JobState.Failed \<or> to_st = JobState.Completed"
    and ne: "suffix_of_state from_st \<noteq> suffix_of_state to_st"
    and free: "unwrap_or (timestamp_micros (wall w)) t \<notin> scores (view w) (suffix_of_state to_st)"
    and conv: "convertible (move_event (wall w) i from_st to_st result :: ('r, 'p) QueueStreamEvent)"
  shows "kwp (move_job_to_state S i from_st to_st result t trace) (\<lambda>_ w'. ok w' \<and> room w' = room w \<and>
      items (view w') (suffix_of_state from_st) = removeAll i (items (view w) (suffix_of_state from_st)) \<and>
      mset (items (view w') (suffix_of_state to_st)) =
        add_mset i (mset (items (view w) (suffix_of_state to_st))) \<and>
      scores (view w') (suffix_of_state to_st) = insert (unwrap_or (timestamp_micros (wall w)) t) (scores (view w) (suffix_of_state to_st)) \<and>
      changes {suffix_of_state from_st, suffix_of_state to_st}
        ((view w)\<lparr>job := (job (view w))(i := Some (fold (set_field ext) (move_fields to_st result t trace)
          (j\<lparr>attempts_made := attempts_made j + 1\<rparr>)))\<rparr>) (view w') \<and>
      published (move_event (wall w) i from_st to_st result) w w') w" (is "kwp _ ?Q w")
proof -
  define w1 where "w1 = snd (Store.job_exists S i w)"
  have w1: "ok w1" "view w1 = view w" "room w1 = room w" "cells w1 = cells w"
    using job_exists_view [OF assms(1) w1_def] by simp_all
  have c1: "suffix_of_state to_st \<in> scored_cols" using to_st by (auto simp: scored_cols_def)
  have found: "fst (Store.job_exists S i w)" using job_exists_law [OF assms(1,3)] jb by simp
  have "kwp (kbind (kbind (Store.incr S (CollectionSuffix.Job i) 1 (Some ''attemptsMade'')) (\<lambda>_.
      kbind (Store.remove_item S (suffix_of_state from_st) i) (\<lambda>_.
      Store.add_item S (suffix_of_state to_st) i (Some (unwrap_or (timestamp_micros (wall w)) t)) False)))
      (\<lambda>_. kbind (Store.set_fields S i (move_fields to_st result t trace))
        (\<lambda>_. Store.publish_event S (event_mode w) (move_event (wall w) i from_st to_st result)))) ?Q w1"
  proof (rule kwp_seq [OF move_items])
    fix w2 :: "('s, 'r, 'p) World"
    assume w2: "ok w2 \<and> cells w2 = cells w1 \<and> room w2 = room w1 \<and>
      items (view w2) (suffix_of_state from_st) = removeAll i (items (view w1) (suffix_of_state from_st)) \<and>
      mset (items (view w2) (suffix_of_state to_st)) =
        add_mset i (mset (items (view w1) (suffix_of_state to_st))) \<and>
      scores (view w2) (suffix_of_state to_st) =
        insert (unwrap_or (timestamp_micros (wall w)) t) (scores (view w1) (suffix_of_state to_st)) \<and>
      changes {suffix_of_state from_st, suffix_of_state to_st}
        ((view w1)\<lparr>job := (job (view w1))(i := Some (j\<lparr>attempts_made := attempts_made j + 1\<rparr>))\<rparr>) (view w2)"
    then have "job (view w2) i = Some (j\<lparr>attempts_made := attempts_made j + 1\<rparr>)"
      by (simp add: changes_def)
    from write_and_publish [OF _ assms(3) this conv, of "move_fields to_st result t trace" "event_mode w"] w2
    show "kwp (kbind (Store.set_fields S i (move_fields to_st result t trace))
        (\<lambda>_. Store.publish_event S (event_mode w) (move_event (wall w) i from_st to_st result))) ?Q w2"
      using w1 by (auto elim!: kwp_mono simp: changes_def published_cells [of w2 w])
  qed (use w1 assms c1 in simp_all)
  then show ?thesis
    using np found to_st by (simp add: move_job_to_state_def w1_def)
qed

lemma move_within_active:
  assumes "ok w" and np: "\<not> is_paused w" and "small_id i" and jb: "job (view w) i = Some j"
    and mem: "i \<in> set (items (view w) CollectionSuffix.Active)"
  shows "kwp (move_job_to_state S i from_st JobState.Active None None None) (\<lambda>_ w'. ok w' \<and> room w' = room w \<and>
      view w' = (view w)\<lparr>job := (job (view w))(i := Some (j\<lparr>Job.state := JobState.Active\<rparr>))\<rparr> \<and>
      published (move_event (wall w) i from_st JobState.Active None) w w') w" (is "kwp _ ?Q w")
proof -
  define w1 where "w1 = snd (Store.job_exists S i w)"
  have w1: "ok w1" "view w1 = view w" "room w1 = room w" "cells w1 = cells w"
    using job_exists_view [OF assms(1) w1_def] by simp_all
  have found: "fst (Store.job_exists S i w)" using job_exists_law [OF assms(1,3)] jb by simp
  have conv: "convertible (move_event (wall w) i from_st JobState.Active None :: ('r, 'p) QueueStreamEvent)"
    by (simp add: convertible_def move_event_def default_event_def)
  have exists: "kwp (Store.exists_in S CollectionSuffix.Active i) (\<lambda>b w2. b \<and> ok w2 \<and> view w2 = view w \<and>
      room w2 = room w \<and> cells w2 = cells w) w1"
    using exists_in_law [OF w1(1), of CollectionSuffix.Active i] w1 mem
    by (auto elim!: kwp_mono simp: list_cols_def)
  have tail: "kwp (kbind (Store.set_fields S i [State JobState.Active])
        (\<lambda>_. Store.publish_event S (event_mode w) (move_event (wall w) i from_st JobState.Active None))) ?Q w2"
    if "ok w2 \<and> view w2 = view w \<and> room w2 = room w \<and> cells w2 = cells w" for w2
    by (rule kwp_mono [OF write_and_publish [of w2 i j]])
      (use that assms(3) jb conv in \<open>auto simp: published_cells [of w2 w]\<close>)
  have "kwp (kbind (Store.exists_in S CollectionSuffix.Active i) (\<lambda>in_list.
      kbind (kwhen (\<not> in_list) (kbind (Store.remove_item S (suffix_of_state from_st) i) (\<lambda>_.
        Store.add_item S CollectionSuffix.Active i None False))) (\<lambda>_.
      kbind (Store.set_fields S i [State JobState.Active])
        (\<lambda>_. Store.publish_event S (event_mode w) (move_event (wall w) i from_st JobState.Active None))))) ?Q w1"
    by (rule kwp_seq [OF exists]) (use tail in simp)
  then show ?thesis
    using np found by (simp add: move_job_to_state_def w1_def move_fields_def)
qed

text \<open>Taking a job: the lock is set, the job becomes active and carries the token.\<close>

definition taken_job :: "JobToken \<Rightarrow> u64 \<Rightarrow> ('c, 'd, 'r, 'p) Job \<Rightarrow> ('c, 'd, 'r, 'p) Job" where
  "taken_job tok t j = j\<lparr>Job.state := JobState.Active, Job.token := Some tok,
     processed_on := from_timestamp_micros ext t\<rparr>"

lemma prepare_active:
  assumes "ok w" and "\<not> is_paused w" and "small_id i" and "job (view w) i = Some j"
    and "i \<in> set (items (view w) CollectionSuffix.Active)" and "0 < lock_duration wopts"
  shows "kwp (prepare_job_for_processing S tok i t wopts from_st) (\<lambda>r w'. r = taken_job tok t j \<and>
      ok w' \<and> room w' = room w \<and>
      view w' = (view w)\<lparr>job := (job (view w))(i := Some (taken_job tok t j)),
        lock := (lock (view w))(i := Some tok)\<rparr> \<and>
      published (move_event (wall w) i from_st JobState.Active None) w w') w" (is "kwp _ ?Q w")
  unfolding prepare_job_for_processing_def
proof (rule kwp_seq [OF set_lock_law [OF assms(1,3,6)]], rule kwp_seq)
  fix w1 :: "('s, 'r, 'p) World"
  let ?v = "(view w)\<lparr>lock := (lock (view w))(i := Some tok)\<rparr>"
  assume w1: "ok w1 \<and> cells w1 = cells w \<and> room w1 = room w \<and> view w1 = ?v"
  note c1 = cells_fields [of w1 w]
  from w1 show "kwp (move_job_to_state S i from_st JobState.Active None None None) (\<lambda>_ w'. ok w' \<and>
      room w' = room w1 \<and>
      view w' = (view w1)\<lparr>job := (job (view w1))(i := Some (j\<lparr>Job.state := JobState.Active\<rparr>))\<rparr> \<and>
      published (move_event (wall w1) i from_st JobState.Active None) w1 w') w1"
    using assms c1 by (intro move_within_active) simp_all
  fix w2 :: "('s, 'r, 'p) World"
  assume w2: "ok w2 \<and> room w2 = room w1 \<and>
      view w2 = (view w1)\<lparr>job := (job (view w1))(i := Some (j\<lparr>Job.state := JobState.Active\<rparr>))\<rparr> \<and>
      published (move_event (wall w1) i from_st JobState.Active None) w1 w2"
  then have pub: "published (move_event (wall w) i from_st JobState.Active None) w w2"
    using w1 c1 by (simp add: published_cells [of w1 w])
  have "kwp (Store.set_fields S i [JobField.Token tok, ProcessedOn t]) (\<lambda>_ w'. ok w' \<and> cells w' = cells w2 \<and>
      room w' = room w2 \<and> view w' = (view w2)\<lparr>job := (job (view w2))(i := Some (taken_job tok t j))\<rparr>) w2"
    using set_fields_law [of w2 i "j\<lparr>Job.state := JobState.Active\<rparr>" "[JobField.Token tok, ProcessedOn t]"]
      w1 w2 assms(3) by (simp add: taken_job_def)
  then show "kwp (kbind (Store.set_fields S i [JobField.Token tok, ProcessedOn t]) (\<lambda>_.
      kbind (klift (Store.get_job S i)) (\<lambda>j. kok_or j (KioError.JobError JobNotFound)))) ?Q w2"
  proof (rule kwp_seq)
    fix w3 :: "('s, 'r, 'p) World"
    assume w3: "ok w3 \<and> cells w3 = cells w2 \<and> room w3 = room w2 \<and>
      view w3 = (view w2)\<lparr>job := (job (view w2))(i := Some (taken_job tok t j))\<rparr>"
    show "kwp (kbind (klift (Store.get_job S i)) (\<lambda>j. kok_or j (KioError.JobError JobNotFound))) ?Q w3"
      using get_job_law [of w3 i] get_job_view [of w3 _ i] assms(3) w1 w2 w3 pub
      by (auto simp: published_def cells_def is_paused_def)
  qed
qed

text \<open>The three outcomes of asking for the next job.\<close>

lemma take_after_push:
  assumes "ok w1" and "cells w1 = cells w" and "\<not> is_paused w" and "small_id i" and "0 < lock_duration wopts"
    and "job (view w1) i = Some j" and "i \<in> set (items (view w1) CollectionSuffix.Active)"
  shows "kwp (kbind (kbind (klift (Store.get_state S i)) (\<lambda>prev_state.
      prepare_job_for_processing S tok i t wopts (unwrap_or JobState.Wait prev_state))) (\<lambda>j. kret (ProcessJob j)))
    (\<lambda>r w'. r = ProcessJob (taken_job tok t j) \<and> ok w' \<and> room w' = room w1 \<and>
      view w' = (view w1)\<lparr>job := (job (view w1))(i := Some (taken_job tok t j)),
        lock := (lock (view w1))(i := Some tok)\<rparr> \<and>
      published (move_event (wall w) i (Job.state j) JobState.Active None) w w') w1"
proof -
  define w2 where "w2 = snd (Store.get_state S i w1)"
  have w2: "ok w2" "view w2 = view w1" "room w2 = room w1" "cells w2 = cells w"
    using get_state_view [OF assms(1) w2_def] assms(2) by simp_all
  note c2 = cells_fields [OF w2(4)]
  have "fst (Store.get_state S i w1) = Some (Job.state j)"
    using get_state_law [OF assms(1), of i] assms(4,6) by simp
  moreover have "kwp (prepare_job_for_processing S tok i t wopts (Job.state j)) (\<lambda>r w'. r = taken_job tok t j \<and>
      ok w' \<and> room w' = room w1 \<and>
      view w' = (view w1)\<lparr>job := (job (view w1))(i := Some (taken_job tok t j)),
        lock := (lock (view w1))(i := Some tok)\<rparr> \<and>
      published (move_event (wall w) i (Job.state j) JobState.Active None) w w') w2"
    by (rule kwp_mono [OF prepare_active [of w2 i j]])
      (use w2 c2 assms in \<open>auto simp: published_cells [of w2 w]\<close>)
  ultimately show ?thesis by (simp add: w2_def)
qed

lemma move_to_active_waiting:
  assumes "ok w" and "0 < room w" and "\<not> is_paused w" and "0 < lock_duration wopts"
    and wait: "items (view w) CollectionSuffix.Wait = xs @ [i]" and "small_id i" and jb: "job (view w) i = Some j"
  shows "kwp (move_to_active S tok wopts) (\<lambda>r w'.
      r = ProcessJob (taken_job tok (timestamp_micros (wall w)) j) \<and> ok w' \<and> room w - 1 \<le> room w' \<and>
      items (view w') CollectionSuffix.Wait = xs \<and>
      items (view w') CollectionSuffix.Active = i # items (view w) CollectionSuffix.Active \<and>
      changes {CollectionSuffix.Wait, CollectionSuffix.Active}
        ((view w)\<lparr>job := (job (view w))(i := Some (taken_job tok (timestamp_micros (wall w)) j)),
          lock := (lock (view w))(i := Some tok)\<rparr>) (view w') \<and>
      published (move_event (wall w) i (Job.state j) JobState.Active None) w w') w"
proof -
  define w1 where "w1 = snd (Store.pop_back_push_front S CollectionSuffix.Wait CollectionSuffix.Active w)"
  note pop = pop_wait_law [OF assms(1,2) w1_def refl]
  have w1: "ok w1" "cells w1 = cells w" "room w - 1 \<le> room w1"
    "fst (Store.pop_back_push_front S CollectionSuffix.Wait CollectionSuffix.Active w) = Some i"
    "changes {CollectionSuffix.Wait, CollectionSuffix.Active} (view w) (view w1)"
    "items (view w1) CollectionSuffix.Wait = xs"
    "items (view w1) CollectionSuffix.Active = i # items (view w) CollectionSuffix.Active"
    using pop wait by simp_all
  then have j1: "job (view w1) i = Some j" "lock (view w1) = lock (view w)" "job (view w1) = job (view w)"
    using jb by (simp_all add: changes_def)
  have "kwp (kbind (kbind (klift (Store.get_state S i)) (\<lambda>prev_state.
      prepare_job_for_processing S tok i (timestamp_micros (wall w)) wopts (unwrap_or JobState.Wait prev_state)))
      (\<lambda>j. kret (ProcessJob j)))
    (\<lambda>r w'. r = ProcessJob (taken_job tok (timestamp_micros (wall w)) j) \<and> ok w' \<and> room w - 1 \<le> room w' \<and>
      items (view w') CollectionSuffix.Wait = xs \<and>
      items (view w') CollectionSuffix.Active = i # items (view w) CollectionSuffix.Active \<and>
      changes {CollectionSuffix.Wait, CollectionSuffix.Active}
        ((view w)\<lparr>job := (job (view w))(i := Some (taken_job tok (timestamp_micros (wall w)) j)),
          lock := (lock (view w))(i := Some tok)\<rparr>) (view w') \<and>
      published (move_event (wall w) i (Job.state j) JobState.Active None) w w') w1"
    by (rule kwp_mono [OF take_after_push [of w1 w i wopts j]])
      (use w1 j1 assms in \<open>auto simp: changes_def\<close>)
  then show ?thesis
    using w1(4) by (simp add: move_to_active_def w1_def)
qed

lemma move_to_active_prioritized:
  assumes "ok w" and "0 < room w" and "\<not> is_paused w" and "0 < lock_duration wopts"
    and wait: "items (view w) CollectionSuffix.Wait = []"
    and prio: "items (view w) CollectionSuffix.Prioritized = i # ps"
    and "small_id i" and jb: "job (view w) i = Some j"
  shows "kwp (move_to_active S tok wopts) (\<lambda>r w'.
      r = ProcessJob (taken_job tok (timestamp_micros (wall w)) j) \<and> ok w' \<and> room w - 1 \<le> room w' \<and>
      items (view w') CollectionSuffix.Prioritized = ps \<and>
      items (view w') CollectionSuffix.Active = i # items (view w) CollectionSuffix.Active \<and>
      changes {CollectionSuffix.Prioritized, CollectionSuffix.Active}
        ((view w)\<lparr>job := (job (view w))(i := Some (taken_job tok (timestamp_micros (wall w)) j)),
          lock := (lock (view w))(i := Some tok)\<rparr>) (view w') \<and>
      published (move_event (wall w) i (Job.state j) JobState.Active None) w w') w" (is "kwp _ ?Q w")
proof -
  define w1 where "w1 = snd (Store.pop_back_push_front S CollectionSuffix.Wait CollectionSuffix.Active w)"
  have w1: "ok w1" "cells w1 = cells w" "room w1 = room w" "view w1 = view w"
    "fst (Store.pop_back_push_front S CollectionSuffix.Wait CollectionSuffix.Active w) = None"
    using pop_wait_law [OF assms(1,2) w1_def refl] wait by simp_all
  have pop: "kwp (move_job_from_priorty_to_active S) (\<lambda>r w3. r = Some i \<and> ok w3 \<and> cells w3 = cells w \<and>
      room w - 1 \<le> room w3 \<and> changes {CollectionSuffix.Prioritized, CollectionSuffix.Active} (view w) (view w3) \<and>
      items (view w3) CollectionSuffix.Prioritized = ps \<and>
      items (view w3) CollectionSuffix.Active = i # items (view w) CollectionSuffix.Active) w1"
    unfolding move_job_from_priorty_to_active_def
  proof (rule kwp_seq [OF pop_prioritized_law [OF w1(1)]])
    fix r and w2 :: "('s, 'r, 'p) World"
    assume "ok w2 \<and> cells w2 = cells w1 \<and> room w2 = room w1 \<and>
        (if items (view w1) CollectionSuffix.Prioritized = [] then r = [] \<and> view w2 = view w1
         else (\<exists>sc. r = [(hd (items (view w1) CollectionSuffix.Prioritized), sc)]) \<and>
           changes {CollectionSuffix.Prioritized} (view w1) (view w2) \<and>
           items (view w2) CollectionSuffix.Prioritized = tl (items (view w1) CollectionSuffix.Prioritized))"
    then obtain sc where w2: "ok w2" "cells w2 = cells w" "room w2 = room w" "r = [(i, sc)]"
      "changes {CollectionSuffix.Prioritized} (view w) (view w2)" "items (view w2) CollectionSuffix.Prioritized = ps"
      using w1 prio by auto
    then show "kwp (if r = [] then kbind (Store.remove S PriorityCounter) (\<lambda>_. kret None)
        else let i = fst (last r) in
          kbind (Store.add_item S CollectionSuffix.Active i None True) (\<lambda>_. kret (Some i)))
      (\<lambda>r w3. r = Some i \<and> ok w3 \<and> cells w3 = cells w \<and> room w - 1 \<le> room w3 \<and>
        changes {CollectionSuffix.Prioritized, CollectionSuffix.Active} (view w) (view w3) \<and>
        items (view w3) CollectionSuffix.Prioritized = ps \<and>
        items (view w3) CollectionSuffix.Active = i # items (view w) CollectionSuffix.Active) w2"
      using add_list_law [of w2 CollectionSuffix.Active i None True] assms(2)
      by (auto elim!: kwp_mono simp: list_cols_def changes_def)
  qed
  have "kwp (kbind (move_job_from_priorty_to_active S) (\<lambda>prioritized_id.
        case prioritized_id of
          Some i \<Rightarrow> kbind (kbind (klift (Store.get_state S i)) (\<lambda>prev_state.
            prepare_job_for_processing S tok i (timestamp_micros (wall w)) wopts
              (unwrap_or JobState.Wait prev_state))) (\<lambda>j. kret (ProcessJob j))
        | None \<Rightarrow> kret (DelayUntil 0))) ?Q w1"
  proof (rule kwp_seq [OF pop])
    fix r and w3 :: "('s, 'r, 'p) World"
    assume w3: "r = Some i \<and> ok w3 \<and> cells w3 = cells w \<and>
      room w - 1 \<le> room w3 \<and> changes {CollectionSuffix.Prioritized, CollectionSuffix.Active} (view w) (view w3) \<and>
      items (view w3) CollectionSuffix.Prioritized = ps \<and>
      items (view w3) CollectionSuffix.Active = i # items (view w) CollectionSuffix.Active"
    then have "job (view w3) i = Some j" "lock (view w3) = lock (view w)" "job (view w3) = job (view w)"
      using jb by (simp_all add: changes_def)
    then have "kwp (kbind (kbind (klift (Store.get_state S i)) (\<lambda>prev_state.
            prepare_job_for_processing S tok i (timestamp_micros (wall w)) wopts
              (unwrap_or JobState.Wait prev_state))) (\<lambda>j. kret (ProcessJob j))) ?Q w3"
      by (intro kwp_mono [OF take_after_push [of w3 w i wopts j]])
        (use w3 assms in \<open>auto simp: changes_def\<close>)
    then show "kwp (case r of
          Some i \<Rightarrow> kbind (kbind (klift (Store.get_state S i)) (\<lambda>prev_state.
            prepare_job_for_processing S tok i (timestamp_micros (wall w)) wopts
              (unwrap_or JobState.Wait prev_state))) (\<lambda>j. kret (ProcessJob j))
        | None \<Rightarrow> kret (DelayUntil 0)) ?Q w3"
      using w3 by simp
  qed
  then show ?thesis
    using w1(5) by (simp add: move_to_active_def w1_def)
qed

lemma move_to_active_empty:
  assumes "ok w" and "0 < room w" and wait: "items (view w) CollectionSuffix.Wait = []"
    and prio: "items (view w) CollectionSuffix.Prioritized = []"
  shows "kwp (move_to_active S tok wopts) (\<lambda>r w'. r = DelayUntil 0 \<and> ok w' \<and> view w' = view w \<and>
      room w' = room w \<and> cells w' = cells w) w"
proof -
  define w1 where "w1 = snd (Store.pop_back_push_front S CollectionSuffix.Wait CollectionSuffix.Active w)"
  have w1: "ok w1" "cells w1 = cells w" "room w1 = room w" "view w1 = view w"
    "fst (Store.pop_back_push_front S CollectionSuffix.Wait CollectionSuffix.Active w) = None"
    using pop_wait_law [OF assms(1,2) w1_def refl] wait by simp_all
  have "kwp (move_job_from_priorty_to_active S) (\<lambda>r w3. r = None \<and> ok w3 \<and> view w3 = view w \<and>
      room w3 = room w \<and> cells w3 = cells w) w1"
    unfolding move_job_from_priorty_to_active_def
    by (rule kwp_seq [OF pop_prioritized_law [OF w1(1)]])
      (use w1 prio in \<open>auto intro!: kwp_mono [OF remove_counter_law]\<close>)
  then have "kwp (kbind (move_job_from_priorty_to_active S) (\<lambda>prioritized_id.
        case prioritized_id of
          Some i \<Rightarrow> kbind (kbind (klift (Store.get_state S i)) (\<lambda>prev_state.
            prepare_job_for_processing S tok i (timestamp_micros (wall w)) wopts
              (unwrap_or JobState.Wait prev_state))) (\<lambda>j. kret (ProcessJob j))
        | None \<Rightarrow> kret (DelayUntil 0)))
      (\<lambda>r w'. r = DelayUntil 0 \<and> ok w' \<and> view w' = view w \<and> room w' = room w \<and> cells w' = cells w) w1"
    by (rule kwp_seq) auto
  then show ?thesis
    using w1(5) by (simp add: move_to_active_def w1_def)
qed

text \<open>The early returns of a move: a paused queue moves nothing, an unknown job is an error.\<close>

lemma move_paused: "is_paused w \<Longrightarrow> move_job_to_state S i from_st to_st result t trace w = (Inr (), w)"
  by (simp add: move_job_to_state_def kbind_def kget_def kret_def)

lemma move_unknown:
  assumes "ok w" and "\<not> is_paused w" and "small_id i" and "job (view w) i = None"
  shows "\<exists>w'. move_job_to_state S i from_st to_st result t trace w =
    (Inl (Err (KioError.JobError JobNotFound)), w') \<and> ok w' \<and> view w' = view w \<and> cells w' = cells w"
proof -
  have "\<not> fst (Store.job_exists S i w)" using job_exists_law [OF assms(1,3)] assms(4) by simp
  then show ?thesis
    using job_exists_view [OF assms(1) refl] assms(2)
    by (simp add: move_job_to_state_def kbind_def kget_def klift_def kfail_def split_beta)
qed

text \<open>Finishing a job that a worker holds.\<close>

lemma finish_active:
  assumes "ok w" and np: "\<not> is_paused w" and "small_id i" and jb: "job (view w) i = Some j"
    and act: "Job.state j = JobState.Active" and "unat (attempts_made j) < 2 ^ 62"
    and to_st: "to_st = JobState.Failed \<or> to_st = JobState.Completed"
    and free: "t \<notin> scores (view w) (suffix_of_state to_st)"
    and conv: "convertible (move_event (wall w) i JobState.Active to_st (Some processed) :: ('r, 'p) QueueStreamEvent)"
  shows "kwp (move_job_to_finished_or_failed S i t tok to_st processed trace) (\<lambda>r w'.
      r = fold (set_field ext) (move_fields to_st (Some processed) (Some t) trace)
        (j\<lparr>attempts_made := attempts_made j + 1\<rparr>) \<and> ok w' \<and> room w' = room w \<and>
      items (view w') CollectionSuffix.Active = removeAll i (items (view w) CollectionSuffix.Active) \<and>
      mset (items (view w') (suffix_of_state to_st)) =
        add_mset i (mset (items (view w) (suffix_of_state to_st))) \<and>
      scores (view w') (suffix_of_state to_st) = insert t (scores (view w) (suffix_of_state to_st)) \<and>
      changes {CollectionSuffix.Active, suffix_of_state to_st}
        ((view w)\<lparr>job := (job (view w))(i := Some r)\<rparr>) (view w') \<and>
      published (move_event (wall w) i JobState.Active to_st (Some processed)) w w') w"
    (is "kwp _ ?Q w")
proof -
  let ?j = "fold (set_field ext) (move_fields to_st (Some processed) (Some t) trace)
        (j\<lparr>attempts_made := attempts_made j + 1\<rparr>)"
  define w1 where "w1 = snd (Store.get_state S i w)"
  have w1: "ok w1" "view w1 = view w" "room w1 = room w" "cells w1 = cells w"
    using get_state_view [OF assms(1) w1_def] by simp_all
  note c1 = cells_fields [OF w1(4)]
  have got: "fst (Store.get_state S i w) = Some JobState.Active"
    using get_state_law [OF assms(1,3)] jb act by simp
  have "kwp (kbind (move_job_to_state S i JobState.Active to_st (Some processed) (Some t) trace) (\<lambda>_.
      kbind (klift (Store.get_job S i)) (\<lambda>j. kok_or j (KioError.JobError JobNotFound)))) ?Q w1"
  proof (rule kwp_seq [OF move_to_terminal])
    fix w2 :: "('s, 'r, 'p) World"
    let ?C = "{suffix_of_state JobState.Active, suffix_of_state to_st}"
    assume w2: "ok w2 \<and> room w2 = room w1 \<and>
      items (view w2) (suffix_of_state JobState.Active) =
        removeAll i (items (view w1) (suffix_of_state JobState.Active)) \<and>
      mset (items (view w2) (suffix_of_state to_st)) = add_mset i (mset (items (view w1) (suffix_of_state to_st))) \<and>
      scores (view w2) (suffix_of_state to_st) =
        insert (unwrap_or (timestamp_micros (wall w1)) (Some t)) (scores (view w1) (suffix_of_state to_st)) \<and>
      changes ?C ((view w1)\<lparr>job := (job (view w1))(i := Some ?j)\<rparr>) (view w2) \<and>
      published (move_event (wall w1) i JobState.Active to_st (Some processed)) w1 w2"
    then have "fst (Store.get_job S i w2) = Some ?j"
      using get_job_law [of w2 i] assms(3) by (simp add: changes_def)
    moreover have "published (move_event (wall w) i JobState.Active to_st (Some processed)) w
        (snd (Store.get_job S i w2))"
      using w2 get_job_view [of w2 _ i] c1 published_cells [OF w1(4)]
      by (auto simp: published_def cells_def is_paused_def)
    ultimately show "kwp (kbind (klift (Store.get_job S i)) (\<lambda>j. kok_or j (KioError.JobError JobNotFound))) ?Q w2"
      using w2 get_job_view [of w2 _ i] w1 by simp
  qed (use assms w1 c1 in \<open>auto simp: list_cols_def\<close>)
  then show ?thesis
    using got by (simp add: move_job_to_finished_or_failed_def w1_def)
qed

text \<open>Extending a lock succeeds exactly for the token that holds it.\<close>

lemma extend_lock_spec:
  assumes "ok w" and "small_id i" and "0 < ms"
  shows "kwp (extend_lock S i ms tok) (\<lambda>b w'. b = (lock (view w) i = Some tok) \<and> ok w' \<and> room w' = room w \<and>
      cells w' = cells w \<and> changes {CollectionSuffix.Stalled} (view w) (view w') \<and>
      items (view w') CollectionSuffix.Stalled =
        (if b then removeAll i (items (view w) CollectionSuffix.Stalled)
         else items (view w) CollectionSuffix.Stalled)) w" (is "kwp _ ?Q w")
proof -
  define w1 where "w1 = snd (Store.get_token S i w)"
  have w1: "ok w1" "view w1 = view w" "room w1 = room w" "cells w1 = cells w"
    using get_token_view [OF assms(1) w1_def] by simp_all
  note got = get_token_law [OF assms(1,2)]
  have "kwp (kbind (Store.set_lock S (CollectionSuffix.Lock i) (Some tok) ms) (\<lambda>_.
      kbind (Store.remove_item S CollectionSuffix.Stalled i) (\<lambda>_. kret True))) ?Q w1"
    if held: "lock (view w) i = Some tok"
  proof (rule kwp_seq [OF set_lock_law [OF w1(1) assms(2,3)]])
    fix w2 :: "('s, 'r, 'p) World"
    assume "ok w2 \<and> cells w2 = cells w1 \<and> room w2 = room w1 \<and>
      view w2 = (view w1)\<lparr>lock := (lock (view w1))(i := Some tok)\<rparr>"
    moreover from this have "view w2 = view w" using held w1 by (simp add: fun_upd_idem)
    ultimately show "kwp (kbind (Store.remove_item S CollectionSuffix.Stalled i) (\<lambda>_. kret True)) ?Q w2"
      using remove_law [of w2 CollectionSuffix.Stalled i] w1 held by (auto elim!: kwp_mono)
  qed
  then show ?thesis
    using got w1 by (auto simp: extend_lock_def w1_def)
qed

end

end
