(* ===== verification/In_Memory_Laws.thy ===== *)
theory In_Memory_Laws
  imports In_Memory_Store Queue_Contract
begin

text \<open>
  The in-memory store satisfies the queue's contract. \<open>mem_view\<close> abstracts the store: collections
  become lists of ids, jobs and locks the entries that have not expired. One lemma per law, then the
  interpretation \<open>inmem\<close> of \<open>store_contract\<close> on \<open>mem_store\<close>, which gives every transition of the queue
  its meaning over the in-memory store.
\<close>

section \<open>The abstraction\<close>

definition mem_items :: "('c, 'd, 'r, 'p) InMemoryStore \<Rightarrow> CollectionSuffix \<Rightarrow> u64 list" where
  "mem_items s c =
    (case c of
       CollectionSuffix.Active \<Rightarrow> to_list (active s)
     | CollectionSuffix.Wait \<Rightarrow> to_list (waiting s)
     | CollectionSuffix.Paused \<Rightarrow> to_list (paused s)
     | CollectionSuffix.Completed \<Rightarrow> map snd (completed s)
     | CollectionSuffix.Failed \<Rightarrow> map snd (failed s)
     | CollectionSuffix.Prioritized \<Rightarrow> map snd (prioritized s)
     | CollectionSuffix.Delayed \<Rightarrow> map snd (delayed s)
     | CollectionSuffix.Stalled \<Rightarrow> map fst (stalled s)
     | _ \<Rightarrow> [])"

definition mem_scores :: "('c, 'd, 'r, 'p) InMemoryStore \<Rightarrow> CollectionSuffix \<Rightarrow> u64 set" where
  "mem_scores s c =
    (case c of
       CollectionSuffix.Completed \<Rightarrow> fst ` set (completed s)
     | CollectionSuffix.Failed \<Rightarrow> fst ` set (failed s)
     | CollectionSuffix.Prioritized \<Rightarrow> fst ` set (prioritized s)
     | CollectionSuffix.Delayed \<Rightarrow> fst ` set (delayed s)
     | _ \<Rightarrow> {})"

definition lock_token :: "Lock option \<Rightarrow> JobToken option" where
  "lock_token l = (case l of Some (Lock.Token tok) \<Rightarrow> Some tok | _ \<Rightarrow> None)"

definition mem_view :: "('c, 'd, 'r, 'p) mem_world \<Rightarrow> ('c, 'd, 'r, 'p) StoreView" where
  "mem_view w =
    \<lparr>items = mem_items (mem w), scores = mem_scores (mem w),
     job = (\<lambda>i. if small_id i then live (mono w) (jobs (mem w)) (tag (CollectionSuffix.Job i)) else None),
     lock = (\<lambda>i. if small_id i
       then lock_token (live (mono w) (locks (mem w)) (tag (CollectionSuffix.Lock i))) else None)\<rparr>"

definition store_ok :: "('c, 'd, 'r, 'p) InMemoryStore \<Rightarrow> bool" where
  "store_ok s \<longleftrightarrow> timed_ok (jobs s) \<and> timed_ok (locks s) \<and>
     sm_ok (completed s) \<and> sm_ok (failed s) \<and> sm_ok (prioritized s) \<and> sm_ok (delayed s) \<and> sm_ok (stalled s) \<and>
     deque_ok (active s) \<and> deque_ok (waiting s) \<and> deque_ok (paused s)"

definition listening :: "('c, 'd, 'r, 'p) InMemoryStore \<Rightarrow> bool" where
  "listening s \<longleftrightarrow> has_events s \<and> has_stored_metrics s \<and> has_notifier s \<and> has_pause_workers s"

definition mem_ok :: "('c, 'd, 'r, 'p) mem_world \<Rightarrow> bool" where
  "mem_ok w \<longleftrightarrow> store_ok (mem w) \<and> listening (mem w)"

definition deque_room :: "u64 ConcurrentDeque \<Rightarrow> nat" where
  "deque_room d = min (front_room d) (back_room d)"

definition mem_room :: "('c, 'd, 'r, 'p) mem_world \<Rightarrow> nat" where
  "mem_room w = min (deque_room (active (mem w)))
     (min (deque_room (waiting (mem w))) (deque_room (paused (mem w))))"

lemma mem_view_simps [simp]:
  "items (mem_view w) = mem_items (mem w)"
  "scores (mem_view w) = mem_scores (mem w)"
  "job (mem_view w) i = (if small_id i then live (mono w) (jobs (mem w)) (tag (CollectionSuffix.Job i)) else None)"
  "lock (mem_view w) i = (if small_id i
     then lock_token (live (mono w) (locks (mem w)) (tag (CollectionSuffix.Lock i))) else None)"
  by (simp_all add: mem_view_def)

lemma mem_store_simps [simp]:
  "Store.metadata_field_exists (mem_store ext) = In_Memory_Store.metadata_field_exists"
  "Store.set_event_mode (mem_store ext) = In_Memory_Store.set_event_mode"
  "Store.fetch_jobs (mem_store ext) = In_Memory_Store.fetch_jobs"
  "Store.purge_expired (mem_store ext) = In_Memory_Store.purge_expired"
  "Store.store_worker_metrics (mem_store ext) = In_Memory_Store.store_worker_metrics"
  "Store.store_process_metrics (mem_store ext) = In_Memory_Store.store_process_metrics"
  "Store.fetch_worker_metrics (mem_store ext) = In_Memory_Store.fetch_worker_metrics"
  "Store.fetch_process_metrics (mem_store ext) = In_Memory_Store.fetch_process_metrics"
  "Store.update_job_progress (mem_store ext) = In_Memory_Store.update_job_progress"
  "Store.exists_in (mem_store ext) = In_Memory_Store.exists_in"
  "Store.get_job_ids_in_state (mem_store ext) = In_Memory_Store.get_job_ids_in_state"
  "Store.create_stream_listener (mem_store ext) = In_Memory_Store.create_stream_listener"
  "Store.add_bulk_only (mem_store ext) = In_Memory_Store.add_bulk_only ext"
  "Store.add_bulk (mem_store ext) = In_Memory_Store.add_bulk ext"
  "Store.get_delayed_at (mem_store ext) = In_Memory_Store.get_delayed_at"
  "Store.pop_set (mem_store ext) = In_Memory_Store.pop_set"
  "Store.expire (mem_store ext) = In_Memory_Store.expire"
  "Store.get_metrics (mem_store ext) = In_Memory_Store.get_metrics"
  "Store.get_job (mem_store ext) = In_Memory_Store.get_job"
  "Store.get_token (mem_store ext) = In_Memory_Store.get_token"
  "Store.get_state (mem_store ext) = In_Memory_Store.get_state"
  "Store.add_item (mem_store ext) = In_Memory_Store.add_item"
  "Store.pop_back_push_front (mem_store ext) = In_Memory_Store.pop_back_push_front"
  "Store.set_lock (mem_store ext) = In_Memory_Store.set_lock"
  "Store.set_fields (mem_store ext) = In_Memory_Store.set_fields ext"
  "Store.incr (mem_store ext) = In_Memory_Store.incr"
  "Store.get_counter (mem_store ext) = In_Memory_Store.get_counter"
  "Store.publish_event (mem_store ext) = In_Memory_Store.publish_event"
  "Store.job_exists (mem_store ext) = In_Memory_Store.job_exists"
  "Store.remove_item (mem_store ext) = In_Memory_Store.remove_item"
  "Store.remove (mem_store ext) = In_Memory_Store.remove"
  "Store.clear_collections (mem_store ext) = In_Memory_Store.clear_collections"
  "Store.clear_jobs (mem_store ext) = In_Memory_Store.clear_jobs"
  "Store.pause (mem_store ext) = In_Memory_Store.pause"
  by (simp_all add: mem_store_def)

lemma cells_on_store [simp]: "cells (on_store f w) = cells w" "cells (w\<lparr>World.store := s\<rparr>) = cells w"
  by (simp_all add: cells_def)

section \<open>Reads\<close>

lemma mem_items_frame [simp]:
  "mem_items (s\<lparr>jobs := m\<rparr>) = mem_items s" "mem_items (s\<lparr>locks := l\<rparr>) = mem_items s"
  "mem_items (s\<lparr>is_inital := b\<rparr>) = mem_items s"
  "mem_scores (s\<lparr>jobs := m\<rparr>) = mem_scores s" "mem_scores (s\<lparr>locks := l\<rparr>) = mem_scores s"
  "mem_scores (s\<lparr>is_inital := b\<rparr>) = mem_scores s"
  by (simp_all add: fun_eq_iff mem_items_def mem_scores_def cong: CollectionSuffix.case_cong)

lemma upd_jobs:
  assumes "mem_ok w" and "timed_ok m"
  shows "mem_ok (on_store (\<lambda>s. s\<lparr>jobs := m\<rparr>) w)" and "mem_room (on_store (\<lambda>s. s\<lparr>jobs := m\<rparr>) w) = mem_room w"
    and "mem_view (on_store (\<lambda>s. s\<lparr>jobs := m\<rparr>) w) = (mem_view w)\<lparr>
       job := (\<lambda>i. if small_id i then live (mono w) m (tag (CollectionSuffix.Job i)) else None)\<rparr>"
  using assms
  by (simp_all add: mem_ok_def mem_room_def mem_view_def store_ok_def listening_def cong: if_cong)

lemma upd_locks:
  assumes "mem_ok w" and "timed_ok m"
  shows "mem_ok (on_store (\<lambda>s. s\<lparr>locks := m\<rparr>) w)" and "mem_room (on_store (\<lambda>s. s\<lparr>locks := m\<rparr>) w) = mem_room w"
    and "mem_view (on_store (\<lambda>s. s\<lparr>locks := m\<rparr>) w) = (mem_view w)\<lparr>
       lock := (\<lambda>i. if small_id i then lock_token (live (mono w) m (tag (CollectionSuffix.Lock i))) else None)\<rparr>"
  using assms
  by (simp_all add: mem_ok_def mem_room_def mem_view_def store_ok_def listening_def cong: if_cong)

lemma get_job_eq: "In_Memory_Store.get_job i w =
  (live (mono w) (jobs (mem w)) (tag (CollectionSuffix.Job i)),
   on_store (\<lambda>s. s\<lparr>jobs := snd (Timed_Map.get (mono w) (tag (CollectionSuffix.Job i)) (jobs s))\<rparr>) w)"
  by (simp add: In_Memory_Store.get_job_def split_beta get_live on_store_def)

lemma job_exists_eq: "In_Memory_Store.job_exists i w =
  (live (mono w) (jobs (mem w)) (tag (CollectionSuffix.Job i)) \<noteq> None,
   on_store (\<lambda>s. s\<lparr>jobs := snd (contains_key (mono w) (tag (CollectionSuffix.Job i)) (jobs s))\<rparr>) w)"
  by (simp add: In_Memory_Store.job_exists_def In_Memory_Store.exists_in_def Let_def split_beta contains_key_live
      on_store_def del: tag.simps)

lemma get_token_eq: "In_Memory_Store.get_token i w =
  (lock_token (live (mono w) (locks (mem w)) (tag (CollectionSuffix.Lock i))),
   on_store (\<lambda>s. s\<lparr>locks := snd (Timed_Map.get (mono w) (tag (CollectionSuffix.Lock i)) (locks s))\<rparr>) w)"
  by (simp add: In_Memory_Store.get_token_def split_beta get_live on_store_def lock_token_def)

text \<open>Reading may evict, but what is live stays.\<close>

lemma read_jobs:
  assumes "mem_ok w" and "timed_ok m" and "live (mono w) m = live (mono w) (jobs (mem w))"
  shows "mem_ok (on_store (\<lambda>s. s\<lparr>jobs := m\<rparr>) w) \<and>
    mem_view (on_store (\<lambda>s. s\<lparr>jobs := m\<rparr>) w) = mem_view w \<and>
    mem_room (on_store (\<lambda>s. s\<lparr>jobs := m\<rparr>) w) = mem_room w \<and> cells (on_store (\<lambda>s. s\<lparr>jobs := m\<rparr>) w) = cells w"
  using upd_jobs [OF assms(1,2)] assms(3) by (simp add: mem_view_def cong: if_cong)

lemma read_locks:
  assumes "mem_ok w" and "timed_ok m" and "live (mono w) m = live (mono w) (locks (mem w))"
  shows "mem_ok (on_store (\<lambda>s. s\<lparr>locks := m\<rparr>) w) \<and>
    mem_view (on_store (\<lambda>s. s\<lparr>locks := m\<rparr>) w) = mem_view w \<and>
    mem_room (on_store (\<lambda>s. s\<lparr>locks := m\<rparr>) w) = mem_room w \<and> cells (on_store (\<lambda>s. s\<lparr>locks := m\<rparr>) w) = cells w"
  using upd_locks [OF assms(1,2)] assms(3) by (simp add: mem_view_def cong: if_cong)

lemma mem_okD:
  assumes "mem_ok w"
  shows "timed_ok (jobs (mem w))" "timed_ok (locks (mem w))"
    "sm_ok (completed (mem w))" "sm_ok (failed (mem w))" "sm_ok (prioritized (mem w))" "sm_ok (delayed (mem w))"
    "sm_ok (stalled (mem w))" "deque_ok (active (mem w))" "deque_ok (waiting (mem w))" "deque_ok (paused (mem w))"
  using assms by (simp_all add: mem_ok_def store_ok_def)

lemma get_view:
  assumes "mem_ok w"
  shows "w' = snd (In_Memory_Store.get_job i w) \<Longrightarrow>
      mem_ok w' \<and> mem_view w' = mem_view w \<and> mem_room w' = mem_room w \<and> cells w' = cells w"
    and "w' = snd (In_Memory_Store.get_token i w) \<Longrightarrow>
      mem_ok w' \<and> mem_view w' = mem_view w \<and> mem_room w' = mem_room w \<and> cells w' = cells w"
    and "w' = snd (In_Memory_Store.job_exists i w) \<Longrightarrow>
      mem_ok w' \<and> mem_view w' = mem_view w \<and> mem_room w' = mem_room w \<and> cells w' = cells w"
  using read_jobs [OF assms, of "snd (Timed_Map.get (mono w) (tag (CollectionSuffix.Job i)) (jobs (mem w)))"]
    read_locks [OF assms, of "snd (Timed_Map.get (mono w) (tag (CollectionSuffix.Lock i)) (locks (mem w)))"]
    read_jobs [OF assms, of "snd (contains_key (mono w) (tag (CollectionSuffix.Job i)) (jobs (mem w)))"]
    mem_okD [OF assms]
  by (simp_all add: get_job_eq get_token_eq job_exists_eq on_store_def fun_eq_iff del: tag.simps)

section \<open>Collections\<close>

text \<open>The deque or the scored set behind a collection, and writing it.\<close>

definition deque_of :: "CollectionSuffix \<Rightarrow> ('c, 'd, 'r, 'p) InMemoryStore \<Rightarrow> u64 ConcurrentDeque" where
  "deque_of c s =
    (case c of CollectionSuffix.Active \<Rightarrow> active s | CollectionSuffix.Wait \<Rightarrow> waiting s | _ \<Rightarrow> paused s)"

definition put_deque :: "CollectionSuffix \<Rightarrow> u64 ConcurrentDeque \<Rightarrow>
    ('c, 'd, 'r, 'p) InMemoryStore \<Rightarrow> ('c, 'd, 'r, 'p) InMemoryStore" where
  "put_deque c d s =
    (case c of CollectionSuffix.Active \<Rightarrow> s\<lparr>active := d\<rparr> | CollectionSuffix.Wait \<Rightarrow> s\<lparr>waiting := d\<rparr>
     | _ \<Rightarrow> s\<lparr>paused := d\<rparr>)"

definition scored_of :: "CollectionSuffix \<Rightarrow> ('c, 'd, 'r, 'p) InMemoryStore \<Rightarrow> (u64, u64) skipmap" where
  "scored_of c s =
    (case c of CollectionSuffix.Completed \<Rightarrow> completed s | CollectionSuffix.Failed \<Rightarrow> failed s
     | CollectionSuffix.Prioritized \<Rightarrow> prioritized s | _ \<Rightarrow> delayed s)"

definition put_scored :: "CollectionSuffix \<Rightarrow> (u64, u64) skipmap \<Rightarrow>
    ('c, 'd, 'r, 'p) InMemoryStore \<Rightarrow> ('c, 'd, 'r, 'p) InMemoryStore" where
  "put_scored c m s =
    (case c of CollectionSuffix.Completed \<Rightarrow> s\<lparr>completed := m\<rparr> | CollectionSuffix.Failed \<Rightarrow> s\<lparr>failed := m\<rparr>
     | CollectionSuffix.Prioritized \<Rightarrow> s\<lparr>prioritized := m\<rparr> | _ \<Rightarrow> s\<lparr>delayed := m\<rparr>)"

lemmas put_defs = mem_ok_def mem_room_def store_ok_def listening_def changes_def mem_view_def mem_items_def mem_scores_def

lemma deque_of_ok:
  assumes "mem_ok w" and "c \<in> list_cols"
  shows "deque_ok (deque_of c (mem w))" and "mem_room w \<le> deque_room (deque_of c (mem w))"
    and "mem_items (mem w) c = to_list (deque_of c (mem w))"
  using assms by (auto simp: list_cols_def deque_of_def put_defs)

lemma put_deque:
  assumes "mem_ok w" and "c \<in> list_cols" and "deque_ok d"
  shows "mem_ok (w\<lparr>World.store := put_deque c d (mem w)\<rparr>)"
    and "changes {c} (mem_view w) (mem_view (w\<lparr>World.store := put_deque c d (mem w)\<rparr>))"
    and "mem_items (put_deque c d (mem w)) c = to_list d"
    and "n \<le> mem_room w \<Longrightarrow> n \<le> deque_room d \<Longrightarrow> n \<le> mem_room (w\<lparr>World.store := put_deque c d (mem w)\<rparr>)"
    and "deque_room d = deque_room (deque_of c (mem w)) \<Longrightarrow>
      mem_room (w\<lparr>World.store := put_deque c d (mem w)\<rparr>) = mem_room w"
  using assms
  by (auto simp: list_cols_def deque_of_def put_deque_def put_defs cong: if_cong split: CollectionSuffix.split)

lemma scored_of_ok:
  assumes "mem_ok w" and "c \<in> scored_cols"
  shows "sm_ok (scored_of c (mem w))" and "mem_items (mem w) c = map snd (scored_of c (mem w))"
    and "mem_scores (mem w) c = fst ` set (scored_of c (mem w))"
  using assms unfolding scored_cols_def by (elim insertE emptyE; simp add: scored_of_def put_defs)+

lemma put_scored:
  assumes "mem_ok w" and "c \<in> scored_cols" and "sm_ok m"
  shows "mem_ok (w\<lparr>World.store := put_scored c m (mem w)\<rparr>)"
    and "changes {c} (mem_view w) (mem_view (w\<lparr>World.store := put_scored c m (mem w)\<rparr>))"
    and "mem_items (put_scored c m (mem w)) c = map snd m"
    and "mem_scores (put_scored c m (mem w)) c = fst ` set m"
    and "mem_room (w\<lparr>World.store := put_scored c m (mem w)\<rparr>) = mem_room w"
  using assms
  by (auto simp: scored_cols_def put_scored_def put_defs cong: if_cong split: CollectionSuffix.split)

text \<open>The operations in these terms.\<close>

lemma add_list_eq:
  "c \<in> list_cols \<Longrightarrow> In_Memory_Store.add_item c i osc app w = (Inr (), w\<lparr>World.store :=
    put_deque c ((if app then push_front else push_back) i (deque_of c (mem w))) (mem w)\<rparr>)"
  unfolding list_cols_def by (elim insertE emptyE; simp add: In_Memory_Store.add_item_def kmod_def on_store_def put_deque_def deque_of_def)

lemma add_scored_eq:
  "c \<in> scored_cols \<Longrightarrow> In_Memory_Store.add_item c i (Some sc) app w =
    (Inr (), w\<lparr>World.store := put_scored c (sm_insert sc i (scored_of c (mem w))) (mem w)\<rparr>)"
  unfolding scored_cols_def by (elim insertE emptyE; simp add: In_Memory_Store.add_item_def kmod_def on_store_def put_scored_def scored_of_def)

lemma remove_list_eq:
  "c \<in> list_cols \<Longrightarrow> In_Memory_Store.remove_item c i w =
    (Inr (), w\<lparr>World.store := put_deque c (remove_value i (deque_of c (mem w))) (mem w)\<rparr>)"
  unfolding list_cols_def by (elim insertE emptyE; simp add: In_Memory_Store.remove_item_def kmod_def on_store_def put_deque_def deque_of_def)

lemma remove_scored_eq:
  "c \<in> scored_cols \<Longrightarrow> In_Memory_Store.remove_item c i w =
    (Inr (), w\<lparr>World.store := put_scored c (remove_scored i (scored_of c (mem w))) (mem w)\<rparr>)"
  unfolding scored_cols_def by (elim insertE emptyE; simp add: In_Memory_Store.remove_item_def kmod_def on_store_def put_scored_def scored_of_def)

lemma push_room:
  assumes "deque_ok d" and "0 < n" and "n \<le> deque_room d"
  shows "deque_ok ((if app then push_front else push_back) v d)"
    "n - 1 \<le> deque_room ((if app then push_front else push_back) v d)"
    "to_list ((if app then push_front else push_back) v d) = (if app then v # to_list d else to_list d @ [v])"
  using push_front_ok [OF assms(1), of v] push_back_ok [OF assms(1), of v] assms
  by (auto simp: deque_room_def cdeque.pf_lst cdeque.pb_lst)

lemma mem_add_list:
  assumes ok: "mem_ok w" and c: "c \<in> list_cols" and room: "0 < mem_room w"
  shows "kwp (In_Memory_Store.add_item c i osc app) (\<lambda>_ w'. mem_ok w' \<and> cells w' = cells w \<and>
    mem_room w - 1 \<le> mem_room w' \<and> changes {c} (mem_view w) (mem_view w') \<and>
    items (mem_view w') c = (if app then i # items (mem_view w) c else items (mem_view w) c @ [i])) w"
proof -
  note d = push_room [OF deque_of_ok(1) [OF ok c] room deque_of_ok(2) [OF ok c], of app i]
  show ?thesis
    by (rule kwpI [OF add_list_eq [OF c]])
      (use put_deque(1-3) [OF ok c d(1)] put_deque(4) [OF ok c d(1), of "mem_room w - 1"] d in \<open>simp add: deque_of_ok(3) [OF ok c]\<close>)
qed

lemma mset_snd_insert:
  "sm_ok m \<Longrightarrow> k \<notin> fst ` set m \<Longrightarrow> mset (map snd (sm_insert k v m)) = add_mset v (mset (map snd m))"
  by (simp add: mset_sm_insert)

lemma mem_add_scored:
  assumes ok: "mem_ok w" and c: "c \<in> scored_cols" and "sc \<notin> scores (mem_view w) c"
  shows "kwp (In_Memory_Store.add_item c i (Some sc) app) (\<lambda>_ w'. mem_ok w' \<and> cells w' = cells w \<and>
    mem_room w' = mem_room w \<and> changes {c} (mem_view w) (mem_view w') \<and>
    mset (items (mem_view w') c) = add_mset i (mset (items (mem_view w) c)) \<and>
    scores (mem_view w') c = insert sc (scores (mem_view w) c)) w"
proof -
  note m = scored_of_ok [OF ok c]
  show ?thesis
    by (rule kwpI [OF add_scored_eq [OF c]])
      (use put_scored [OF ok c sm_ok_insert [OF m(1)], of sc i] assms(3) m
        in \<open>auto simp: mset_snd_insert set_sm_insert simp del: mset_map\<close>)
qed

lemma list_ex_snd: "list_ex (\<lambda>e. snd e = i) m \<longleftrightarrow> i \<in> snd ` set m"
  by (force simp: list_ex_iff)

lemma exists_in_eq:
  "c \<in> list_cols \<union> scored_cols \<Longrightarrow> In_Memory_Store.exists_in c i w = (Inr (i \<in> set (mem_items (mem w) c)), w)"
  unfolding list_cols_def scored_cols_def
  by (elim UnE insertE emptyE; simp add: In_Memory_Store.exists_in_def mem_items_def to_list_def
      contains_value_def list_ex_snd)

lemma mem_exists_in:
  assumes "mem_ok w" and "c \<in> list_cols \<union> scored_cols"
  shows "kwp (In_Memory_Store.exists_in c i) (\<lambda>b w'. b = (i \<in> set (items (mem_view w) c)) \<and>
    mem_ok w' \<and> mem_view w' = mem_view w \<and> mem_room w' = mem_room w \<and> cells w' = cells w) w"
  using assms by (intro kwpI [OF exists_in_eq]) simp_all

lemma remove_value_ok:
  assumes "deque_ok d"
  shows "deque_ok (remove_value i d)" "deque_room (remove_value i d) = deque_room d"
    "to_list (remove_value i d) = removeAll i (to_list d)"
proof -
  show "to_list (remove_value i d) = removeAll i (to_list d)"
    by (simp add: to_list_def remove_value_def sm_remove_if_def removeAll_filter_not_eq filter_map comp_def eq_commute)
qed (use assms in \<open>auto simp: deque_ok_def remove_value_def deque_room_def front_room_def back_room_def
    set_sm_remove_if\<close>)

lemma mem_remove:
  assumes ok: "mem_ok w" and c: "c \<in> list_cols \<or> c = CollectionSuffix.Stalled \<or>
    c \<in> scored_cols \<and> i \<notin> scores (mem_view w) c"
  shows "kwp (In_Memory_Store.remove_item c i) (\<lambda>_ w'. mem_ok w' \<and> cells w' = cells w \<and>
    mem_room w' = mem_room w \<and> changes {c} (mem_view w) (mem_view w') \<and>
    items (mem_view w') c = removeAll i (items (mem_view w) c)) w"
proof -
  consider (lst) "c \<in> list_cols" | (stalled) "c = CollectionSuffix.Stalled"
    | (scored) "c \<in> scored_cols" "i \<notin> scores (mem_view w) c" using c by blast
  then show ?thesis
  proof cases
    case lst
    note d = remove_value_ok [OF deque_of_ok(1) [OF ok lst], of i]
    show ?thesis
      by (rule kwpI [OF remove_list_eq [OF lst]])
        (use put_deque [OF ok lst d(1)] d in \<open>simp add: deque_of_ok(3) [OF ok lst]\<close>)
  next
    case stalled
    with ok show ?thesis
      by (auto intro!: kwpI simp: In_Memory_Store.remove_item_def kmod_def on_store_def put_defs sm_remove_def
          removeAll_filter_not_eq filter_map comp_def eq_commute cong: if_cong split: CollectionSuffix.split)
  next
    case scored
    note m = scored_of_ok [OF ok scored(1)]
    have "remove_scored i (scored_of c (mem w)) = sm_remove_if (\<lambda>e. snd e = i) (scored_of c (mem w))"
      using scored(2) m(3) by (simp add: remove_scored_def sm_contains_key_iff)
    then show ?thesis
      by (intro kwpI [OF remove_scored_eq [OF scored(1)]])
        (use put_scored [OF ok scored(1) sm_ok_remove_if [OF m(1)]] m(2)
          in \<open>simp add: sm_remove_if_def removeAll_filter_not_eq filter_map comp_def eq_commute\<close>)
  qed
qed

section \<open>Jobs and locks\<close>

text \<open>Writing one job: other small ids have other tags.\<close>

lemma write_job:
  assumes ok: "mem_ok w" and i: "small_id i" and j: "job (mem_view w) i = Some j"
    and m: "m = snd (Timed_Map.get (mono w) (tag (CollectionSuffix.Job i)) (jobs (mem w)))"
    and w': "w' = w\<lparr>World.store := (mem w)\<lparr>jobs := write_through (tag (CollectionSuffix.Job i)) f m\<rparr>\<rparr>"
  shows "mem_ok w' \<and> cells w' = cells w \<and> mem_room w' = mem_room w \<and>
    mem_view w' = (mem_view w)\<lparr>job := (job (mem_view w))(i := Some (f j))\<rparr>"
proof -
  let ?m = "write_through (tag (CollectionSuffix.Job i)) f m"
  have t: "timed_ok ?m" using mem_okD(1) [OF ok] m by simp
  have "(\<lambda>i'. if small_id i' then live (mono w) ?m (tag (CollectionSuffix.Job i')) else None) =
      (job (mem_view w))(i := Some (f j))"
    using i j m tag_inject(1) [of _ i] by (intro ext) (simp add: small_id_def del: tag.simps)
  then show ?thesis
    using upd_jobs [OF ok t] by (simp add: w' on_store_def)
qed

lemma bump_one:
  assumes "unat n < 2 ^ 62"
  shows "bump 1 n = n + 1"
proof -
  have "unat (n + 1) < 2 ^ 63" using assms by (simp add: unat_word_ariths)
  then have "int (unat (n + 1)) < int (2 ^ 63)" by (simp only: of_nat_less_iff)
  then have "uint (n + 1) < 2 ^ 63" by simp
  moreover have "0 \<le> uint (n + 1)" by (rule unsigned_greater_eq)
  ultimately have "sint (n + 1) = uint (n + 1)"
    using sint_of_int_i64 [of "uint (n + 1)"] unfolding word_of_int_uint by linarith
  then have "\<not> sint (n + 1) < 0" by (simp add: not_less)
  then show ?thesis by (simp add: bump_def)
qed

lemma mem_attempts:
  assumes "mem_ok w" and "small_id i" and "job (mem_view w) i = Some j" and made: "unat (attempts_made j) < 2 ^ 62"
  shows "kwp (In_Memory_Store.incr (CollectionSuffix.Job i) 1 (Some ''attemptsMade'')) (\<lambda>n w'.
      n = attempts_made j + 1 \<and> mem_ok w' \<and> cells w' = cells w \<and> mem_room w' = mem_room w \<and>
      mem_view w' = (mem_view w)\<lparr>job := (job (mem_view w))(i := Some (j\<lparr>attempts_made := attempts_made j + 1\<rparr>))\<rparr>) w"
proof -
  let ?k = "tag (CollectionSuffix.Job i)"
  have b: "bump 1 (attempts_made j) = attempts_made j + 1" using made by (rule bump_one)
  define m where "m = snd (Timed_Map.get (mono w) ?k (jobs (mem w)))"
  have found: "fst (Timed_Map.get (mono w) ?k (jobs (mem w))) = Some j"
    using assms(2,3) by (simp add: get_live del: tag.simps)
  have "In_Memory_Store.incr (CollectionSuffix.Job i) 1 (Some ''attemptsMade'') w =
    (Inr (attempts_made j + 1), w\<lparr>World.store := (mem w)\<lparr>jobs :=
      write_through ?k (\<lambda>j. snd (bump_field ''attemptsMade'' 1 j)) m\<rparr>\<rparr>)"
    using found b by (simp add: In_Memory_Store.incr_def split_beta m_def on_store_def bump_field_def Let_def del: tag.simps)
  then show ?thesis
    by (rule kwpI) (use write_job [OF assms(1-3) m_def refl, of "\<lambda>j. snd (bump_field ''attemptsMade'' 1 j)"] b
      in \<open>simp add: bump_field_def Let_def\<close>)
qed

lemma mem_set_fields:
  assumes "mem_ok w" and "small_id i" and "job (mem_view w) i = Some j"
  shows "kwp (In_Memory_Store.set_fields ext i fs) (\<lambda>_ w'. mem_ok w' \<and> cells w' = cells w \<and> mem_room w' = mem_room w \<and>
      mem_view w' = (mem_view w)\<lparr>job := (job (mem_view w))(i := Some (fold (set_field ext) fs j))\<rparr>) w"
proof -
  have "fst (Timed_Map.get (mono w) (tag (CollectionSuffix.Job i)) (jobs (mem w))) = Some j"
    using assms(2,3) by (simp add: get_live del: tag.simps)
  then show ?thesis
    using write_job [OF assms refl refl, of "fold (set_field ext) fs"]
    by (simp add: In_Memory_Store.set_fields_def split_beta Let_def on_store_def del: tag.simps)
qed

lemma mem_set_lock:
  assumes ok: "mem_ok w" and i: "small_id i" and ms: "0 < ms"
  shows "kwp (In_Memory_Store.set_lock (CollectionSuffix.Lock i) (Some tok) ms) (\<lambda>_ w'. mem_ok w' \<and> cells w' = cells w \<and>
      mem_room w' = mem_room w \<and> mem_view w' = (mem_view w)\<lparr>lock := (lock (mem_view w))(i := Some tok)\<rparr>) w"
proof -
  let ?m = "insert_expirable (mono w) (tag (CollectionSuffix.Lock i)) (Lock.Token tok) (from_millis ms) (locks (mem w))"
  have "0 < from_millis ms" using ms by (simp add: from_millis_def word_less_def)
  then have "(\<lambda>i'. if small_id i' then lock_token (live (mono w) ?m (tag (CollectionSuffix.Lock i'))) else None) =
      (lock (mem_view w))(i := Some tok)"
    using i tag_inject(2) [of _ i]
    by (intro ext) (simp add: live_insert_expirable small_id_def lock_token_def del: tag.simps)
  then show ?thesis
    using upd_locks [OF ok, of ?m] mem_okD(2) [OF ok]
    by (simp add: In_Memory_Store.set_lock_def on_store_def del: tag.simps)
qed

lemma mem_remove_job:
  assumes ok: "mem_ok w" and i: "small_id i"
  shows "kwp (In_Memory_Store.remove (CollectionSuffix.Job i)) (\<lambda>_ w'. mem_ok w' \<and> cells w' = cells w \<and>
      mem_room w' = mem_room w \<and> mem_view w' = (mem_view w)\<lparr>job := (job (mem_view w))(i := None)\<rparr>) w"
proof -
  let ?m = "Timed_Map.remove (tag (CollectionSuffix.Job i)) (jobs (mem w))"
  have "(\<lambda>i'. if small_id i' then live (mono w) ?m (tag (CollectionSuffix.Job i')) else None) =
      (job (mem_view w))(i := None)"
    using i tag_inject(1) [of _ i] by (intro ext) (simp add: small_id_def del: tag.simps)
  then show ?thesis
    using upd_jobs [OF ok, of ?m] mem_okD(1) [OF ok]
    by (simp add: In_Memory_Store.remove_def on_store_def del: tag.simps)
qed

section \<open>Taking and publishing\<close>

lemma mem_pop_wait:
  assumes ok: "mem_ok w" and room: "0 < mem_room w"
    and w': "w' = snd (In_Memory_Store.pop_back_push_front CollectionSuffix.Wait CollectionSuffix.Active w)"
    and r: "r = fst (In_Memory_Store.pop_back_push_front CollectionSuffix.Wait CollectionSuffix.Active w)"
  shows "mem_ok w' \<and> cells w' = cells w \<and> mem_room w - 1 \<le> mem_room w' \<and>
    (if items (mem_view w) CollectionSuffix.Wait = [] then r = None \<and> mem_view w' = mem_view w \<and> mem_room w' = mem_room w
     else r = Some (last (items (mem_view w) CollectionSuffix.Wait)) \<and>
       changes {CollectionSuffix.Wait, CollectionSuffix.Active} (mem_view w) (mem_view w') \<and>
       items (mem_view w') CollectionSuffix.Wait = butlast (items (mem_view w) CollectionSuffix.Wait) \<and>
       items (mem_view w') CollectionSuffix.Active =
         last (items (mem_view w) CollectionSuffix.Wait) # items (mem_view w) CollectionSuffix.Active)"
proof (cases "data (waiting (mem w)) = []")
  case True
  then have "In_Memory_Store.pop_back_push_front CollectionSuffix.Wait CollectionSuffix.Active w = (None, w)"
    by (simp add: In_Memory_Store.pop_back_push_front_def pop_back_data [OF mem_okD(9) [OF ok]] on_store_def)
  then show ?thesis using True ok w' r by (simp add: mem_items_def to_list_def)
next
  case False
  let ?d = "(waiting (mem w))\<lparr>data := butlast (data (waiting (mem w)))\<rparr>"
  let ?v = "snd (last (data (waiting (mem w))))"
  let ?a = "push_front ?v (active (mem w))"
  define w1 where "w1 = w\<lparr>World.store := put_deque CollectionSuffix.Wait ?d (mem w)\<rparr>"
  have pop: "pop_back (waiting (mem w)) = (Some ?v, ?d)"
    using False pop_back_data [OF mem_okD(9) [OF ok]] by simp
  have d: "deque_ok ?d" "deque_room ?d = deque_room (waiting (mem w))"
    using pop_ok(2) [OF mem_okD(9) [OF ok]] pop by (simp_all add: deque_room_def front_room_def back_room_def)
  have wc: "CollectionSuffix.Wait \<in> list_cols" "CollectionSuffix.Active \<in> list_cols" by (simp_all add: list_cols_def)
  have w1: "mem_ok w1" "mem_room w1 = mem_room w" "changes {CollectionSuffix.Wait} (mem_view w) (mem_view w1)"
    "mem_items (mem w1) CollectionSuffix.Wait = butlast (mem_items (mem w) CollectionSuffix.Wait)"
    using put_deque [OF ok wc(1) d(1)] d(2)
    by (simp_all add: w1_def deque_of_def mem_items_def [of "mem w"] to_list_def map_butlast)
  have res: "In_Memory_Store.pop_back_push_front CollectionSuffix.Wait CollectionSuffix.Active w =
      (Some ?v, w1\<lparr>World.store := put_deque CollectionSuffix.Active ?a (mem w1)\<rparr>)"
    using pop by (simp add: In_Memory_Store.pop_back_push_front_def on_store_def w1_def put_deque_def)
  have a: "deque_ok ?a" "mem_room w - 1 \<le> deque_room ?a" "to_list ?a = ?v # mem_items (mem w) CollectionSuffix.Active"
    using push_room [OF mem_okD(8) [OF ok] room, of True ?v]
    by (simp_all add: mem_room_def mem_items_def)
  note up = put_deque(1-3) [OF w1(1) wc(2) a(1)] put_deque(4) [OF w1(1) wc(2) a(1), of "mem_room w - 1"]
  have last: "last (mem_items (mem w) CollectionSuffix.Wait) = ?v" "mem_items (mem w) CollectionSuffix.Wait \<noteq> []"
    using False by (simp_all add: mem_items_def to_list_def last_map)
  from changes_trans [OF w1(3) up(2)] up(2)
  have "changes {CollectionSuffix.Wait, CollectionSuffix.Active} (mem_view w) (mem_view w')"
    "mem_items (mem w') CollectionSuffix.Wait = mem_items (mem w1) CollectionSuffix.Wait"
    using w' res by (simp_all add: insert_commute changes_def)
  then show ?thesis
    using up w1 a last w' r res by (simp add: w1_def)
qed

lemma mem_pop_prioritized:
  assumes ok: "mem_ok w"
  shows "kwp (In_Memory_Store.pop_set CollectionSuffix.Prioritized True) (\<lambda>r w'. mem_ok w' \<and> cells w' = cells w \<and>
    mem_room w' = mem_room w \<and>
    (if items (mem_view w) CollectionSuffix.Prioritized = [] then r = [] \<and> mem_view w' = mem_view w
     else (\<exists>sc. r = [(hd (items (mem_view w) CollectionSuffix.Prioritized), sc)]) \<and>
       changes {CollectionSuffix.Prioritized} (mem_view w) (mem_view w') \<and>
       items (mem_view w') CollectionSuffix.Prioritized = tl (items (mem_view w) CollectionSuffix.Prioritized))) w"
proof -
  let ?p = "prioritized (mem w)"
  have c: "CollectionSuffix.Prioritized \<in> scored_cols" by (simp add: scored_cols_def)
  note m = scored_of_ok [OF ok c]
  have pop: "In_Memory_Store.pop_set CollectionSuffix.Prioritized True w =
      (Inr (popped_pair (sm_front ?p)), w\<lparr>World.store := put_scored CollectionSuffix.Prioritized (tl ?p) (mem w)\<rparr>)"
    by (simp add: In_Memory_Store.pop_set_def pop_end_def sm_pop_front_def sm_front_def on_store_def put_scored_def
        split: list.split)
  have same: "w\<lparr>World.store := put_scored CollectionSuffix.Prioritized [] (mem w)\<rparr> = w" if "?p = []"
    using that [symmetric] by (simp add: put_scored_def)
  show ?thesis
    by (rule kwpI, rule pop)
      (use put_scored [OF ok c sm_ok_tl [OF m(1)]] m(2) ok same
        in \<open>auto simp: scored_of_def popped_pair_def sm_front_def hd_map map_tl split: list.split prod.split\<close>)
qed

lemma mem_remove_counter:
  "mem_ok w \<Longrightarrow> kwp (In_Memory_Store.remove PriorityCounter) (\<lambda>_ w'. mem_ok w' \<and> mem_view w' = mem_view w \<and>
    mem_room w' = mem_room w \<and> cells w' = cells w) w"
  by (simp add: In_Memory_Store.remove_def on_store_def)

text \<open>What the store reports, and what publishing an event does with it.\<close>

definition mem_metrics :: "('c, 'd, 'r, 'p) InMemoryStore \<Rightarrow> QueueMetrics" where
  "mem_metrics s = metrics_new (id_counter s) (processing s) (of_nat (length (mem_items s CollectionSuffix.Active)))
     (of_nat (length (mem_items s CollectionSuffix.Stalled))) (of_nat (length (mem_items s CollectionSuffix.Completed)))
     (of_nat (length (mem_items s CollectionSuffix.Delayed)))
     (of_nat (length (mem_items s CollectionSuffix.Prioritized)))
     (of_nat (length (mem_items s CollectionSuffix.Paused))) (of_nat (length (mem_items s CollectionSuffix.Failed)))
     (of_nat (length (mem_items s CollectionSuffix.Wait))) (InMemoryStore.is_paused s) (InMemoryStore.event_mode s)"

lemma get_metrics_eq: "In_Memory_Store.get_metrics w = (Inr (mem_metrics (mem w)), w)"
  by (simp add: In_Memory_Store.get_metrics_def kget_def Let_def mem_metrics_def mem_items_def to_list_def len_def)

lemma publish_listening:
  assumes "listening (mem w)" and "from_queue_event e = Inr p"
  shows "\<exists>w1. In_Memory_Store.publish_event mode e w = (Inr (), w1) \<and> wall w1 = wall w \<and> mono w1 = mono w \<and>
    emitted w1 = emitted w @ [(event e, p)] \<and>
    current_metrics w1 = update (current_metrics w) (mem_metrics (mem w)) \<and>
    paused_cell w1 = paused_cell w \<and> backoff_registry w1 = backoff_registry w \<and>
    (\<exists>b. mem w1 = (mem w)\<lparr>is_inital := b\<rparr>)"
proof -
  define w1 where "w1 = w\<lparr>emitted := emitted w @ [(event e, p)],
    current_metrics := update (current_metrics w) (mem_metrics (mem w))\<rparr>"
  have "process_each_event In_Memory_Store.get_metrics e w = (Inr (), w1)"
    using assms(2) by (simp add: process_each_event_def kbind_def kresult_def kmod_def get_metrics_eq w1_def)
  then have "In_Memory_Store.publish_event mode e w = (Inr (),
      on_store (\<lambda>s. s\<lparr>is_inital := fst (pause_or_resume_workers (is_inital (mem w1)) w1)\<rparr>)
        (snd (pause_or_resume_workers (is_inital (mem w1)) w1)))"
    using assms(1) by (simp add: In_Memory_Store.publish_event_def listening_def kbind_def split_beta)
  then show ?thesis by (auto simp: w1_def)
qed

lemma mem_publish:
  assumes ok: "mem_ok w" and e: "convertible e"
  shows "kwp (In_Memory_Store.publish_event mode e) (\<lambda>_ w'. mem_ok w' \<and> mem_view w' = mem_view w \<and>
    mem_room w' = mem_room w \<and> published e w w') w"
proof -
  obtain p where p: "from_queue_event e = Inr p" using from_queue_event_ok [OF e] by blast
  have l: "listening (mem w)" using ok by (simp add: mem_ok_def)
  obtain w1 b where w1: "In_Memory_Store.publish_event mode e w = (Inr (), w1)" "mem w1 = (mem w)\<lparr>is_inital := b\<rparr>"
    "wall w1 = wall w" "mono w1 = mono w" "emitted w1 = emitted w @ [(event e, p)]"
    "current_metrics w1 = update (current_metrics w) (mem_metrics (mem w))"
    "paused_cell w1 = paused_cell w" "backoff_registry w1 = backoff_registry w"
    using publish_listening [OF l p, of mode] by blast
  have "mem_view w1 = mem_view w" using w1(2,4) by (simp add: mem_view_def cong: if_cong)
  moreover have "mem_ok w1" "mem_room w1 = mem_room w"
    using ok w1(2) by (simp_all add: mem_ok_def mem_room_def store_ok_def listening_def)
  moreover have "published e w w1"
    using w1 p by (simp add: published_def Queues.is_paused_def queue_is_paused_def update_def)
  ultimately show ?thesis by - (rule kwpI, rule w1(1), simp)
qed

section \<open>The interpretation\<close>

interpretation inmem: store_contract "mem_store ext" ext mem_ok mem_view mem_room for ext
proof (unfold_locales, unfold mem_store_simps)
  fix w w' :: "('a, 'b, 'c, 'd) mem_world" and i :: u64
  assume ok: "mem_ok w"
  show "small_id i \<Longrightarrow> fst (In_Memory_Store.job_exists i w) \<longleftrightarrow> job (mem_view w) i \<noteq> None"
    by (simp add: job_exists_eq del: tag.simps)
  show "small_id i \<Longrightarrow> fst (In_Memory_Store.get_job i w) = job (mem_view w) i"
    by (simp add: get_job_eq del: tag.simps)
  show "small_id i \<Longrightarrow> fst (In_Memory_Store.get_state i w) = map_option Job.state (job (mem_view w) i)"
    by (simp add: In_Memory_Store.get_state_def get_job_eq del: tag.simps)
  show "small_id i \<Longrightarrow> fst (In_Memory_Store.get_token i w) = lock (mem_view w) i"
    by (simp add: get_token_eq del: tag.simps)
  show "w' = snd (In_Memory_Store.get_state i w) \<Longrightarrow> mem_ok w' \<and> mem_view w' = mem_view w \<and>
      mem_room w' = mem_room w \<and> cells w' = cells w"
    using get_view(1) [OF ok, of w' i] by (simp add: In_Memory_Store.get_state_def split_beta)
qed (rule get_view mem_exists_in mem_add_list mem_add_scored mem_remove mem_attempts mem_set_fields mem_set_lock
    mem_pop_wait mem_pop_prioritized mem_remove_counter mem_remove_job mem_publish; assumption)+

end
