(* ===== verification/Insertion.thy ===== *)
theory Insertion
  imports In_Memory_Laws
begin

text \<open>
  Adding jobs to the in-memory store: where a job is placed, which id it gets and which additions are
  refused. The last section builds a small concrete world that the witnesses of this and the
  following theories evaluate.
\<close>

section \<open>Recording a job\<close>

lemma record_job:
  assumes ok: "mem_ok w" and i: "small_id i"
    and w': "w' = on_store (\<lambda>s. s\<lparr>jobs := insert_constant (tag (CollectionSuffix.Job i)) j (jobs s)\<rparr>) w"
  shows "mem_ok w' \<and> cells w' = cells w \<and> mem_room w' = mem_room w \<and>
    mem_view w' = (mem_view w)\<lparr>job := (job (mem_view w))(i := Some j)\<rparr>"
proof -
  let ?m = "insert_constant (tag (CollectionSuffix.Job i)) j (jobs (mem w))"
  have "(\<lambda>i'. if small_id i' then live (mono w) ?m (tag (CollectionSuffix.Job i')) else None) =
      (job (mem_view w))(i := Some j)"
    using i tag_inject(1) [of _ i] by (intro ext) (simp add: small_id_def del: tag.simps)
  then show ?thesis
    using upd_jobs [OF ok, of ?m] mem_okD(1) [OF ok] by (simp add: w' on_store_def del: tag.simps)
qed

text \<open>The collection that the insertion chooses.\<close>

definition target_of :: "bool \<Rightarrow> u64 \<Rightarrow> u64 \<Rightarrow> CollectionSuffix" where
  "target_of paused_flag dms prio =
    (if 0 < dms then CollectionSuffix.Delayed else if 0 < prio then CollectionSuffix.Prioritized
     else if paused_flag then CollectionSuffix.Paused else CollectionSuffix.Wait)"

definition target_state :: "u64 \<Rightarrow> u64 \<Rightarrow> JobState" where
  "target_state dms prio =
    (if 0 < dms then JobState.Delayed else if 0 < prio then JobState.Prioritized else JobState.Wait)"

definition target_score :: "u64 \<Rightarrow> i64 \<Rightarrow> u64 \<Rightarrow> u64 \<Rightarrow> u64 option" where
  "target_score dms due prio pc =
    (if 0 < dms then Some due
     else if 0 < prio then Some (calculate_next_priority_score prio pc) else None)"

lemma target_cols:
  "target_of paused_flag dms prio \<in> list_cols \<longleftrightarrow> \<not> 0 < dms \<and> \<not> 0 < prio"
  "target_of paused_flag dms prio \<in> scored_cols \<longleftrightarrow> 0 < dms \<or> 0 < prio"
  "target_score dms due prio pc = None \<longleftrightarrow> \<not> 0 < dms \<and> \<not> 0 < prio"
  by (cases "0 < dms"; cases "0 < prio"; simp add: target_of_def target_score_def list_cols_def scored_cols_def)+

lemma place_item:
  assumes ok: "mem_ok w" and room: "0 < mem_room w"
    and fresh: "case target_score dms due prio pc of None \<Rightarrow> True
      | Some sc \<Rightarrow> sc \<notin> scores (mem_view w) (target_of paused_flag dms prio)"
    and app: "app = (\<not> 0 < dms)"
  shows "kwp (In_Memory_Store.add_item (target_of paused_flag dms prio) i (target_score dms due prio pc) app)
    (\<lambda>_ w'. mem_ok w' \<and> cells w' = cells w \<and> mem_room w - 1 \<le> mem_room w' \<and>
      changes {target_of paused_flag dms prio} (mem_view w) (mem_view w') \<and>
      mset (items (mem_view w') (target_of paused_flag dms prio)) =
        add_mset i (mset (items (mem_view w) (target_of paused_flag dms prio))) \<and>
      (target_of paused_flag dms prio \<in> list_cols \<longrightarrow>
        items (mem_view w') (target_of paused_flag dms prio) =
        i # items (mem_view w) (target_of paused_flag dms prio))) w"
proof (cases "target_of paused_flag dms prio \<in> list_cols")
  case True
  with app show ?thesis
    by (intro kwp_mono [OF mem_add_list [OF ok True room]]) (simp add: target_cols)
next
  case False
  then have c: "target_of paused_flag dms prio \<in> scored_cols"
    by (auto simp: target_cols)
  obtain sc where sc: "target_score dms due prio pc = Some sc"
    using False by (cases "target_score dms due prio pc") (simp_all add: target_cols)
  with fresh have "sc \<notin> scores (mem_view w) (target_of paused_flag dms prio)" by simp
  with False show ?thesis
    unfolding sc by (intro kwp_mono [OF mem_add_scored [OF ok c]]) auto
qed

section \<open>Inserting one job\<close>

definition placed :: "bool \<Rightarrow> u64 \<Rightarrow> i64 \<Rightarrow> u64 \<Rightarrow> ('c, 'd, 'r, 'p) Job \<Rightarrow> u64 \<Rightarrow>
    ('c, 'd, 'r, 'p) mem_world \<Rightarrow> ('c, 'd, 'r, 'p) mem_world \<Rightarrow> bool" where
  "placed paused_flag dms due prio j i w w' \<longleftrightarrow>
     mem_ok w' \<and> mem_room w - 1 \<le> mem_room w' \<and> Job.job_id j = Some i \<and> Job.state j = target_state dms prio \<and>
     mset (items (mem_view w') (target_of paused_flag dms prio)) =
       add_mset i (mset (items (mem_view w) (target_of paused_flag dms prio))) \<and>
     (target_of paused_flag dms prio \<in> list_cols \<longrightarrow>
       items (mem_view w') (target_of paused_flag dms prio) = i # items (mem_view w) (target_of paused_flag dms prio)) \<and>
     changes {target_of paused_flag dms prio} ((mem_view w)\<lparr>job := (job (mem_view w))(i := Some j)\<rparr>) (mem_view w') \<and>
     wall w' = wall w \<and> mono w' = mono w \<and> Queues.is_paused w' = Queues.is_paused w \<and>
     (\<exists>p. emitted w' = emitted w @ [p])"

lemma kwp_reader: "kwp (\<lambda>w. publish_event (InMemoryStore.event_mode (mem w)) e w) Q w' \<longleftrightarrow>
    kwp (publish_event (InMemoryStore.event_mode (mem w')) e) Q w'"
  by (simp add: kwp_def)

lemma insert_places:
  assumes ok: "mem_ok w" and room: "0 < mem_room w" and i: "small_id i"
    and due: "next_occurrance_timestamp_ms ext (wall w) (JobOptions.delay options) = Inr (Some due) \<or>
      dms = 0 \<and> next_occurrance_timestamp_ms ext (wall w) (JobOptions.delay options) = Inr None"
    and dms: "as_diff_ms ext (wall w) (JobOptions.delay options) = Inr dms"
    and limit: "dms = 0 \<or> MIN_DELAY_MS_LIMIT \<le> dms"
    and jb: "Job.ts jb = wall w" "Job.state jb = JobState.Wait"
    and fresh: "case target_score dms due (JobOptions.priority options) pc of None \<Rightarrow> True
      | Some sc \<Rightarrow> sc \<notin> scores (mem_view w) (target_of paused_flag dms (JobOptions.priority options))"
  shows "kwp (insert_job ext jb options pc i nm paused_flag) (\<lambda>j w'.
    placed paused_flag dms due (JobOptions.priority options) j i w w' \<and> Job.opts j = options \<and> Job.data j = Job.data jb \<and> attempts_made j = attempts_made jb) w"
proof -
  let ?prio = "JobOptions.priority options"
  let ?c = "target_of paused_flag dms ?prio"
  let ?ev = "if 0 < dms then JobState.Delayed else if 0 < ?prio then JobState.Prioritized
    else if paused_flag then JobState.Paused else JobState.Wait"
  let ?k = "jb\<lparr>Job.priority := ?prio, Job.delay := dms, Job.opts := options\<rparr>"
  define j where "j = (if 0 < dms then ?k\<lparr>Job.state := JobState.Delayed\<rparr>
    else if 0 < ?prio then ?k\<lparr>Job.state := JobState.Prioritized\<rparr> else ?k)\<lparr>Job.job_id := Some i\<rparr>"
  define e :: "('c, 'd) QueueStreamEvent" where "e = (default_event (wall w))\<lparr>QueueStreamEvent.job_id := i,
     event := ?ev, QueueStreamEvent.name := Some nm, QueueStreamEvent.delay := (if 0 < dms then Some dms else None),
     QueueStreamEvent.priority := (if 0 < ?prio \<and> \<not> 0 < dms then Some ?prio else None)\<rparr>"
  have conv: "convertible e" by (simp add: convertible_def default_event_def e_def)
  have added: "add_opts ext options jb = Inr ?k"
    using dms jb(1) by (simp add: add_opts_def)
  have placed_j: "Job.job_id j = Some i" "Job.state j = target_state dms ?prio" "Job.opts j = options"
    "Job.data j = Job.data jb" "attempts_made j = attempts_made jb"
    using jb(2) by (simp_all add: j_def target_state_def)
  have body: "kwp (kbind (In_Memory_Store.add_item ?c i (target_score dms due ?prio pc) (\<not> 0 < dms)) (\<lambda>_.
      kbind (kmod (on_store (\<lambda>s. s\<lparr>jobs := insert_constant (tag (CollectionSuffix.Job i)) j (jobs s)\<rparr>)))
        (\<lambda>_. kbind (\<lambda>w. publish_event (InMemoryStore.event_mode (mem w)) e w) (\<lambda>_. kret j))))
    (\<lambda>j w'. placed paused_flag dms due ?prio j i w w' \<and> Job.opts j = options \<and> Job.data j = Job.data jb \<and> attempts_made j = attempts_made jb) w"
  proof (rule kwp_seq [OF place_item [OF ok room fresh refl]])
    fix w1 :: "('a, 'b, 'c, 'd) mem_world"
    assume w1: "mem_ok w1 \<and> cells w1 = cells w \<and> mem_room w - 1 \<le> mem_room w1 \<and>
      changes {?c} (mem_view w) (mem_view w1) \<and>
      mset (items (mem_view w1) ?c) = add_mset i (mset (items (mem_view w) ?c)) \<and>
      (?c \<in> list_cols \<longrightarrow> items (mem_view w1) ?c = i # items (mem_view w) ?c)"
    define w2 where "w2 = on_store (\<lambda>s. s\<lparr>jobs := insert_constant (tag (CollectionSuffix.Job i)) j (jobs s)\<rparr>) w1"
    have w2: "mem_ok w2" "cells w2 = cells w1" "mem_room w2 = mem_room w1"
      "mem_view w2 = (mem_view w1)\<lparr>job := (job (mem_view w1))(i := Some j)\<rparr>"
      using record_job [OF _ i w2_def] w1 by simp_all
    have "placed paused_flag dms due ?prio j i w w'"
      if "mem_ok w' \<and> mem_view w' = mem_view w2 \<and> mem_room w' = mem_room w2 \<and> published e w2 w'" for w'
      using that w1 w2 placed_j cells_fields [of w1 w] cells_fields [OF w2(2)]
      unfolding placed_def changes_def published_def by auto
    then have "kwp (publish_event (InMemoryStore.event_mode (mem w2)) e)
        (\<lambda>_ w'. placed paused_flag dms due ?prio j i w w') w2"
      by (rule kwp_mono [OF mem_publish [OF w2(1) conv]])
    then show "kwp (kbind (kmod (on_store (\<lambda>s. s\<lparr>jobs := insert_constant (tag (CollectionSuffix.Job i)) j (jobs s)\<rparr>)))
        (\<lambda>_. kbind (\<lambda>w. publish_event (InMemoryStore.event_mode (mem w)) e w) (\<lambda>_. kret j)))
      (\<lambda>j w'. placed paused_flag dms due ?prio j i w w' \<and> Job.opts j = options \<and> Job.data j = Job.data jb \<and> attempts_made j = attempts_made jb) w1"
      unfolding kwp_bind kwp_mod kwp_reader w2_def [symmetric] kwp_ret using placed_j(3-5) by simp
  qed
  obtain expected where expected: "next_occurrance_timestamp_ms ext (wall w) (JobOptions.delay options) = Inr expected"
    "0 < dms \<longrightarrow> expected = Some due"
    using due by auto
  have not_refused: "\<not> (0 < dms \<and> dms < MIN_DELAY_MS_LIMIT)" using limit by auto
  have "insert_job ext jb options pc i nm paused_flag w =
    kbind (In_Memory_Store.add_item ?c i (target_score dms due ?prio pc) (\<not> 0 < dms)) (\<lambda>_.
      kbind (kmod (on_store (\<lambda>s. s\<lparr>jobs := insert_constant (tag (CollectionSuffix.Job i)) j (jobs s)\<rparr>)))
        (\<lambda>_. kbind (\<lambda>w. publish_event (InMemoryStore.event_mode (mem w)) e w) (\<lambda>_. kret j))) w"
    using expected not_refused dms added
    by (cases "0 < dms"; cases "0 < ?prio"; cases paused_flag;
        simp add: insert_job_def kbind_assoc kbind_kget kbind_kresult j_def e_def target_of_def target_score_def
          Let_def del: tag.simps)
  with body show ?thesis by (simp add: kwp_def)
qed

section \<open>Ids\<close>

lemma keeps_publish: "keeps (\<lambda>w. id_counter (mem w)) (publish_event mode e)"
  unfolding keeps_def In_Memory_Store.publish_event_def process_each_event_def
  by (simp add: kbind_apply kmod_def get_metrics_eq split_beta split: sum.split)

lemma keeps_add_item: "keeps (\<lambda>w. id_counter (mem w)) (In_Memory_Store.add_item c i sc app)"
  unfolding In_Memory_Store.add_item_def
  by (rule keeps_kmod) (simp split: CollectionSuffix.split option.split)

lemma keeps_insert: "keeps (\<lambda>w. id_counter (mem w)) (insert_job ext jb options pc i nm paused_flag)"
proof -
  have "keeps (\<lambda>w. id_counter (mem w))
      (\<lambda>w :: ('a, 'b, 'c, 'd) mem_world. publish_event (InMemoryStore.event_mode (mem w)) e w)" for e
    unfolding keeps_def by (intro allI keeps_publish [unfolded keeps_def, rule_format])
  moreover have "keeps (\<lambda>w. id_counter (mem w))
      (kmod (on_store (\<lambda>s. s\<lparr>jobs := insert_constant k j (jobs s)\<rparr>)) :: (('a, 'b, 'c, 'd) mem_world, unit) kio)" for k j
    by (rule keeps_kmod) simp
  ultimately show ?thesis
    unfolding insert_job_def Let_def split_beta
    by (intro keeps_bind keeps_intros keeps_if keeps_option keeps_add_item) assumption+
qed

lemma handle_counter_one: "handle_counter 1 n = n + 1"
  by (simp add: handle_counter_def is_positive_def unsigned_abs_def)

lemma insert_returns_id: "returns (\<lambda>j. Job.job_id j = Some i) (insert_job ext jb options pc i nm paused_flag)"
  unfolding insert_job_def Let_def split_beta by (intro returns_intros) simp

text \<open>The counters that an addition advances.\<close>

definition count_job :: "bool \<Rightarrow> ('c, 'd, 'r, 'p) mem_world \<Rightarrow> ('c, 'd, 'r, 'p) mem_world" where
  "count_job prio = on_store (\<lambda>s. s
     \<lparr>priority_counter := (if prio then priority_counter s + 1 else priority_counter s),
      id_counter := id_counter s + 1\<rparr>)"

lemma count_job_frame:
  "mem_ok (count_job b w) = mem_ok w" "mem_room (count_job b w) = mem_room w" "mem_view (count_job b w) = mem_view w"
  "cells (count_job b w) = cells w" "wall (count_job b w) = wall w" "mono (count_job b w) = mono w"
  "emitted (count_job b w) = emitted w" "Queues.is_paused (count_job b w) = Queues.is_paused w"
  "id_counter (mem (count_job b w)) = id_counter (mem w) + 1"
  by (simp_all add: count_job_def mem_ok_def mem_room_def store_ok_def listening_def mem_view_def Queues.is_paused_def
      fun_eq_iff mem_items_def mem_scores_def cong: CollectionSuffix.case_cong if_cong)

definition new_job_of :: "'c QueueOpts \<Rightarrow> ('c, 'd) new_job \<Rightarrow> ('c, 'd, 'r, 'p) mem_world \<Rightarrow> ('c, 'd, 'r, 'p) Job" where
  "new_job_of q x w = (case x of (nm, opt, dat) \<Rightarrow>
     Jobs.new (wall w) nm (Some dat) (JobOptions.job_id (update_job_opts q (unwrap_or default_job_options opt)))
       (Some (prefix (mem w) @ '':'' @ InMemoryStore.name (mem w))))"

definition options_of :: "'c QueueOpts \<Rightarrow> ('c, 'd) new_job \<Rightarrow> 'c JobOptions" where
  "options_of q x = update_job_opts q (unwrap_or default_job_options (fst (snd x)))"

lemma add_one_eq:
  "add_one ext q paused_flag x w =
    insert_job ext (new_job_of q x w) (options_of q x)
      (if 0 < JobOptions.priority (options_of q x) then priority_counter (mem w) + 1 else 0)
      (id_counter (mem w) + 1) (fst x) paused_flag (count_job (0 < JobOptions.priority (options_of q x)) w)"
proof -
  obtain nm opt dat where x: "x = (nm, opt, dat)" by (cases x)
  show ?thesis
    by (cases "0 < JobOptions.priority (update_job_opts q (unwrap_or default_job_options opt))")
      (simp_all add: x add_one_def options_of_def new_job_of_def Let_def kbind_def kget_def In_Memory_Store.incr_def
        handle_counter_one count_job_def on_store_def)
qed

lemma add_one_id:
  assumes "add_one ext q paused_flag x w = (Inr j, w')"
  shows "Job.job_id j = Some (id_counter (mem w) + 1)" and "id_counter (mem w') = id_counter (mem w) + 1"
proof -
  let ?b = "0 < JobOptions.priority (options_of q x)"
  let ?m = "insert_job ext (new_job_of q x w) (options_of q x) (if ?b then priority_counter (mem w) + 1 else 0)
      (id_counter (mem w) + 1) (fst x) paused_flag"
  have m: "?m (count_job ?b w) = (Inr j, w')" using assms by (simp add: add_one_eq)
  then show "Job.job_id j = Some (id_counter (mem w) + 1)"
    using insert_returns_id [unfolded returns_def, rule_format, OF m] by simp
  show "id_counter (mem w') = id_counter (mem w) + 1"
    using keeps_insert [unfolded keeps_def, rule_format, where w = "count_job ?b w"] m
    by (metis count_job_frame(9) snd_conv)
qed

lemma insertion_fails_id:
  assumes "add_one ext q paused_flag x w = (Inl f, w')"
  shows "id_counter (mem w') = id_counter (mem w) + 1"
  using keeps_insert [unfolded keeps_def, rule_format, where w = "count_job (0 < JobOptions.priority (options_of q x)) w"]
    assms unfolding add_one_eq by (metis count_job_frame(9) snd_conv)

section \<open>Adding jobs to a queue\<close>

lemma add_job_eq:
  "add_job (mem_store ext) q nm dat (Some options) w =
    kbind (add_one ext (Queue.opts q) (Queues.is_paused w) (nm, Some options, dat)) kret w"
  by (simp add: add_job_def kbind_def split: prod.split sum.split)

lemma add_one_places:
  assumes ok: "mem_ok w" and room: "0 < mem_room w" and i: "i = id_counter (mem w) + 1" "small_id i"
    and opt: "opt = options_of q x"
    and dms: "as_diff_ms ext (wall w) (JobOptions.delay opt) = Inr dms" "dms = 0 \<or> MIN_DELAY_MS_LIMIT \<le> dms"
    and due: "next_occurrance_timestamp_ms ext (wall w) (JobOptions.delay opt) = Inr (Some due) \<or>
      dms = 0 \<and> next_occurrance_timestamp_ms ext (wall w) (JobOptions.delay opt) = Inr None"
    and fresh: "case target_score dms due (JobOptions.priority opt) (priority_counter (mem w) + 1) of None \<Rightarrow> True
      | Some sc \<Rightarrow> sc \<notin> scores (mem_view w) (target_of paused_flag dms (JobOptions.priority opt))"
  shows "kwp (add_one ext q paused_flag x) (\<lambda>j w'.
    placed paused_flag dms due (JobOptions.priority opt) j i w w' \<and> Job.opts j = opt \<and> Job.data j = Some (snd (snd x)) \<and>
    attempts_made j = 0 \<and> id_counter (mem w') = i) w"
proof -
  let ?b = "0 < JobOptions.priority opt" let ?pc = "if 0 < JobOptions.priority opt then priority_counter (mem w) + 1 else 0"
  have pc: "target_score dms due (JobOptions.priority opt) ?pc =
      target_score dms due (JobOptions.priority opt) (priority_counter (mem w) + 1)"
    by (simp add: target_score_def)
  have fresh': "case target_score dms due (JobOptions.priority opt) ?pc of None \<Rightarrow> True | Some sc \<Rightarrow>
      sc \<notin> scores (mem_view (count_job ?b w)) (target_of paused_flag dms (JobOptions.priority opt))"
    unfolding pc count_job_frame by (rule fresh)
  have jb: "Job.ts (new_job_of q x w) = wall w" "Job.state (new_job_of q x w) = JobState.Wait"
    "Job.data (new_job_of q x w) = Some (snd (snd x))" "attempts_made (new_job_of q x w) = 0"
    by (simp_all add: new_job_of_def Jobs.new_def split_beta)
  have "kwp (insert_job ext (new_job_of q x w) opt ?pc i (fst x) paused_flag) (\<lambda>j w'.
      placed paused_flag dms due (JobOptions.priority opt) j i (count_job ?b w) w' \<and> Job.opts j = opt \<and>
      Job.data j = Job.data (new_job_of q x w) \<and> attempts_made j = attempts_made (new_job_of q x w)) (count_job ?b w)"
    by (rule insert_places [OF _ _ i(2) _ _ dms(2) _ _ fresh'])
      (use ok room dms(1) due jb in \<open>simp_all add: count_job_frame\<close>)
  then obtain j w' where one: "add_one ext q paused_flag x w = (Inr j, w')"
    "placed paused_flag dms due (JobOptions.priority opt) j i w w' \<and> Job.opts j = opt \<and> Job.data j = Some (snd (snd x)) \<and>
      attempts_made j = 0"
    unfolding opt by (auto simp: kwp_def add_one_eq i(1) placed_def count_job_frame jb)
  then show ?thesis
    by - (rule kwpI, rule one(1), use one(2) add_one_id(2) [OF one(1)] i(1) in simp)
qed

lemma add_job_of_one:
  assumes "kwp (add_one ext (Queue.opts q) (Queues.is_paused w) (nm, Some options, dat)) Q w"
  shows "kwp (add_job (mem_store ext) q nm dat (Some options)) Q w"
  using assms by (simp add: kwp_def add_job_eq)

lemma add_bulk_ids:
  "In_Memory_Store.add_bulk ext xs q mode paused_flag w = (Inr js, w') \<Longrightarrow>
    map Job.job_id js = map (\<lambda>k. Some (id_counter (mem w) + of_nat (Suc k))) [0..<length xs] \<and>
    id_counter (mem w') = id_counter (mem w) + of_nat (length xs)"
proof (induction xs arbitrary: w js)
  case Nil
  then show ?case by simp
next
  case (Cons x xs)
  from Cons.prems obtain j w1 rest where one: "add_one ext q paused_flag x w = (Inr j, w1)"
    and rest: "In_Memory_Store.add_bulk ext xs q mode paused_flag w1 = (Inr rest, w')" and js: "js = j # rest"
    by (auto elim!: kbind_cases)
  have "[0..<length (x # xs)] = 0 # map Suc [0..<length xs]" by (simp add: upt_conv_Cons map_Suc_upt del: upt_Suc)
  then show ?case
    using Cons.IH [OF rest] add_one_id [OF one] js by (simp add: comp_def add.assoc del: upt_Suc)
qed

text \<open>Refusals: the error leaves the collections as they were, but the id is spent.\<close>

lemma negative_is_large: "sint (ms :: i64) < 0 \<Longrightarrow> 2 ^ 63 \<le> unat ms"
proof (rule ccontr)
  assume neg: "sint ms < 0" and "\<not> 2 ^ 63 \<le> unat ms"
  then have "int (unat ms) < int (2 ^ 63)" by (simp only: not_le of_nat_less_iff)
  then have "uint ms < 2 ^ 63" by simp
  moreover have "0 \<le> uint ms" by (rule unsigned_greater_eq)
  ultimately have "sint ms = uint ms"
    using sint_of_int_i64 [of "uint ms"] unfolding word_of_int_uint by linarith
  with neg show False by (simp add: not_less [symmetric])
qed

lemma insert_refused:
  assumes "next_occurrance_timestamp_ms ext (wall w) (JobOptions.delay options) = Inr expected"
    and "as_diff_ms ext (wall w) (JobOptions.delay options) = Inr dms" and "Job.ts jb = wall w"
    and "0 < dms" and "dms < MIN_DELAY_MS_LIMIT"
  shows "insert_job ext jb options pc i nm paused_flag w =
    (Inl (Err (KioError.QueueError (DelayBelowAllowedLimit MIN_DELAY_MS_LIMIT dms))), w)"
  using assms by (simp add: insert_job_def kbind_kget kbind_kresult add_opts_def)

text \<open>A job whose delay lies in the past is recorded, but enters no collection.\<close>

lemma insert_past:
  assumes ok: "mem_ok w" and i: "small_id i" and past: "JobOptions.delay options = TimeMilis ms" "sint ms < 0"
    and jb: "Job.ts jb = wall w" "Job.state jb = JobState.Wait"
  shows "kwp (insert_job ext jb options pc i nm paused_flag) (\<lambda>j w'. mem_ok w' \<and>
    Job.job_id j = Some i \<and> Job.state j = JobState.Wait \<and>
    mem_view w' = (mem_view w)\<lparr>job := (job (mem_view w))(i := Some j)\<rparr>) w"
proof -
  let ?ev = "if paused_flag then JobState.Paused else JobState.Wait"
  define j where "j = jb\<lparr>Job.priority := JobOptions.priority options, Job.delay := ms, Job.opts := options,
    Job.job_id := Some i\<rparr>"
  define e :: "('c, 'd) QueueStreamEvent" where "e = (default_event (wall w))\<lparr>QueueStreamEvent.job_id := i,
     event := ?ev, QueueStreamEvent.name := Some nm, QueueStreamEvent.delay := Some ms,
     QueueStreamEvent.priority := None\<rparr>"
  have conv: "convertible e" by (simp add: convertible_def default_event_def e_def)
  have neg: "0 < ms" "\<not> ms < MIN_DELAY_MS_LIMIT" "sint ms \<le> 0"
    using past(2) negative_is_large [of ms] by (simp_all add: MIN_DELAY_MS_LIMIT_def word_less_nat_alt)
  define w2 where "w2 = on_store (\<lambda>s. s\<lparr>jobs := insert_constant (tag (CollectionSuffix.Job i)) j (jobs s)\<rparr>) w"
  have w2: "mem_ok w2" "mem_view w2 = (mem_view w)\<lparr>job := (job (mem_view w))(i := Some j)\<rparr>"
    using record_job [OF ok i w2_def] by simp_all
  have "insert_job ext jb options pc i nm paused_flag w =
      kbind (kmod (on_store (\<lambda>s. s\<lparr>jobs := insert_constant (tag (CollectionSuffix.Job i)) j (jobs s)\<rparr>)))
        (\<lambda>_. kbind (\<lambda>w. publish_event (InMemoryStore.event_mode (mem w)) e w) (\<lambda>_. kret j)) w"
    using neg past(1) jb(1)
    by (simp add: insert_job_def kbind_assoc kbind_kget kbind_kresult add_opts_def j_def e_def Let_def del: tag.simps)
  moreover have "kwp (kbind (kmod (on_store (\<lambda>s. s\<lparr>jobs := insert_constant (tag (CollectionSuffix.Job i)) j (jobs s)\<rparr>)))
        (\<lambda>_. kbind (\<lambda>w. publish_event (InMemoryStore.event_mode (mem w)) e w) (\<lambda>_. kret j)))
      (\<lambda>j w'. mem_ok w' \<and> Job.job_id j = Some i \<and> Job.state j = JobState.Wait \<and>
        mem_view w' = (mem_view w)\<lparr>job := (job (mem_view w))(i := Some j)\<rparr>) w"
    unfolding kwp_bind kwp_mod kwp_reader w2_def [symmetric] kwp_ret
    by (rule kwp_mono [OF mem_publish [OF w2(1) conv]]) (use w2 jb(2) in \<open>simp add: j_def\<close>)
  ultimately show ?thesis by (simp add: kwp_def)
qed

lemma add_bulk_only_eq:
  "In_Memory_Store.add_bulk_only ext xs q mode paused_flag = kbind (In_Memory_Store.add_bulk ext xs q mode paused_flag) (\<lambda>_. kret ())"
  by (induction xs) (simp_all add: kbind_assoc)

section \<open>A concrete world\<close>

text \<open>A queue that was just opened on an empty store, at wall clock time \<open>t\<close>.\<close>

definition open_world :: "Dt \<Rightarrow> ('c, 'd, 'r, 'p) mem_world" where
  "open_world t = create_stream_listener QueueEventMode.PubSub
    \<lparr>wall = t, mono = 0, current_metrics = default_metrics, pause_workers = False, notified = 0, emitted = [],
     paused_cell = False, backoff_registry = Backoff.new, World.store = In_Memory_Store.new None ''mail''\<rparr>"

definition plain_queue :: "'c Queue" where
  "plain_queue = \<lparr>queue_id = 0, opts = default_queue_opts\<rparr>"

lemma open_world_ok: "mem_ok (open_world t)"
  by (simp add: open_world_def create_stream_listener_def In_Memory_Store.new_def mem_ok_def store_ok_def listening_def
      deque_ok_new)

lemma open_world_fields [simp]:
  "wall (open_world t) = t" "mono (open_world t) = 0" "Queues.is_paused (open_world t) = False" "emitted (open_world t) = []"
  "mem_room (open_world t) = 2 ^ 63 - 2" "mem_items (mem (open_world t)) c = []" "mem_scores (mem (open_world t)) c = {}"
  "id_counter (mem (open_world t)) = 0" "priority_counter (mem (open_world t)) = 0"
  "jobs (mem (open_world t)) = Timed_Map.new" "locks (mem (open_world t)) = Timed_Map.new"
  by (simp_all add: open_world_def create_stream_listener_def In_Memory_Store.new_def mem_room_def deque_room_def
      mem_items_def mem_scores_def Queues.is_paused_def queue_is_paused_def default_metrics_def
      split: CollectionSuffix.split)

section \<open>Properties\<close>




lemma add_default:
  fixes w :: "('c, 'd, 'r, 'p) mem_world"
  assumes "mem_ok w" and "0 < mem_room w" and "small_id (id_counter (mem w) + 1)"
  shows "\<exists>j w'. add_one ext default_queue_opts False (nm, None, dat) w = (Inr j, w') \<and> mem_ok w' \<and>
    mem_room w - 1 \<le> mem_room w' \<and> id_counter (mem w') = id_counter (mem w) + 1"
  using add_one_places [OF assms(1,2) refl assms(3) refl, where dms = 0 and due = 0 and paused_flag = False
      and x = "(nm, None, dat)" and q = default_queue_opts and ext = ext]
  by (auto simp: kwp_def options_of_def default_job_options_def default_delay_def target_score_def placed_def)


text \<open>
  A delay that is positive but below the minimum is refused with \<^verbatim>\<open>DelayBelowAllowedLimit\<close>. No
  collection, job or event changes, but the refused job has used up an id.
\<close>

theorem add_job_refuses_short_delay:
  fixes w :: "('c, 'd, 'r, 'p) mem_world"
  assumes "JobOptions.delay (update_job_opts (Queue.opts q) options) = dl"
    and "as_diff_ms ext (wall w) dl = Inr dms" and "next_occurrance_timestamp_ms ext (wall w) dl = Inr expected"
    and "0 < dms" and "dms < MIN_DELAY_MS_LIMIT"
  shows "\<exists>w'. add_job (mem_store ext) q nm dat (Some options) w =
      (Inl (Err (KioError.QueueError (DelayBelowAllowedLimit MIN_DELAY_MS_LIMIT dms))), w') \<and>
    mem_view w' = mem_view w \<and> emitted w' = emitted w \<and> id_counter (mem w') = id_counter (mem w) + 1"
proof -
  let ?x = "(nm, Some options, dat)"
  let ?b = "0 < JobOptions.priority (options_of (Queue.opts q) ?x)"
  let ?jb = "new_job_of (Queue.opts q) ?x w"
  have "Job.ts ?jb = wall w" by (simp add: new_job_of_def Jobs.new_def)
  then have "add_one ext (Queue.opts q) (Queues.is_paused w) ?x w =
      (Inl (Err (KioError.QueueError (DelayBelowAllowedLimit MIN_DELAY_MS_LIMIT dms))), count_job ?b w)"
    unfolding add_one_eq using assms
    by (subst insert_refused [where expected = expected and dms = dms])
      (simp_all add: count_job_frame options_of_def)
  then show ?thesis
    by (simp add: add_job_eq kbind_err count_job_frame)
qed

theorem add_job_refuses_short_delay_witness:
  "\<exists>w'. add_job (mem_store simple_calendar) plain_queue ''hello'' (5 :: nat)
      (Some (default_job_options\<lparr>JobOptions.delay := TimeMilis 20\<rparr>)) (open_world 0 :: (nat, nat, unit, unit) mem_world) =
      (Inl (Err (KioError.QueueError (DelayBelowAllowedLimit MIN_DELAY_MS_LIMIT 20))), w') \<and> id_counter (mem w') = 1"
  using add_job_refuses_short_delay [of plain_queue "default_job_options\<lparr>JobOptions.delay := TimeMilis 20\<rparr>" "TimeMilis 20"
      simple_calendar "open_world 0 :: (nat, nat, unit, unit) mem_world" 20 "Some 20" "''hello''" 5]
  by (auto simp: MIN_DELAY_MS_LIMIT_def dt_plus_def simple_calendar_def timestamp_millis_def)

text \<open>
  A job whose delay is negative is lost to the workers: it is recorded in state \<^verbatim>\<open>Wait\<close>, but enters
  no collection, so that no worker and no timer ever finds it.
\<close>

theorem add_job_past_delay_unreachable:
  fixes w :: "('c, 'd, 'r, 'p) mem_world"
  assumes "mem_ok w" and "i = id_counter (mem w) + 1" and "small_id i"
    and "JobOptions.delay (update_job_opts (Queue.opts q) options) = TimeMilis ms" and "sint ms < 0"
  shows "kwp (add_job (mem_store ext) q nm dat (Some options)) (\<lambda>j w'. mem_ok w' \<and>
    Job.job_id j = Some i \<and> Job.state j = JobState.Wait \<and>
    mem_view w' = (mem_view w)\<lparr>job := (job (mem_view w))(i := Some j)\<rparr>) w"
proof (rule add_job_of_one)
  let ?x = "(nm, Some options, dat)"
  let ?b = "0 < JobOptions.priority (options_of (Queue.opts q) ?x)"
  let ?jb = "new_job_of (Queue.opts q) ?x w"
  have jb: "Job.ts ?jb = wall (count_job ?b w)" "Job.state ?jb = JobState.Wait"
    by (simp_all add: new_job_of_def Jobs.new_def count_job_frame)
  have "mem_ok (count_job ?b w)" "JobOptions.delay (options_of (Queue.opts q) ?x) = TimeMilis ms"
    using assms by (simp_all add: count_job_frame options_of_def)
  from insert_past [OF this(1) assms(3) this(2) assms(5) jb, of ext
      "if ?b then priority_counter (mem w) + 1 else 0" nm "Queues.is_paused w"]
  show "kwp (add_one ext (Queue.opts q) (Queues.is_paused w) ?x) (\<lambda>j w'. mem_ok w' \<and>
      Job.job_id j = Some i \<and> Job.state j = JobState.Wait \<and>
      mem_view w' = (mem_view w)\<lparr>job := (job (mem_view w))(i := Some j)\<rparr>) w"
    by (simp add: kwp_def add_one_eq count_job_frame assms(2))
qed

theorem add_job_past_delay_unreachable_witness:
  "kwp (add_job (mem_store simple_calendar) plain_queue ''hello'' (5 :: nat)
      (Some (default_job_options\<lparr>JobOptions.delay := TimeMilis (- 1)\<rparr>)))
    (\<lambda>j w'. job (mem_view w') 1 = Some j \<and> items (mem_view w') = (\<lambda>_. []))
    (open_world 0 :: (nat, nat, unit, unit) mem_world)"
  by (rule kwp_mono [OF add_job_past_delay_unreachable [where i = 1 and ms = "- 1"]])
    (auto simp: open_world_ok small_id_def fun_eq_iff simp del: mem_view_simps(3) dest: arg_cong [where f = job] arg_cong [where f = items])

text \<open>
  \<^verbatim>\<open>bulk_add_only\<close> does exactly what \<^verbatim>\<open>bulk_add\<close> does, errors included, and only drops the list of
  jobs.
\<close>

theorem bulk_add_only_equiv:
  "bulk_add_only (mem_store ext) q xs w =
    (case bulk_add (mem_store ext) q xs w of (Inr _, w') \<Rightarrow> (Inr (), w') | (Inl e, w') \<Rightarrow> (Inl e, w'))"
  by (simp add: bulk_add_only_def bulk_add_def add_bulk_only_eq kbind_def split: prod.split sum.split)

end
