(* ===== verification/Queue_Properties.thy ===== *)
theory Queue_Properties
  imports Insertion
begin

text \<open>
  What the queue does to the jobs of an in-memory store. The lemmas of the contract \<open>store_contract\<close>
  are used through the interpretation \<open>inmem\<close>; the properties are total-correctness statements
  (\<open>kwp m Q w\<close>: the call \<open>m\<close> succeeds from \<open>w\<close> and its result and the new world satisfy \<open>Q\<close>).
\<close>

section \<open>A world with jobs\<close>

text \<open>Job 1 is active and locked, job 2 waits, job 3 has a priority.\<close>

definition demo_job :: "u64 \<Rightarrow> JobState \<Rightarrow> (nat, nat, nat, unit) Job" where
  "demo_job i st = (Jobs.new 0 ''hello'' (Some 5) None (Some ''kio:mail''))\<lparr>Job.job_id := Some i, Job.state := st\<rparr>"

definition demo_token :: JobToken where
  "demo_token = JobToken 7 8 1"

definition demo_world :: "(nat, nat, nat, unit) mem_world" where
  "demo_world = on_store (\<lambda>s. s
     \<lparr>jobs := insert_constant (tag (CollectionSuffix.Job 1)) (demo_job 1 JobState.Active)
        (insert_constant (tag (CollectionSuffix.Job 2)) (demo_job 2 JobState.Wait)
        (insert_constant (tag (CollectionSuffix.Job 3)) (demo_job 3 JobState.Prioritized) (jobs s))),
      locks := insert_constant (tag (CollectionSuffix.Lock 1)) (Lock.Token demo_token) (locks s),
      active := push_front 1 (active s), waiting := push_front 2 (waiting s),
      prioritized := [(4294967297, 3)], id_counter := 3\<rparr>) (open_world 7000000)"

lemma demo_world_ok: "mem_ok demo_world"
  using open_world_ok [of 7000000] push_front_ok(1) [OF deque_ok_new, of "1 :: u64"] push_front_ok(1) [OF deque_ok_new, of "2 :: u64"]
  by (simp add: demo_world_def mem_ok_def store_ok_def listening_def open_world_def create_stream_listener_def
      In_Memory_Store.new_def sm_ok_Cons del: tag.simps)

lemma demo_tags:
  "tag (CollectionSuffix.Job 1) \<noteq> tag (CollectionSuffix.Job 2)" "tag (CollectionSuffix.Job 1) \<noteq> tag (CollectionSuffix.Job 3)"
  "tag (CollectionSuffix.Job 2) \<noteq> tag (CollectionSuffix.Job 1)" "tag (CollectionSuffix.Job 3) \<noteq> tag (CollectionSuffix.Job 1)"
  "tag (CollectionSuffix.Job 2) \<noteq> tag (CollectionSuffix.Job 3)" "tag (CollectionSuffix.Job 3) \<noteq> tag (CollectionSuffix.Job 2)"
  by (subst tag_inject(1); simp)+

lemma demo_world_fields [simp]:
  "Queues.is_paused demo_world = False" "wall demo_world = 7000000"
  "job (mem_view demo_world) 1 = Some (demo_job 1 JobState.Active)"
  "job (mem_view demo_world) 2 = Some (demo_job 2 JobState.Wait)"
  "job (mem_view demo_world) 3 = Some (demo_job 3 JobState.Prioritized)"
  "lock (mem_view demo_world) 1 = Some demo_token"
  "mem_items (mem demo_world) CollectionSuffix.Active = [1]" "mem_items (mem demo_world) CollectionSuffix.Wait = [2]"
  "mem_items (mem demo_world) CollectionSuffix.Prioritized = [3]"
  "mem_items (mem demo_world) CollectionSuffix.Completed = []" "mem_items (mem demo_world) CollectionSuffix.Failed = []"
  "mem_items (mem demo_world) CollectionSuffix.Stalled = []" "mem_items (mem demo_world) CollectionSuffix.Paused = []"
  "mem_scores (mem demo_world) CollectionSuffix.Completed = {}" "mem_scores (mem demo_world) CollectionSuffix.Failed = {}"
  using demo_tags
  by (simp_all add: demo_world_def Queues.is_paused_def queue_is_paused_def open_world_def create_stream_listener_def
      In_Memory_Store.new_def mem_items_def mem_scores_def cdeque.pf_lst deque_ok_new small_id_def lock_token_def
      default_metrics_def del: tag.simps)

lemma demo_store_fields:
  "InMemoryStore.is_paused (mem demo_world) = False" "stalled (mem demo_world) = []" "completed (mem demo_world) = []"
  "sm_get (tag (CollectionSuffix.Job 1)) (inner (jobs (mem demo_world))) = Some (Constant (demo_job 1 JobState.Active))"
  by (simp_all add: demo_world_def open_world_def create_stream_listener_def In_Memory_Store.new_def
      insert_constant_def sm_get_insert del: tag.simps)

lemma demo_world_room: "0 < mem_room demo_world"
  using push_front_ok [OF deque_ok_new, of "1 :: u64"] push_front_ok [OF deque_ok_new, of "2 :: u64"]
  by (simp add: demo_world_def mem_room_def deque_room_def open_world_def create_stream_listener_def
      In_Memory_Store.new_def)

lemma demo_job_fields [simp]:
  "Job.state (demo_job i st) = st" "attempts_made (demo_job i st) = 0" "Job.job_id (demo_job i st) = Some i"
  by (simp_all add: demo_job_def Jobs.new_def)

text \<open>The same world with nothing waiting.\<close>

definition demo_idle_world :: "(nat, nat, nat, unit) mem_world" where
  "demo_idle_world = demo_world\<lparr>World.store := (mem demo_world)\<lparr>waiting := Concurrent_Deque.new\<rparr>\<rparr>"

lemma demo_idle_world:
  "mem_ok demo_idle_world" "0 < mem_room demo_idle_world" "Queues.is_paused demo_idle_world = False"
  "mem_items (mem demo_idle_world) CollectionSuffix.Wait = []" "mem_items (mem demo_idle_world) CollectionSuffix.Prioritized = [3]"
  "mem_items (mem demo_idle_world) CollectionSuffix.Active = [1]" "prioritized (mem demo_idle_world) = [(4294967297, 3)]"
  "job (mem_view demo_idle_world) 3 = Some (demo_job 3 JobState.Prioritized)"
proof -
  have w: "demo_idle_world = demo_world\<lparr>World.store := put_deque CollectionSuffix.Wait Concurrent_Deque.new (mem demo_world)\<rparr>"
    by (simp add: demo_idle_world_def put_deque_def)
  have c: "CollectionSuffix.Wait \<in> list_cols" by (simp add: list_cols_def)
  note put = put_deque [OF demo_world_ok c deque_ok_new, folded w]
  show "mem_ok demo_idle_world" by (rule put(1))
  show "0 < mem_room demo_idle_world" using put(4) [of 1] demo_world_room by (simp add: Suc_le_eq deque_room_def)
  show "mem_items (mem demo_idle_world) CollectionSuffix.Wait = []" using put(3) by (simp add: w)
  show "mem_items (mem demo_idle_world) CollectionSuffix.Prioritized = [3]"
    "mem_items (mem demo_idle_world) CollectionSuffix.Active = [1]"
    "job (mem_view demo_idle_world) 3 = Some (demo_job 3 JobState.Prioritized)"
    using put(2) demo_world_fields(5) by (simp_all add: changes_def del: mem_view_simps(3))
  show "prioritized (mem demo_idle_world) = [(4294967297, 3)]" "Queues.is_paused demo_idle_world = False"
    using demo_world_fields(1) by (simp_all add: demo_idle_world_def demo_world_def Queues.is_paused_def)
qed

section \<open>Taking and finishing jobs\<close>

definition outcome :: "'r ProcessedResult \<Rightarrow> JobState" where
  "outcome processed = (case processed of ProcessedResult.Success _ _ \<Rightarrow> JobState.Completed
     | ProcessedResult.Failed _ \<Rightarrow> JobState.Failed)"

lemma outcome_terminal: "outcome processed = JobState.Failed \<or> outcome processed = JobState.Completed"
  by (cases processed) (simp_all add: outcome_def)

lemma outcome_convertible: "convertible (move_event now i from_st (outcome processed) (Some processed))"
  by (cases processed) (simp_all add: outcome_def convertible_def move_event_def default_event_def)



text \<open>
  C4. Jobs without a priority are taken first in, first out: additions go to the front of \<^verbatim>\<open>Wait\<close>, and
  the job at its back is taken. It moves to \<^verbatim>\<open>Active\<close>, and its record and the lock carry the token of the
  worker that took it.
\<close>

theorem take_waiting_job:
  assumes "mem_ok w" and "0 < mem_room w" and "\<not> Queues.is_paused w" and "0 < lock_duration wopts"
    and "items (mem_view w) CollectionSuffix.Wait = xs @ [i]" and "small_id i" and "job (mem_view w) i = Some j"
  shows "kwp (move_to_active (mem_store ext) tok wopts) (\<lambda>r w'. \<exists>j'. r = ProcessJob j' \<and>
      j' = j\<lparr>Job.state := JobState.Active, Job.token := Some tok,
        processed_on := from_timestamp_micros ext (timestamp_micros (wall w))\<rparr> \<and> mem_ok w' \<and>
      items (mem_view w') CollectionSuffix.Wait = xs \<and>
      items (mem_view w') CollectionSuffix.Active = i # items (mem_view w) CollectionSuffix.Active \<and>
      changes {CollectionSuffix.Wait, CollectionSuffix.Active}
        ((mem_view w)\<lparr>job := (job (mem_view w))(i := Some j'), lock := (lock (mem_view w))(i := Some tok)\<rparr>)
        (mem_view w') \<and>
      published (move_event (wall w) i (Job.state j) JobState.Active None) w w') w"
  by (rule kwp_mono [OF inmem.move_to_active_waiting [OF assms]]) (auto simp: inmem.taken_job_def)

theorem take_waiting_job_witness:
  "kwp (move_to_active (mem_store simple_calendar) demo_token (default_worker_opts 4)) (\<lambda>r w'.
      items (mem_view w') CollectionSuffix.Wait = [] \<and> items (mem_view w') CollectionSuffix.Active = [2, 1] \<and>
      lock (mem_view w') 2 = Some demo_token) demo_world"
  by (rule kwp_mono [OF take_waiting_job [where xs = "[]" and i = 2 and j = "demo_job 2 JobState.Wait"]])
    (use demo_world_ok demo_world_room in \<open>auto simp: small_id_def default_worker_opts_def changes_def simp del: mem_view_simps(3,4)\<close>)

text \<open>
  C5. With nothing waiting, the prioritized job with the lowest score is taken; with nothing prioritized
  either, the queue answers \<^verbatim>\<open>DelayUntil(0)\<close> and changes nothing.
\<close>

theorem take_prioritized_job:
  assumes "mem_ok w" and "0 < mem_room w" and "\<not> Queues.is_paused w" and "0 < lock_duration wopts"
    and "items (mem_view w) CollectionSuffix.Wait = []"
    and "\<forall>i ps. items (mem_view w) CollectionSuffix.Prioritized = i # ps \<longrightarrow> small_id i \<and> job (mem_view w) i \<noteq> None"
  shows "kwp (move_to_active (mem_store ext) tok wopts) (\<lambda>r w'. mem_ok w' \<and>
    (case prioritized (mem w) of
       [] \<Rightarrow> r = DelayUntil 0 \<and> mem_view w' = mem_view w
     | e # rest \<Rightarrow> (\<forall>e' \<in> set rest. fst e < fst e') \<and> (\<exists>j. r = ProcessJob j \<and> Job.token j = Some tok) \<and>
         items (mem_view w') CollectionSuffix.Prioritized = map snd rest \<and>
         items (mem_view w') CollectionSuffix.Active = snd e # items (mem_view w) CollectionSuffix.Active \<and>
         lock (mem_view w') (snd e) = Some tok)) w"
proof (cases "prioritized (mem w)")
  case Nil
  then have "items (mem_view w) CollectionSuffix.Prioritized = []" by (simp add: mem_items_def)
  from inmem.move_to_active_empty [OF assms(1,2,5) this, of ext tok wopts] Nil show ?thesis
    by (auto elim!: kwp_mono)
next
  case (Cons e rest)
  then have prio: "items (mem_view w) CollectionSuffix.Prioritized = snd e # map snd rest" by (simp add: mem_items_def)
  then obtain j where i: "small_id (snd e)" "job (mem_view w) (snd e) = Some j" using assms(6) by blast
  have "\<forall>e' \<in> set rest. fst e < fst e'" using mem_okD(5) [OF assms(1)] Cons by (simp add: sm_ok_Cons)
  then show ?thesis
    by (intro kwp_mono [OF inmem.move_to_active_prioritized [OF assms(1-5) prio i]])
      (auto simp: Cons changes_def inmem.taken_job_def simp del: mem_view_simps)
qed

theorem take_prioritized_job_witness:
  "kwp (move_to_active (mem_store simple_calendar) demo_token (default_worker_opts 4)) (\<lambda>r w'.
      items (mem_view w') CollectionSuffix.Prioritized = [] \<and> items (mem_view w') CollectionSuffix.Active = [3, 1])
    demo_idle_world"
  by (rule kwp_mono [OF take_prioritized_job])
    (use demo_idle_world in \<open>auto simp: small_id_def default_worker_opts_def changes_def simp del: mem_view_simps(3,4)\<close>)





section \<open>Pausing\<close>

lemma drain_spec:
  assumes "deque_ok src" and "deque_ok dst" and "length (to_list src) \<le> back_room dst"
  shows "deque_ok (fst (drain src dst)) \<and> deque_ok (snd (drain src dst)) \<and> to_list (fst (drain src dst)) = [] \<and>
    to_list (snd (drain src dst)) = to_list dst @ to_list src \<and>
    front_room (fst (drain src dst)) = front_room src \<and> back_room (fst (drain src dst)) = back_room src"
  using assms
proof (induction src dst rule: drain.induct)
  case (1 src dst)
  show ?case
  proof (cases "data src")
    case Nil
    then have "drain src dst = (src, dst)"
      by (subst drain.simps) (simp add: pop_front_data [OF 1(2)])
    with Nil 1 show ?thesis by (simp add: to_list_def)
  next
    case (Cons e rest)
    let ?src = "src\<lparr>data := rest\<rparr>" let ?dst = "push_back (snd e) dst"
    have pop: "pop_front src = (Some (snd e), ?src)" using Cons by (simp add: pop_front_data [OF 1(2)])
    have "0 < back_room dst" using 1(4) Cons by (simp add: to_list_def)
    note dst = push_back_ok [OF 1(3) this, of "snd e"]
    have src: "deque_ok ?src" using pop_ok(1) [OF 1(2)] pop by simp
    have step: "drain src dst = drain ?src ?dst" by (subst drain.simps) (simp add: pop)
    have "length (to_list ?src) \<le> back_room ?dst" using 1(4) Cons dst(2) by (simp add: to_list_def)
    from 1(1) [OF pop [symmetric] refl src dst(1) this] show ?thesis
      using Cons 1(3) unfolding step
      by (simp add: cdeque.pb_lst to_list_def [of src] to_list_def [of ?src] front_room_def back_room_def)
  qed
qed

lemma pause_spec:
  assumes ok: "mem_ok w"
    and cols: "src = (if do_pause then CollectionSuffix.Wait else CollectionSuffix.Paused)"
      "dst = (if do_pause then CollectionSuffix.Paused else CollectionSuffix.Wait)"
    and room: "length (items (mem_view w) src) \<le> back_room (deque_of dst (mem w))"
  shows "kwp (In_Memory_Store.pause do_pause mode) (\<lambda>_ w'. mem_ok w' \<and> cells w' = cells w \<and>
    changes {src, dst} (mem_view w) (mem_view w') \<and> items (mem_view w') src = [] \<and>
    items (mem_view w') dst = items (mem_view w) dst @ items (mem_view w) src \<and>
    InMemoryStore.is_paused (mem w') = do_pause \<and>
    back_room (deque_of src (mem w')) = back_room (deque_of src (mem w))) w"
  using ok room cols drain_spec [of "waiting (mem w)" "paused (mem w)"] drain_spec [of "paused (mem w)" "waiting (mem w)"]
  by (cases do_pause)
    (auto simp: In_Memory_Store.pause_def on_store_def split_beta Let_def put_defs deque_of_def cong: if_cong
      split: CollectionSuffix.split)

lemma back_room_le:
  "mem_room w \<le> back_room (deque_of CollectionSuffix.Wait (mem w))"
  "mem_room w \<le> back_room (deque_of CollectionSuffix.Paused (mem w))"
  by (simp_all add: mem_room_def deque_room_def deque_of_def)

lemma view_eqI:
  assumes "changes {CollectionSuffix.Wait, CollectionSuffix.Paused} (mem_view w) (mem_view w')"
    and "items (mem_view w') CollectionSuffix.Wait = items (mem_view w) CollectionSuffix.Wait"
    and "items (mem_view w') CollectionSuffix.Paused = items (mem_view w) CollectionSuffix.Paused"
  shows "mem_view w' = mem_view w"
proof -
  have "mem_items (mem w') c = mem_items (mem w) c \<and> mem_scores (mem w') c = mem_scores (mem w) c" for c
    using assms by (cases "c \<in> {CollectionSuffix.Wait, CollectionSuffix.Paused}")
      (auto simp: changes_def mem_scores_def)
  then show ?thesis
    using assms(1) by (intro StoreView.equality) (simp_all add: changes_def fun_eq_iff del: mem_view_simps(3,4))
qed

text \<open>
  C24. Pausing and resuming a store is lossless: pausing moves all waiting jobs to the empty \<^verbatim>\<open>Paused\<close>
  collection, resuming moves them back, and both keep their order. Nothing else changes.
\<close>

theorem pause_resume_round_trip:
  assumes "mem_ok w" and "length (items (mem_view w) CollectionSuffix.Wait) \<le> mem_room w"
    and "items (mem_view w) CollectionSuffix.Paused = []"
  shows "kwp (Store.pause (mem_store ext) True mode) (\<lambda>_ w1.
      items (mem_view w1) CollectionSuffix.Wait = [] \<and>
      items (mem_view w1) CollectionSuffix.Paused = items (mem_view w) CollectionSuffix.Wait \<and>
      InMemoryStore.is_paused (mem w1) \<and>
      kwp (Store.pause (mem_store ext) False mode) (\<lambda>_ w2.
        mem_ok w2 \<and> mem_view w2 = mem_view w \<and> \<not> InMemoryStore.is_paused (mem w2)) w1) w"
proof -
  let ?W = CollectionSuffix.Wait and ?P = CollectionSuffix.Paused
  have len: "length (items (mem_view w) ?W) \<le> back_room (deque_of ?P (mem w))"
    using assms(2) back_room_le(2) [of w] by simp
  have "kwp (In_Memory_Store.pause False mode) (\<lambda>_ w2.
      mem_ok w2 \<and> mem_view w2 = mem_view w \<and> \<not> InMemoryStore.is_paused (mem w2)) w1"
    if w1: "mem_ok w1 \<and> cells w1 = cells w \<and> changes {?W, ?P} (mem_view w) (mem_view w1) \<and>
      items (mem_view w1) ?W = [] \<and> items (mem_view w1) ?P = items (mem_view w) ?P @ items (mem_view w) ?W \<and>
      InMemoryStore.is_paused (mem w1) = True \<and>
      back_room (deque_of ?W (mem w1)) = back_room (deque_of ?W (mem w))" for w1
  proof -
    have len1: "length (items (mem_view w1) ?P) \<le> back_room (deque_of ?W (mem w1))"
      using w1 assms(2,3) back_room_le(1) [of w] by simp
    have resumed: "kwp (In_Memory_Store.pause False mode) (\<lambda>_ w2. mem_ok w2 \<and> cells w2 = cells w1 \<and>
        changes {?P, ?W} (mem_view w1) (mem_view w2) \<and> items (mem_view w2) ?P = [] \<and>
        items (mem_view w2) ?W = items (mem_view w1) ?W @ items (mem_view w1) ?P \<and>
        InMemoryStore.is_paused (mem w2) = False \<and>
        back_room (deque_of ?P (mem w2)) = back_room (deque_of ?P (mem w1))) w1"
      by (rule pause_spec) (use w1 len1 in simp_all)
    show ?thesis
    proof (rule kwp_mono [OF resumed])
      fix w2 :: "('a, 'b, 'c, 'd) mem_world"
      assume w2: "mem_ok w2 \<and> cells w2 = cells w1 \<and> changes {?P, ?W} (mem_view w1) (mem_view w2) \<and>
        items (mem_view w2) ?P = [] \<and> items (mem_view w2) ?W = items (mem_view w1) ?W @ items (mem_view w1) ?P \<and>
        InMemoryStore.is_paused (mem w2) = False \<and>
        back_room (deque_of ?P (mem w2)) = back_room (deque_of ?P (mem w1))"
      have "changes {?W, ?P} (mem_view w) (mem_view w2)"
        using w1 w2 by (auto simp: changes_def simp del: mem_view_simps)
      then have "mem_view w2 = mem_view w" using w1 w2 assms(3) by (intro view_eqI) simp_all
      with w2 show "mem_ok w2 \<and> mem_view w2 = mem_view w \<and> \<not> InMemoryStore.is_paused (mem w2)" by simp
    qed
  qed
  then show ?thesis
    unfolding mem_store_simps
    by (intro kwp_mono [OF pause_spec [OF assms(1), of ?W True ?P]]) (use len assms(3) in simp_all)
qed

theorem pause_resume_round_trip_witness:
  "kwp (Store.pause (mem_store simple_calendar) True QueueEventMode.PubSub) (\<lambda>_ w1.
      items (mem_view w1) CollectionSuffix.Paused = [2]) demo_world"
  by (rule kwp_mono [OF pause_resume_round_trip [OF demo_world_ok]]) (use demo_world_room in \<open>simp_all add: Suc_le_eq\<close>)

end
