(* ===== verification/Maintenance.thy ===== *)
theory Maintenance
  imports Queue_Properties
begin

text \<open>
  The queue's housekeeping over the in-memory store: the pause flag, the check for stalled jobs, the
  promotion of delayed jobs, scores, and the retention of finished jobs.
\<close>

section \<open>The pause flag of the queue\<close>

lemma small_sint:
  assumes "small_id i"
  shows "sint i = uint i" "i64_try_from_u64 i = i"
proof -
  have "int (unat i) < int (2 ^ 63)" using assms unfolding of_nat_less_iff small_id_def by simp
  then have "uint i < 2 ^ 63" by simp
  moreover have "0 \<le> uint i" by (rule unsigned_greater_eq)
  ultimately show i: "sint i = uint i"
    using sint_of_int_i64 [of "uint i"] unfolding word_of_int_uint by linarith
  then show "i64_try_from_u64 i = i" by (simp add: i64_try_from_u64_def not_less [symmetric])
qed

text \<open>
  \<^verbatim>\<open>pause_or_resume\<close> toggles the flag of the store and moves the jobs, but the queue does not see it:
  \<^verbatim>\<open>Queue::is_paused\<close>, which guards transitions and additions, keeps its value.
\<close>

theorem pause_not_seen_by_queue:
  assumes "mem_ok w" and "length (items (mem_view w) CollectionSuffix.Wait) \<le> mem_room w"
    and "\<not> InMemoryStore.is_paused (mem w)"
  shows "kwp (pause_or_resume (mem_store ext)) (\<lambda>_ w'. InMemoryStore.is_paused (mem w') \<and>
    items (mem_view w') CollectionSuffix.Wait = [] \<and>
    items (mem_view w') CollectionSuffix.Paused =
      items (mem_view w) CollectionSuffix.Paused @ items (mem_view w) CollectionSuffix.Wait \<and>
    Queues.is_paused w' = Queues.is_paused w) w"
proof -
  let ?W = CollectionSuffix.Wait and ?P = CollectionSuffix.Paused
  define w1 where "w1 = w\<lparr>current_metrics := update (current_metrics w) (mem_metrics (mem w))\<rparr>"
  have w1: "mem_ok w1" "mem_view w1 = mem_view w" "mem_room w1 = mem_room w" "mem w1 = mem w"
    "Queues.is_paused w1 = Queues.is_paused w"
    using assms(1) by (simp_all add: w1_def mem_ok_def mem_view_def mem_room_def Queues.is_paused_def
        queue_is_paused_def update_def cong: if_cong)
  have got: "Queues.get_metrics (mem_store ext) w = (Inr (mem_metrics (mem w)), w1)"
    by (simp add: Queues.get_metrics_def kbind_def get_metrics_eq kmod_def w1_def)
  have metrics: "QueueMetrics.is_paused (mem_metrics (mem w)) = False"
    using assms(3) by (simp add: mem_metrics_def metrics_new_def)
  define e :: "('c, 'd) QueueStreamEvent" where "e = (default_event (wall w1))\<lparr>event := JobState.Paused\<rparr>"
  have conv: "convertible e" by (simp add: e_def convertible_def default_event_def)
  have "kwp (kbind (In_Memory_Store.pause True (Queues.event_mode w1)) (\<lambda>_.
      kbind (kmod (\<lambda>w. w\<lparr>paused_cell := True\<rparr>)) (\<lambda>_. publish_event (Queues.event_mode w1) e)))
    (\<lambda>_ w'. InMemoryStore.is_paused (mem w') \<and> items (mem_view w') ?W = [] \<and>
      items (mem_view w') ?P = items (mem_view w) ?P @ items (mem_view w) ?W \<and>
      Queues.is_paused w' = Queues.is_paused w) w1"
  proof (rule kwp_seq [OF pause_spec [OF w1(1), of ?W True ?P]])
    show "length (items (mem_view w1) ?W) \<le> back_room (deque_of ?P (mem w1))"
      using assms(2) w1 back_room_le(2) [of w1] by simp
    fix w2 :: "('a, 'b, 'c, 'd) mem_world"
    assume w2: "mem_ok w2 \<and> cells w2 = cells w1 \<and> changes {?W, ?P} (mem_view w1) (mem_view w2) \<and>
      items (mem_view w2) ?W = [] \<and> items (mem_view w2) ?P = items (mem_view w1) ?P @ items (mem_view w1) ?W \<and>
      InMemoryStore.is_paused (mem w2) = True \<and>
      back_room (deque_of ?W (mem w2)) = back_room (deque_of ?W (mem w1))"
    define w3 where "w3 = w2\<lparr>paused_cell := True\<rparr>"
    have l: "listening (mem w3)" using w2 by (simp add: w3_def mem_ok_def)
    obtain p where p: "from_queue_event e = Inr p" using from_queue_event_ok [OF conv] by blast
    obtain w4 b where w4: "publish_event (Queues.event_mode w1) e w3 = (Inr (), w4)" "mem w4 = (mem w3)\<lparr>is_inital := b\<rparr>"
      "current_metrics w4 = update (current_metrics w3) (mem_metrics (mem w3))"
      using publish_listening [OF l p, of "Queues.event_mode w1"] by blast
    have "Queues.is_paused w4 = Queues.is_paused w"
      using w4(3) w1(5) w2 cells_fields(3) [of w2 w1]
      by (simp add: Queues.is_paused_def queue_is_paused_def update_def w3_def)
    then show "kwp (kbind (kmod (\<lambda>w. w\<lparr>paused_cell := True\<rparr>)) (\<lambda>_. publish_event (Queues.event_mode w1) e))
      (\<lambda>_ w'. InMemoryStore.is_paused (mem w') \<and> items (mem_view w') ?W = [] \<and>
        items (mem_view w') ?P = items (mem_view w) ?P @ items (mem_view w) ?W \<and>
        Queues.is_paused w' = Queues.is_paused w) w2"
      unfolding kwp_bind kwp_mod w3_def [symmetric]
      by - (rule kwpI, rule w4(1), use w2 w4(2) w1(4) in \<open>simp add: w3_def\<close>)
  qed simp_all
  then show ?thesis
    using got metrics by (simp add: pause_or_resume_def kwp_def kbind_kget kbind_ok e_def)
qed

theorem pause_not_seen_by_queue_witness:
  "kwp (pause_or_resume (mem_store simple_calendar)) (\<lambda>_ w'. InMemoryStore.is_paused (mem w') \<and>
    items (mem_view w') CollectionSuffix.Paused = [2] \<and> \<not> Queues.is_paused w') demo_world"
  by (rule kwp_mono [OF pause_not_seen_by_queue [OF demo_world_ok]])
    (use demo_world_room demo_store_fields in \<open>simp_all add: Suc_le_eq\<close>)

section \<open>Stalled jobs\<close>

text \<open>A program that lets a set only grow.\<close>

definition grows :: "('w \<Rightarrow> 'x set) \<Rightarrow> ('w, 'a) kio \<Rightarrow> bool" where
  "grows f m \<longleftrightarrow> (\<forall>w. f w \<subseteq> f (snd (m w)))"

lemma grows_keeps: "keeps f m \<Longrightarrow> grows f m"
  by (simp add: keeps_def grows_def)

lemma grows_bind: "grows f m \<Longrightarrow> (\<And>a. grows f (g a)) \<Longrightarrow> grows f (kbind m g)"
  unfolding grows_def kbind_apply by (force split: sum.split)

lemma grows_if: "grows f m \<Longrightarrow> grows f n \<Longrightarrow> grows f (if b then m else n)"
  by simp

lemma grows_kfor: "(\<And>a. grows f (g a)) \<Longrightarrow> grows f (kfor g xs)"
  by (induction xs) (simp_all add: grows_bind grows_keeps [OF keeps_intros(1)])

abbreviation stalled_ids :: "('c, 'd, 'r, 'p) mem_world \<Rightarrow> u64 set" where
  "stalled_ids w \<equiv> fst ` set (stalled (mem w))"

lemma stalled_frames:
  "keeps stalled_ids (In_Memory_Store.exists_in c i)" "keeps stalled_ids (In_Memory_Store.set_lock c tok ms)"
  "keeps stalled_ids (In_Memory_Store.get_job_ids_in_state st start stop)"
  "keeps stalled_ids (In_Memory_Store.remove_item CollectionSuffix.Active i)"
  by (auto simp: keeps_def In_Memory_Store.exists_in_def In_Memory_Store.set_lock_def kmod_def kget_def
      In_Memory_Store.get_job_ids_in_state_def In_Memory_Store.remove_item_def Let_def split_beta
      split: CollectionSuffix.split)

lemma stalled_add: "grows stalled_ids (In_Memory_Store.add_item CollectionSuffix.Stalled i sc app)"
  by (force simp: grows_def In_Memory_Store.add_item_def kmod_def set_sm_insert)

lemma stalled_check_grows: "grows stalled_ids (make_stalled_jobs_wait (mem_store ext) wopts)"
proof -
  have recover: "grows stalled_ids (if ids = [] then recover_stalled S wopts target ids ([], []) else m)"
    if "grows stalled_ids m" for S target ids m
    using that by (auto intro: grows_keeps)
  show ?thesis
    unfolding make_stalled_jobs_wait_def mark_stalled_def mem_store_simps split_beta kwhen_def
    by (intro grows_bind recover grows_if grows_kfor stalled_add grows_keeps [OF stalled_frames(1)]
        grows_keeps [OF stalled_frames(2)] grows_keeps [OF stalled_frames(3)] grows_keeps [OF stalled_frames(4)]
        grows_keeps [OF keeps_intros(1)] grows_keeps [OF keeps_intros(3)])
qed

lemma stalled_check_returns: "returns (\<lambda>r. r = ([], [])) (make_stalled_jobs_wait S wopts)"
proof -
  have "returns (\<lambda>r. r = ([], [])) (if ids = [] then recover_stalled S wopts target ids ([], []) else m)"
    if "returns (\<lambda>r. r = ([], [])) m" for target ids m
    using that by (simp add: returns_intros)
  then show ?thesis
    unfolding make_stalled_jobs_wait_def split_beta by (intro returns_intros) (simp_all add: returns_intros)
qed

lemma stalled_check_idle:
  assumes "stalled (mem w) = []"
  shows "fst (make_stalled_jobs_wait (mem_store ext) wopts w) = Inr ([], [])"
    and "mem_items (mem (snd (make_stalled_jobs_wait (mem_store ext) wopts w))) = mem_items (mem w)"
  using assms
  by (cases "fst (contains_key (mono w) (tag StalledCheck) (locks (mem w)))";
      simp add: make_stalled_jobs_wait_def kbind_apply kget_def split_beta In_Memory_Store.exists_in_def Let_def
        In_Memory_Store.set_lock_def kmod_def In_Memory_Store.get_job_ids_in_state_def page_def del: tag.simps)+



section \<open>Scores\<close>

text \<open>
  The sorted collections are keyed by the score: when two jobs get the same score, the first one
  drops out of the collection. For \<^verbatim>\<open>Completed\<close> and \<^verbatim>\<open>Failed\<close> the score is the time in microseconds.
\<close>

theorem equal_scores_lose_a_job:
  assumes "mem_ok w" and "c \<in> scored_cols" and "i \<noteq> i'" and "i \<notin> set (items (mem_view w) c)"
  shows "kwp (kbind (Store.add_item (mem_store ext) c i (Some t) False)
      (\<lambda>_. Store.add_item (mem_store ext) c i' (Some t) False))
    (\<lambda>_ w'. i \<notin> set (items (mem_view w') c) \<and> i' \<in> set (items (mem_view w') c)) w"
proof -
  let ?m = "scored_of c (mem w)"
  let ?w1 = "w\<lparr>World.store := put_scored c (sm_insert t i ?m) (mem w)\<rparr>"
  note m = scored_of_ok [OF assms(1,2)]
  note one = put_scored [OF assms(1,2) sm_ok_insert [OF m(1)], of t i]
  have m1: "scored_of c (mem ?w1) = sm_insert t i ?m"
    using assms(2) by (auto simp: scored_cols_def scored_of_def put_scored_def)
  have run: "kbind (In_Memory_Store.add_item c i (Some t) False) (\<lambda>_. In_Memory_Store.add_item c i' (Some t) False) w =
      (Inr (), ?w1\<lparr>World.store := put_scored c (sm_insert t i' (sm_insert t i ?m)) (mem ?w1)\<rparr>)"
    using m1 by (simp add: kbind_ok [OF add_scored_eq [OF assms(2)]] add_scored_eq [OF assms(2)])
  have "set (sm_insert t i' (sm_insert t i ?m)) = insert (t, i') {e \<in> set ?m. fst e \<noteq> t}"
    by (auto simp: set_sm_insert)
  then show ?thesis
    unfolding mem_store_simps
    by - (rule kwpI, rule run, use put_scored(3) [OF one(1) assms(2) sm_ok_insert [OF sm_ok_insert [OF m(1)]], of t i' t i]
      assms(3,4) m(2) in \<open>auto simp: image_iff\<close>)
qed

theorem equal_scores_lose_a_job_witness:
  "kwp (kbind (Store.add_item (mem_store simple_calendar) CollectionSuffix.Completed 1 (Some 99) False)
      (\<lambda>_. Store.add_item (mem_store simple_calendar) CollectionSuffix.Completed 2 (Some 99) False))
    (\<lambda>_ w'. 1 \<notin> set (items (mem_view w') CollectionSuffix.Completed)) demo_world"
  by (rule kwp_mono [OF equal_scores_lose_a_job [OF demo_world_ok]]) (simp_all add: scored_cols_def)

lemma mset_three_ways:
  assumes "\<And>x. p x \<and> \<not> q x \<and> \<not> r x \<or> \<not> p x \<and> q x \<and> \<not> r x \<or> \<not> p x \<and> \<not> q x \<and> r x"
  shows "mset xs = mset (filter p xs) + mset (filter q xs) + mset (filter r xs)"
proof (induction xs)
  case (Cons x xs)
  with assms [of x] show ?case by auto
qed simp

lemma window_cases:
  fixes start stop sc :: u64
  assumes "0 < start" and "start \<le> stop"
  shows "start \<le> sc \<and> sc < stop \<and> \<not> sc < start - 1 \<and> sc \<noteq> start - 1 \<or>
    sc < start - 1 \<and> \<not> start \<le> sc \<and> \<not> stop \<le> sc \<or>
    (sc = start - 1 \<or> stop \<le> sc) \<and> \<not> (start \<le> sc \<and> sc < stop) \<and> \<not> sc < start - 1"
proof -
  have pos: "unat start \<noteq> 0" using assms(1) by (simp add: unat_eq_zero word_neq_0_conv)
  have "unat (start - 1) = unat start - 1" using assms(1) by (intro unat_minus_one) auto
  with pos assms(2) show ?thesis
    unfolding word_less_nat_alt word_le_nat_alt word_unat_eq_iff by linarith
qed

lemma window_split:
  assumes "0 < start" and "start \<le> stop" and "d = delayed (mem w)"
  shows "In_Memory_Store.get_delayed_at start stop w =
      (Inr (map snd (filter (\<lambda>e. start \<le> fst e \<and> fst e < stop) d), map snd (filter (\<lambda>e. fst e < start - 1) d)),
       on_store (\<lambda>s. s\<lparr>delayed := filter (\<lambda>e. fst e = start - 1 \<or> stop \<le> fst e) d\<rparr>) w)"
    and "mset (map snd d) = mset (map snd (filter (\<lambda>e. start \<le> fst e \<and> fst e < stop) d)) +
      mset (map snd (filter (\<lambda>e. fst e < start - 1) d)) +
      mset (map snd (filter (\<lambda>e. fst e = start - 1 \<or> stop \<le> fst e) d))"
proof -
  let ?due = "\<lambda>e. start \<le> fst e \<and> fst e < stop" and ?missed = "\<lambda>e. fst e < start - 1"
    and ?rest = "\<lambda>e. fst e = start - 1 \<or> stop \<le> fst e"
  have way: "?due e \<and> \<not> ?missed e \<and> \<not> ?rest e \<or> \<not> ?due e \<and> ?missed e \<and> \<not> ?rest e \<or>
      \<not> ?due e \<and> \<not> ?missed e \<and> ?rest e" for e :: "u64 \<times> u64"
    using window_cases [OF assms(1,2), of "fst e"] by (auto simp: not_le)
  have missed: "filter ?missed (filter (\<lambda>e. \<not> ?due e) d) = filter ?missed d"
    and rest: "filter (\<lambda>e. \<not> ?missed e) (filter (\<lambda>e. \<not> ?due e) d) = filter ?rest d"
    unfolding filter_filter using way by (metis (no_types, lifting))+
  then show "In_Memory_Store.get_delayed_at start stop w =
      (Inr (map snd (filter ?due d), map snd (filter ?missed d)), on_store (\<lambda>s. s\<lparr>delayed := filter ?rest d\<rparr>) w)"
    by (simp add: In_Memory_Store.get_delayed_at_def Let_def sm_range_def sm_remove_if_def sm_below_def assms(3))
  have split: "mset d = mset (filter ?due d) + mset (filter ?missed d) + mset (filter ?rest d)"
    using way by (rule mset_three_ways)
  show "mset (map snd d) = mset (map snd (filter ?due d)) + mset (map snd (filter ?missed d)) + mset (map snd (filter ?rest d))"
    using arg_cong [OF split, of "image_mset snd"] by simp
qed

text \<open>
  C38. The window of the delayed jobs: a promotion takes out the jobs that are due in \<open>[start, stop)\<close> and
  those that are more than one millisecond late, each once. What stays is due at \<open>stop\<close> or later, or
  was due exactly one millisecond before \<open>start\<close>.
\<close>

theorem delayed_window:
  assumes "0 < start" and "start \<le> stop"
  shows "kwp (Store.get_delayed_at (mem_store ext) start stop) (\<lambda>(due, missed) w'.
      due = map snd (filter (\<lambda>e. start \<le> fst e \<and> fst e < stop) (delayed (mem w))) \<and>
      missed = map snd (filter (\<lambda>e. fst e < start - 1) (delayed (mem w))) \<and>
      delayed (mem w') = filter (\<lambda>e. fst e = start - 1 \<or> stop \<le> fst e) (delayed (mem w)) \<and>
      mset (items (mem_view w) CollectionSuffix.Delayed) =
        mset due + mset missed + mset (items (mem_view w') CollectionSuffix.Delayed)) w"
  using window_split [OF assms refl, of w] by (simp add: kwp_def mem_items_def)

theorem delayed_window_witness:
  "kwp (Store.get_delayed_at (mem_store simple_calendar) 10 20) (\<lambda>(due, missed) w'.
      due = [2] \<and> missed = [4] \<and> items (mem_view w') CollectionSuffix.Delayed = [1, 3])
    (demo_world\<lparr>World.store := (mem demo_world)\<lparr>delayed := [(3, 4), (9, 1), (10, 2), (20, 3)]\<rparr>\<rparr>)"
  by (rule kwp_mono [OF delayed_window]) (auto simp: mem_items_def)

section \<open>Retention\<close>

text \<open>
  Keeping finished jobs. \<^verbatim>\<open>Int(n)\<close> does not keep the last \<open>n\<close> jobs: it removes the record of every
  job whose id is above \<open>n\<close> and keeps all others. A maximal age has no effect on the records that the
  store creates, which never expire.
\<close>

theorem retention_by_id_and_age:
  assumes "mem_ok w" and "small_id i" and "0 < sint n" and "job (mem_view w) i \<noteq> None"
    and "sm_get (tag (CollectionSuffix.Job i)) (inner (jobs (mem w))) = Some (Constant j)"
  shows "kwp (clean_up_job (mem_store ext) i (Some (RemoveOnCompletionOrFailure.Int n)))
      (\<lambda>_ w'. mem_view w' = (if sint n < sint i then (mem_view w)\<lparr>job := (job (mem_view w))(i := None)\<rparr> else mem_view w)) w \<and>
    clean_up_job (mem_store ext) i (Some (RemoveOnCompletionOrFailure.Opts \<lparr>age = Some secs, count = None\<rparr>)) w = (Inr (), w)"
proof
  show "kwp (clean_up_job (mem_store ext) i (Some (RemoveOnCompletionOrFailure.Int n)))
      (\<lambda>_ w'. mem_view w' = (if sint n < sint i then (mem_view w)\<lparr>job := (job (mem_view w))(i := None)\<rparr> else mem_view w)) w"
    using assms(3) mem_remove_job [OF assms(1,2)]
    by (auto simp: keep_at_most_def is_positive_def small_sint [OF assms(2)] elim!: kwp_mono simp del: mem_view_simps)
  show "clean_up_job (mem_store ext) i (Some (RemoveOnCompletionOrFailure.Opts \<lparr>age = Some secs, count = None\<rparr>)) w = (Inr (), w)"
    using assms(5)
    by (simp add: kbind_apply In_Memory_Store.expire_def kmod_def Let_def update_expiration_status_def on_store_def
        del: tag.simps)
qed

theorem retention_by_id_and_age_witness:
  "kwp (clean_up_job (mem_store simple_calendar) 1 (Some (RemoveOnCompletionOrFailure.Int 100)))
      (\<lambda>_ w'. job (mem_view w') 1 = Some (demo_job 1 JobState.Active)) demo_world \<and>
    clean_up_job (mem_store simple_calendar) 1 (Some (RemoveOnCompletionOrFailure.Opts \<lparr>age = Some 0, count = None\<rparr>)) demo_world =
      (Inr (), demo_world)"
  using retention_by_id_and_age [OF demo_world_ok _ _ _ demo_store_fields(4), of 100 simple_calendar 0]
  by (auto simp: small_id_def elim!: kwp_mono simp del: mem_view_simps)

end
