(* ===== verification/Placement.thy ===== *)
theory Placement
  imports Maintenance
begin

text \<open>
  Runs of a queue over the in-memory store: a list of calls of its users and workers, with the clock
  moving in between. The invariant says that every recorded job is in exactly one collection; it
  holds after every run from an empty store.
\<close>

section \<open>Calls\<close>

datatype ('c, 'd, 'r) queue_call =
    Add CompactString 'd "'c JobOptions"
  | Take JobToken WorkerOpts
  | Finish u64 i64 JobToken "'r ProcessedResult" "Trace option"
  | Extend u64 u64 JobToken
  | Tick int int

fun run_call :: "'c externals \<Rightarrow> 'c Queue \<Rightarrow> ('c, 'd, 'r) queue_call \<Rightarrow>
    ('c, 'd, 'r, 'p) mem_world \<Rightarrow> ('c, 'd, 'r, 'p) mem_world" where
  "run_call ext q (Add nm dat options) w = snd (add_job (mem_store ext) q nm dat (Some options) w)"
| "run_call ext q (Take tok wopts) w = snd (move_to_active (mem_store ext) tok wopts w)"
| "run_call ext q (Finish i t tok processed trace) w =
    snd (move_job_to_finished_or_failed (mem_store ext) i t tok (outcome processed) processed trace w)"
| "run_call ext q (Extend i ms tok) w = snd (extend_lock (mem_store ext) i ms tok w)"
| "run_call ext q (Tick d d') w = w\<lparr>wall := wall w + d, mono := mono w + d'\<rparr>"

text \<open>
  When a call is made properly: additions have a delay that is accepted and a score that is free, jobs
  are taken with a lock that lasts, only active jobs are finished and at a time that no other job was
  finished, and no record expires when the clock moves.
\<close>

definition add_ok :: "'c externals \<Rightarrow> 'c Queue \<Rightarrow> 'c JobOptions \<Rightarrow> ('c, 'd, 'r, 'p) mem_world \<Rightarrow> bool" where
  "add_ok ext q options w =
    (let opt = update_job_opts (Queue.opts q) options in
     case (as_diff_ms ext (wall w) (JobOptions.delay opt), next_occurrance_timestamp_ms ext (wall w) (JobOptions.delay opt)) of
       (Inr dms, Inr expected) \<Rightarrow> (dms = 0 \<or> MIN_DELAY_MS_LIMIT \<le> dms \<and> expected \<noteq> None) \<and>
         (case target_score dms (unwrap_or 0 expected) (JobOptions.priority opt) (priority_counter (mem w) + 1) of
            None \<Rightarrow> True
          | Some sc \<Rightarrow> sc \<notin> mem_scores (mem w) (target_of (Queues.is_paused w) dms (JobOptions.priority opt)))
     | _ \<Rightarrow> False)"

fun call_ok :: "'c externals \<Rightarrow> 'c Queue \<Rightarrow> ('c, 'd, 'r) queue_call \<Rightarrow> ('c, 'd, 'r, 'p) mem_world \<Rightarrow> bool" where
  "call_ok ext q (Add nm dat options) w = add_ok ext q options w"
| "call_ok ext q (Take tok wopts) w = (0 < lock_duration wopts)"
| "call_ok ext q (Finish i t tok processed trace) w =
    (i \<in> set (mem_items (mem w) CollectionSuffix.Active) \<and> t \<notin> mem_scores (mem w) (suffix_of_state (outcome processed)))"
| "call_ok ext q (Extend i ms tok) w = (small_id i \<and> 0 < ms)"
| "call_ok ext q (Tick d d') w = (job (mem_view (w\<lparr>wall := wall w + d, mono := mono w + d'\<rparr>)) = job (mem_view w))"

fun calls_ok :: "'c externals \<Rightarrow> 'c Queue \<Rightarrow> ('c, 'd, 'r) queue_call list \<Rightarrow> ('c, 'd, 'r, 'p) mem_world \<Rightarrow> bool" where
  "calls_ok ext q [] w = True"
| "calls_ok ext q (c # cs) w = (call_ok ext q c w \<and> calls_ok ext q cs (run_call ext q c w))"

definition run_calls_from :: "'c externals \<Rightarrow> 'c Queue \<Rightarrow> ('c, 'd, 'r) queue_call list \<Rightarrow>
    ('c, 'd, 'r, 'p) mem_world \<Rightarrow> ('c, 'd, 'r, 'p) mem_world" where
  "run_calls_from ext q cs w = fold (run_call ext q) cs w"

section \<open>The invariant\<close>

text \<open>The ids in the collections, with multiplicities.\<close>

definition queue_cols :: "CollectionSuffix list" where
  "queue_cols = [CollectionSuffix.Wait, CollectionSuffix.Paused, CollectionSuffix.Active, CollectionSuffix.Prioritized,
     CollectionSuffix.Delayed, CollectionSuffix.Completed, CollectionSuffix.Failed]"

definition ids :: "('c, 'd, 'r, 'p) StoreView \<Rightarrow> u64 multiset" where
  "ids v = (\<Sum>c \<leftarrow> queue_cols. mset (items v c))"

definition placement_inv :: "('c, 'd, 'r, 'p) StoreView \<Rightarrow> bool" where
  "placement_inv v \<longleftrightarrow> (\<forall>i. count (ids v) i = (if job v i = None then 0 else 1)) \<and>
     (\<forall>i \<in> set (items v CollectionSuffix.Active). \<forall>j. job v i = Some j \<longrightarrow> Job.state j = JobState.Active)"

text \<open>What is left for \<open>n\<close> more calls: indices of the deques, ids and attempts.\<close>

definition budget :: "nat \<Rightarrow> ('c, 'd, 'r, 'p) mem_world \<Rightarrow> bool" where
  "budget n w \<longleftrightarrow> n \<le> mem_room w \<and> unat (id_counter (mem w)) + n < 2 ^ 56 \<and>
     (\<forall>i j. job (mem_view w) i = Some j \<longrightarrow> i \<le> id_counter (mem w) \<and> unat (attempts_made j) + n < 2 ^ 62)"

definition run_inv :: "nat \<Rightarrow> ('c, 'd, 'r, 'p) mem_world \<Rightarrow> bool" where
  "run_inv n w \<longleftrightarrow> mem_ok w \<and> \<not> Queues.is_paused w \<and> placement_inv (mem_view w) \<and> budget n w"

text \<open>Moves between two collections keep the multiset of ids.\<close>

lemma ids_changes:
  assumes "changes {c, c'} v v'" and "c \<noteq> c'" and "c \<in> set queue_cols" and "c' \<in> set queue_cols"
  shows "ids v' + mset (items v c) + mset (items v c') = ids v + mset (items v' c) + mset (items v' c')"
  using assms unfolding queue_cols_def
  by (simp add: ids_def queue_cols_def changes_def; elim disjE; simp add: ac_simps)

lemma ids_change:
  assumes "changes {c} v v'" and "c \<in> set queue_cols"
  shows "ids v' + mset (items v c) = ids v + mset (items v' c)"
  using assms unfolding queue_cols_def
  by (simp add: ids_def queue_cols_def changes_def; elim disjE; simp add: ac_simps)

section \<open>Ids are given by additions only\<close>

abbreviation idc :: "('c, 'd, 'r, 'p) mem_world \<Rightarrow> u64" where
  "idc w \<equiv> id_counter (mem w)"

lemma keeps_reads:
  "keeps idc (klift (In_Memory_Store.job_exists i))" "keeps idc (klift (In_Memory_Store.get_job i))"
  "keeps idc (klift (In_Memory_Store.get_state i))" "keeps idc (klift (In_Memory_Store.get_token i))"
  "keeps idc (klift (In_Memory_Store.pop_back_push_front c c'))"
  by (rule keeps_klift; auto simp: job_exists_eq get_job_eq get_token_eq In_Memory_Store.get_state_def
      In_Memory_Store.pop_back_push_front_def split: prod.split option.split)+

lemma keeps_writes:
  "keeps idc (In_Memory_Store.exists_in c i)" "keeps idc (In_Memory_Store.remove_item c i)"
  "keeps idc (In_Memory_Store.set_lock c tok ms)" "keeps idc (In_Memory_Store.set_fields ext i fs)"
  "keeps idc (In_Memory_Store.incr (CollectionSuffix.Job i) n f)" "keeps idc (In_Memory_Store.pop_set c b)"
  "keeps idc (In_Memory_Store.remove c)"
  by (auto simp: keeps_def In_Memory_Store.exists_in_def In_Memory_Store.remove_item_def In_Memory_Store.set_lock_def
      In_Memory_Store.set_fields_def In_Memory_Store.incr_def In_Memory_Store.pop_set_def In_Memory_Store.remove_def
      kmod_def Let_def split_beta split: CollectionSuffix.split option.split)

lemmas keeps_ops = keeps_reads keeps_writes keeps_add_item keeps_publish

lemma keeps_move: "keeps idc (move_job_to_state (mem_store ext) i from_st to_st result t trace)"
  unfolding move_job_to_state_def mem_store_simps split_beta
  by (intro keeps_bind keeps_intros keeps_if keeps_kwhen keeps_ops)

lemma keeps_transitions:
  "keeps idc (move_job_to_finished_or_failed (mem_store ext) i t tok to_st processed trace)"
  "keeps idc (move_to_active (mem_store ext) tok wopts)" "keeps idc (extend_lock (mem_store ext) i ms tok)"
  unfolding move_job_to_finished_or_failed_def move_to_active_def extend_lock_def prepare_job_for_processing_def
    move_job_from_priorty_to_active_def mem_store_simps split_beta Let_def
  by (intro keeps_bind keeps_intros keeps_if keeps_option keeps_kwhen keeps_kok_or keeps_move keeps_ops)+

section \<open>Every call keeps the invariant\<close>

lemma run_invI:
  assumes "mem_ok w'" and "\<not> Queues.is_paused w'" and "n \<le> mem_room w'" and "idc w' = idc w"
    and "run_inv (Suc n) w"
    and "\<And>i. (job (mem_view w') i = None) = (job (mem_view w) i = None)"
    and "\<And>i j j'. job (mem_view w') i = Some j' \<Longrightarrow> job (mem_view w) i = Some j \<Longrightarrow>
      unat (attempts_made j') \<le> Suc (unat (attempts_made j))"
    and "ids (mem_view w') = ids (mem_view w)"
    and "\<And>i j. i \<in> set (items (mem_view w') CollectionSuffix.Active) \<Longrightarrow> job (mem_view w') i = Some j \<Longrightarrow>
      Job.state j = JobState.Active"
  shows "run_inv n w'"
proof -
  have "i \<le> idc w \<and> unat (attempts_made j') + n < 2 ^ 62" if "job (mem_view w') i = Some j'" for i j'
  proof -
    have "job (mem_view w) i \<noteq> None" using assms(6) [of i] that by simp
    then obtain j where j: "job (mem_view w) i = Some j" by blast
    from assms(5) j have "i \<le> idc w" "unat (attempts_made j) + Suc n < 2 ^ 62"
      unfolding run_inv_def budget_def by blast+
    with assms(7) [OF that j] show ?thesis by simp
  qed
  moreover have "count (ids (mem_view w')) i = (if job (mem_view w') i = None then 0 else 1)" for i
    using assms(5) unfolding assms(8) assms(6) run_inv_def placement_inv_def by blast
  ultimately show ?thesis
    using assms(1-5,9) unfolding run_inv_def budget_def placement_inv_def by auto
qed

lemma ids_frame [simp]: "ids (v\<lparr>job := f\<rparr>) = ids v" "ids (v\<lparr>lock := g\<rparr>) = ids v"
  by (simp_all add: ids_def queue_cols_def)

lemma ids_member:
  assumes "placement_inv v" and "c \<in> set queue_cols" and "i \<in> set (items v c)"
  shows "job v i \<noteq> None" and "count (mset (items v c)) i = 1"
proof -
  have "mset (items v c) \<subseteq># ids v"
    using assms(2) unfolding queue_cols_def
    by (simp add: ids_def queue_cols_def; elim disjE; simp add: subset_mset.add_increasing subset_mset.add_increasing2)
  then have le: "count (mset (items v c)) i \<le> count (ids v) i" by (rule mset_subset_eq_count)
  have pos: "0 < count (mset (items v c)) i" using assms(3) by simp
  have total: "count (ids v) i = (if job v i = None then 0 else 1)" using assms(1) unfolding placement_inv_def by blast
  show some: "job v i \<noteq> None"
  proof
    assume "job v i = None"
    with total have "count (ids v) i = 0" by (simp only: if_True simp_thms)
    with le pos show False by linarith
  qed
  with total have "count (ids v) i = 1" by (simp only: if_False simp_thms)
  with le pos show "count (mset (items v c)) i = 1" by linarith
qed

lemma mset_removeAll_once: "count (mset xs) i = 1 \<Longrightarrow> add_mset i (mset (removeAll i xs)) = mset xs"
proof -
  assume "count (mset xs) i = 1"
  then have "filter_mset ((\<noteq>) i) (mset xs) + {#i#} = mset xs"
    by (intro multiset_eqI) (auto simp: not_in_iff)
  then show ?thesis by (simp add: removeAll_filter_not_eq mset_filter)
qed

lemma attempts_fields: "attempts_made (fold (set_field ext) fs j) = attempts_made j"
proof (induction fs arbitrary: j)
  case (Cons f fs)
  have "attempts_made (set_field ext f j) = attempts_made j" by (cases "(ext, f, j)" rule: set_field.cases) auto
  with Cons show ?case by simp
qed simp

lemma unat_succ_le: "unat (x + 1 :: u64) \<le> Suc (unat x)"
  by (simp add: unat_word_ariths)

lemma finish_step:
  assumes inv: "run_inv (Suc n) w" and ok: "call_ok ext q (Finish i t tok processed trace) w"
  shows "run_inv n (run_call ext q (Finish i t tok processed trace) w)"
proof -
  let ?A = CollectionSuffix.Active and ?C = "suffix_of_state (outcome processed)"
  have w: "mem_ok w" "\<not> Queues.is_paused w" "placement_inv (mem_view w)" "Suc n \<le> mem_room w"
    using inv by (simp_all add: run_inv_def budget_def)
  have act: "i \<in> set (items (mem_view w) ?A)" "t \<notin> scores (mem_view w) ?C" using ok by simp_all
  have cols: "?A \<in> set queue_cols" "?C \<in> set queue_cols" "?A \<noteq> ?C"
    using outcome_terminal [of processed] by (auto simp: queue_cols_def)
  obtain j where j: "job (mem_view w) i = Some j" using ids_member(1) [OF w(3) cols(1) act(1)] by blast
  have small: "small_id i" using j by (simp split: if_splits)
  have st: "Job.state j = JobState.Active" using w(3) act(1) j unfolding placement_inv_def by blast
  have made: "unat (attempts_made j) < 2 ^ 62" using inv j unfolding run_inv_def budget_def by fastforce
  from kwpD [OF inmem.finish_active [OF w(1,2) small j st made outcome_terminal act(2) outcome_convertible, of ext tok trace]]
  obtain r w' where run: "run_call ext q (Finish i t tok processed trace) w = w'"
    and post: "r = fold (set_field ext) (move_fields (outcome processed) (Some processed) (Some t) trace)
        (j\<lparr>attempts_made := attempts_made j + 1\<rparr>)" "mem_ok w'" "mem_room w' = mem_room w"
      "items (mem_view w') ?A = removeAll i (items (mem_view w) ?A)"
      "mset (items (mem_view w') ?C) = add_mset i (mset (items (mem_view w) ?C))"
      "changes {?A, ?C} ((mem_view w)\<lparr>job := (job (mem_view w))(i := Some r)\<rparr>) (mem_view w')"
      "Queues.is_paused w' = Queues.is_paused w"
    by (auto simp: published_def simp del: mem_view_simps)
  have jobs: "job (mem_view w') = (job (mem_view w))(i := Some r)" using post(6) by (simp add: changes_def del: mem_view_simps)
  show ?thesis
    unfolding run
  proof (rule run_invI [OF post(2) _ _ _ inv])
    show "\<not> Queues.is_paused w'" "n \<le> mem_room w'" using post(3,7) w(2,4) by simp_all
    show "idc w' = idc w"
      using keeps_transitions(1) [unfolded keeps_def, rule_format, of ext i t tok "outcome processed" processed trace w] run
      by simp
    show "(job (mem_view w') i' = None) = (job (mem_view w) i' = None)" for i' using j by (simp add: jobs del: mem_view_simps)
    show "unat (attempts_made j'') \<le> Suc (unat (attempts_made j'))"
      if "job (mem_view w') i' = Some j''" "job (mem_view w) i' = Some j'" for i' j' j''
      using that j post(1) unat_succ_le [of "attempts_made j"]
      by (auto simp: jobs attempts_fields split: if_splits simp del: mem_view_simps)
    have "ids (mem_view w') + mset (items (mem_view w) ?A) + mset (items (mem_view w) ?C) =
        ids (mem_view w) + mset (items (mem_view w') ?A) + mset (items (mem_view w') ?C)"
      using ids_changes [OF post(6) cols(3,1,2)] by (simp del: mem_view_simps)
    then show "ids (mem_view w') = ids (mem_view w)"
      unfolding post(4,5) using mset_removeAll_once [OF ids_member(2) [OF w(3) cols(1) act(1)]]
      by (metis (no_types, lifting) add.assoc add_mset_add_single add_right_imp_eq union_mset_add_mset_left union_mset_add_mset_right)
    show "Job.state j' = JobState.Active" if "i' \<in> set (items (mem_view w') ?A)" "job (mem_view w') i' = Some j'" for i' j'
    proof -
      have "i' \<in> set (items (mem_view w) ?A)" "i' \<noteq> i" using that(1) unfolding post(4) by auto
      moreover from this that(2) have "job (mem_view w) i' = Some j'" by (simp add: jobs del: mem_view_simps)
      ultimately show ?thesis using w(3) unfolding placement_inv_def by blast
    qed
  qed
qed

lemma taken_inv:
  assumes inv: "run_inv (Suc n) w" and w': "mem_ok w'" "Queues.is_paused w' = Queues.is_paused w" "mem_room w - 1 \<le> mem_room w'"
    "idc w' = idc w"
    and j: "job (mem_view w) i = Some j" "Job.state j' = JobState.Active" "attempts_made j' = attempts_made j"
    and c: "c \<in> set queue_cols" "c \<noteq> CollectionSuffix.Active"
      "mset (items (mem_view w) c) = add_mset i (mset (items (mem_view w') c))"
    and act: "items (mem_view w') CollectionSuffix.Active = i # items (mem_view w) CollectionSuffix.Active"
    and ch: "changes {c, CollectionSuffix.Active}
      ((mem_view w)\<lparr>job := (job (mem_view w))(i := Some j'), lock := g\<rparr>) (mem_view w')"
  shows "run_inv n w'"
proof (rule run_invI [OF w'(1) _ _ w'(4) inv])
  have w: "\<not> Queues.is_paused w" "placement_inv (mem_view w)" "Suc n \<le> mem_room w"
    using inv by (simp_all add: run_inv_def budget_def)
  then show "\<not> Queues.is_paused w'" "n \<le> mem_room w'" using w' by simp_all
  have jobs: "job (mem_view w') = (job (mem_view w))(i := Some j')" using ch by (simp add: changes_def del: mem_view_simps)
  show "(job (mem_view w') i' = None) = (job (mem_view w) i' = None)" for i' using j by (simp add: jobs del: mem_view_simps)
  show "unat (attempts_made k') \<le> Suc (unat (attempts_made k))"
    if "job (mem_view w') i' = Some k'" "job (mem_view w) i' = Some k" for i' k k'
    using that j by (auto simp: jobs split: if_splits simp del: mem_view_simps)
  have "CollectionSuffix.Active \<in> set queue_cols" by (simp add: queue_cols_def)
  from ids_changes [OF ch c(2,1) this]
  have "ids (mem_view w') + mset (items (mem_view w) c) + mset (items (mem_view w) CollectionSuffix.Active) =
      ids (mem_view w) + mset (items (mem_view w') c) + mset (items (mem_view w') CollectionSuffix.Active)"
    by (simp del: mem_view_simps)
  then show "ids (mem_view w') = ids (mem_view w)" unfolding c(3) act by (simp del: mem_view_simps)
  show "Job.state k = JobState.Active"
    if "i' \<in> set (items (mem_view w') CollectionSuffix.Active)" "job (mem_view w') i' = Some k" for i' k
    using that w(2) j(2) unfolding act jobs placement_inv_def by (auto split: if_splits simp del: mem_view_simps)
qed

lemma take_step:
  assumes inv: "run_inv (Suc n) w" and ok: "call_ok ext q (Take tok wopts) w"
  shows "run_inv n (run_call ext q (Take tok wopts) w)"
proof -
  let ?W = CollectionSuffix.Wait and ?P = CollectionSuffix.Prioritized
  have w: "mem_ok w" "\<not> Queues.is_paused w" "placement_inv (mem_view w)" "0 < mem_room w"
    using inv by (simp_all add: run_inv_def budget_def)
  have lock: "0 < lock_duration wopts" using ok by simp
  have cols: "?W \<in> set queue_cols" "?P \<in> set queue_cols" by (simp_all add: queue_cols_def)
  note idc = keeps_transitions(2) [unfolded keeps_def, rule_format, of ext tok wopts w]
  have known: "\<exists>j. job (mem_view w) i = Some j \<and> small_id i" if "i \<in> set (items (mem_view w) c)" "c \<in> set queue_cols" for i c
    using ids_member(1) [OF w(3) that(2,1)] by (auto split: if_splits)
  consider (wait) xs i where "items (mem_view w) ?W = xs @ [i]"
    | (prio) i ps where "items (mem_view w) ?W = []" "items (mem_view w) ?P = i # ps"
    | (none) "items (mem_view w) ?W = []" "items (mem_view w) ?P = []"
    by (metis list.exhaust rev_exhaust)
  then show ?thesis
  proof cases
    case wait
    then obtain j where j: "job (mem_view w) i = Some j" "small_id i" using known [of i ?W] cols by auto
    from kwpD [OF inmem.move_to_active_waiting [OF w(1,4,2) lock wait j(2,1), of ext tok]] show ?thesis
      by (intro taken_inv [OF inv _ _ _ _ j(1), of _ "inmem.taken_job ext tok (timestamp_micros (wall w)) j" ?W])
        (use idc cols wait in \<open>auto simp: published_def inmem.taken_job_def simp del: mem_view_simps\<close>)
  next
    case prio
    then obtain j where j: "job (mem_view w) i = Some j" "small_id i" using known [of i ?P] cols by auto
    from kwpD [OF inmem.move_to_active_prioritized [OF w(1,4,2) lock prio j(2,1), of ext tok]] show ?thesis
      by (intro taken_inv [OF inv _ _ _ _ j(1), of _ "inmem.taken_job ext tok (timestamp_micros (wall w)) j" ?P])
        (use idc cols prio in \<open>auto simp: published_def inmem.taken_job_def simp del: mem_view_simps\<close>)
  next
    case none
    from kwpD [OF inmem.move_to_active_empty [OF w(1,4) none, of ext tok wopts]] show ?thesis
      by (intro run_invI [OF _ _ _ _ inv])
        (use idc w inv cells_fields(3) [of "run_call ext q (Take tok wopts) w" w]
          in \<open>auto simp: run_inv_def budget_def placement_inv_def simp del: mem_view_simps\<close>)
  qed
qed

lemma changes_stalled:
  assumes "changes {CollectionSuffix.Stalled} v v'"
  shows "ids v' = ids v" "items v' CollectionSuffix.Active = items v CollectionSuffix.Active" "job v' = job v"
  using assms by (simp_all add: ids_def queue_cols_def changes_def)

lemma extend_step:
  assumes inv: "run_inv (Suc n) w" and ok: "call_ok ext q (Extend i ms tok) w"
  shows "run_inv n (run_call ext q (Extend i ms tok) w)"
proof -
  have w: "mem_ok w" using inv by (simp add: run_inv_def)
  note idc = keeps_transitions(3) [unfolded keeps_def, rule_format, of ext i ms tok w]
  from kwpD [OF inmem.extend_lock_spec [OF w, of i ms ext tok]] ok
  have b: "mem_ok (run_call ext q (Extend i ms tok) w)" "mem_room (run_call ext q (Extend i ms tok) w) = mem_room w"
    "cells (run_call ext q (Extend i ms tok) w) = cells w"
    "changes {CollectionSuffix.Stalled} (mem_view w) (mem_view (run_call ext q (Extend i ms tok) w))"
    by simp_all
  show ?thesis
    by (rule run_invI [OF b(1) _ _ _ inv])
      (use idc b changes_stalled [OF b(4)] inv cells_fields(3) [OF b(3)]
        in \<open>auto simp: run_inv_def budget_def placement_inv_def simp del: mem_view_simps\<close>)
qed

lemma tick_step:
  assumes inv: "run_inv (Suc n) w" and ok: "call_ok ext q (Tick d d') w"
  shows "run_inv n (run_call ext q (Tick d d') w)"
proof -
  let ?w = "w\<lparr>wall := wall w + d, mono := mono w + d'\<rparr>"
  have "mem_ok ?w" "mem_room ?w = mem_room w" "Queues.is_paused ?w = Queues.is_paused w" "items (mem_view ?w) = items (mem_view w)"
    using inv by (simp_all add: run_inv_def mem_ok_def mem_room_def Queues.is_paused_def)
  moreover have "job (mem_view ?w) = job (mem_view w)" using ok by (simp del: mem_view_simps)
  moreover have "ids (mem_view ?w) = ids (mem_view w)" by (simp add: ids_def)
  ultimately show ?thesis
    using inv by (intro run_invI [OF _ _ _ _ inv]) (auto simp: run_inv_def budget_def placement_inv_def simp del: mem_view_simps)
qed

lemma add_ok_places:
  assumes w: "mem_ok w" "0 < mem_room w" and i: "i = idc w + 1" "small_id i" and ok: "add_ok ext q options w"
  shows "\<exists>dms due prio j. add_job (mem_store ext) q nm dat (Some options) w =
      (Inr j, run_call ext q (Add nm dat options) w) \<and>
    placed (Queues.is_paused w) dms due prio j i w (run_call ext q (Add nm dat options) w) \<and>
    idc (run_call ext q (Add nm dat options) w) = i \<and> attempts_made j = 0"
proof -
  let ?opt = "update_job_opts (Queue.opts q) options" and ?x = "(nm, Some options, dat)"
  obtain dms expected where d: "as_diff_ms ext (wall w) (JobOptions.delay ?opt) = Inr dms"
    "next_occurrance_timestamp_ms ext (wall w) (JobOptions.delay ?opt) = Inr expected"
    "dms = 0 \<or> MIN_DELAY_MS_LIMIT \<le> dms \<and> expected \<noteq> None"
    "case target_score dms (unwrap_or 0 expected) (JobOptions.priority ?opt) (priority_counter (mem w) + 1) of None \<Rightarrow> True
     | Some sc \<Rightarrow> sc \<notin> mem_scores (mem w) (target_of (Queues.is_paused w) dms (JobOptions.priority ?opt))"
    using ok by (auto simp: add_ok_def Let_def split: sum.splits)
  have due: "next_occurrance_timestamp_ms ext (wall w) (JobOptions.delay ?opt) = Inr (Some (unwrap_or 0 expected)) \<or>
      dms = 0 \<and> next_occurrance_timestamp_ms ext (wall w) (JobOptions.delay ?opt) = Inr None"
    using d(2,3) by (cases expected) auto
  have lim: "dms = 0 \<or> MIN_DELAY_MS_LIMIT \<le> dms" using d(3) by blast
  have opt: "?opt = options_of (Queue.opts q) ?x" by (simp add: options_of_def)
  have "kwp (add_one ext (Queue.opts q) (Queues.is_paused w) ?x) (\<lambda>j w'.
      placed (Queues.is_paused w) dms (unwrap_or 0 expected) (JobOptions.priority ?opt) j i w w' \<and> Job.opts j = ?opt \<and>
      Job.data j = Some (snd (snd ?x)) \<and> attempts_made j = 0 \<and> idc w' = i) w"
    by (rule add_one_places [OF w i opt d(1) lim due, unfolded mem_view_simps(2), OF d(4)])
  from kwpD [OF add_job_of_one [OF this]]
  show ?thesis by (metis prod.collapse run_call.simps(1))
qed

lemma add_step:
  assumes inv: "run_inv (Suc n) w" and ok: "call_ok ext q (Add nm dat options) w"
  shows "run_inv n (run_call ext q (Add nm dat options) w)"
proof -
  let ?i = "idc w + 1" and ?w = "run_call ext q (Add nm dat options) w"
  have w: "mem_ok w" "\<not> Queues.is_paused w" "placement_inv (mem_view w)" "0 < mem_room w"
    and count: "unat (idc w) + Suc n < 2 ^ 56" and n: "Suc n \<le> mem_room w"
    using inv by (simp_all add: run_inv_def budget_def)
  have next_id: "unat ?i = Suc (unat (idc w))" using count by (simp add: unat_word_ariths)
  then have small: "small_id ?i" using count by (simp add: small_id_def)
  obtain dms due prio j where add: "placed (Queues.is_paused w) dms due prio j ?i w ?w" "idc ?w = ?i" "attempts_made j = 0"
    using add_ok_places [OF w(1,4) refl small, of ext q options nm dat] ok by auto
  let ?c = "target_of (Queues.is_paused w) dms prio"
  have jobs: "job (mem_view ?w) = (job (mem_view w))(?i := Some j)"
    and post: "mem_ok ?w" "mem_room w - 1 \<le> mem_room ?w" "Queues.is_paused ?w = Queues.is_paused w"
      "mset (items (mem_view ?w) ?c) = add_mset ?i (mset (items (mem_view w) ?c))"
      "changes {?c} ((mem_view w)\<lparr>job := (job (mem_view w))(?i := Some j)\<rparr>) (mem_view ?w)"
    using add(1) by (simp_all add: placed_def changes_def del: mem_view_simps)
  have fresh: "job (mem_view w) ?i = None"
  proof (rule ccontr)
    assume "job (mem_view w) ?i \<noteq> None"
    then have "?i \<le> idc w" using inv unfolding run_inv_def budget_def by blast
    with next_id show False by (simp add: word_le_nat_alt)
  qed
  have c: "?c \<in> set queue_cols" by (simp add: target_of_def queue_cols_def)
  have "ids (mem_view ?w) + mset (items (mem_view w) ?c) = ids (mem_view w) + mset (items (mem_view ?w) ?c)"
    using ids_change [OF post(5) c] by (simp del: mem_view_simps)
  then have ids: "ids (mem_view ?w) = add_mset ?i (ids (mem_view w))" unfolding post(4) by (simp del: mem_view_simps)
  have act: "items (mem_view ?w) CollectionSuffix.Active = items (mem_view w) CollectionSuffix.Active"
    using post(5) by (simp add: changes_def target_of_def del: mem_view_simps)
  have "placement_inv (mem_view ?w)"
    using w(3) fresh ids_member(1) [OF w(3), of CollectionSuffix.Active ?i]
    unfolding placement_inv_def ids act jobs queue_cols_def by (auto simp del: mem_view_simps)
  moreover have "budget n ?w"
  proof -
    have "i' \<le> ?i \<and> unat (attempts_made j') + n < 2 ^ 62" if j': "job (mem_view ?w) i' = Some j'" for i' j'
    proof (cases "i' = ?i")
      case True
      then have "j' = j" using j' unfolding jobs by simp
      with True add(3) count show ?thesis by simp
    next
      case False
      with j' have "job (mem_view w) i' = Some j'" unfolding jobs by (simp del: mem_view_simps)
      then have "i' \<le> idc w" "unat (attempts_made j') + Suc n < 2 ^ 62" using inv unfolding run_inv_def budget_def by blast+
      with next_id show ?thesis by (simp add: word_le_nat_alt)
    qed
    with n count next_id post(2) show ?thesis by (simp add: budget_def add(2) del: mem_view_simps run_call.simps)
  qed
  ultimately show ?thesis using post w by (simp add: run_inv_def del: run_call.simps)
qed

lemma call_step: "run_inv (Suc n) w \<Longrightarrow> call_ok ext q c w \<Longrightarrow> run_inv n (run_call ext q c w)"
  by (cases c) (auto intro: add_step take_step finish_step extend_step tick_step simp del: call_ok.simps run_call.simps)

lemma run_keeps_inv:
  "run_inv (length cs + n) w \<Longrightarrow> calls_ok ext q cs w \<Longrightarrow> run_inv n (run_calls_from ext q cs w)"
  unfolding run_calls_from_def
  by (induction cs arbitrary: w) (auto intro: call_step simp del: call_ok.simps run_call.simps)

lemma open_world_inv: "n < 2 ^ 56 \<Longrightarrow> run_inv n (open_world t)"
  by (simp add: run_inv_def open_world_ok placement_inv_def budget_def ids_def queue_cols_def)

section \<open>Property\<close>



end
