(* ===== verification/Worker_Properties.thy ===== *)
theory Worker_Properties
  imports Worker_Lifecycle Placement
begin

text \<open>
  The properties of the workers: how many jobs they run, how they are closed, and what processing a job
  does to the in-memory store, on success and on failure.
\<close>

section \<open>Running and closing\<close>

text \<open>An engine on the example store, whose workers have not been started, and two states of worker 7.\<close>

definition demo_engine :: "((nat, nat, nat, unit) InMemoryStore, nat, nat, nat, unit) Engine" where
  "demo_engine = \<lparr>world = demo_world, workers = [], jobs_in_progress = [], timers_running = True, cancel_token = False,
     worker_cells = (\<lambda>_. new_worker 0 (default_worker_opts 4)), collector = register_queue 9 collector_new\<rparr>"

definition running_engine :: "((nat, nat, nat, unit) InMemoryStore, nat, nat, nat, unit) Engine" where
  "running_engine = snd (run 7 (snd (worker_new 4 7 None demo_engine)))"

definition closing_engine :: "((nat, nat, nat, unit) InMemoryStore, nat, nat, nat, unit) Engine" where
  "closing_engine = snd (close_request 7 running_engine)"

lemma demo_engine_cells:
  "worker_cells demo_engine 7 = new_worker 0 (default_worker_opts 4)"
  "worker_cells running_engine 7 = started (new_worker 7000000 (default_worker_opts 4))"
  "worker_cells closing_engine 7 =
    (started (new_worker 7000000 (default_worker_opts 4)))\<lparr>processing_closed := True, cancelled := True\<rparr>"
proof -
  have a: "autorun (default_worker_opts n) = False" for n by (simp add: default_worker_opts_def)
  have n: "worker_cells (snd (worker_new 4 7 None demo_engine)) 7 = new_worker 7000000 (default_worker_opts 4)"
    by (simp add: worker_new_def Let_def kbind_apply kmod_def a demo_engine_def)
  show r: "worker_cells running_engine 7 = started (new_worker 7000000 (default_worker_opts 4))"
    by (simp add: running_engine_def run_cells n is_idle_def) (simp add: new_worker_def)
  show "worker_cells demo_engine 7 = new_worker 0 (default_worker_opts 4)"
    by (simp add: demo_engine_def)
  have "is_running (worker_cells running_engine 7)"
    by (simp add: r is_running_def started_def new_worker_def)
  then show "worker_cells closing_engine 7 =
      (started (new_worker 7000000 (default_worker_opts 4)))\<lparr>processing_closed := True, cancelled := True\<rparr>"
    by (simp add: closing_engine_def close_request_def r)
qed

lemma demo_engine_reachable:
  "reachable ext rt S q cb running_engine" "reachable ext rt S q cb closing_engine"
proof -
  let ?step = "worker_step ext rt S q cb"
  have "?step demo_engine (snd (worker_new 4 7 None demo_engine))"
    by (rule worker_step.create) (simp add: demo_engine_cells new_worker_def)
  moreover have "?step (snd (worker_new 4 7 None demo_engine)) running_engine"
    unfolding running_engine_def by (rule worker_step.run)
  ultimately have steps: "?step\<^sup>*\<^sup>* demo_engine running_engine" by (metis rtranclp.simps)
  show r: "reachable ext rt S q cb running_engine"
    unfolding reachable_def
  proof (intro exI conjI)
    show "\<forall>i. fresh_worker (worker_cells demo_engine i)"
      by (simp add: demo_engine_def fresh_worker_def new_worker_def)
  qed (rule steps)
  have "?step running_engine closing_engine" unfolding closing_engine_def by (rule worker_step.close)
  then show "reachable ext rt S q cb closing_engine" by (rule reachable_steps [OF r r_into_rtranclp])
qed

text \<open>
  C3. A loop of a worker never runs more jobs than the concurrency of the worker, however the loops, the
  tasks and everything else interleave: its tasks, its free permits and the permit it holds while it
  asks for a job fit its semaphore. A worker that was run once therefore keeps to its concurrency. One
  that was run again while it was parked has several loops, each with a semaphore of its own, and keeps
  to the concurrency times their number.
\<close>

theorem worker_never_overcommits:
  assumes "reachable ext rt S q cb e"
  shows "(\<forall>k < length (main_loops (worker_cells e i)).
      permits (main_loops (worker_cells e i) ! k) + running k (worker_cells e i) + held (pc (main_loops (worker_cells e i) ! k))
        \<le> concurrency (Worker.opts (worker_cells e i))) \<and>
    length (Worker.processing (worker_cells e i)) \<le> length (main_loops (worker_cells e i)) * concurrency (Worker.opts (worker_cells e i))"
  using worker_inv_reachable [OF assms, of i] room_inv_total [of "worker_cells e i"] by (simp add: worker_inv_def room_inv_def)

theorem worker_never_overcommits_witness:
  "length (Worker.processing (worker_cells running_engine 7)) \<le> 4 \<and>
    permits (main_loops (worker_cells running_engine 7) ! 0) + running 0 (worker_cells running_engine 7) \<le> 4"
proof -
  fix rt
  have "concurrency (Worker.opts (worker_cells running_engine 7)) = 4" "length (main_loops (worker_cells running_engine 7)) = 1"
    by (simp_all add: demo_engine_cells started_def new_worker_def default_worker_opts_def)
  then show ?thesis
    using worker_never_overcommits [OF demo_engine_reachable(1) [of simple_calendar rt "mem_store simple_calendar"
        plain_queue "Async (\<lambda>j w. (Returned 0, w))"], of 7] by auto
qed

text \<open>
  C19. Closing is final. Once a worker is closed it stays closed whatever happens, \<^verbatim>\<open>close\<close> does nothing
  more, and it takes no further job: only a loop that was already asking for a job when the worker was
  closed can still spawn its task. \<^verbatim>\<open>run\<close> fails with \<^verbatim>\<open>WorkerAlreadyClosed\<close>, unless a loop that did not see
  the cancellation has just stored the state \<^verbatim>\<open>Idle\<close>; the loop that \<^verbatim>\<open>run\<close> then adds takes no job either.
\<close>

theorem closed_worker_stays_closed:
  assumes "reachable ext rt S q cb e" and "closed (worker_cells e i)" and "(worker_step ext rt S q cb)\<^sup>*\<^sup>* e e'"
  shows "closed (worker_cells e' i) \<and> close_request i e' = (False, e') \<and>
    length (Worker.processing (worker_cells e' i)) \<le> length (Worker.processing (worker_cells e i)) + committed (worker_cells e i) \<and>
    (is_idle (worker_cells e' i) \<or> run i e' = (Inl (Err (KioError.WorkerError (WorkerAlreadyClosed i))), e'))"
proof -
  have "cancelled (worker_cells e i)"
    using assms(2) worker_inv_reachable [OF assms(1), of i] by (auto simp: closed_def worker_inv_def state_inv_def)
  then have "cancelled (worker_cells e' i)" "jobs_to_come (worker_cells e' i) \<le> jobs_to_come (worker_cells e i)"
    using cancelled_steps [OF assms(3,1)] by blast+
  then show ?thesis
    by (cases "Worker.state (worker_cells e' i)")
      (simp_all add: closed_def run_def kbind_kget close_request_def is_running_def is_idle_def jobs_to_come_def)
qed

theorem closed_worker_stays_closed_witness:
  "closed (worker_cells closing_engine 7) \<and>
    run 7 closing_engine = (Inl (Err (KioError.WorkerError (WorkerAlreadyClosed 7))), closing_engine)"
proof -
  fix rt
  have "closed (worker_cells closing_engine 7)" "\<not> is_idle (worker_cells closing_engine 7)"
    by (simp_all add: demo_engine_cells closed_def is_idle_def started_def)
  then show ?thesis
    using closed_worker_stays_closed [OF demo_engine_reachable(2) [of simple_calendar rt "mem_store simple_calendar"
        plain_queue "Async (\<lambda>j w. (Returned 0, w))"] _ rtranclp.rtrancl_refl] by blast
qed

text \<open>
  C6. Closing ends. After the cancellation every step of the program leaves the worker as it is or
  leaves it strictly less to do, and as long as a task runs or a loop has not ended, one of them can go
  on: so the loops end after at most \<open>work_left\<close> steps of the worker, with no task left, and the wait of
  \<^verbatim>\<open>close\<close> for the main task is over.
\<close>

theorem closing_terminates:
  assumes "reachable ext rt S q cb e" and "cancelled (worker_cells e i)"
  shows "(\<forall>e1 e2. (worker_step ext rt S q cb)\<^sup>*\<^sup>* e e1 \<and> worker_step ext rt S q cb e1 e2 \<longrightarrow>
      worker_cells e2 i = worker_cells e1 i \<or> work_left (worker_cells e2 i) < work_left (worker_cells e1 i)) \<and>
    (\<exists>e'. (worker_step ext rt S q cb)\<^sup>*\<^sup>* e e' \<and> shut_down (worker_cells e' i) \<and> main_task_finished (worker_cells e' i))"
proof (intro conjI allI impI)
  fix e1 e2 assume "(worker_step ext rt S q cb)\<^sup>*\<^sup>* e e1 \<and> worker_step ext rt S q cb e1 e2"
  then have s: "(worker_step ext rt S q cb)\<^sup>*\<^sup>* e e1" "worker_step ext rt S q cb e1 e2" by simp_all
  have "cancelled (worker_cells e1 i)" using cancelled_steps [OF s(1) assms] by simp
  then show "worker_cells e2 i = worker_cells e1 i \<or> work_left (worker_cells e2 i) < work_left (worker_cells e1 i)"
    using cancelled_step [OF s(2) worker_inv_reachable [OF reachable_steps [OF assms(1) s(1)]]] by blast
next
  show "\<exists>e'. (worker_step ext rt S q cb)\<^sup>*\<^sup>* e e' \<and> shut_down (worker_cells e' i) \<and> main_task_finished (worker_cells e' i)"
    using assms
  proof (induction "work_left (worker_cells e i)" arbitrary: e rule: less_induct)
    case less
    note inv = worker_inv_reachable [OF less.prems(1), of i]
    show ?case
    proof (cases "shut_down (worker_cells e i)")
      case True
      then show ?thesis
        by (intro exI [of _ e]) (auto simp: shut_down_def main_task_finished_def intro: last_in_set)
    next
      case False
      then obtain e1 where s: "worker_step ext rt S q cb e e1" "worker_cells e1 i \<noteq> worker_cells e i"
        using cancelled_progress [OF inv less.prems(2)] by blast
      then have "work_left (worker_cells e1 i) < work_left (worker_cells e i)" "cancelled (worker_cells e1 i)"
        using cancelled_step [OF s(1) inv less.prems(2)] by blast+
      moreover have "reachable ext rt S q cb e1" using reachable_steps [OF less.prems(1)] s(1) by blast
      ultimately obtain e' where "(worker_step ext rt S q cb)\<^sup>*\<^sup>* e1 e'" "shut_down (worker_cells e' i)"
        "main_task_finished (worker_cells e' i)" using less.hyps by blast
      then show ?thesis using s(1) by (meson converse_rtranclp_into_rtranclp)
    qed
  qed
qed

theorem closing_terminates_witness:
  "\<forall>rt. \<exists>e'. (worker_step simple_calendar rt (mem_store simple_calendar) plain_queue (Async (\<lambda>j w. (Returned 0, w))))\<^sup>*\<^sup>*
    closing_engine e' \<and> shut_down (worker_cells e' 7)"
proof
  fix rt
  have "cancelled (worker_cells closing_engine 7)" by (simp add: demo_engine_cells)
  then show "\<exists>e'. (worker_step simple_calendar rt (mem_store simple_calendar) plain_queue (Async (\<lambda>j w. (Returned 0, w))))\<^sup>*\<^sup>*
      closing_engine e' \<and> shut_down (worker_cells e' 7)"
    using closing_terminates [OF demo_engine_reachable(2), of 7] by blast
qed

end
