(* ===== verification/Job_Processing.thy ===== *)
theory Job_Processing
  imports Worker_Properties
begin

text \<open>
  What \<^verbatim>\<open>process_job\<close> does to the in-memory store and to the worker, when the callback returns, and when it
  fails and the job has attempts left.
\<close>

section \<open>The counter of running jobs\<close>

abbreviation jobs_running :: "('c, 'd, 'r, 'p) mem_world \<Rightarrow> u64" where
  "jobs_running w \<equiv> InMemoryStore.processing (mem w)"

lemma running_publish: "keeps jobs_running (In_Memory_Store.publish_event mode e)"
  unfolding keeps_def In_Memory_Store.publish_event_def process_each_event_def
  by (auto simp: kbind_apply In_Memory_Store.get_metrics_def kmod_def split_beta split: sum.split)

lemma running_reads:
  "keeps jobs_running (klift (In_Memory_Store.job_exists i))" "keeps jobs_running (klift (In_Memory_Store.get_job i))"
  "keeps jobs_running (klift (In_Memory_Store.get_state i))"
  by (rule keeps_klift; auto simp: job_exists_eq get_job_eq In_Memory_Store.get_state_def split: prod.split option.split)+

lemma running_writes:
  "keeps jobs_running (In_Memory_Store.exists_in c i)" "keeps jobs_running (In_Memory_Store.remove_item c i)"
  "keeps jobs_running (In_Memory_Store.add_item c i sc app)" "keeps jobs_running (In_Memory_Store.set_fields ext i fs)"
  "keeps jobs_running (In_Memory_Store.incr (CollectionSuffix.Job i) n f)"
  by (auto simp: keeps_def In_Memory_Store.exists_in_def In_Memory_Store.remove_item_def In_Memory_Store.add_item_def
      In_Memory_Store.set_fields_def In_Memory_Store.incr_def kmod_def Let_def split_beta
      split: CollectionSuffix.split option.split)

lemma running_move: "keeps jobs_running (move_job_to_state (mem_store ext) i from_st to_st result t trace)"
  unfolding move_job_to_state_def mem_store_simps split_beta
  by (intro keeps_structure running_reads running_writes running_publish)

lemma running_finish:
  "keeps jobs_running (move_job_to_finished_or_failed (mem_store ext) i t tok to_st processed trace)"
  unfolding move_job_to_finished_or_failed_def mem_store_simps split_beta
  by (intro keeps_structure running_reads running_move)

lemma count_running:
  assumes "mem_ok w"
  shows "mem_ok (on_store (\<lambda>s. s\<lparr>InMemoryStore.processing := n\<rparr>) w)"
    and "mem_view (on_store (\<lambda>s. s\<lparr>InMemoryStore.processing := n\<rparr>) w) = mem_view w"
proof -
  have "mem_items (s\<lparr>InMemoryStore.processing := n\<rparr>) = mem_items s" "mem_scores (s\<lparr>InMemoryStore.processing := n\<rparr>) = mem_scores s"
    for s :: "('a, 'b, 'c, 'd) InMemoryStore"
    by (rule ext, simp add: mem_items_def mem_scores_def split: CollectionSuffix.split)+
  then show "mem_view (on_store (\<lambda>s. s\<lparr>InMemoryStore.processing := n\<rparr>) w) = mem_view w"
    by (simp add: mem_view_def cong: if_cong)
  show "mem_ok (on_store (\<lambda>s. s\<lparr>InMemoryStore.processing := n\<rparr>) w)"
    using assms by (simp add: mem_ok_def store_ok_def listening_def)
qed

lemma mem_update_processing_count:
  assumes "mem_ok w"
  shows "kwp (update_processing_count (mem_store ext) increment worker i st) (\<lambda>n w'. mem_ok w' \<and> mem_view w' = mem_view w \<and>
    jobs_running w' = handle_counter (if increment then 1 else - 1) (jobs_running w) \<and> n = jobs_running w') w"
proof -
  let ?n = "handle_counter (if increment then 1 else - 1) (jobs_running w)"
  let ?w = "on_store (\<lambda>s. s\<lparr>InMemoryStore.processing := ?n\<rparr>) w"
  let ?e = "(default_event (wall w))\<lparr>QueueStreamEvent.job_id := i, event := JobState.Processing, prev := Some st,
    QueueStreamEvent.worker_id := Some worker\<rparr>"
  have ok: "mem_ok ?w" and v: "mem_view ?w = mem_view w"
    by (rule count_running [OF assms])+
  have "convertible ?e" by (simp add: convertible_def)
  then have "kwp (In_Memory_Store.publish_event (Queues.event_mode ?w) ?e)
      (\<lambda>_ w'. (mem_ok w' \<and> mem_view w' = mem_view ?w \<and> mem_room w' = mem_room ?w \<and> published ?e ?w w') \<and>
        jobs_running w' = jobs_running ?w) ?w"
    by (intro kwp_keeps mem_publish ok running_publish)
  then have "kwp (In_Memory_Store.publish_event (Queues.event_mode ?w) ?e)
      (\<lambda>_ w'. mem_ok w' \<and> mem_view w' = mem_view w \<and> jobs_running w' = ?n) ?w"
    by (rule kwp_mono) (simp add: v del: mem_view_simps)
  moreover have "kwp (In_Memory_Store.incr Meta (if increment then 1 else - 1) (Some ''processing'')) P w = P ?n ?w" for P
    by (simp add: In_Memory_Store.incr_def kwp_def Let_def)
  ultimately show ?thesis
    unfolding update_processing_count_def mem_store_simps
    by (simp add: In_Memory_Store.get_counter_def del: mem_view_simps)
qed

lemma mem_stop_count:
  assumes "mem_ok w"
  shows "kwp (update_processing_count (mem_store ext) False worker i st) (\<lambda>_ w'. mem_ok w' \<and> mem_view w' = mem_view w \<and>
    jobs_running w' = jobs_running w - 1) w"
  using mem_update_processing_count [OF assms, of ext False worker i st]
  by (rule kwp_mono) (simp add: handle_counter_def is_positive_def unsigned_abs_def del: mem_view_simps)

section \<open>Moving the job\<close>

text \<open>Where a finished job is, and that the counter of running jobs is not touched yet.\<close>

definition finished_as :: "u64 \<Rightarrow> i64 \<Rightarrow> JobState \<Rightarrow> ('c, 'd, 'r, 'p) Job \<Rightarrow> ('c, 'd, 'r, 'p) StoreView \<Rightarrow>
    ('c, 'd, 'r, 'p) StoreView \<Rightarrow> bool" where
  "finished_as i t st r v v' \<longleftrightarrow>
    items v' CollectionSuffix.Active = removeAll i (items v CollectionSuffix.Active) \<and>
    mset (items v' (suffix_of_state st)) = add_mset i (mset (items v (suffix_of_state st))) \<and>
    scores v' (suffix_of_state st) = insert t (scores v (suffix_of_state st)) \<and>
    changes {CollectionSuffix.Active, suffix_of_state st} (v\<lparr>StoreView.job := (StoreView.job v)(i := Some r)\<rparr>) v'"

lemma finish_counted:
  assumes "mem_ok w" and "\<not> Queues.is_paused w" and "small_id i" and "StoreView.job (mem_view w) i = Some j"
    and "Job.state j = JobState.Active" and "unat (attempts_made j) < 2 ^ 62"
    and "t \<notin> scores (mem_view w) (suffix_of_state (outcome processed))"
  shows "kwp (move_job_to_finished_or_failed (mem_store ext) i t tok (outcome processed) processed trace) (\<lambda>r w'.
      r = fold (set_field ext) (move_fields (outcome processed) (Some processed) (Some t) trace)
        (j\<lparr>attempts_made := attempts_made j + 1\<rparr>) \<and>
      mem_ok w' \<and> wall w' = wall w \<and> backoff_registry w' = backoff_registry w \<and> jobs_running w' = jobs_running w \<and>
      finished_as i t (outcome processed) r (mem_view w) (mem_view w')) w"
  using kwp_keeps [OF inmem.finish_active [OF assms(1-6) outcome_terminal assms(7) outcome_convertible] running_finish]
  by (rule kwp_mono) (simp add: finished_as_def published_def del: mem_view_simps)

text \<open>What a worker has when it processes job \<open>i\<close>: the callback ends in the world \<open>w\<close>, where the job is active.\<close>

definition in_hand :: "u64 \<Rightarrow> ('c, 'd, 'r, 'p) Job \<Rightarrow> ('c, 'd, 'r, 'p) Job \<Rightarrow> ('c, 'd, 'r, 'p) mem_world \<Rightarrow> JobState \<Rightarrow> bool" where
  "in_hand i j j1 w st \<longleftrightarrow> mem_ok w \<and> \<not> Queues.is_paused w \<and> small_id i \<and> Job.job_id j = Some i \<and>
    StoreView.job (mem_view w) i = Some j1 \<and> Job.state j1 = JobState.Active \<and> unat (attempts_made j1) < 2 ^ 62 \<and>
    timestamp_micros (wall w) \<notin> scores (mem_view w) (suffix_of_state st)"

lemma outcome_simps [simp]:
  "outcome (ProcessedResult.Failed details) = JobState.Failed" "outcome (ProcessedResult.Success r m) = JobState.Completed"
  by (simp_all add: outcome_def)

lemma success_fields:
  "attempts_made (fold (set_field ext) (move_fields JobState.Completed (Some (ProcessedResult.Success r m)) (Some t) None) j) = attempts_made j"
  "Job.state (fold (set_field ext) (move_fields JobState.Completed (Some (ProcessedResult.Success r m)) (Some t) None) j) = JobState.Completed"
  "Job.returned_value (fold (set_field ext) (move_fields JobState.Completed (Some (ProcessedResult.Success r m)) (Some t) None) j) = Some r"
  by (simp_all add: move_fields_def)

lemma failure_fields:
  "attempts_made (fold (set_field ext) (move_fields JobState.Failed (Some (ProcessedResult.Failed details)) (Some t) trace) j) = attempts_made j"
  "Job.state (fold (set_field ext) (move_fields JobState.Failed (Some (ProcessedResult.Failed details)) (Some t) trace) j) = JobState.Failed"
  "Job.failed_reason (fold (set_field ext) (move_fields JobState.Failed (Some (ProcessedResult.Failed details)) (Some t) trace) j) = Some details"
  by (simp_all add: move_fields_def split: option.split)

lemma finish_success:
  assumes "in_hand i j j1 w JobState.Completed"
  shows "kwp (move_job_to_finished_or_failed (mem_store ext) i (timestamp_micros (wall w)) tok JobState.Completed
      (ProcessedResult.Success r m) None) (\<lambda>c w'.
    Job.state c = JobState.Completed \<and> Job.returned_value c = Some r \<and> attempts_made c = attempts_made j1 + 1 \<and>
    mem_ok w' \<and> jobs_running w' = jobs_running w \<and>
    finished_as i (timestamp_micros (wall w)) JobState.Completed c (mem_view w) (mem_view w')) w"
  using finish_counted [of w i j1 "timestamp_micros (wall w)" "ProcessedResult.Success r m" ext tok None] assms
  unfolding in_hand_def by (auto elim!: kwp_mono simp: success_fields simp del: mem_view_simps)

lemma finish_failure:
  assumes "in_hand i j j1 w JobState.Failed"
  shows "kwp (move_job_to_finished_or_failed (mem_store ext) i (timestamp_micros (wall w)) tok JobState.Failed
      (ProcessedResult.Failed details) trace) (\<lambda>c w'.
    (Job.state c = JobState.Failed \<and> Job.failed_reason c = Some details \<and> attempts_made c = attempts_made j1 + 1) \<and>
    (mem_ok w' \<and> wall w' = wall w \<and> backoff_registry w' = backoff_registry w \<and> jobs_running w' = jobs_running w) \<and>
    finished_as i (timestamp_micros (wall w)) JobState.Failed c (mem_view w) (mem_view w')) w"
  using finish_counted [of w i j1 "timestamp_micros (wall w)" "ProcessedResult.Failed details" ext tok trace] assms
  unfolding in_hand_def by (auto elim!: kwp_mono simp: failure_fields simp del: mem_view_simps)

section \<open>A job that succeeds\<close>

lemma on_success_last:
  fixes e :: "(('c, 'd, 'r, 'p) InMemoryStore, 'c, 'd, 'r, 'p) Engine"
  assumes "in_hand i j j1 (world e) JobState.Completed"
    and "sm_get i (jobs_in_progress e) = Some meta"
    and "JobOptions.attempts (Job.opts (JobMeta.job meta)) \<le> attempts_made j1 + 1"
    and "JobOptions.remove_on_complete (Job.opts (JobMeta.job meta)) = None"
  shows "kwp (on_success ext (mem_store ext) j tok m0 r) (\<lambda>reported e'.
      reported = map_option (\<lambda>_. JobState.Completed) (handle meta) \<and> mem_ok (world e') \<and>
      jobs_running (world e') = jobs_running (world e) \<and>
      jobs_in_progress e' = sm_remove i (jobs_in_progress e) \<and> worker_cells e' = worker_cells e \<and>
      (\<exists>j2. Job.state j2 = JobState.Completed \<and> Job.returned_value j2 = Some r \<and> attempts_made j2 = attempts_made j1 + 1 \<and>
        finished_as i (timestamp_micros (wall (world e))) JobState.Completed j2 (mem_view (world e)) (mem_view (world e')))) e"
proof -
  let ?now = "wall (world e)"
  define m where "m = (case processed_on j of
      Some processed_at \<Rightarrow> m0\<lparr>JobMetrics.job_id := i, delayed_for := to_std (processed_at - Job.ts j),
        ran_for := to_std (?now - processed_at)\<rparr>
    | None \<Rightarrow> m0)"
  note fin = finish_success [OF assms(1), of ext tok r m]
  have i: "unwrap_or 0 (Job.job_id j) = i" using assms(1) by (simp add: in_hand_def)
  have exhausted: "\<not> attempts_made j1 + 1 < JobOptions.attempts (Job.opts (JobMeta.job meta))"
    using assms(3) by (simp add: not_less)
  show ?thesis
    unfolding on_success_def Let_def i kwp_bind kwp_get kwp_on_world m_def [symmetric]
    by (rule kwp_mono [OF fin])
      (auto simp: remove_in_progress_def assms(2,4) exhausted simp del: mem_view_simps)
qed

section \<open>A job that fails and is retried\<close>

text \<open>From \<open>Failed\<close> back to \<open>Delayed\<close>, due at \<open>due\<close>.\<close>

lemma mem_retry_failed:
  assumes "mem_ok w" and "calculate_next_delay_ms (backoff_registry w) backoff_opts tries = Some d"
    and "dt_plus ext (wall w) d = Inr due"
    and "timestamp_millis due \<notin> scores (mem_view w) CollectionSuffix.Delayed"
    and "i \<notin> scores (mem_view w) CollectionSuffix.Failed"
  shows "kwp (retry_failed ext (mem_store ext) i backoff_opts tries) (\<lambda>_ w'. mem_ok w' \<and>
    jobs_running w' = jobs_running w \<and>
    items (mem_view w') CollectionSuffix.Failed = removeAll i (items (mem_view w) CollectionSuffix.Failed) \<and>
    mset (items (mem_view w') CollectionSuffix.Delayed) = add_mset i (mset (items (mem_view w) CollectionSuffix.Delayed)) \<and>
    changes {CollectionSuffix.Delayed, CollectionSuffix.Failed} (mem_view w) (mem_view w')) w"
proof -
  let ?F = CollectionSuffix.Failed and ?D = CollectionSuffix.Delayed
  have D: "?D \<in> scored_cols" and F: "?F \<in> scored_cols" by (simp_all add: scored_cols_def)
  note add = kwp_keeps [OF mem_add_scored [OF assms(1) D assms(4), of i False] running_writes(3)]
  have "kwp (kbind (In_Memory_Store.add_item ?D i (Some (timestamp_millis due)) False)
      (\<lambda>_. In_Memory_Store.remove_item ?F i)) (\<lambda>_ w'. mem_ok w' \<and> jobs_running w' = jobs_running w \<and>
    items (mem_view w') ?F = removeAll i (items (mem_view w) ?F) \<and>
    mset (items (mem_view w') ?D) = add_mset i (mset (items (mem_view w) ?D)) \<and>
    changes {?D, ?F} (mem_view w) (mem_view w')) w"
  proof (rule kwp_seq [OF add])
    fix w1
    assume w1: "(mem_ok w1 \<and> cells w1 = cells w \<and> mem_room w1 = mem_room w \<and> changes {?D} (mem_view w) (mem_view w1) \<and>
      mset (items (mem_view w1) ?D) = add_mset i (mset (items (mem_view w) ?D)) \<and>
      scores (mem_view w1) ?D = insert (timestamp_millis due) (scores (mem_view w) ?D)) \<and> jobs_running w1 = jobs_running w"
    then have "scores (mem_view w1) ?F = scores (mem_view w) ?F" "items (mem_view w1) ?F = items (mem_view w) ?F"
      unfolding changes_def by blast+
    with w1 assms(5) kwp_keeps [OF mem_remove [of w1 ?F i] running_writes(2)] F
    show "kwp (In_Memory_Store.remove_item ?F i) (\<lambda>_ w'. mem_ok w' \<and> jobs_running w' = jobs_running w \<and>
        items (mem_view w') ?F = removeAll i (items (mem_view w) ?F) \<and>
        mset (items (mem_view w') ?D) = add_mset i (mset (items (mem_view w) ?D)) \<and>
        changes {?D, ?F} (mem_view w) (mem_view w')) w1"
      by (auto elim!: kwp_mono simp: changes_def simp del: mem_view_simps)
  qed
  then show ?thesis
    unfolding retry_failed_def mem_store_simps by (simp add: assms(2,3) del: mem_view_simps)
qed

text \<open>Where the job is after a failure with attempts left: out of \<open>Active\<close>, in \<open>Delayed\<close>, and not in \<open>Failed\<close>.\<close>

definition retried :: "u64 \<Rightarrow> FailedDetails \<Rightarrow> ('c, 'd, 'r, 'p) Job \<Rightarrow> ('c, 'd, 'r, 'p) StoreView \<Rightarrow>
    ('c, 'd, 'r, 'p) StoreView \<Rightarrow> bool" where
  "retried i details j1 v v' \<longleftrightarrow>
    items v' CollectionSuffix.Active = removeAll i (items v CollectionSuffix.Active) \<and>
    mset (items v' CollectionSuffix.Delayed) = add_mset i (mset (items v CollectionSuffix.Delayed)) \<and>
    mset (items v' CollectionSuffix.Failed) = mset (removeAll i (items v CollectionSuffix.Failed)) \<and>
    (\<exists>j2. Job.state j2 = JobState.Failed \<and> Job.failed_reason j2 = Some details \<and>
      attempts_made j2 = attempts_made j1 + 1 \<and>
      changes {CollectionSuffix.Active, CollectionSuffix.Failed, CollectionSuffix.Delayed}
        (v\<lparr>StoreView.job := (StoreView.job v)(i := Some j2)\<rparr>) v')"

lemma retried_after_finish:
  assumes "finished_as i t JobState.Failed j2 v v1" and "Job.state j2 = JobState.Failed" "Job.failed_reason j2 = Some details"
      "attempts_made j2 = attempts_made j1 + 1"
    and "items v' CollectionSuffix.Failed = removeAll i (items v1 CollectionSuffix.Failed)"
    and "mset (items v' CollectionSuffix.Delayed) = add_mset i (mset (items v1 CollectionSuffix.Delayed))"
    and "changes {CollectionSuffix.Delayed, CollectionSuffix.Failed} v1 v'"
  shows "retried i details j1 v v'"
proof -
  have "mset (removeAll i (items v1 CollectionSuffix.Failed)) = mset (removeAll i (items v CollectionSuffix.Failed))"
    using assms(1) by (simp add: finished_as_def mset_filter removeAll_filter_not_eq)
  moreover have "changes {CollectionSuffix.Active, CollectionSuffix.Failed, CollectionSuffix.Delayed}
      (v\<lparr>StoreView.job := (StoreView.job v)(i := Some j2)\<rparr>) v'"
    using assms(1,7) by (auto simp: finished_as_def changes_def)
  ultimately show ?thesis using assms by (auto simp: retried_def finished_as_def changes_def)
qed

text \<open>The circumstances of the retry: attempts are left, and the strategy and the calendar give a free due time.\<close>

definition retry_due :: "'c externals \<Rightarrow> u64 \<Rightarrow> ('c, 'd, 'r, 'p) Job \<Rightarrow> ('c, 'd, 'r, 'p) JobMeta \<Rightarrow>
    ('c, 'd, 'r, 'p) mem_world \<Rightarrow> Dt \<Rightarrow> bool" where
  "retry_due ext i j1 meta w due \<longleftrightarrow>
    attempts_made j1 + 1 < JobOptions.attempts (Job.opts (JobMeta.job meta)) \<and>
    (\<exists>backoff_opts d. JobOptions.backoff (Job.opts (JobMeta.job meta)) = Some backoff_opts \<and>
      calculate_next_delay_ms (backoff_registry w) backoff_opts (attempts_made j1) = Some d \<and> dt_plus ext (wall w) d = Inr due) \<and>
    timestamp_millis due \<notin> scores (mem_view w) CollectionSuffix.Delayed \<and>
    i \<notin> scores (mem_view w) CollectionSuffix.Failed \<and> i \<noteq> timestamp_micros (wall w)"

lemma retry_after_finish:
  assumes "retry_due ext i j1 meta w due" and "JobOptions.backoff (Job.opts (JobMeta.job meta)) = Some backoff_opts"
    and c: "Job.state c = JobState.Failed \<and> Job.failed_reason c = Some details \<and> attempts_made c = attempts_made j1 + 1"
    and w': "mem_ok w' \<and> wall w' = wall w \<and> backoff_registry w' = backoff_registry w \<and> jobs_running w' = jobs_running w"
    and f: "finished_as i (timestamp_micros (wall w)) JobState.Failed c (mem_view w) (mem_view w')"
  shows "kwp (retry_failed ext (mem_store ext) i backoff_opts (attempts_made j1)) (\<lambda>_ w2. mem_ok w2 \<and>
    jobs_running w2 = jobs_running w \<and> retried i details j1 (mem_view w) (mem_view w2)) w'"
proof -
  let ?D = CollectionSuffix.Delayed and ?F = CollectionSuffix.Failed
  obtain d where d: "calculate_next_delay_ms (backoff_registry w') backoff_opts (attempts_made j1) = Some d"
    "dt_plus ext (wall w') d = Inr due"
    using assms(1,2) w' by (auto simp: retry_due_def)
  have "scores (mem_view w') ?F = insert (timestamp_micros (wall w)) (scores (mem_view w) ?F)"
    "scores (mem_view w') ?D = scores (mem_view w) ?D"
    using f by (simp_all add: finished_as_def changes_def del: mem_view_simps)
  then have "timestamp_millis due \<notin> scores (mem_view w') ?D" "i \<notin> scores (mem_view w') ?F"
    using assms(1) by (simp_all add: retry_due_def del: mem_view_simps)
  from mem_retry_failed [OF _ d this] w' show ?thesis
    by (auto elim!: kwp_mono simp del: mem_view_simps intro: retried_after_finish [OF f] c [THEN conjunct1]
        c [THEN conjunct2, THEN conjunct1] c [THEN conjunct2, THEN conjunct2])
qed

lemma on_failure_retry:
  fixes e :: "(('c, 'd, 'r, 'p) InMemoryStore, 'c, 'd, 'r, 'p) Engine"
  assumes hand: "in_hand i j j1 (world e) JobState.Failed"
    and meta: "sm_get i (jobs_in_progress e) = Some meta" and due: "retry_due ext i j1 meta (world e) due"
    and details: "details = \<lparr>FailedDetails.run = attempts_made j + 1, reason = fst (failed_reason_of err)\<rparr>"
  shows "kwp (on_failure ext (mem_store ext) j tok err) (\<lambda>reported e'.
      reported = map_option (\<lambda>_. JobState.Failed) (handle meta) \<and> mem_ok (world e') \<and>
      jobs_running (world e') = jobs_running (world e) \<and>
      jobs_in_progress e' = sm_remove i (jobs_in_progress e) \<and> worker_cells e' = worker_cells e \<and>
      retried i details j1 (mem_view (world e)) (mem_view (world e'))) e"
proof -
  have i: "unwrap_or 0 (Job.job_id j) = i" using hand by (simp add: in_hand_def)
  obtain backoff_opts where b: "JobOptions.backoff (Job.opts (JobMeta.job meta)) = Some backoff_opts"
    using due by (auto simp: retry_due_def)
  have left: "attempts_made j1 + 1 < JobOptions.attempts (Job.opts (JobMeta.job meta))"
    using due by (simp add: retry_due_def)
  then have "attempts_made j1 + 1 \<noteq> JobOptions.attempts (Job.opts (JobMeta.job meta))" by auto
  then show ?thesis
    unfolding on_failure_def Let_def split_beta i kwp_bind kwp_get kwp_on_world details [symmetric]
    by (intro kwp_mono [OF finish_failure [OF hand]])
      (elim conjE, simp add: remove_in_progress_def meta left b del: mem_view_simps,
       rule kwp_mono [OF retry_after_finish [OF due b]], auto simp del: mem_view_simps)
qed

section \<open>Properties\<close>

text \<open>The last thing \<^verbatim>\<open>process_job\<close> does: it reports the job as no longer running, if its handle was stored.\<close>

definition reported_done :: "u64 option \<Rightarrow> u64 \<Rightarrow> u64" where
  "reported_done h n = (case h of None \<Rightarrow> n | Some _ \<Rightarrow> n - 1)"

lemma report_done:
  fixes e :: "(('c, 'd, 'r, 'p) InMemoryStore, 'c, 'd, 'r, 'p) Engine"
  assumes "mem_ok (world e)"
  shows "kwp (report_job (mem_store ext) worker i (map_option (\<lambda>_. st) h)) (\<lambda>_ e'.
      mem_view (world e') = mem_view (world e) \<and> jobs_running (world e') = reported_done h (jobs_running (world e)) \<and>
      jobs_in_progress e' = jobs_in_progress e \<and>
      active_job_count (worker_cells e' worker) = reported_done h (active_job_count (worker_cells e worker))) e"
proof (cases h)
  case (Some tid)
  then show ?thesis
    using kwp_mono [OF mem_stop_count [OF assms, of ext worker i st]]
    by (simp add: report_job_def update_worker_def reported_done_def del: mem_view_simps)
qed (simp add: report_job_def reported_done_def del: mem_view_simps)

lemma process_job_reports:
  fixes e :: "(('c, 'd, 'r, 'p) InMemoryStore, 'c, 'd, 'r, 'p) Engine"
  assumes "Jobs.get_metrics ext j = Inr m" and "run_callback rt cb j (world e) = (returned, w)"
    and "\<And>m0. kwp (case returned of
          Inr result \<Rightarrow> on_success ext (mem_store ext) j tok m0 result
        | Inl err \<Rightarrow> on_failure ext (mem_store ext) j tok err) (\<lambda>reported e1.
      reported = map_option (\<lambda>_. st) h \<and> mem_ok (world e1) \<and> jobs_running (world e1) = jobs_running w \<and>
      jobs_in_progress e1 = left \<and> worker_cells e1 = worker_cells e \<and> P (mem_view (world e1))) (e\<lparr>world := w\<rparr>)"
  shows "kwp (process_job ext rt (mem_store ext) cb worker j tok) (\<lambda>_ e'.
      P (mem_view (world e')) \<and> jobs_in_progress e' = left \<and> jobs_running (world e') = reported_done h (jobs_running w) \<and>
      active_job_count (worker_cells e' worker) = reported_done h (active_job_count (worker_cells e worker))) e"
  unfolding process_job_def Let_def kwp_bind kwp_result kwp_on_world kwp_lift
  using assms(1,2)
  by (auto intro!: kwp_mono [OF assms(3)] kwp_mono [OF report_done] simp del: mem_view_simps)

text \<open>A worker that holds job 1 of the example store, with given options and handle.\<close>

definition working_engine :: "runtime \<Rightarrow> u64 option \<Rightarrow> nat JobOptions \<Rightarrow>
    ((nat, nat, nat, unit) InMemoryStore, nat, nat, nat, unit) Engine" where
  "working_engine rt h options = demo_engine\<lparr>jobs_in_progress :=
     [(1, \<lparr>JobMeta.job = (demo_job 1 JobState.Active)\<lparr>Job.opts := options\<rparr>, token = demo_token, handle = h,
       monitor = monitor_new rt, histogram = histogram_new rt, JobMeta.opts = default_worker_opts 4\<rparr>)]\<rparr>"

lemma demo_in_hand:
  "in_hand 1 (demo_job 1 JobState.Active) (demo_job 1 JobState.Active) demo_world JobState.Completed"
  "in_hand 1 (demo_job 1 JobState.Active) (demo_job 1 JobState.Active) demo_world JobState.Failed"
  using demo_world_ok demo_world_fields(3)
  by (simp_all add: in_hand_def small_id_def del: mem_view_simps(3))

lemma demo_retry_fields [simp]:
  "mem_items (mem demo_world) CollectionSuffix.Delayed = []" "mem_scores (mem demo_world) CollectionSuffix.Delayed = {}"
  by (simp_all add: demo_world_def open_world_def create_stream_listener_def In_Memory_Store.new_def mem_items_def mem_scores_def)

lemma demo_backoff_registry: "calculate_next_delay_ms (backoff_registry demo_world) (Number 20) n = Some 20"
  by (simp add: demo_world_def open_world_def create_stream_listener_def calculate_next_delay_ms_def calculate_def
      lookup_strategy_def strategies_new fixed_def)

lemma demo_get_metrics: "\<exists>m. Jobs.get_metrics simple_calendar (demo_job 1 JobState.Active) = Inr m"
  by (simp add: Jobs.get_metrics_def demo_job_def Jobs.new_def default_job_options_def default_delay_def Let_def)

lemma working_engine_fields:
  "world (working_engine rt h options) = demo_world"
  "sm_get 1 (jobs_in_progress (working_engine rt h options)) =
    Some \<lparr>JobMeta.job = (demo_job 1 JobState.Active)\<lparr>Job.opts := options\<rparr>, token = demo_token, handle = h,
       monitor = monitor_new rt, histogram = histogram_new rt, JobMeta.opts = default_worker_opts 4\<rparr>"
  by (simp_all add: working_engine_def demo_engine_def sm_get_def)





end
