(* ===== verification/Timer_Properties.thy ===== *)
theory Timer_Properties
  imports Job_Processing Maintenance
begin

text \<open>
  The queue together with the coordinator of its timers: what registering the timers of a worker
  (\<^verbatim>\<open>src/src/timers/delay_queue_timer.rs\<close>) and promoting delayed jobs (\<^verbatim>\<open>src/src/utils/mod.rs\<close>) put into the
  delay queue, and what the timer task does with a promotion that comes out of it.
\<close>

section \<open>Requests of one queue\<close>

lemma send_frame [simp]:
  "world (send q timer e) = world e" "workers (send q timer e) = workers e"
  "jobs_in_progress (send q timer e) = jobs_in_progress e" "worker_cells (send q timer e) = worker_cells e"
  by (simp_all add: send_def)

lemma send_taken [simp]: "timer_exists timer (queue_id q) (collector e) \<Longrightarrow> send q timer e = e"
  by (simp add: send_def)

lemma timer_exists_duration:
  "next_duration timer = next_duration timer' \<Longrightarrow> timer_exists timer q c = timer_exists timer' q c"
  by (simp add: timer_exists_def)

lemma on_request_exists:
  "next_duration timer = next_duration timer' \<Longrightarrow> timer_exists timer' q (on_request now q timer c)"
  by (simp add: timer_exists_def on_request_def Let_def sm_get_insert sm_contains_key_iff set_sm_insert)

lemma send_exists:
  "next_duration timer = next_duration timer' \<Longrightarrow> timer_exists timer' (queue_id q) (collector (send q timer e))"
  by (simp add: send_def on_request_exists) (simp add: timer_exists_duration [of timer timer'])

lemma send_queue:
  "delayed_queue (collector (send q timer e)) = delayed_queue (collector e) @
    (if timer_exists timer (queue_id q) (collector e) then []
     else [(mono (world e) + next_duration timer, next_duration timer, timer)])"
  by (simp add: send_def on_request_def Let_def)

text \<open>All promotions have one duration, so after the first request the others are dropped.\<close>

lemma kwp_send_promotions:
  "kwp (kfor (\<lambda>i. kmod (send q (PromotedDelayed i (queue_id q)))) due) Q e \<longleftrightarrow>
    Q () (case due of [] \<Rightarrow> e | i # _ \<Rightarrow> send q (PromotedDelayed i (queue_id q)) e)"
proof (induction due arbitrary: e)
  case (Cons i due)
  have "send q (PromotedDelayed k (queue_id q)) (send q (PromotedDelayed i (queue_id q)) e) =
      send q (PromotedDelayed i (queue_id q)) e" for k
    by (simp add: send_exists)
  then show ?case by (simp add: Cons del: kmod_apply split: list.split)
qed simp

lemma promotion_queue:
  "delayed_queue (collector (case due of [] \<Rightarrow> e | i # _ \<Rightarrow> send q (PromotedDelayed i (queue_id q)) e)) =
    delayed_queue (collector e) @ (if due = [] \<or> timer_exists (PromotedDelayed 0 0) (queue_id q) (collector e) then []
       else [(mono (world e) + 50000000, 50000000, PromotedDelayed (hd due) (queue_id q))])"
  "world (case due of [] \<Rightarrow> e | i # _ \<Rightarrow> send q (PromotedDelayed i (queue_id q)) e) = world e"
  by (simp_all add: send_queue timer_exists_def MIN_DELAY_MS_LIMIT_def from_millis_def split: list.split)

lemma delayed_only:
  "changes {CollectionSuffix.Delayed} (mem_view w) (mem_view (on_store (\<lambda>s. s\<lparr>delayed := d\<rparr>) w))"
  by (auto simp: changes_def mem_items_def mem_scores_def split: CollectionSuffix.split)

section \<open>Properties\<close>

text \<open>
  C37. A promotion schedules at most one job. \<^verbatim>\<open>promote_jobs\<close> takes every job that is due within the
  window out of the sorted set \<^verbatim>\<open>Delayed\<close>, but the delay queue gets one new entry at most, for the first of
  them, and none when the queue already waits for a promotion. The other jobs stay in the state
  \<^verbatim>\<open>Delayed\<close> with no collection and no timer that leads to them.
\<close>

theorem promotion_schedules_one:
  fixes e :: "(('c, 'd, 'r, 'p) InMemoryStore, 'c, 'd, 'r, 'p) Engine"
  assumes "has_delayed (current_metrics (world e))" and "dt_plus ext now ms = Inr until"
    and "start = timestamp_millis now" and "stop = timestamp_millis until" and "0 < start" and "start \<le> stop"
    and "due = map snd (filter (\<lambda>en. start \<le> fst en \<and> fst en < stop) (delayed (mem (world e))))"
    and "filter (\<lambda>en. fst en < start - 1) (delayed (mem (world e))) = []"
  shows "kwp (promote_delayed_jobs drawn ext (mem_store ext) q now ms) (\<lambda>_ e'.
    mset (items (mem_view (world e)) CollectionSuffix.Delayed) =
      mset due + mset (items (mem_view (world e')) CollectionSuffix.Delayed) \<and>
    changes {CollectionSuffix.Delayed} (mem_view (world e)) (mem_view (world e')) \<and>
    delayed_queue (collector e') = delayed_queue (collector e) @
      (if due = [] \<or> timer_exists (PromotedDelayed 0 0) (queue_id q) (collector e) then []
       else [(mono (world e) + 50000000, 50000000, PromotedDelayed (hd due) (queue_id q))])) e"
proof -
  let ?d = "delayed (mem (world e))"
  define w where "w = on_store (\<lambda>s. s\<lparr>delayed := filter (\<lambda>en. fst en = start - 1 \<or> stop \<le> fst en) ?d\<rparr>) (world e)"
  note window = window_split [OF assms(5,6) refl, of "world e", folded assms(7) w_def, unfolded assms(8)]
  have "changes {CollectionSuffix.Delayed} (mem_view (world e)) (mem_view w)" "mono w = mono (world e)"
    unfolding w_def by (rule delayed_only) simp
  moreover have "mset (items (mem_view (world e)) CollectionSuffix.Delayed) =
      mset due + mset (items (mem_view w) CollectionSuffix.Delayed)"
    using window(2) by (simp add: w_def mem_items_def)
  moreover have "kwp (Store.get_delayed_at (mem_store ext) start stop) (\<lambda>r w'. r = (due, []) \<and> w' = w) (world e)"
    using window(1) by (simp add: kwp_def)
  ultimately show ?thesis
    using assms(1,2)
    by (simp add: promote_delayed_jobs_def promote_jobs_def assms(3,4) del: mem_view_simps mem_store_simps kmod_apply split del: if_split)
      (erule kwp_mono, simp add: kwp_send_promotions promotion_queue del: mem_view_simps kmod_apply)
qed

text \<open>Two jobs due at 10 and 20 milliseconds, the clock at 7: both leave \<^verbatim>\<open>Delayed\<close>, one gets a timer.\<close>

definition delayed_engine :: "((nat, nat, nat, unit) InMemoryStore, nat, nat, nat, unit) Engine" where
  "delayed_engine = demo_engine\<lparr>world := demo_world\<lparr>current_metrics := default_metrics\<lparr>QueueMetrics.delayed := 2\<rparr>,
     World.store := (mem demo_world)\<lparr>delayed := [(10, 4), (20, 5)]\<rparr>\<rparr>\<rparr>"

lemma demo_world_mono: "World.mono demo_world = 0"
  by (simp add: demo_world_def open_world_def create_stream_listener_def)

theorem promotion_schedules_one_witness:
  "kwp (promote_delayed_jobs (\<lambda>i. (8, 9)) simple_calendar (mem_store simple_calendar) plain_queue 7000000 50) (\<lambda>_ e'.
    items (mem_view (world delayed_engine)) CollectionSuffix.Delayed = [4, 5] \<and>
    items (mem_view (world e')) CollectionSuffix.Delayed = [] \<and>
    delayed_queue (collector e') = [(50000000, 50000000, PromotedDelayed 4 0)]) delayed_engine"
proof (rule kwp_mono [OF promotion_schedules_one [where until = 57000000 and start = 7 and stop = 57 and due = "[4, 5]"]])
  show "has_delayed (current_metrics (world delayed_engine))"
    by (simp add: delayed_engine_def has_delayed_def)
qed (auto simp: register_queue_def sm_contains_key_def demo_world_mono delayed_engine_def demo_engine_def plain_queue_def dt_plus_def simple_calendar_def timestamp_millis_def
    mem_items_def collector_new_def timer_exists_def)

text \<open>
  A worker with the default options has no check for stalled jobs. The delay queue of the
  coordinator is shared by duration, the default lock duration and the default stalled interval are
  equal, and \<^verbatim>\<open>register_worker_timers\<close> asks for the extension of locks first: the request for
  \<^verbatim>\<open>StalledCheck\<close> is always dropped.
\<close>

theorem default_stalled_check_dropped:
  "(deadline, d, TimerType.StalledCheck d') \<in> set (delayed_queue (collector (register_worker_timers q (default_worker_opts n) e)))
    \<longleftrightarrow> (deadline, d, TimerType.StalledCheck d') \<in> set (delayed_queue (collector e))"
proof -
  let ?x = "from_millis 30000"
  have "timer_exists (TimerType.StalledCheck ?x) (queue_id q) (collector (send q (ExtendLock ?x) e))"
    by (rule send_exists) simp
  then show ?thesis
    by (simp add: register_worker_timers_def default_worker_opts_def send_queue)
qed



end
