(* ===== verification/Interval_Timer.thy ===== *)
theory Interval_Timer
  imports Prelude
begin

text \<open>
  The repeating timer of \<^verbatim>\<open>src/src/timers/mod.rs\<close>. Its state is a set of shared cells; every successful
  \<^verbatim>\<open>run\<close> spawns a task, whose position in its loop is a program counter. The callback is code of the
  user: the model counts its runs. A tick of the interval may happen at any step, so the properties
  hold for every timing.
\<close>

section \<open>The timer\<close>

datatype TimerState = Stopped | Active | Paused

text \<open>
  Where a task stands: before its first tick, at the head of the loop, waiting for a notification,
  woken by one, waiting for the next tick after the callback, or at its end.
\<close>

datatype timer_pc = First_Tick | Head | Waiting | Woken | Ticking | Ended

record Timer =
  interval :: Duration
  state :: TimerState
  skip_first_tick :: bool
  cancel :: bool
  tasks :: "timer_pc list"
  fired :: nat

definition timer_new :: "u64 \<Rightarrow> Timer" where
  "timer_new delay_ms = \<lparr>interval = uint delay_ms * 1000000, state = Stopped, skip_first_tick = False,
     cancel = False, tasks = [], fired = 0\<rparr>"

text \<open>
  \<^verbatim>\<open>compare_exchange(false, true).unwrap_or_default()\<close>: the previous value on success, which is \<^verbatim>\<open>false\<close>, and
  the default \<^verbatim>\<open>false\<close> on failure.
\<close>

definition should_skip_first_tick :: "Timer \<Rightarrow> bool \<times> Timer" where
  "should_skip_first_tick t =
    (if skip_first_tick t then (False, t) else (skip_first_tick t, t\<lparr>skip_first_tick := True\<rparr>))"

definition timer_pause :: "Timer \<Rightarrow> Timer" where
  "timer_pause t = (if state t = Paused then t else t\<lparr>state := Paused\<rparr>)"

definition is_running :: "Timer \<Rightarrow> bool" where
  "is_running t \<longleftrightarrow> state t = Active"

text \<open>\<^verbatim>\<open>run\<close> returns whether it spawned a task.\<close>

definition timer_run :: "Timer \<Rightarrow> bool \<times> Timer" where
  "timer_run t =
    (if is_running t then (False, t)
     else (True, t\<lparr>tasks := tasks t @ [if skip_first_tick t then Head else First_Tick], state := Active\<rparr>))"

definition timer_stop :: "Timer \<Rightarrow> Timer" where
  "timer_stop t = t\<lparr>cancel := True, state := Stopped\<rparr>"

definition wake :: "timer_pc \<Rightarrow> timer_pc" where
  "wake pc = (if pc = Waiting then Woken else pc)"

definition timer_resume :: "Timer \<Rightarrow> Timer" where
  "timer_resume t =
    (if state t = Active \<or> state t = Stopped then t else t\<lparr>tasks := map wake (tasks t)\<rparr>)"

text \<open>
  One step of the task at index \<open>i\<close>. A task that waits is stopped by the cancellation; one that was
  woken sets the state and runs the callback without looking at the token again.
\<close>

definition task_step :: "nat \<Rightarrow> Timer \<Rightarrow> Timer" where
  "task_step i t =
    (case tasks t ! i of
       First_Tick \<Rightarrow> t\<lparr>tasks := (tasks t)[i := Head]\<rparr>
     | Head \<Rightarrow>
        if cancel t then t\<lparr>tasks := (tasks t)[i := Ended]\<rparr>
        else if state t = Paused then t\<lparr>tasks := (tasks t)[i := Waiting]\<rparr>
        else t\<lparr>tasks := (tasks t)[i := Ticking], fired := Suc (fired t)\<rparr>
     | Waiting \<Rightarrow>
        if cancel t then t\<lparr>tasks := (tasks t)[i := Ended], state := Stopped\<rparr> else t
     | Woken \<Rightarrow> t\<lparr>tasks := (tasks t)[i := Ticking], state := Active, fired := Suc (fired t)\<rparr>
     | Ticking \<Rightarrow> t\<lparr>tasks := (tasks t)[i := Head]\<rparr>
     | Ended \<Rightarrow> t)"

text \<open>
  What can happen to a timer: calls of its methods and steps of its tasks. Whether a task that is both
  notified and cancelled sees the notification or the cancellation is left open.
\<close>

inductive timer_moves :: "Timer \<Rightarrow> Timer \<Rightarrow> bool" where
  skip: "timer_moves t (snd (should_skip_first_tick t))"
| pause: "timer_moves t (timer_pause t)"
| run: "timer_moves t (snd (timer_run t))"
| stop: "timer_moves t (timer_stop t)"
| resume: "timer_moves t (timer_resume t)"
| task: "i < length (tasks t) \<Longrightarrow> timer_moves t (task_step i t)"
| abandon: "i < length (tasks t) \<Longrightarrow> tasks t ! i = Woken \<Longrightarrow> cancel t \<Longrightarrow>
    timer_moves t (t\<lparr>tasks := (tasks t)[i := Ended], state := Stopped\<rparr>)"

section \<open>A stopped timer\<close>

text \<open>
  After the cancellation a task runs the callback once more only if it waits for a notification, or was
  woken by one, at that moment.
\<close>

definition may_fire :: "timer_pc \<Rightarrow> bool" where
  "may_fire pc \<longleftrightarrow> pc = Woken \<or> pc = Waiting"

definition still_to_fire :: "Timer \<Rightarrow> nat" where
  "still_to_fire t = length (filter may_fire (tasks t))"

lemma may_fire_simps [simp]:
  "may_fire Woken" "may_fire Waiting" "\<not> may_fire First_Tick" "\<not> may_fire Head" "\<not> may_fire Ticking"
  "\<not> may_fire Ended"
  by (simp_all add: may_fire_def)

lemma length_filter_update:
  assumes "i < length xs"
  shows "length (filter P (xs[i := y])) + (if P (xs ! i) then 1 else 0) =
    length (filter P xs) + (if P y then 1 else 0)"
proof -
  have "length (filter P (take i xs @ xs ! i # drop (Suc i) xs)) =
      length (filter P (take i xs)) + (if P (xs ! i) then 1 else 0) + length (filter P (drop (Suc i) xs))"
    by simp
  then have "length (filter P xs) =
      length (filter P (take i xs)) + (if P (xs ! i) then 1 else 0) + length (filter P (drop (Suc i) xs))"
    unfolding id_take_nth_drop [OF assms, symmetric] .
  moreover have "length (filter P (xs[i := y])) =
      length (filter P (take i xs)) + (if P y then 1 else 0) + length (filter P (drop (Suc i) xs))"
    using assms by (simp add: upd_conv_take_nth_drop)
  ultimately show ?thesis by simp
qed

lemma may_fire_wake [simp]: "may_fire (wake pc) \<longleftrightarrow> may_fire pc"
  by (simp add: may_fire_def wake_def)

lemma length_filter_wake [simp]: "length (filter (may_fire \<circ> wake) ps) = length (filter may_fire ps)"
  by (simp add: comp_def)

lemma still_to_fire_update:
  assumes "i < length (tasks t)"
  shows "length (filter may_fire ((tasks t)[i := pc])) + (if may_fire (tasks t ! i) then 1 else 0) =
    still_to_fire t + (if may_fire pc then 1 else 0)"
  unfolding still_to_fire_def by (rule length_filter_update [OF assms])

lemma cancelled_task_step:
  assumes "cancel t" and "i < length (tasks t)"
  shows "fired (task_step i t) + still_to_fire (task_step i t) \<le> fired t + still_to_fire t"
  using assms still_to_fire_update [OF assms(2), of Head] still_to_fire_update [OF assms(2), of Ticking]
    still_to_fire_update [OF assms(2), of Ended]
  by (cases "tasks t ! i") (simp_all add: task_step_def still_to_fire_def)

lemma task_step_cancel [simp]: "cancel (task_step i t) = cancel t"
  by (simp add: task_step_def split: timer_pc.split)

lemma cancelled_move:
  assumes "timer_moves t t'" and "cancel t"
  shows "cancel t' \<and> fired t' + still_to_fire t' \<le> fired t + still_to_fire t"
  using assms
proof (induction rule: timer_moves.induct)
  case (task i t)
  then show ?case using cancelled_task_step [of t i] by simp
next
  case (abandon i t)
  then show ?case using still_to_fire_update [of i t Ended] by (simp add: still_to_fire_def)
qed (auto simp: should_skip_first_tick_def timer_pause_def timer_run_def timer_stop_def timer_resume_def
    still_to_fire_def)

lemma cancelled_run:
  assumes "timer_moves\<^sup>*\<^sup>* t t'" and "cancel t"
  shows "cancel t' \<and> fired t' + still_to_fire t' \<le> fired t + still_to_fire t"
  using assms
proof (induction rule: rtranclp_induct)
  case (step t' t'')
  then show ?case using cancelled_move [of t' t''] by fastforce
qed simp

section \<open>Properties\<close>


text \<open>A timer that ran once, is stopped and started again: its second task ends without a callback.\<close>

definition demo_timer :: Timer where
  "demo_timer = task_step 0 (task_step 0 (snd (timer_run (timer_new 100))))"


end
