(* ===== verification/Store_Types.thy ===== *)
theory Store_Types
  imports In_Memory_Laws
begin

text \<open>
  The representation invariant of the in-memory store, kept by every method of the \<^verbatim>\<open>Store\<close> trait, whatever
  its arguments and whether it succeeds or fails: every map has strictly increasing keys, so that a
  lookup, a range and a pop see one entry per key, and the four pointers that \<^verbatim>\<open>create_stream_listener\<close>
  stores are there together or not at all.
\<close>

definition all_or_none :: "bool \<Rightarrow> bool \<Rightarrow> bool \<Rightarrow> bool \<Rightarrow> bool" where
  "all_or_none a b c d \<longleftrightarrow> (a \<longleftrightarrow> b) \<and> (a \<longleftrightarrow> c) \<and> (a \<longleftrightarrow> d)"

definition well_typed :: "('c, 'd, 'r, 'p) InMemoryStore \<Rightarrow> bool" where
  "well_typed s \<longleftrightarrow>
     timed_ok (jobs s) \<and> timed_ok (locks s) \<and> timed_ok (worker_metrics s) \<and> timed_ok (process_metrics s) \<and>
     sm_ok (completed s) \<and> sm_ok (prioritized s) \<and> sm_ok (delayed s) \<and> sm_ok (failed s) \<and> sm_ok (stalled s) \<and>
     sm_ok (data (active s)) \<and> sm_ok (data (waiting s)) \<and> sm_ok (data (paused s)) \<and>
     all_or_none (has_events s) (has_notifier s) (has_pause_workers s) (has_stored_metrics s)"

section \<open>Programs that keep a property of the state\<close>

definition stable :: "('w \<Rightarrow> bool) \<Rightarrow> ('w, 'a) kio \<Rightarrow> bool" where
  "stable I m \<longleftrightarrow> (\<forall>w. I w \<longrightarrow> I (snd (m w)))"

lemma stable_basic: "stable I (kret a)" "stable I (kfail e)" "stable I (kget g)" "stable I (kresult r)"
  by (simp_all add: stable_def kget_def)

lemma stable_kmod: "(\<And>w. I w \<Longrightarrow> I (h w)) \<Longrightarrow> stable I (kmod h)"
  by (simp add: stable_def kmod_def)

lemma stable_klift: "(\<And>w. I w \<Longrightarrow> I (snd (l w))) \<Longrightarrow> stable I (klift l)"
  by (simp add: stable_def klift_def)

lemma stable_kbind: "stable I m \<Longrightarrow> (\<And>a. stable I (f a)) \<Longrightarrow> stable I (kbind m f)"
  by (auto simp: stable_def kbind_apply split: sum.split)

lemma stable_if: "(b \<Longrightarrow> stable I m) \<Longrightarrow> (\<not> b \<Longrightarrow> stable I n) \<Longrightarrow> stable I (if b then m else n)"
  by simp

lemma stable_option: "stable I m \<Longrightarrow> (\<And>a. stable I (f a)) \<Longrightarrow> stable I (case x of None \<Rightarrow> m | Some a \<Rightarrow> f a)"
  by (cases x) simp_all

lemmas stable_intros = stable_basic stable_kmod stable_klift stable_kbind stable_if stable_option

lemma stableD: "stable I m \<Longrightarrow> I w \<Longrightarrow> I (snd (m w))"
  by (simp add: stable_def)

abbreviation typed :: "('c, 'd, 'r, 'p) mem_world \<Rightarrow> bool" where
  "typed w \<equiv> well_typed (mem w)"

section \<open>The operations\<close>

lemma deque_sorted [simp]:
  "sm_ok (data d) \<Longrightarrow> sm_ok (data (push_front v d))" "sm_ok (data d) \<Longrightarrow> sm_ok (data (push_back v d))"
  "sm_ok (data d) \<Longrightarrow> sm_ok (data (snd (pop_front d)))" "sm_ok (data d) \<Longrightarrow> sm_ok (data (snd (pop_back d)))"
  "sm_ok (data (Concurrent_Deque.clear d))"
  by (auto simp: push_front_def push_back_def pop_front_def pop_back_def Concurrent_Deque.clear_def
    Let_def split: option.split)

lemma sorted_scored [simp]:
  "sm_ok m \<Longrightarrow> sm_ok (remove_scored i m)" "sm_ok m \<Longrightarrow> sm_ok (snd (pop_end b m))"
  "sm_ok (data d) \<Longrightarrow> sm_ok (data (remove_value i d))"
  by (simp_all add: remove_scored_def pop_end_def remove_value_def)

lemma drain_sorted:
  "sm_ok (data src) \<Longrightarrow> sm_ok (data dst) \<Longrightarrow>
    sm_ok (data (fst (drain src dst))) \<and> sm_ok (data (snd (drain src dst)))"
proof (induction src dst rule: drain.induct)
  case (1 src dst)
  obtain v src' where p: "pop_front src = (v, src')" by fastforce
  then have "sm_ok (data src')" using 1(2) deque_sorted(3) [of src] by simp
  with 1 p show ?case by (cases v) (simp_all add: drain.simps [of src])
qed

lemma typed_add_item: "stable typed (In_Memory_Store.add_item c i sc app)"
  unfolding In_Memory_Store.add_item_def
  by (rule stable_intros, cases c; cases sc) (simp_all add: well_typed_def del: tag.simps)

lemma typed_remove_item: "stable typed (In_Memory_Store.remove_item c i)"
  unfolding In_Memory_Store.remove_item_def
  by (rule stable_intros, cases c) (simp_all add: well_typed_def del: tag.simps)

lemma typed_remove: "stable typed (In_Memory_Store.remove c)"
  unfolding In_Memory_Store.remove_def
  by (rule stable_intros, cases c) (simp_all add: well_typed_def del: tag.simps)

lemma typed_exists_in: "stable typed (In_Memory_Store.exists_in c i)"
  by (cases c) (simp_all add: stable_def In_Memory_Store.exists_in_def well_typed_def Let_def split_beta del: tag.simps)

lemma typed_pop_set: "stable typed (In_Memory_Store.pop_set c b)"
  by (cases c) (simp_all add: stable_def In_Memory_Store.pop_set_def well_typed_def Let_def split_beta del: tag.simps)

lemma typed_get_delayed_at: "stable typed (In_Memory_Store.get_delayed_at start stop)"
  by (simp add: stable_def In_Memory_Store.get_delayed_at_def well_typed_def Let_def)

lemma typed_pop_back_push_front: "typed w \<Longrightarrow> typed (snd (In_Memory_Store.pop_back_push_front a b w))"
proof -
  obtain v d where p: "pop_back (waiting (mem w)) = (v, d)" by fastforce
  assume "typed w"
  moreover from this have "sm_ok (data d)" using deque_sorted(4) [of "waiting (mem w)"] p by (simp add: well_typed_def)
  ultimately show ?thesis
    by (cases v) (simp_all add: In_Memory_Store.pop_back_push_front_def well_typed_def p)
qed

lemma typed_pause: "stable typed (In_Memory_Store.pause b mode)"
  unfolding In_Memory_Store.pause_def
  by (rule stable_intros, cases b) (simp_all add: well_typed_def drain_sorted Let_def split_beta del: tag.simps)

lemma typed_clear: "stable typed In_Memory_Store.clear_collections" "stable typed (In_Memory_Store.clear_jobs n)"
  by (simp_all add: stable_def In_Memory_Store.clear_collections_def In_Memory_Store.clear_jobs_def well_typed_def)

text \<open>Looking up an entry changes at most which entries have expired.\<close>

lemma well_typed_timed [simp]:
  "well_typed s \<Longrightarrow> timed_ok m \<Longrightarrow> well_typed (s\<lparr>jobs := m\<rparr>)"
  "well_typed s \<Longrightarrow> timed_ok l \<Longrightarrow> well_typed (s\<lparr>locks := l\<rparr>)"
  "well_typed s \<Longrightarrow> timed_ok wm \<Longrightarrow> well_typed (s\<lparr>worker_metrics := wm\<rparr>)"
  "well_typed s \<Longrightarrow> timed_ok pm \<Longrightarrow> well_typed (s\<lparr>process_metrics := pm\<rparr>)"
  by (simp_all add: well_typed_def)

lemma well_typed_counters [simp]:
  "well_typed s \<Longrightarrow> well_typed (s\<lparr>id_counter := n\<rparr>)" "well_typed s \<Longrightarrow> well_typed (s\<lparr>priority_counter := n\<rparr>)"
  "well_typed s \<Longrightarrow> well_typed (s\<lparr>InMemoryStore.processing := n\<rparr>)" "well_typed s \<Longrightarrow> well_typed (s\<lparr>is_inital := b\<rparr>)"
  by (simp_all add: well_typed_def)

lemma well_typed_listener:
  "well_typed s \<Longrightarrow>
    well_typed (s\<lparr>has_events := True, has_notifier := True, has_pause_workers := True, has_stored_metrics := True\<rparr>)"
  by (simp add: well_typed_def all_or_none_def)

lemma well_typedD [simp]:
  "well_typed s \<Longrightarrow> timed_ok (jobs s)" "well_typed s \<Longrightarrow> timed_ok (locks s)"
  "well_typed s \<Longrightarrow> timed_ok (worker_metrics s)" "well_typed s \<Longrightarrow> timed_ok (process_metrics s)"
  by (simp_all add: well_typed_def)

lemma typed_get_job: "typed w \<Longrightarrow> typed (snd (In_Memory_Store.get_job i w))"
  by (simp add: In_Memory_Store.get_job_def split_beta del: tag.simps)

lemma typed_readers:
  "typed w \<Longrightarrow> typed (snd (In_Memory_Store.get_state i w))" "typed w \<Longrightarrow> typed (snd (In_Memory_Store.get_token i w))"
  "typed w \<Longrightarrow> typed (snd (In_Memory_Store.get_counter c h w))" "typed w \<Longrightarrow> typed (snd (In_Memory_Store.job_exists i w))"
proof -
  show "typed w \<Longrightarrow> typed (snd (In_Memory_Store.get_state i w))"
    using typed_get_job [of w i] by (simp add: In_Memory_Store.get_state_def split_beta del: tag.simps)
  show "typed w \<Longrightarrow> typed (snd (In_Memory_Store.get_token i w))"
    by (simp add: In_Memory_Store.get_token_def split_beta del: tag.simps)
  show "typed w \<Longrightarrow> typed (snd (In_Memory_Store.get_counter c h w))"
    by (cases c; cases h) (simp_all add: In_Memory_Store.get_counter_def split_beta Let_def del: tag.simps)
  obtain r w' where e: "In_Memory_Store.exists_in (CollectionSuffix.Job i) i w = (r, w')" by fastforce
  then show "typed w \<Longrightarrow> typed (snd (In_Memory_Store.job_exists i w))"
    using stableD [OF typed_exists_in, of w "CollectionSuffix.Job i" i]
    by (cases r) (simp_all add: In_Memory_Store.job_exists_def)
qed

lemma typed_fetch_jobs: "stable typed (In_Memory_Store.fetch_jobs ids)"
proof (induction ids)
  case (Cons i ids)
  then show ?case unfolding In_Memory_Store.fetch_jobs.simps by (intro stable_intros typed_get_job)
qed (unfold In_Memory_Store.fetch_jobs.simps, rule stable_intros)

lemma timed_case [simp]:
  "timed_ok m \<Longrightarrow> (\<And>a. timed_ok (f a)) \<Longrightarrow> timed_ok (case x of None \<Rightarrow> m | Some a \<Rightarrow> f a)"
  by (cases x) simp_all

lemma typed_set_lock: "stable typed (In_Memory_Store.set_lock c t ms)"
  by (simp add: stable_def In_Memory_Store.set_lock_def del: tag.simps)

lemma typed_set_fields: "stable typed (In_Memory_Store.set_fields ext i fs)"
  by (simp add: stable_def In_Memory_Store.set_fields_def Let_def split_beta del: tag.simps)

lemma typed_update_job_progress: "stable typed (In_Memory_Store.update_job_progress j v)"
  by (cases "Job.job_id j")
    (simp_all add: stable_def In_Memory_Store.update_job_progress_def Let_def split_beta del: tag.simps)

lemma typed_metrics:
  "stable typed (In_Memory_Store.store_worker_metrics wm ttl)" "stable typed (In_Memory_Store.store_process_metrics pm ttl)"
  "stable typed In_Memory_Store.fetch_worker_metrics" "stable typed In_Memory_Store.fetch_process_metrics"
  by (simp_all add: stable_def In_Memory_Store.store_worker_metrics_def In_Memory_Store.store_process_metrics_def
    In_Memory_Store.fetch_worker_metrics_def In_Memory_Store.fetch_process_metrics_def Let_def split_beta)

lemma typed_expire: "stable typed (In_Memory_Store.expire c secs)"
  unfolding In_Memory_Store.expire_def Let_def
  by (rule stable_intros, cases c) (simp_all del: tag.simps)

lemma typed_incr: "stable typed (In_Memory_Store.incr c delta h)"
  by (cases c) (simp_all add: stable_def In_Memory_Store.incr_def Let_def split_beta split: option.split del: tag.simps)

lemma timed_purge_if: "timed_ok m \<Longrightarrow> timed_ok (if b then Timed_Map.purge_expired now m else m)"
  by simp

lemma typed_purge_listener:
  "typed w \<Longrightarrow> typed (In_Memory_Store.purge_expired w)" "typed w \<Longrightarrow> typed (In_Memory_Store.create_stream_listener mode w)"
  by (simp_all add: In_Memory_Store.purge_expired_def timed_purge_if In_Memory_Store.create_stream_listener_def
    well_typed_listener split del: if_split)

section \<open>Events and insertion\<close>

lemma typed_process_each_event:
  assumes "stable typed m"
  shows "stable typed (process_each_event m e)"
proof -
  have "typed (snd (case m w of (Inr updated, w') \<Rightarrow> (Inr (), w'\<lparr>current_metrics := update (current_metrics w') updated\<rparr>)
      | (Inl (Err _), w') \<Rightarrow> (Inr (), w') | (Inl (Panic msg), w') \<Rightarrow> (Inl (Panic msg), w')))" if "typed w" for w
    using stableD [OF assms that] by (auto split: prod.split sum.split Failure.split)
  then show ?thesis
    unfolding process_each_event_def by (intro stable_intros) (simp_all add: stable_def)
qed

lemma typed_publish_event: "stable typed (In_Memory_Store.publish_event mode e)"
proof -
  have "stable typed (kbind (process_each_event In_Memory_Store.get_metrics e) (\<lambda>_ w'.
       let (initial, w'') = pause_or_resume_workers (is_inital (mem w')) w'
       in (Inr (), on_store (\<lambda>s. s\<lparr>is_inital := initial\<rparr>) w'')))"
    by (rule stable_intros, rule typed_process_each_event)
      (simp_all add: stable_def In_Memory_Store.get_metrics_def split_beta)
  then show ?thesis unfolding stable_def In_Memory_Store.publish_event_def by simp blast
qed

lemma typed_insert_job: "stable typed (In_Memory_Store.insert_job ext j options pc i nm flag)"
  unfolding In_Memory_Store.insert_job_def Let_def split_beta
  by (intro stable_intros typed_add_item typed_publish_event)
    (simp_all add: stable_def stableD [OF typed_publish_event] del: tag.simps)

lemma typed_add_one: "stable typed (In_Memory_Store.add_one ext q flag x)"
  unfolding In_Memory_Store.add_one_def Let_def split_beta
  by (intro stable_intros typed_incr typed_insert_job)

lemma typed_add_bulk: "stable typed (In_Memory_Store.add_bulk ext xs q mode flag)"
proof (induction xs)
  case (Cons x xs)
  then show ?case unfolding In_Memory_Store.add_bulk.simps by (intro stable_intros typed_add_one)
qed (unfold In_Memory_Store.add_bulk.simps, rule stable_intros)

lemma typed_add_bulk_only: "stable typed (In_Memory_Store.add_bulk_only ext xs q mode flag)"
proof (induction xs)
  case (Cons x xs)
  then show ?case unfolding In_Memory_Store.add_bulk_only.simps by (intro stable_intros typed_add_one)
qed (unfold In_Memory_Store.add_bulk_only.simps, rule stable_intros)

section \<open>Calls of the store\<close>

text \<open>
  One call of a method of the trait on the in-memory store, with any arguments and any result, or a change
  outside the store: the clocks, the metrics of the queue, its log.
\<close>

inductive store_call :: "'c externals \<Rightarrow> ('c, 'd, 'r, 'p) mem_world \<Rightarrow> ('c, 'd, 'r, 'p) mem_world \<Rightarrow> bool" for ext where
  "store_call ext w (snd (Store.add_item (mem_store ext) c i sc app w))"
| "store_call ext w (snd (Store.remove_item (mem_store ext) c i w))"
| "store_call ext w (snd (Store.remove (mem_store ext) c w))"
| "store_call ext w (snd (Store.exists_in (mem_store ext) c i w))"
| "store_call ext w (snd (Store.pop_set (mem_store ext) c b w))"
| "store_call ext w (snd (Store.get_delayed_at (mem_store ext) start stop w))"
| "store_call ext w (snd (Store.pause (mem_store ext) b mode w))"
| "store_call ext w (snd (Store.clear_collections (mem_store ext) w))"
| "store_call ext w (snd (Store.clear_jobs (mem_store ext) n w))"
| "store_call ext w (snd (Store.fetch_jobs (mem_store ext) ids w))"
| "store_call ext w (snd (Store.set_lock (mem_store ext) c tok ms w))"
| "store_call ext w (snd (Store.set_fields (mem_store ext) i fs w))"
| "store_call ext w (snd (Store.update_job_progress (mem_store ext) j v w))"
| "store_call ext w (snd (Store.expire (mem_store ext) c secs w))"
| "store_call ext w (snd (Store.incr (mem_store ext) c delta h w))"
| "store_call ext w (snd (Store.publish_event (mem_store ext) mode e w))"
| "store_call ext w (snd (Store.store_worker_metrics (mem_store ext) wm ttl w))"
| "store_call ext w (snd (Store.store_process_metrics (mem_store ext) pm ttl w))"
| "store_call ext w (snd (Store.fetch_worker_metrics (mem_store ext) w))"
| "store_call ext w (snd (Store.fetch_process_metrics (mem_store ext) w))"
| "store_call ext w (snd (Store.add_bulk (mem_store ext) xs q mode b w))"
| "store_call ext w (snd (Store.add_bulk_only (mem_store ext) xs q mode b w))"
| "store_call ext w (snd (Store.get_job_ids_in_state (mem_store ext) st start stop w))"
| "store_call ext w (snd (Store.get_metrics (mem_store ext) w))"
| "store_call ext w (snd (Store.metadata_field_exists (mem_store ext) field w))"
| "store_call ext w (snd (Store.set_event_mode (mem_store ext) mode w))"
| "store_call ext w (snd (Store.get_job (mem_store ext) i w))"
| "store_call ext w (snd (Store.get_token (mem_store ext) i w))"
| "store_call ext w (snd (Store.get_state (mem_store ext) i w))"
| "store_call ext w (snd (Store.get_counter (mem_store ext) c h w))"
| "store_call ext w (snd (Store.job_exists (mem_store ext) i w))"
| "store_call ext w (snd (Store.pop_back_push_front (mem_store ext) c c' w))"
| "store_call ext w (Store.purge_expired (mem_store ext) w)"
| "store_call ext w (Store.create_stream_listener (mem_store ext) mode w)"
| "World.store w' = World.store w \<Longrightarrow> store_call ext w w'"

lemmas typed_programs = typed_add_item typed_remove_item typed_remove typed_exists_in typed_pop_set typed_get_delayed_at
  typed_pause typed_clear typed_fetch_jobs typed_set_lock typed_set_fields typed_update_job_progress typed_expire
  typed_incr typed_publish_event typed_metrics typed_add_bulk typed_add_bulk_only

lemma store_call_typed:
  assumes "store_call ext w w'" and "typed w"
  shows "typed w'"
  using assms
  by (induction rule: store_call.induct)
    (simp_all add: typed_programs [THEN stableD] typed_get_job typed_readers typed_pop_back_push_front
      typed_purge_listener In_Memory_Store.get_job_ids_in_state_def In_Memory_Store.get_metrics_def
      In_Memory_Store.metadata_field_exists_def In_Memory_Store.set_event_mode_def)



end
