(* ===== verification/Rocks_Store.thy ===== *)
theory Rocks_Store
  imports Store_Trait Timed_Map
begin

text \<open>
  The RocksDB backend, \<^verbatim>\<open>src/src/stores/rocksdb_store.rs\<close>: the record \<open>RocksDbStore\<close> with the struct's fields
  and one definition per function, collected in the dictionary \<open>rocks_store\<close>.

  The database and the JSON library are parameters. \<open>rocks\<close> lists the calls of the database that the source
  makes, over a state \<open>'db\<close> and byte strings \<open>'b\<close>; \<open>codec\<close> has \<^verbatim>\<open>simd_json::to_vec\<close> and \<^verbatim>\<open>from_slice\<close> at the types
  the source uses, and the bytes of a byte string. The two column families exist from \<^verbatim>\<open>new\<close> on, as nothing
  drops them: the branches for a missing handle are left out. Every collection is one value of the family
  \<^verbatim>\<open>main_tree\<close>, read, changed and written back as a whole.
\<close>

section \<open>The database and the codec\<close>

datatype family = Main_tree | Jobs_tree

record ('db, 'b) rocks =
  get_cf :: "family \<Rightarrow> u8 list \<Rightarrow> 'db \<Rightarrow> KioError + 'b option"
  put_cf :: "family \<Rightarrow> u8 list \<Rightarrow> 'b \<Rightarrow> ('db, unit) kio"
  delete_cf :: "family \<Rightarrow> u8 list \<Rightarrow> ('db, unit) kio"
  key_may_exist_cf :: "family \<Rightarrow> u8 list \<Rightarrow> 'db \<Rightarrow> bool"
  write_opt :: "(family \<times> u8 list \<times> 'b) list \<Rightarrow> ('db, unit) kio"
  commit_transaction :: "(family \<times> u8 list \<times> 'b) list \<Rightarrow> ('db, unit) kio"
  compact_range_cf :: "family \<Rightarrow> 'db \<Rightarrow> 'db"
  create_cf :: "CompactString \<Rightarrow> ('db, unit) kio"

record Meta =
  processing :: u64
  paused :: bool

definition default_meta :: Meta where
  "default_meta = \<lparr>processing = 0, paused = False\<rparr>"

type_synonym ('a, 'b) encoder = "'a \<Rightarrow> string + 'b"
type_synonym ('a, 'b) decoder = "'b \<Rightarrow> string + 'a"

record ('b, 'c, 'd, 'r, 'p) codec =
  list_to_vec :: "(u64 list, 'b) encoder"
  list_from_slice :: "(u64 list, 'b) decoder"
  map_to_vec :: "((u64, u64) skipmap, 'b) encoder"
  map_from_slice :: "((u64, u64) skipmap, 'b) decoder"
  set_to_vec :: "((u64, unit) skipmap, 'b) encoder"
  set_from_slice :: "((u64, unit) skipmap, 'b) decoder"
  number_to_vec :: "(u64, 'b) encoder"
  meta_to_vec :: "(Meta, 'b) encoder"
  meta_from_slice :: "(Meta, 'b) decoder"
  job_to_vec :: "(('c, 'd, 'r, 'p) Job, 'b) encoder"
  job_from_slice :: "(('c, 'd, 'r, 'p) Job, 'b) decoder"
  token_from_slice :: "(JobToken, 'b) decoder"
  of_bytes :: "u8 list \<Rightarrow> 'b"
  bytes_of :: "'b \<Rightarrow> u8 list"

text \<open>The error of the JSON library, as \<open>?\<close> passes it on, and \<^verbatim>\<open>ok()\<close>.\<close>

definition json :: "string + 'a \<Rightarrow> ('w, 'a) kio" where
  "json r = kresult (case r of Inl msg \<Rightarrow> Inl (Err (JsonError msg)) | Inr a \<Rightarrow> Inr a)"

definition okay :: "'e + 'a \<Rightarrow> 'a option" where
  "okay r = (case r of Inl _ \<Rightarrow> None | Inr a \<Rightarrow> Some a)"

section \<open>State\<close>

record ('db, 'b) RocksDbStore =
  db :: 'db
  main_tree :: CompactString
  jobs :: CompactString
  locks :: "(u64, Lock) TimedMap"
  has_events :: bool
  has_pause_workers :: bool
  has_stored_metrics :: bool
  is_inital :: bool
  has_notifier :: bool
  job_batch :: "(family \<times> u8 list \<times> 'b) list"
  event_mode :: QueueEventMode
  prefix :: CompactString
  name :: CompactString

type_synonym ('db, 'b, 'r, 'p) rocks_world = "(('db, 'b) RocksDbStore, 'r, 'p) World"

abbreviation rdb :: "('db, 'b, 'r, 'p) rocks_world \<Rightarrow> ('db, 'b) RocksDbStore" where
  "rdb w \<equiv> World.store w"

definition on_rdb :: "(('db, 'b) RocksDbStore \<Rightarrow> ('db, 'b) RocksDbStore) \<Rightarrow>
    ('db, 'b, 'r, 'p) rocks_world \<Rightarrow> ('db, 'b, 'r, 'p) rocks_world" where
  "on_rdb f w = w\<lparr>World.store := f (rdb w)\<rparr>"

text \<open>A call of the database inside the world.\<close>

definition on_db :: "('db, 'a) kio \<Rightarrow> (('db, 'b, 'r, 'p) rocks_world, 'a) kio" where
  "on_db m w = (case m (db (rdb w)) of (r, d) \<Rightarrow> (r, on_rdb (\<lambda>s. s\<lparr>db := d\<rparr>) w))"

lemma on_rdb_fields [simp]:
  "rdb (on_rdb f w) = f (rdb w)" "wall (on_rdb f w) = wall w" "mono (on_rdb f w) = mono w"
  "current_metrics (on_rdb f w) = current_metrics w" "emitted (on_rdb f w) = emitted w"
  "pause_workers (on_rdb f w) = pause_workers w" "notified (on_rdb f w) = notified w"
  "paused_cell (on_rdb f w) = paused_cell w" "backoff_registry (on_rdb f w) = backoff_registry w"
  by (simp_all add: on_rdb_def)

section \<open>Numbers\<close>

definition to_be_bytes :: "u64 \<Rightarrow> u8 list" where
  "to_be_bytes n = map (\<lambda>i. ucast (drop_bit (8 * i) n)) [7, 6, 5, 4, 3, 2, 1, 0]"

definition from_be_bytes :: "u8 list \<Rightarrow> u64" where
  "from_be_bytes bs = foldl (\<lambda>acc b. push_bit 8 acc OR ucast b) 0 bs"

text \<open>A slice of another length than eight becomes the default array of zeros.\<close>

definition ivec_to_number :: "u8 list \<Rightarrow> i64" where
  "ivec_to_number src = (if length src = 8 then from_be_bytes src else 0)"

definition increment :: "u8 list option \<Rightarrow> i64 \<Rightarrow> u8 list option" where
  "increment old delta = Some (to_be_bytes (case old of Some bytes \<Rightarrow> ivec_to_number bytes + delta | None \<Rightarrow> 0))"

section \<open>Reading and writing values\<close>

definition family_of :: "CollectionSuffix \<Rightarrow> family" where
  "family_of col = (case col of CollectionSuffix.Job _ \<Rightarrow> Jobs_tree | _ \<Rightarrow> Main_tree)"

definition get_collection :: "('db, 'b) rocks \<Rightarrow> ('a, 'b) decoder \<Rightarrow> CollectionSuffix \<Rightarrow> 'db \<Rightarrow> 'a option" where
  "get_collection R dec key d =
    Option.bind (Option.bind (okay (get_cf R Main_tree (to_bytes key) d)) id) (\<lambda>bytes. okay (dec bytes))"

definition fetch :: "('db, 'b) rocks \<Rightarrow> ('a, 'b) decoder \<Rightarrow> CollectionSuffix \<Rightarrow>
    ('db, 'b, 'r, 'p) rocks_world \<Rightarrow> 'a option" where
  "fetch R dec key w =
    Option.bind (Option.bind (okay (get_cf R (family_of key) (to_bytes key) (db (rdb w)))) id) (\<lambda>bytes. okay (dec bytes))"

definition put :: "('db, 'b) rocks \<Rightarrow> CollectionSuffix \<Rightarrow> 'b \<Rightarrow> (('db, 'b, 'r, 'p) rocks_world, unit) kio" where
  "put R col value = on_db (put_cf R (family_of col) (to_bytes col) value)"

definition setup_type :: "('db, 'b) rocks \<Rightarrow> string + 'b \<Rightarrow> CollectionSuffix \<Rightarrow>
    (('db, 'b, 'r, 'p) rocks_world, unit) kio" where
  "setup_type R default_value key =
    kbind (json default_value) (\<lambda>value. on_db (put_cf R Main_tree (to_bytes key) value))"

definition initial_collections :: "('db, 'b) rocks \<Rightarrow> ('b, 'c, 'd, 'r, 'p) codec \<Rightarrow>
    (('db, 'b, 'r, 'p) rocks_world, unit) kio" where
  "initial_collections R C =
    kbind (kget (\<lambda>w. (main_tree (rdb w), jobs (rdb w)))) (\<lambda>(main, js).
    kbind (on_db (create_cf R main)) (\<lambda>_.
    kbind (on_db (create_cf R js)) (\<lambda>_.
    kbind (kfor (setup_type R (list_to_vec C [])) [CollectionSuffix.Wait, CollectionSuffix.Active]) (\<lambda>_.
    kbind (setup_type R (set_to_vec C []) CollectionSuffix.Stalled) (\<lambda>_.
    kbind (kfor (setup_type R (map_to_vec C [])) [CollectionSuffix.Completed, CollectionSuffix.Prioritized,
        CollectionSuffix.Failed, CollectionSuffix.Delayed]) (\<lambda>_.
    kfor (setup_type R (number_to_vec C 0)) [Id, PriorityCounter]))))))"

text \<open>\<^verbatim>\<open>RocksDbStore::new\<close> on an open database.\<close>

definition new_store :: "CompactString option \<Rightarrow> CompactString \<Rightarrow> 'db \<Rightarrow> ('db, 'b) RocksDbStore" where
  "new_store pre nm d =
    (let prefix' = to_lowercase (unwrap_or ''kio'' pre); queue_name = prefix' @ '':'' @ nm in
     \<lparr>db = d, main_tree = queue_name, jobs = queue_name @ '':jobs'', locks = Timed_Map.new,
      has_events = False, has_pause_workers = False, has_stored_metrics = False, is_inital = False,
      has_notifier = False, job_batch = [], event_mode = PubSub, prefix = prefix', name = to_lowercase nm\<rparr>)"

definition new :: "('db, 'b) rocks \<Rightarrow> ('b, 'c, 'd, 'r, 'p) codec \<Rightarrow> CompactString option \<Rightarrow> CompactString \<Rightarrow> 'db \<Rightarrow>
    (('db, 'b, 'r, 'p) rocks_world, unit) kio" where
  "new R C pre nm d =
    kbind (kmod (\<lambda>w. w\<lparr>World.store := new_store pre nm d\<rparr>)) (\<lambda>_. initial_collections R C)"

definition get_meta :: "('db, 'b) rocks \<Rightarrow> ('b, 'c, 'd, 'r, 'p) codec \<Rightarrow> ('db, 'b, 'r, 'p) rocks_world \<Rightarrow> Meta option" where
  "get_meta R C w = get_collection R (meta_from_slice C) CollectionSuffix.Meta (db (rdb w))"

definition is_list_col :: "CollectionSuffix \<Rightarrow> bool" where
  "is_list_col col \<longleftrightarrow> col = CollectionSuffix.Active \<or> col = CollectionSuffix.Wait \<or> col = CollectionSuffix.Paused"

definition is_scored_col :: "CollectionSuffix \<Rightarrow> bool" where
  "is_scored_col col \<longleftrightarrow> col = CollectionSuffix.Completed \<or> col = CollectionSuffix.Delayed \<or>
     col = CollectionSuffix.Failed \<or> col = CollectionSuffix.Prioritized"

definition item_exists_in_list :: "('db, 'b) rocks \<Rightarrow> ('b, 'c, 'd, 'r, 'p) codec \<Rightarrow> CollectionSuffix \<Rightarrow> u64 \<Rightarrow>
    ('db, 'b, 'r, 'p) rocks_world \<Rightarrow> bool option" where
  "item_exists_in_list R C col item w =
    (if is_list_col col
     then map_option (\<lambda>queue. item \<in> set queue) (get_collection R (list_from_slice C) col (db (rdb w)))
     else None)"

definition purge_expired :: "('db, 'b, 'r, 'p) rocks_world \<Rightarrow> ('db, 'b, 'r, 'p) rocks_world" where
  "purge_expired w =
    (if 0 < len_expired (locks (rdb w))
     then on_rdb (\<lambda>s. s\<lparr>locks := Timed_Map.purge_expired (mono w) (locks s)\<rparr>) w else w)"

section \<open>Collections\<close>

abbreviation list_or_default :: "('db, 'b) rocks \<Rightarrow> ('b, 'c, 'd, 'r, 'p) codec \<Rightarrow> CollectionSuffix \<Rightarrow>
    ('db, 'b, 'r, 'p) rocks_world \<Rightarrow> u64 list" where
  "list_or_default R C col w \<equiv> unwrap_or [] (fetch R (list_from_slice C) col w)"

abbreviation map_or_default :: "('db, 'b) rocks \<Rightarrow> ('b, 'c, 'd, 'r, 'p) codec \<Rightarrow> CollectionSuffix \<Rightarrow>
    ('db, 'b, 'r, 'p) rocks_world \<Rightarrow> (u64, u64) skipmap" where
  "map_or_default R C col w \<equiv> unwrap_or [] (fetch R (map_from_slice C) col w)"

abbreviation set_or_default :: "('db, 'b) rocks \<Rightarrow> ('b, 'c, 'd, 'r, 'p) codec \<Rightarrow> CollectionSuffix \<Rightarrow>
    ('db, 'b, 'r, 'p) rocks_world \<Rightarrow> (u64, unit) skipmap" where
  "set_or_default R C col w \<equiv> unwrap_or [] (fetch R (set_from_slice C) col w)"

text \<open>\<^verbatim>\<open>self.put(col, simd_json::to_vec(&value)?)\<close>.\<close>

definition put_json :: "('db, 'b) rocks \<Rightarrow> CollectionSuffix \<Rightarrow> string + 'b \<Rightarrow>
    (('db, 'b, 'r, 'p) rocks_world, unit) kio" where
  "put_json R col encoded = kbind (json encoded) (put R col)"

definition job_exists :: "('db, 'b) rocks \<Rightarrow> u64 \<Rightarrow> ('db, 'b, 'r, 'p) rocks_world \<Rightarrow>
    bool \<times> ('db, 'b, 'r, 'p) rocks_world" where
  "job_exists R i w = (key_may_exist_cf R Jobs_tree (to_bytes (CollectionSuffix.Job i)) (db (rdb w)), w)"

text \<open>A lock is looked up in the inner map, whether it has expired or not.\<close>

definition exists_in :: "('db, 'b) rocks \<Rightarrow> ('b, 'c, 'd, 'r, 'p) codec \<Rightarrow> CollectionSuffix \<Rightarrow> u64 \<Rightarrow>
    (('db, 'b, 'r, 'p) rocks_world, bool) kio" where
  "exists_in R C col item = kget (\<lambda>w.
    if is_list_col col then item \<in> set (list_or_default R C col w)
    else if is_scored_col col then list_ex (\<lambda>e. snd e = item) (map_or_default R C col w)
    else case col of
      CollectionSuffix.Stalled \<Rightarrow> sm_contains_key item (set_or_default R C col w)
    | CollectionSuffix.Job i \<Rightarrow> fst (job_exists R i w)
    | CollectionSuffix.Lock _ \<Rightarrow> sm_contains_key (tag col) (inner (locks (rdb w)))
    | CollectionSuffix.StalledCheck \<Rightarrow> sm_contains_key (tag col) (inner (locks (rdb w)))
    | _ \<Rightarrow> False)"

definition add_item :: "('db, 'b) rocks \<Rightarrow> ('b, 'c, 'd, 'r, 'p) codec \<Rightarrow> CollectionSuffix \<Rightarrow> u64 \<Rightarrow> i64 option \<Rightarrow> bool \<Rightarrow>
    (('db, 'b, 'r, 'p) rocks_world, unit) kio" where
  "add_item R C col item score app =
    (if is_list_col col then
       kbind (kget (list_or_default R C col)) (\<lambda>queue.
       put_json R col (list_to_vec C (if app then item # queue else queue @ [item])))
     else if is_scored_col col then
       kbind (kget (map_or_default R C col)) (\<lambda>m.
       put_json R col (map_to_vec C (case score of Some sc \<Rightarrow> sm_insert sc item m | None \<Rightarrow> m)))
     else if col = CollectionSuffix.Stalled then
       kbind (kget (set_or_default R C col)) (\<lambda>m.
       put_json R col (set_to_vec C (case score of Some _ \<Rightarrow> sm_insert item () m | None \<Rightarrow> m)))
     else kret ())"

definition remove :: "('db, 'b) rocks \<Rightarrow> CollectionSuffix \<Rightarrow> (('db, 'b, 'r, 'p) rocks_world, unit) kio" where
  "remove R key = on_db (delete_cf R Main_tree (to_bytes key))"

definition remove_item :: "('db, 'b) rocks \<Rightarrow> ('b, 'c, 'd, 'r, 'p) codec \<Rightarrow> CollectionSuffix \<Rightarrow> u64 \<Rightarrow>
    (('db, 'b, 'r, 'p) rocks_world, unit) kio" where
  "remove_item R C col item =
    (if is_list_col col then
       kbind (kget (fetch R (list_from_slice C) col)) (\<lambda>found. case found of
         Some queue \<Rightarrow> put_json R col (list_to_vec C (filter (\<lambda>v. v \<noteq> item) queue))
       | None \<Rightarrow> kret ())
     else if is_scored_col col then
       kbind (kget (fetch R (map_from_slice C) col)) (\<lambda>found. case found of
         Some m \<Rightarrow> put_json R col (map_to_vec C (sm_remove_if (\<lambda>e. snd e = item) m))
       | None \<Rightarrow> kret ())
     else if col = CollectionSuffix.Stalled then
       kbind (kget (fetch R (set_from_slice C) col)) (\<lambda>found. case found of
         Some m \<Rightarrow> put_json R col (set_to_vec C (sm_remove item m))
       | None \<Rightarrow> kret ())
     else remove R col)"

text \<open>
  Both lists are read before either is written. The failure of an encoding or of the first write ends the
  call with \<^verbatim>\<open>None\<close>; a failure of the second one leaves the job in neither list.
\<close>

definition pop_back_push_front :: "('db, 'b) rocks \<Rightarrow> ('b, 'c, 'd, 'r, 'p) codec \<Rightarrow> CollectionSuffix \<Rightarrow> CollectionSuffix \<Rightarrow>
    ('db, 'b, 'r, 'p) rocks_world \<Rightarrow> u64 option \<times> ('db, 'b, 'r, 'p) rocks_world" where
  "pop_back_push_front R C src dst w =
    (if src \<in> {CollectionSuffix.Wait, CollectionSuffix.Active} \<and> dst \<in> {CollectionSuffix.Wait, CollectionSuffix.Active} then
       (let s = list_or_default R C src w; d = list_or_default R C dst w in
        if s = [] then (None, w)
        else case (list_to_vec C (butlast s), list_to_vec C (last s # d)) of
          (Inr next_src, Inr next_dst) \<Rightarrow>
            (case kbind (on_db (put_cf R Main_tree (to_bytes src) next_src))
                (\<lambda>_. on_db (put_cf R Main_tree (to_bytes dst) next_dst)) w of
               (Inr _, w') \<Rightarrow> (Some (last s), w')
             | (Inl _, w') \<Rightarrow> (None, w'))
        | _ \<Rightarrow> (None, w))
     else (None, w))"

definition pop_set :: "('db, 'b) rocks \<Rightarrow> ('b, 'c, 'd, 'r, 'p) codec \<Rightarrow> CollectionSuffix \<Rightarrow> bool \<Rightarrow>
    (('db, 'b, 'r, 'p) rocks_world, (u64 \<times> u64) list) kio" where
  "pop_set R C col from_min =
    (if is_scored_col col then
       kbind (kget (fetch R (map_from_slice C) col)) (\<lambda>found.
       case found of
         None \<Rightarrow> kret []
       | Some m \<Rightarrow>
          (case if from_min then sm_pop_front m else sm_pop_back m of
             (None, _) \<Rightarrow> kret []
           | (Some (score, i), m') \<Rightarrow> kbind (put_json R col (map_to_vec C m')) (\<lambda>_. kret [(i, score)])))
     else kret [])"

text \<open>\<^verbatim>\<open>BTreeMap::range\<close> and \<^verbatim>\<open>BTreeSet::range\<close> panic when the start is after the end.\<close>

definition btree_range :: "'k::linorder \<Rightarrow> 'k \<Rightarrow> ('k \<times> 'v) list \<Rightarrow> ('w, ('k \<times> 'v) list) kio" where
  "btree_range lo hi found =
    (if hi < lo then kfail (Panic ''range start is greater than range end in BTreeMap'') else kret found)"

definition get_delayed_at :: "('db, 'b) rocks \<Rightarrow> ('b, 'c, 'd, 'r, 'p) codec \<Rightarrow> i64 \<Rightarrow> i64 \<Rightarrow>
    (('db, 'b, 'r, 'p) rocks_world, u64 list \<times> u64 list) kio" where
  "get_delayed_at R C start stop =
    kbind (kget (fetch R (map_from_slice C) CollectionSuffix.Delayed)) (\<lambda>found.
    case found of
      None \<Rightarrow> kret ([], [])
    | Some m \<Rightarrow>
        kbind (btree_range start stop (sm_range start stop m)) (\<lambda>due.
        let missed = sm_below (start - 1) m;
            rest = filter (\<lambda>e. fst e \<notin> fst ` set due \<and> fst e \<notin> fst ` set missed) m
        in kbind (put_json R CollectionSuffix.Delayed (map_to_vec C rest)) (\<lambda>_.
           kret (map snd due, map snd missed))))"

text \<open>
  One page of a sorted collection, and of a list. \<^verbatim>\<open>VecDeque::range\<close> panics when the end is out of bounds or
  before the start.
\<close>

definition sorted_page :: "nat \<Rightarrow> nat option \<Rightarrow> ('k::linorder, 'v) skipmap \<Rightarrow> ('w, ('k \<times> 'v) list) kio" where
  "sorted_page start stop m =
    (case (sm_nth start m, sm_nth (unwrap_or (length m - 1) stop) m) of
       (Some e, Some e') \<Rightarrow> btree_range (fst e) (fst e') (sm_range_incl (fst e) (fst e') m)
     | _ \<Rightarrow> kret [])"

definition list_page :: "nat \<Rightarrow> nat option \<Rightarrow> u64 list \<Rightarrow> ('w, u64 list) kio" where
  "list_page start stop queue =
    (if queue = [] then kret []
     else let stop' = unwrap_or (length queue - 1) stop in
       if start \<le> Suc stop' \<and> Suc stop' \<le> length queue then kret (take (Suc stop' - start) (drop start queue))
       else kfail (Panic ''range out of bounds''))"

definition get_job_ids_in_state :: "('db, 'b) rocks \<Rightarrow> ('b, 'c, 'd, 'r, 'p) codec \<Rightarrow> JobState \<Rightarrow> nat option \<Rightarrow> nat option \<Rightarrow>
    (('db, 'b, 'r, 'p) rocks_world, u64 list) kio" where
  "get_job_ids_in_state R C st start stop =
    (let start' = unwrap_or 0 start; col = suffix_of_state st in
     if st \<in> {JobState.Prioritized, JobState.Completed, JobState.Failed, JobState.Delayed} then
       kbind (kget (fetch R (map_from_slice C) col)) (\<lambda>found. case found of
         Some m \<Rightarrow> kbind (sorted_page start' stop m) (\<lambda>es. kret (map snd es))
       | None \<Rightarrow> kret [])
     else if st = JobState.Stalled then
       kbind (kget (fetch R (set_from_slice C) col)) (\<lambda>found. case found of
         Some m \<Rightarrow> kbind (sorted_page start' stop m) (\<lambda>es. kret (map fst es))
       | None \<Rightarrow> kret [])
     else if st \<in> {JobState.Active, JobState.Wait, JobState.Paused} then
       kbind (kget (fetch R (list_from_slice C) col)) (\<lambda>found. case found of
         Some queue \<Rightarrow> list_page start' stop queue
       | None \<Rightarrow> kret [])
     else kret [])"

text \<open>Compacting a family does not delete its keys.\<close>

definition clear_collections :: "('db, 'b) rocks \<Rightarrow> (('db, 'b, 'r, 'p) rocks_world, unit) kio" where
  "clear_collections R = kmod (on_rdb (\<lambda>s.
    s\<lparr>db := compact_range_cf R Main_tree (db s), locks := Timed_Map.clear (locks s)\<rparr>))"

definition clear_jobs :: "('db, 'b) rocks \<Rightarrow> u64 \<Rightarrow> (('db, 'b, 'r, 'p) rocks_world, unit) kio" where
  "clear_jobs R upto_id = kmod (on_rdb (\<lambda>s. s\<lparr>db := compact_range_cf R Jobs_tree (db s)\<rparr>))"

definition pause :: "('db, 'b) rocks \<Rightarrow> ('b, 'c, 'd, 'r, 'p) codec \<Rightarrow> bool \<Rightarrow> QueueEventMode \<Rightarrow>
    (('db, 'b, 'r, 'p) rocks_world, unit) kio" where
  "pause R C do_pause mode =
    (let src = (if do_pause then CollectionSuffix.Wait else CollectionSuffix.Paused);
         dst = (if do_pause then CollectionSuffix.Paused else CollectionSuffix.Wait) in
     kbind (kget (\<lambda>w. key_may_exist_cf R Main_tree (to_bytes CollectionSuffix.Paused) (db (rdb w)))) (\<lambda>exists.
     kbind (kwhen exists
       (kbind (\<lambda>w. kresult (map_sum Err id (get_cf R Main_tree (to_bytes src) (db (rdb w)))) w) (\<lambda>found.
        case found of
          Some removed \<Rightarrow>
            kbind (on_db (delete_cf R Main_tree (to_bytes src))) (\<lambda>_. put R dst removed)
        | None \<Rightarrow> kret ()))) (\<lambda>_.
     kbind (kget (get_meta R C)) (\<lambda>found.
     case found of
       Some meta \<Rightarrow>
         kbind (json (meta_to_vec C (meta\<lparr>paused := do_pause\<rparr>))) (\<lambda>bytes.
         on_db (put_cf R Main_tree (to_bytes CollectionSuffix.Meta) bytes))
     | None \<Rightarrow> kret ()))))"

section \<open>Jobs, locks and counters\<close>

definition get_job :: "('db, 'b) rocks \<Rightarrow> ('b, 'c, 'd, 'r, 'p) codec \<Rightarrow> u64 \<Rightarrow> ('db, 'b, 'r, 'p) rocks_world \<Rightarrow>
    ('c, 'd, 'r, 'p) Job option \<times> ('db, 'b, 'r, 'p) rocks_world" where
  "get_job R C i w = (fetch R (job_from_slice C) (CollectionSuffix.Job i) w, w)"

text \<open>The token is looked up in the database, while \<^verbatim>\<open>set_lock\<close> writes it into the map \<^verbatim>\<open>locks\<close>.\<close>

definition get_token :: "('db, 'b) rocks \<Rightarrow> ('b, 'c, 'd, 'r, 'p) codec \<Rightarrow> u64 \<Rightarrow> ('db, 'b, 'r, 'p) rocks_world \<Rightarrow>
    JobToken option \<times> ('db, 'b, 'r, 'p) rocks_world" where
  "get_token R C i w = (fetch R (token_from_slice C) (CollectionSuffix.Lock i) w, w)"

definition get_state :: "('db, 'b) rocks \<Rightarrow> ('b, 'c, 'd, 'r, 'p) codec \<Rightarrow> u64 \<Rightarrow> ('db, 'b, 'r, 'p) rocks_world \<Rightarrow>
    JobState option \<times> ('db, 'b, 'r, 'p) rocks_world" where
  "get_state R C i w = (map_option Job.state (fst (get_job R C i w)), w)"

definition set_lock :: "CollectionSuffix \<Rightarrow> JobToken option \<Rightarrow> u64 \<Rightarrow> (('db, 'b, 'r, 'p) rocks_world, unit) kio" where
  "set_lock col tok ms = kmod (\<lambda>w. on_rdb (\<lambda>s.
    s\<lparr>locks := insert_expirable (mono w) (tag col)
       (case tok of None \<Rightarrow> StallCheck | Some t \<Rightarrow> Lock.Token t) (from_millis ms) (locks s)\<rparr>) w)"

definition set_fields :: "'c externals \<Rightarrow> ('db, 'b) rocks \<Rightarrow> ('b, 'c, 'd, 'r, 'p) codec \<Rightarrow> u64 \<Rightarrow> 'r JobField list \<Rightarrow>
    (('db, 'b, 'r, 'p) rocks_world, unit) kio" where
  "set_fields ext R C i fs =
    kbind (kget (fetch R (job_from_slice C) (CollectionSuffix.Job i))) (\<lambda>found. case found of
      Some j \<Rightarrow> put_json R (CollectionSuffix.Job i) (job_to_vec C (fold (set_field ext) fs j))
    | None \<Rightarrow> kret ())"

definition update_job_progress :: "('db, 'b) rocks \<Rightarrow> ('b, 'c, 'd, 'r, 'p) codec \<Rightarrow> ('c, 'd, 'r, 'p) Job \<Rightarrow> 'p \<Rightarrow>
    (('db, 'b, 'r, 'p) rocks_world, ('c, 'd, 'r, 'p) Job) kio" where
  "update_job_progress R C j value =
    (let key = to_bytes (CollectionSuffix.Job (unwrap_or 0 (Job.job_id j))) in
     kbind (\<lambda>w. kresult (map_sum Err id (get_cf R Jobs_tree key (db (rdb w)))) w) (\<lambda>found.
     kbind (case found of
         Some bytes \<Rightarrow>
           kbind (json (job_from_slice C bytes)) (\<lambda>old.
           kbind (json (job_to_vec C (old\<lparr>progress := Some value\<rparr>))) (\<lambda>next_bytes.
           on_db (put_cf R Jobs_tree key next_bytes)))
       | None \<Rightarrow> kret ()) (\<lambda>_.
     kret (j\<lparr>progress := Some value\<rparr>))))"

text \<open>\<^verbatim>\<open>str::contains\<close>.\<close>

fun contains_str :: "string \<Rightarrow> string \<Rightarrow> bool" where
  "contains_str pat [] \<longleftrightarrow> pat = []"
| "contains_str pat (c # s) \<longleftrightarrow> take (length pat) (c # s) = pat \<or> contains_str pat s"

definition get_counter :: "('db, 'b) rocks \<Rightarrow> ('b, 'c, 'd, 'r, 'p) codec \<Rightarrow> CollectionSuffix \<Rightarrow> string option \<Rightarrow>
    ('db, 'b, 'r, 'p) rocks_world \<Rightarrow> u64 option \<times> ('db, 'b, 'r, 'p) rocks_world" where
  "get_counter R C col hash_key w =
    (case hash_key of
       Some field \<Rightarrow>
         (case col of
            CollectionSuffix.Job i \<Rightarrow>
              map_option (\<lambda>j. if contains_str ''attempts'' (to_lowercase field) then attempts_made j else stalled_counter j)
                (fst (get_job R C i w))
          | _ \<Rightarrow> map_option processing (get_meta R C w))
     | None \<Rightarrow>
         map_option (\<lambda>bytes. ivec_to_number (bytes_of C bytes))
           (Option.bind (okay (get_cf R Main_tree (to_bytes col) (db (rdb w)))) id),
     w)"

text \<open>The counters of a job: the source adds the new value of the counter of attempts to the old one.\<close>

definition update_job :: "string \<Rightarrow> i64 \<Rightarrow> ('c, 'd, 'r, 'p) Job \<Rightarrow> u64 \<times> ('c, 'd, 'r, 'p) Job" where
  "update_job field delta j =
    (if field = ''attempts_made'' \<or> field = ''attemptsMade'' then
       (let n = attempts_made j + (attempts_made j + delta) in (n, j\<lparr>attempts_made := n\<rparr>))
     else if field = ''stalled_counter'' \<or> field = ''stalledCounter'' then
       (let n = stalled_counter j + (attempts_made j + delta) in (n, j\<lparr>stalled_counter := n\<rparr>))
     else (0, j))"

definition saturating_sub :: "u64 \<Rightarrow> u64 \<Rightarrow> u64" where
  "saturating_sub a b = (if a < b then 0 else a - b)"

definition incr_counter :: "('db, 'b) rocks \<Rightarrow> ('b, 'c, 'd, 'r, 'p) codec \<Rightarrow> CollectionSuffix \<Rightarrow> i64 \<Rightarrow>
    (('db, 'b, 'r, 'p) rocks_world, u64) kio" where
  "incr_counter R C col delta =
    kbind (kget (\<lambda>w. unwrap_or 1 (fst (get_counter R C col None w)))) (\<lambda>current.
    let next_value = (if sint delta < 0 then current - unsigned_abs delta else current + unsigned_abs delta) in
    kbind (put R col (of_bytes C (to_be_bytes next_value))) (\<lambda>_.
    kret (if current = 0 then 1 else next_value)))"

definition incr :: "('db, 'b) rocks \<Rightarrow> ('b, 'c, 'd, 'r, 'p) codec \<Rightarrow> CollectionSuffix \<Rightarrow> i64 \<Rightarrow> string option \<Rightarrow>
    (('db, 'b, 'r, 'p) rocks_world, u64) kio" where
  "incr R C col delta hash_key =
    (case (hash_key, col) of
       (Some field, CollectionSuffix.Job i) \<Rightarrow>
         kbind (kget (fetch R (job_from_slice C) col)) (\<lambda>found. case found of
           Some j \<Rightarrow>
             (let (n, j') = update_job field delta j in
              kbind (put_json R col (job_to_vec C j')) (\<lambda>_. kret n))
         | None \<Rightarrow> incr_counter R C col delta)
     | (Some field, CollectionSuffix.Meta) \<Rightarrow>
         kbind (kget (\<lambda>w. unwrap_or default_meta (fetch R (meta_from_slice C) col w))) (\<lambda>meta.
         let n = (if sint delta < 0 then saturating_sub (processing meta) (unsigned_abs delta)
                  else processing meta + unsigned_abs delta) in
         kbind (put_json R col (meta_to_vec C (meta\<lparr>processing := n\<rparr>))) (\<lambda>_. kret n))
     | _ \<Rightarrow> incr_counter R C col delta)"

definition expire :: "CollectionSuffix \<Rightarrow> i64 \<Rightarrow> (('db, 'b, 'r, 'p) rocks_world, unit) kio" where
  "expire col secs = kret ()"

fun fetch_jobs :: "('db, 'b) rocks \<Rightarrow> ('b, 'c, 'd, 'r, 'p) codec \<Rightarrow> u64 list \<Rightarrow>
    (('db, 'b, 'r, 'p) rocks_world, ('c, 'd, 'r, 'p) Job list) kio" where
  "fetch_jobs R C [] = kret []"
| "fetch_jobs R C (i # ids) =
    kbind (kget (fetch R (job_from_slice C) (CollectionSuffix.Job i))) (\<lambda>found.
    kbind (fetch_jobs R C ids) (\<lambda>rest. kret (case found of None \<Rightarrow> rest | Some j \<Rightarrow> j # rest)))"

section \<open>Metrics and events\<close>

text \<open>The value of a collection, if it can be read and is there; a value that does not decode is an error.\<close>

definition counted :: "('db, 'b) rocks \<Rightarrow> ('a, 'b) decoder \<Rightarrow> CollectionSuffix \<Rightarrow>
    (('db, 'b, 'r, 'p) rocks_world, 'a option) kio" where
  "counted R dec col =
    kbind (kget (\<lambda>w. Option.bind (okay (get_cf R Main_tree (to_bytes col) (db (rdb w)))) id)) (\<lambda>found.
    case found of
      None \<Rightarrow> kret None
    | Some bytes \<Rightarrow> kbind (json (dec bytes)) (\<lambda>a. kret (Some a)))"

abbreviation size_or_zero :: "'a list option \<Rightarrow> u64" where
  "size_or_zero m \<equiv> (case m of None \<Rightarrow> 0 | Some xs \<Rightarrow> of_nat (length xs))"

definition get_metrics :: "('db, 'b) rocks \<Rightarrow> ('b, 'c, 'd, 'r, 'p) codec \<Rightarrow>
    (('db, 'b, 'r, 'p) rocks_world, QueueMetrics) kio" where
  "get_metrics R C =
    kbind (kget (\<lambda>w. unwrap_or 0 (fst (get_counter R C Id None w)))) (\<lambda>id_now.
    kbind (counted R (set_from_slice C) CollectionSuffix.Stalled) (\<lambda>stalled_col.
    kbind (counted R (list_from_slice C) CollectionSuffix.Active) (\<lambda>active_col.
    kbind (counted R (map_from_slice C) CollectionSuffix.Completed) (\<lambda>completed_col.
    kbind (counted R (map_from_slice C) CollectionSuffix.Delayed) (\<lambda>delayed_col.
    kbind (counted R (list_from_slice C) CollectionSuffix.Wait) (\<lambda>wait_col.
    kbind (counted R (meta_from_slice C) CollectionSuffix.Meta) (\<lambda>meta.
    kbind (counted R (map_from_slice C) CollectionSuffix.Prioritized) (\<lambda>prioritized_col.
    kbind (counted R (map_from_slice C) CollectionSuffix.Failed) (\<lambda>failed_col.
    kbind (counted R (list_from_slice C) CollectionSuffix.Paused) (\<lambda>paused_col.
    kret (metrics_new id_now (case meta of None \<Rightarrow> 0 | Some m \<Rightarrow> processing m)
      (size_or_zero active_col) (size_or_zero stalled_col) (size_or_zero completed_col) (size_or_zero delayed_col)
      (size_or_zero prioritized_col) (size_or_zero paused_col) (size_or_zero failed_col) (size_or_zero wait_col)
      (case meta of None \<Rightarrow> False | Some m \<Rightarrow> paused m) (QueueMetrics.event_mode default_metrics))))))))))))"

definition publish_event :: "('db, 'b) rocks \<Rightarrow> ('b, 'c, 'd, 'r, 'p) codec \<Rightarrow> QueueEventMode \<Rightarrow> ('r, 'p) QueueStreamEvent \<Rightarrow>
    (('db, 'b, 'r, 'p) rocks_world, unit) kio" where
  "publish_event R C mode e w =
    (if has_events (rdb w) \<and> has_notifier (rdb w) \<and> has_pause_workers (rdb w) \<and> has_stored_metrics (rdb w)
     then kbind (process_each_event (get_metrics R C) e) (\<lambda>_ w'.
       let (initial, w'') = pause_or_resume_workers (is_inital (rdb w')) w'
       in (Inr (), on_rdb (\<lambda>s. s\<lparr>is_inital := initial\<rparr>) w'')) w
     else (Inr (), w))"

definition metadata_field_exists :: "('db, 'b) rocks \<Rightarrow> string \<Rightarrow> (('db, 'b, 'r, 'p) rocks_world, bool) kio" where
  "metadata_field_exists R field =
    kget (\<lambda>w. key_may_exist_cf R Main_tree (to_bytes CollectionSuffix.Meta) (db (rdb w)))"

definition set_event_mode :: "QueueEventMode \<Rightarrow> (('db, 'b, 'r, 'p) rocks_world, unit) kio" where
  "set_event_mode mode = kret ()"

definition create_stream_listener :: "QueueEventMode \<Rightarrow> ('db, 'b, 'r, 'p) rocks_world \<Rightarrow> ('db, 'b, 'r, 'p) rocks_world" where
  "create_stream_listener mode = on_rdb (\<lambda>s.
    s\<lparr>has_events := True, has_notifier := True, has_pause_workers := True, has_stored_metrics := True\<rparr>)"

section \<open>Insertion\<close>

text \<open>
  The jobs of a bulk insertion are collected: their ids in a list and two maps, their records in the batch
  of the store. \<open>submit_changes\<close> merges the ids into the collections and writes the batch and then the
  collections.
\<close>

record pending_ids =
  list_ids :: "u64 list"
  priorized_ids :: "(u64, u64) skipmap"
  delayed_ids :: "(u64, u64) skipmap"

definition no_ids :: pending_ids where
  "no_ids = \<lparr>list_ids = [], priorized_ids = [], delayed_ids = []\<rparr>"

definition commit :: "('db, 'b) rocks \<Rightarrow> (('db, 'b, 'r, 'p) rocks_world, unit) kio" where
  "commit R =
    kbind (kget (\<lambda>w. job_batch (rdb w))) (\<lambda>batch.
    kbind (kmod (on_rdb (\<lambda>s. s\<lparr>job_batch := []\<rparr>))) (\<lambda>_.
    on_db (write_opt R batch)))"

text \<open>\<^verbatim>\<open>BTreeMap::extend\<close>.\<close>

definition extend_map :: "(u64, u64) skipmap \<Rightarrow> (u64, u64) skipmap \<Rightarrow> (u64, u64) skipmap" where
  "extend_map m new_entries = fold (\<lambda>(k, v). sm_insert k v) new_entries m"

definition submit_changes :: "('db, 'b) rocks \<Rightarrow> ('b, 'c, 'd, 'r, 'p) codec \<Rightarrow> bool \<Rightarrow> pending_ids \<Rightarrow>
    (('db, 'b, 'r, 'p) rocks_world, unit) kio" where
  "submit_changes R C paused_flag ids =
    (let next_list = (if paused_flag then CollectionSuffix.Paused else CollectionSuffix.Wait) in
     kbind (kget (\<lambda>w. (list_or_default R C next_list w, map_or_default R C CollectionSuffix.Delayed w,
         map_or_default R C CollectionSuffix.Prioritized w))) (\<lambda>(queue, current_delayed, current_priorized).
     kbind (json (list_to_vec C (list_ids ids @ queue))) (\<lambda>l.
     kbind (json (map_to_vec C (extend_map current_delayed (delayed_ids ids)))) (\<lambda>d.
     kbind (json (map_to_vec C (extend_map current_priorized (priorized_ids ids)))) (\<lambda>p.
     kbind (commit R) (\<lambda>_.
     on_db (commit_transaction R [(Main_tree, to_bytes next_list, l), (Main_tree, to_bytes CollectionSuffix.Delayed, d),
       (Main_tree, to_bytes CollectionSuffix.Prioritized, p)])))))))"

definition prepare_for_insert :: "'c externals \<Rightarrow> ('db, 'b) rocks \<Rightarrow> ('b, 'c, 'd, 'r, 'p) codec \<Rightarrow> u64 \<Rightarrow> u64 \<Rightarrow> bool \<Rightarrow>
    ('c, 'd, 'r, 'p) Job \<Rightarrow> 'c JobOptions \<Rightarrow> pending_ids \<Rightarrow> CompactString \<Rightarrow>
    (('db, 'b, 'r, 'p) rocks_world, ('c, 'd, 'r, 'p) Job \<times> pending_ids) kio" where
  "prepare_for_insert ext R C i pc paused_flag job options ids nm =
    kbind (kget wall) (\<lambda>dt.
    kbind (kresult (next_occurrance_timestamp_ms ext dt (JobOptions.delay options))) (\<lambda>expected_dt_ts.
    kbind (kresult (as_diff_ms ext dt (JobOptions.delay options))) (\<lambda>delay_ms.
    kbind (kresult (add_opts ext options job)) (\<lambda>job1.
    if 0 < delay_ms \<and> delay_ms < MIN_DELAY_MS_LIMIT
    then kfail (Err (KioError.QueueError (DelayBelowAllowedLimit MIN_DELAY_MS_LIMIT delay_ms)))
    else
      let to_delay = (0 < delay_ms);
          to_priorize = (0 < JobOptions.priority options \<and> \<not> to_delay);
          base = (if paused_flag then JobState.Paused else JobState.Wait);
          (job2, ev, ids2) =
            (if to_delay then
               (case expected_dt_ts of
                  None \<Rightarrow> (job1, base, ids)
                | Some t \<Rightarrow> (job1\<lparr>Job.state := JobState.Delayed\<rparr>, JobState.Delayed,
                    ids\<lparr>delayed_ids := sm_insert t i (delayed_ids ids)\<rparr>))
             else if to_priorize then
               (job1\<lparr>Job.state := JobState.Prioritized\<rparr>, JobState.Prioritized,
                ids\<lparr>priorized_ids := sm_insert (calculate_next_priority_score (JobOptions.priority options) pc) i
                  (priorized_ids ids)\<rparr>)
             else (job1, base, ids\<lparr>list_ids := i # list_ids ids\<rparr>));
          job3 = job2\<lparr>Job.job_id := Some i\<rparr>
      in
      kbind (json (job_to_vec C job3)) (\<lambda>bytes.
      kbind (kmod (on_rdb (\<lambda>s. s\<lparr>job_batch := job_batch s @ [(Jobs_tree, to_bytes (CollectionSuffix.Job i), bytes)]\<rparr>))) (\<lambda>_.
      kbind (kget (\<lambda>w. RocksDbStore.event_mode (rdb w))) (\<lambda>mode.
      kbind (publish_event R C mode
        ((default_event dt)\<lparr>QueueStreamEvent.job_id := i, event := ev, QueueStreamEvent.name := Some nm,
           QueueStreamEvent.delay := (if to_delay then Some delay_ms else None),
           QueueStreamEvent.priority := (if to_priorize then Some (JobOptions.priority options) else None)\<rparr>)) (\<lambda>_.
      kret (job3, ids2)))))))))"

definition add_one :: "'c externals \<Rightarrow> ('db, 'b) rocks \<Rightarrow> ('b, 'c, 'd, 'r, 'p) codec \<Rightarrow> 'c QueueOpts \<Rightarrow> bool \<Rightarrow>
    pending_ids \<Rightarrow> ('c, 'd) new_job \<Rightarrow> (('db, 'b, 'r, 'p) rocks_world, ('c, 'd, 'r, 'p) Job \<times> pending_ids) kio" where
  "add_one ext R C q paused_flag ids = (\<lambda>(nm, opt, dat).
    let options = update_job_opts q (unwrap_or default_job_options opt) in
    kbind (if 0 < JobOptions.priority options then incr R C PriorityCounter 1 None else kret 0) (\<lambda>pc.
    kbind (kget (\<lambda>w. (prefix (rdb w) @ '':'' @ RocksDbStore.name (rdb w), wall w))) (\<lambda>(qname, now).
    kbind (incr R C Id 1 None) (\<lambda>i.
    prepare_for_insert ext R C i pc paused_flag
      (Jobs.new now nm (Some dat) (JobOptions.job_id options) (Some qname)) options ids nm))))"

fun add_all :: "'c externals \<Rightarrow> ('db, 'b) rocks \<Rightarrow> ('b, 'c, 'd, 'r, 'p) codec \<Rightarrow> 'c QueueOpts \<Rightarrow> bool \<Rightarrow>
    pending_ids \<Rightarrow> ('c, 'd) new_job list \<Rightarrow>
    (('db, 'b, 'r, 'p) rocks_world, ('c, 'd, 'r, 'p) Job list \<times> pending_ids) kio" where
  "add_all ext R C q paused_flag ids [] = kret ([], ids)"
| "add_all ext R C q paused_flag ids (x # xs) =
    kbind (add_one ext R C q paused_flag ids x) (\<lambda>(job, ids1).
    kbind (add_all ext R C q paused_flag ids1 xs) (\<lambda>(rest, ids2). kret (job # rest, ids2)))"

definition add_bulk :: "'c externals \<Rightarrow> ('db, 'b) rocks \<Rightarrow> ('b, 'c, 'd, 'r, 'p) codec \<Rightarrow> ('c, 'd) new_job list \<Rightarrow>
    'c QueueOpts \<Rightarrow> QueueEventMode \<Rightarrow> bool \<Rightarrow> (('db, 'b, 'r, 'p) rocks_world, ('c, 'd, 'r, 'p) Job list) kio" where
  "add_bulk ext R C xs q mode paused_flag =
    kbind (add_all ext R C q paused_flag no_ids xs) (\<lambda>(added, ids).
    kbind (submit_changes R C paused_flag ids) (\<lambda>_.
    kbind (get_metrics R C) (\<lambda>updated.
    kbind (kmod (\<lambda>w. if has_stored_metrics (rdb w)
        then w\<lparr>current_metrics := update (current_metrics w) updated\<rparr> else w)) (\<lambda>_.
    kret added))))"

definition add_bulk_only :: "'c externals \<Rightarrow> ('db, 'b) rocks \<Rightarrow> ('b, 'c, 'd, 'r, 'p) codec \<Rightarrow> ('c, 'd) new_job list \<Rightarrow>
    'c QueueOpts \<Rightarrow> QueueEventMode \<Rightarrow> bool \<Rightarrow> (('db, 'b, 'r, 'p) rocks_world, unit) kio" where
  "add_bulk_only ext R C xs q mode paused_flag =
    kbind (add_all ext R C q paused_flag no_ids xs) (\<lambda>(_, ids).
    kbind (submit_changes R C paused_flag ids) (\<lambda>_.
    kbind (get_metrics R C) (\<lambda>updated.
    kmod (\<lambda>w. if has_stored_metrics (rdb w)
        then w\<lparr>current_metrics := update (current_metrics w) updated\<rparr> else w))))"

section \<open>The dictionary\<close>

text \<open>
  The trait has four methods that the source does not define, the storing and fetching of metrics: they
  stay those of the argument \<open>rest\<close>. The function \<open>purge_expired\<close> above is not part of the implementation of
  the trait, whose default for that method does nothing.
\<close>

definition rocks_store :: "(('db, 'b, 'r, 'p) rocks_world, 'c, 'd, 'r, 'p) Store \<Rightarrow> 'c externals \<Rightarrow> ('db, 'b) rocks \<Rightarrow>
    ('b, 'c, 'd, 'r, 'p) codec \<Rightarrow> (('db, 'b, 'r, 'p) rocks_world, 'c, 'd, 'r, 'p) Store" where
  "rocks_store rest ext R C = \<lparr>queue_name = (\<lambda>w. RocksDbStore.name (rdb w)), queue_prefix = (\<lambda>w. prefix (rdb w)),
     fetch_jobs = fetch_jobs R C, metadata_field_exists = metadata_field_exists R, exists_in = exists_in R C,
     set_event_mode = set_event_mode, get_job_ids_in_state = get_job_ids_in_state R C,
     create_stream_listener = create_stream_listener, add_bulk_only = add_bulk_only ext R C,
     add_bulk = add_bulk ext R C, get_delayed_at = get_delayed_at R C, pop_set = pop_set R C, expire = expire,
     get_metrics = get_metrics R C, get_job = get_job R C, get_token = get_token R C, get_state = get_state R C,
     add_item = add_item R C, pop_back_push_front = pop_back_push_front R C, set_lock = set_lock,
     set_fields = set_fields ext R C, incr = incr R C, get_counter = get_counter R C,
     publish_event = publish_event R C, job_exists = job_exists R, remove_item = remove_item R C, remove = remove R,
     clear_collections = clear_collections R, clear_jobs = clear_jobs R, pause = pause R C,
     purge_expired = (\<lambda>w. w), fetch_worker_metrics = Store.fetch_worker_metrics rest,
     fetch_process_metrics = Store.fetch_process_metrics rest, store_process_metrics = Store.store_process_metrics rest,
     store_worker_metrics = Store.store_worker_metrics rest, update_job_progress = update_job_progress R C\<rparr>"

end
