(* ===== verification/Rocks_Laws.thy ===== *)
theory Rocks_Laws
  imports Rocks_Store In_Memory_Laws
begin

text \<open>
  The laws of the RocksDB backend. \<open>rocks_laws\<close> states what the database documents of its calls when no I/O
  error occurs, \<open>codec_laws\<close> that the JSON library reads back what it wrote. Under them \<open>rocks_store\<close> satisfies
  \<open>collection_contract\<close>, and so treats the lists of jobs as the in-memory store does. The laws of jobs, locks
  and counters do not hold of it: the second half shows where it departs from the trait.
\<close>

section \<open>What is assumed of the database and of the codec\<close>

definition put_laws :: "('db, 'b) rocks \<Rightarrow> bool" where
  "put_laws R \<longleftrightarrow> (\<forall>f k v d. \<exists>d'. put_cf R f k v d = (Inr (), d') \<and>
     (\<forall>f' k'. get_cf R f' k' d' = (if (f', k') = (f, k) then Inr (Some v) else get_cf R f' k' d)))"

definition delete_laws :: "('db, 'b) rocks \<Rightarrow> bool" where
  "delete_laws R \<longleftrightarrow> (\<forall>f k d. \<exists>d'. delete_cf R f k d = (Inr (), d') \<and>
     (\<forall>f' k'. get_cf R f' k' d' = (if (f', k') = (f, k) then Inr None else get_cf R f' k' d)))"

definition lookup_laws :: "('db, 'b) rocks \<Rightarrow> bool" where
  "lookup_laws R \<longleftrightarrow> (\<forall>f d. \<forall>f' k. get_cf R f' k (compact_range_cf R f d) = get_cf R f' k d) \<and>
     (\<forall>f k d v. get_cf R f k d = Inr (Some v) \<longrightarrow> key_may_exist_cf R f k d)"

text \<open>A batch and a transaction write their entries in order, and a new column family can be created.\<close>

definition last_write :: "(family \<times> u8 list \<times> 'b) list \<Rightarrow> family \<times> u8 list \<Rightarrow> 'b option" where
  "last_write entries = map_of (map (\<lambda>(f, k, b). ((f, k), b)) (rev entries))"

definition batch_law :: "('db, 'b) rocks \<Rightarrow> ((family \<times> u8 list \<times> 'b) list \<Rightarrow> ('db, unit) kio) \<Rightarrow> bool" where
  "batch_law R write \<longleftrightarrow> (\<forall>entries d. \<exists>d'. write entries d = (Inr (), d') \<and>
     (\<forall>f k. get_cf R f k d' = (case last_write entries (f, k) of Some b \<Rightarrow> Inr (Some b) | None \<Rightarrow> get_cf R f k d)))"

definition rocks_laws :: "('db, 'b) rocks \<Rightarrow> bool" where
  "rocks_laws R \<longleftrightarrow> put_laws R \<and> delete_laws R \<and> lookup_laws R \<and> batch_law R (write_opt R) \<and>
     batch_law R (commit_transaction R) \<and> (\<forall>nm d. \<exists>d'. create_cf R nm d = (Inr (), d'))"

text \<open>The JSON text of the number 0 is one byte long.\<close>

definition codec_laws :: "('b, 'c, 'd, 'r, 'p) codec \<Rightarrow> bool" where
  "codec_laws C \<longleftrightarrow>
     (\<forall>xs. \<exists>b. list_to_vec C xs = Inr b \<and> list_from_slice C b = Inr xs) \<and>
     (\<forall>m. sm_ok m \<longrightarrow> (\<exists>b. map_to_vec C m = Inr b \<and> map_from_slice C b = Inr m)) \<and>
     (\<forall>m. sm_ok m \<longrightarrow> (\<exists>b. set_to_vec C m = Inr b \<and> set_from_slice C b = Inr m)) \<and>
     (\<forall>bs. bytes_of C (of_bytes C bs) = bs) \<and>
     (\<exists>b. number_to_vec C 0 = Inr b \<and> length (bytes_of C b) \<noteq> 8)"

section \<open>The view\<close>

definition rocks_items :: "('db, 'b) rocks \<Rightarrow> ('b, 'c, 'd, 'r, 'p) codec \<Rightarrow> ('db, 'b, 'r, 'p) rocks_world \<Rightarrow>
    CollectionSuffix \<Rightarrow> u64 list" where
  "rocks_items R C w c =
    (if is_list_col c then list_or_default R C c w
     else if is_scored_col c then map snd (map_or_default R C c w)
     else if c = CollectionSuffix.Stalled then map fst (set_or_default R C c w) else [])"

definition rocks_scores :: "('db, 'b) rocks \<Rightarrow> ('b, 'c, 'd, 'r, 'p) codec \<Rightarrow> ('db, 'b, 'r, 'p) rocks_world \<Rightarrow>
    CollectionSuffix \<Rightarrow> u64 set" where
  "rocks_scores R C w c = (if is_scored_col c then fst ` set (map_or_default R C c w) else {})"

definition rocks_view :: "('db, 'b) rocks \<Rightarrow> ('b, 'c, 'd, 'r, 'p) codec \<Rightarrow> ('db, 'b, 'r, 'p) rocks_world \<Rightarrow>
    ('c, 'd, 'r, 'p) StoreView" where
  "rocks_view R C w =
    \<lparr>items = rocks_items R C w, scores = rocks_scores R C w, job = (\<lambda>i. fst (Rocks_Store.get_job R C i w)),
     lock = (\<lambda>i. fst (Rocks_Store.get_token R C i w))\<rparr>"

definition rocks_ok :: "('db, 'b) rocks \<Rightarrow> ('b, 'c, 'd, 'r, 'p) codec \<Rightarrow> ('db, 'b, 'r, 'p) rocks_world \<Rightarrow> bool" where
  "rocks_ok R C w \<longleftrightarrow> rocks_laws R \<and> codec_laws C \<and> (\<forall>c. is_scored_col c \<longrightarrow> sm_ok (map_or_default R C c w)) \<and>
     sm_ok (set_or_default R C CollectionSuffix.Stalled w)"

section \<open>Values and keys\<close>

definition is_col :: "CollectionSuffix \<Rightarrow> bool" where
  "is_col c \<longleftrightarrow> is_list_col c \<or> is_scored_col c \<or> c = CollectionSuffix.Stalled"

definition value_at :: "('db, 'b) rocks \<Rightarrow> CollectionSuffix \<Rightarrow> ('db, 'b, 'r, 'p) rocks_world \<Rightarrow> 'b option" where
  "value_at R k w = Option.bind (okay (get_cf R (family_of k) (to_bytes k) (db (rdb w)))) id"

definition key_of :: "CollectionSuffix \<Rightarrow> family \<times> u8 list" where
  "key_of k = (family_of k, to_bytes k)"

lemma fetch_value: "fetch R dec k w = Option.bind (value_at R k w) (\<lambda>b. okay (dec b))"
  by (simp add: fetch_def value_at_def)

text \<open>The first byte of a key is the discriminant of its collection.\<close>

lemma hd_to_bytes: "hd (to_bytes c) = discriminant c"
proof (cases "\<exists>i. c = CollectionSuffix.Job i \<or> c = CollectionSuffix.Lock i")
  case True
  then obtain i where "tag c = push_bit 56 (ucast (discriminant c)) OR (i AND 0x00FFFFFFFFFFFFFF)"
    by (auto simp del: discriminant.simps)
  then show ?thesis by (simp add: to_bytes_def tag_top(1) tag_plain del: tag.simps)
next
  case False
  then have "tag c = push_bit 56 (ucast (discriminant c))" by (cases c) auto
  then show ?thesis by (simp add: to_bytes_def tag_plain del: tag.simps)
qed

lemma key_discriminant: "key_of k = key_of c \<Longrightarrow> discriminant k = discriminant c"
  by (metis hd_to_bytes key_of_def prod.inject)

lemma key_of_col: "is_col c \<Longrightarrow> key_of k = key_of c \<longleftrightarrow> k = c"
  by (auto dest!: key_discriminant simp: is_col_def is_list_col_def is_scored_col_def)
    (cases k; simp)+

section \<open>Writing a value\<close>

lemma cells_on_rdb [simp]: "cells (on_rdb f w) = cells w"
  by (simp add: cells_def)

lemma put_value:
  assumes "put_laws R"
  shows "kwp (put R c b) (\<lambda>_ w'. cells w' = cells w \<and>
    (\<forall>k. value_at R k w' = (if key_of k = key_of c then Some b else value_at R k w))) w"
proof -
  obtain d' where d: "put_cf R (family_of c) (to_bytes c) b (db (rdb w)) = (Inr (), d')"
    and g: "\<And>f' k'. get_cf R f' k' d' =
      (if (f', k') = (family_of c, to_bytes c) then Inr (Some b) else get_cf R f' k' (db (rdb w)))"
    using assms unfolding put_laws_def by meson
  show ?thesis by (auto simp: put_def on_db_def kwp_def d g value_at_def key_of_def okay_def)
qed

lemma remove_value:
  assumes "delete_laws R" and "family_of c = Main_tree"
  shows "kwp (Rocks_Store.remove R c) (\<lambda>_ w'. cells w' = cells w \<and>
    (\<forall>k. value_at R k w' = (if key_of k = key_of c then None else value_at R k w))) w"
proof -
  obtain d' where d: "delete_cf R Main_tree (to_bytes c) (db (rdb w)) = (Inr (), d')"
    and g: "\<And>f' k'. get_cf R f' k' d' =
      (if (f', k') = (Main_tree, to_bytes c) then Inr None else get_cf R f' k' (db (rdb w)))"
    using assms(1) unfolding delete_laws_def by meson
  show ?thesis
    by (auto simp: Rocks_Store.remove_def on_db_def kwp_def d g value_at_def key_of_def okay_def assms(2))
qed

text \<open>The view reads the values of the collections, of the jobs and of the locks only.\<close>

lemma view_same:
  assumes "rocks_ok R C w" and "\<And>k. is_col k \<or> (\<exists>i. k = CollectionSuffix.Job i \<or> k = CollectionSuffix.Lock i) \<Longrightarrow>
    value_at R k w' = value_at R k w"
  shows "rocks_ok R C w' \<and> rocks_view R C w' = rocks_view R C w"
proof -
  have same: "fetch R dec k w' = fetch R dec k w"
    if "is_col k \<or> (\<exists>i. k = CollectionSuffix.Job i \<or> k = CollectionSuffix.Lock i)" for dec :: "('x, _) decoder" and k
    using assms(2) [OF that] by (simp add: fetch_value)
  have "rocks_items R C w' = rocks_items R C w"
    by (rule ext) (auto simp: rocks_items_def same is_col_def)
  moreover have "rocks_scores R C w' = rocks_scores R C w"
    by (rule ext) (auto simp: rocks_scores_def same is_col_def)
  ultimately show ?thesis
    using assms(1) by (auto simp: rocks_ok_def rocks_view_def same is_col_def Rocks_Store.get_job_def
      Rocks_Store.get_token_def)
qed

text \<open>Writing one collection changes nothing else in the view.\<close>

lemma view_write:
  assumes "is_col c" and "\<And>k. value_at R k w' = (if key_of k = key_of c then Some b else value_at R k w)"
  shows "changes {c} (rocks_view R C w) (rocks_view R C w')"
    and "fetch R dec c w' = okay (dec b)"
    and "k \<noteq> c \<Longrightarrow> fetch R dec k w' = fetch R dec k w"
proof -
  have at: "value_at R k w' = (if k = c then Some b else value_at R k w)" for k
    using assms(2) key_of_col [OF assms(1)] by simp
  have other: "fetch R dec' k w' = fetch R dec' k w" if "k \<noteq> c" for k and dec' :: "('x, _) decoder"
    using at that by (simp add: fetch_value)
  show "fetch R dec c w' = okay (dec b)" using at by (simp add: fetch_value)
  show "k \<noteq> c \<Longrightarrow> fetch R dec k w' = fetch R dec k w" by (rule other)
  have "CollectionSuffix.Job i \<noteq> c" "CollectionSuffix.Lock i \<noteq> c" for i
    using assms(1) by (auto simp: is_col_def is_list_col_def is_scored_col_def)
  then show "changes {c} (rocks_view R C w) (rocks_view R C w')"
    by (simp add: changes_def rocks_view_def rocks_items_def rocks_scores_def other Rocks_Store.get_job_def
      Rocks_Store.get_token_def)
qed

lemma put_col:
  assumes ok: "rocks_ok R C w" and c: "is_col c"
    and m: "is_scored_col c \<Longrightarrow> sm_ok (unwrap_or [] (okay (map_from_slice C b)))"
    and s: "c = CollectionSuffix.Stalled \<Longrightarrow> sm_ok (unwrap_or [] (okay (set_from_slice C b)))"
  shows "kwp (put R c b) (\<lambda>_ w'. rocks_ok R C w' \<and> cells w' = cells w \<and>
    changes {c} (rocks_view R C w) (rocks_view R C w') \<and>
    items (rocks_view R C w') c =
      (if is_list_col c then unwrap_or [] (okay (list_from_slice C b))
       else if is_scored_col c then map snd (unwrap_or [] (okay (map_from_slice C b)))
       else map fst (unwrap_or [] (okay (set_from_slice C b)))) \<and>
    scores (rocks_view R C w') c =
      (if is_scored_col c then fst ` set (unwrap_or [] (okay (map_from_slice C b))) else {})) w"
proof -
  have "put_laws R" using ok by (simp add: rocks_ok_def rocks_laws_def)
  then show ?thesis
  proof (rule kwp_mono [OF put_value], elim conjE, intro conjI)
    fix w' :: "('a, 'b, 'e, 'f) rocks_world"
    assume at: "\<forall>k. value_at R k w' = (if key_of k = key_of c then Some b else value_at R k w)"
    note new = view_write(2) [OF c at [rule_format]] and old = view_write(3) [OF c at [rule_format]]
    show "changes {c} (rocks_view R C w) (rocks_view R C w')" by (rule view_write(1) [OF c at [rule_format]])
    have "sm_ok (map_or_default R C k w')" if "is_scored_col k" for k
      using ok m that by (cases "k = c") (simp_all add: rocks_ok_def new old)
    moreover have "sm_ok (set_or_default R C CollectionSuffix.Stalled w')"
      using ok s new [of "set_from_slice C"] old [of CollectionSuffix.Stalled "set_from_slice C"]
      by (cases "c = CollectionSuffix.Stalled") (simp_all add: rocks_ok_def)
    ultimately show "rocks_ok R C w'" using ok by (simp add: rocks_ok_def)
    show "items (rocks_view R C w') c =
      (if is_list_col c then unwrap_or [] (okay (list_from_slice C b))
       else if is_scored_col c then map snd (unwrap_or [] (okay (map_from_slice C b)))
       else map fst (unwrap_or [] (okay (set_from_slice C b))))"
      using c new [of "list_from_slice C"] new [of "map_from_slice C"] new [of "set_from_slice C"]
      by (auto simp: rocks_view_def rocks_items_def is_col_def)
    show "scores (rocks_view R C w') c =
      (if is_scored_col c then fst ` set (unwrap_or [] (okay (map_from_slice C b))) else {})"
      by (simp add: rocks_view_def rocks_scores_def new)
  qed
qed

lemma put_list:
  assumes ok: "rocks_ok R C w" and c: "is_list_col c"
  shows "kwp (put_json R c (list_to_vec C xs)) (\<lambda>_ w'. rocks_ok R C w' \<and> cells w' = cells w \<and>
    changes {c} (rocks_view R C w) (rocks_view R C w') \<and> items (rocks_view R C w') c = xs) w"
proof -
  obtain b where b: "list_to_vec C xs = Inr b" "list_from_slice C b = Inr xs"
    using ok unfolding rocks_ok_def codec_laws_def by meson
  have "kwp (put R c b) (\<lambda>_ w'. rocks_ok R C w' \<and> cells w' = cells w \<and>
    changes {c} (rocks_view R C w) (rocks_view R C w') \<and> items (rocks_view R C w') c = xs) w"
    by (rule kwp_mono [OF put_col [OF ok]])
      (use c b in \<open>auto simp: is_col_def okay_def is_list_col_def is_scored_col_def\<close>)
  then show ?thesis by (simp add: put_json_def json_def b)
qed

lemma put_map:
  assumes ok: "rocks_ok R C w" and c: "is_scored_col c" and m: "sm_ok m"
  shows "kwp (put_json R c (map_to_vec C m)) (\<lambda>_ w'. rocks_ok R C w' \<and> cells w' = cells w \<and>
    changes {c} (rocks_view R C w) (rocks_view R C w') \<and> items (rocks_view R C w') c = map snd m \<and>
    scores (rocks_view R C w') c = fst ` set m) w"
proof -
  obtain b where b: "map_to_vec C m = Inr b" "map_from_slice C b = Inr m"
    using ok m unfolding rocks_ok_def codec_laws_def by meson
  have l: "\<not> is_list_col c" using c by (auto simp: is_list_col_def is_scored_col_def)
  have "kwp (put R c b) (\<lambda>_ w'. rocks_ok R C w' \<and> cells w' = cells w \<and>
    changes {c} (rocks_view R C w) (rocks_view R C w') \<and> items (rocks_view R C w') c = map snd m \<and>
    scores (rocks_view R C w') c = fst ` set m) w"
    by (rule kwp_mono [OF put_col [OF ok]]) (use c b m l in \<open>auto simp: is_col_def okay_def is_scored_col_def\<close>)
  then show ?thesis by (simp add: put_json_def json_def b)
qed

lemma put_set:
  assumes ok: "rocks_ok R C w" and m: "sm_ok m"
  shows "kwp (put_json R CollectionSuffix.Stalled (set_to_vec C m)) (\<lambda>_ w'. rocks_ok R C w' \<and> cells w' = cells w \<and>
    changes {CollectionSuffix.Stalled} (rocks_view R C w) (rocks_view R C w') \<and>
    items (rocks_view R C w') CollectionSuffix.Stalled = map fst m) w"
proof -
  obtain b where b: "set_to_vec C m = Inr b" "set_from_slice C b = Inr m"
    using ok m unfolding rocks_ok_def codec_laws_def by meson
  have "kwp (put R CollectionSuffix.Stalled b) (\<lambda>_ w'. rocks_ok R C w' \<and> cells w' = cells w \<and>
    changes {CollectionSuffix.Stalled} (rocks_view R C w) (rocks_view R C w') \<and>
    items (rocks_view R C w') CollectionSuffix.Stalled = map fst m) w"
    by (rule kwp_mono [OF put_col [OF ok]])
      (use b m in \<open>auto simp: is_col_def okay_def is_list_col_def is_scored_col_def\<close>)
  then show ?thesis by (simp add: put_json_def json_def b)
qed

section \<open>The collection contract\<close>

lemma col_kinds:
  "c \<in> list_cols \<longleftrightarrow> is_list_col c" "c \<in> scored_cols \<longleftrightarrow> is_scored_col c"
  "is_list_col c \<Longrightarrow> \<not> is_scored_col c" "\<not> is_list_col CollectionSuffix.Stalled" "\<not> is_scored_col CollectionSuffix.Stalled"
  by (auto simp: list_cols_def scored_cols_def is_list_col_def is_scored_col_def)

lemma rocks_ok_sorted:
  "rocks_ok R C w \<Longrightarrow> is_scored_col c \<Longrightarrow> sm_ok (map_or_default R C c w)"
  "rocks_ok R C w \<Longrightarrow> sm_ok (set_or_default R C CollectionSuffix.Stalled w)"
  by (simp_all add: rocks_ok_def)

lemma rocks_view_cols:
  "is_list_col c \<Longrightarrow> items (rocks_view R C w) c = list_or_default R C c w"
  "is_scored_col c \<Longrightarrow> items (rocks_view R C w) c = map snd (map_or_default R C c w)"
  "is_scored_col c \<Longrightarrow> scores (rocks_view R C w) c = fst ` set (map_or_default R C c w)"
  "items (rocks_view R C w) CollectionSuffix.Stalled = map fst (set_or_default R C CollectionSuffix.Stalled w)"
  using col_kinds by (auto simp: rocks_view_def rocks_items_def rocks_scores_def)

lemma rocks_exists_in:
  assumes "rocks_ok R C w" and "c \<in> list_cols \<union> scored_cols"
  shows "kwp (Rocks_Store.exists_in R C c i) (\<lambda>b w'. b = (i \<in> set (items (rocks_view R C w) c)) \<and>
    rocks_ok R C w' \<and> rocks_view R C w' = rocks_view R C w \<and> cells w' = cells w) w"
  using assms by (auto simp: Rocks_Store.exists_in_def rocks_view_def rocks_items_def col_kinds list_ex_iff image_iff)

lemma rocks_add_list:
  assumes "rocks_ok R C w" and "c \<in> list_cols"
  shows "kwp (Rocks_Store.add_item R C c i osc app) (\<lambda>_ w'. rocks_ok R C w' \<and> cells w' = cells w \<and>
    changes {c} (rocks_view R C w) (rocks_view R C w') \<and>
    items (rocks_view R C w') c = (if app then i # items (rocks_view R C w) c else items (rocks_view R C w) c @ [i])) w"
  using put_list [OF assms(1), of c "if app then i # list_or_default R C c w else list_or_default R C c w @ [i]"] assms(2)
  by (cases app) (simp_all add: Rocks_Store.add_item_def col_kinds rocks_view_cols)

lemma rocks_add_scored:
  assumes "rocks_ok R C w" and "c \<in> scored_cols" and "sc \<notin> scores (rocks_view R C w) c"
  shows "kwp (Rocks_Store.add_item R C c i (Some sc) app) (\<lambda>_ w'. rocks_ok R C w' \<and> cells w' = cells w \<and>
    changes {c} (rocks_view R C w) (rocks_view R C w') \<and>
    mset (items (rocks_view R C w') c) = add_mset i (mset (items (rocks_view R C w) c)) \<and>
    scores (rocks_view R C w') c = insert sc (scores (rocks_view R C w) c)) w"
proof -
  let ?m = "map_or_default R C c w"
  have c: "is_scored_col c" "\<not> is_list_col c" using assms(2) col_kinds by blast+
  have sc: "sc \<notin> fst ` set ?m" using assms(3) c by (simp add: rocks_view_cols)
  have "kwp (put_json R c (map_to_vec C (sm_insert sc i ?m))) (\<lambda>_ w'. rocks_ok R C w' \<and> cells w' = cells w \<and>
    changes {c} (rocks_view R C w) (rocks_view R C w') \<and>
    mset (items (rocks_view R C w') c) = add_mset i (mset (map snd ?m)) \<and>
    scores (rocks_view R C w') c = insert sc (fst ` set ?m)) w"
    by (rule kwp_mono [OF put_map [OF assms(1) c(1), of "sm_insert sc i ?m"]])
      (use rocks_ok_sorted(1) [OF assms(1) c(1)] sc in \<open>auto simp: mset_snd_insert set_sm_insert simp del: mset_map\<close>)
  then show ?thesis by (simp add: Rocks_Store.add_item_def c rocks_view_cols)
qed

lemma removeAll_snd: "map snd (sm_remove_if (\<lambda>e. snd e = i) m) = removeAll i (map snd m)"
  by (induction m) (auto simp: sm_remove_if_def)

lemma removeAll_fst: "map fst (sm_remove i m) = removeAll i (map fst m)"
  by (induction m) (auto simp: sm_remove_def)

lemma rocks_remove_item:
  assumes ok: "rocks_ok R C w"
    and c: "c \<in> list_cols \<or> c = CollectionSuffix.Stalled \<or> c \<in> scored_cols \<and> i \<notin> scores (rocks_view R C w) c"
  shows "kwp (Rocks_Store.remove_item R C c i) (\<lambda>_ w'. rocks_ok R C w' \<and> cells w' = cells w \<and>
    changes {c} (rocks_view R C w) (rocks_view R C w') \<and>
    items (rocks_view R C w') c = removeAll i (items (rocks_view R C w) c)) w"
proof -
  consider (list) "is_list_col c" | (map) "is_scored_col c" "\<not> is_list_col c"
    | (set) "c = CollectionSuffix.Stalled" using c col_kinds by blast
  then show ?thesis
  proof cases
    case list
    show ?thesis
    proof (cases "fetch R (list_from_slice C) c w")
      case (Some xs)
      from put_list [OF ok list, of "filter (\<lambda>v. v \<noteq> i) xs"] show ?thesis
        by (simp add: Rocks_Store.remove_item_def list Some rocks_view_cols removeAll_filter_not_eq)
          (auto elim!: kwp_mono simp: eq_commute)
    qed (simp add: Rocks_Store.remove_item_def list ok rocks_view_cols)
  next
    case map
    show ?thesis
    proof (cases "fetch R (map_from_slice C) c w")
      case (Some m)
      from rocks_ok_sorted(1) [OF ok map(1)] Some have "sm_ok (sm_remove_if (\<lambda>e. snd e = i) m)" by simp
      from put_map [OF ok map(1) this] show ?thesis
        by (auto simp: Rocks_Store.remove_item_def map Some rocks_view_cols removeAll_snd elim!: kwp_mono)
    qed (simp add: Rocks_Store.remove_item_def map ok rocks_view_cols)
  next
    case set
    show ?thesis
    proof (cases "fetch R (set_from_slice C) c w")
      case (Some m)
      from rocks_ok_sorted(2) [OF ok] Some set have "sm_ok (sm_remove i m)" by simp
      from put_set [OF ok this] Some set show ?thesis
        by (auto simp: Rocks_Store.remove_item_def col_kinds rocks_view_cols removeAll_fst elim!: kwp_mono)
    qed (use set in \<open>simp add: Rocks_Store.remove_item_def ok rocks_view_cols col_kinds\<close>)
  qed
qed

lemma rocks_pop_prioritized:
  assumes "rocks_ok R C w"
  shows "kwp (Rocks_Store.pop_set R C CollectionSuffix.Prioritized True) (\<lambda>r w'. rocks_ok R C w' \<and> cells w' = cells w \<and>
    (if items (rocks_view R C w) CollectionSuffix.Prioritized = [] then r = [] \<and> rocks_view R C w' = rocks_view R C w
     else (\<exists>sc. r = [(hd (items (rocks_view R C w) CollectionSuffix.Prioritized), sc)]) \<and>
       changes {CollectionSuffix.Prioritized} (rocks_view R C w) (rocks_view R C w') \<and>
       items (rocks_view R C w') CollectionSuffix.Prioritized =
         tl (items (rocks_view R C w) CollectionSuffix.Prioritized))) w"
proof -
  have c: "is_scored_col CollectionSuffix.Prioritized" by (simp add: is_scored_col_def)
  show ?thesis
  proof (cases "fetch R (map_from_slice C) CollectionSuffix.Prioritized w")
    case (Some m)
    then have m: "sm_ok m" using rocks_ok_sorted(1) [OF assms c] by simp
    show ?thesis
    proof (cases m)
      case (Cons e m')
      from put_map [OF assms c sm_ok_tl [OF m]] Some show ?thesis
        by (cases e) (auto simp: Rocks_Store.pop_set_def c rocks_view_cols sm_pop_front_def Cons elim!: kwp_mono)
    qed (simp add: Rocks_Store.pop_set_def c Some rocks_view_cols sm_pop_front_def assms)
  qed (simp add: Rocks_Store.pop_set_def c rocks_view_cols assms)
qed

lemma rocks_remove_counter:
  assumes "rocks_ok R C w"
  shows "kwp (Rocks_Store.remove R PriorityCounter) (\<lambda>_ w'. rocks_ok R C w' \<and> rocks_view R C w' = rocks_view R C w \<and>
    cells w' = cells w) w"
proof -
  have other: "key_of k \<noteq> key_of PriorityCounter"
    if "is_col k \<or> (\<exists>i. k = CollectionSuffix.Job i \<or> k = CollectionSuffix.Lock i)" for k
    using that by (auto dest!: key_discriminant simp: is_col_def is_list_col_def is_scored_col_def)
  have "delete_laws R" using assms by (simp add: rocks_ok_def rocks_laws_def)
  from remove_value [OF this, of PriorityCounter w] show ?thesis
    by (rule kwp_mono) (use other in \<open>auto simp: family_of_def intro!: view_same [OF assms]\<close>)
qed

lemma put_list_run:
  assumes ok: "rocks_ok R C w" and c: "is_list_col c"
  obtains b w' where "list_to_vec C xs = Inr b" and "put R c b w = (Inr (), w')" and "rocks_ok R C w'"
    and "cells w' = cells w" and "changes {c} (rocks_view R C w) (rocks_view R C w')"
    and "items (rocks_view R C w') c = xs"
proof -
  obtain b where b: "list_to_vec C xs = Inr b" using ok unfolding rocks_ok_def codec_laws_def by meson
  from put_list [OF assms, of xs] that [OF b] show thesis
    by (auto simp: put_json_def json_def b kwp_def kbind_def kresult_def)
qed

lemma rocks_pop_wait:
  assumes ok: "rocks_ok R C w"
    and w': "w' = snd (Rocks_Store.pop_back_push_front R C CollectionSuffix.Wait CollectionSuffix.Active w)"
    and r: "r = fst (Rocks_Store.pop_back_push_front R C CollectionSuffix.Wait CollectionSuffix.Active w)"
  shows "rocks_ok R C w' \<and> cells w' = cells w \<and>
    (if items (rocks_view R C w) CollectionSuffix.Wait = [] then r = None \<and> rocks_view R C w' = rocks_view R C w
     else r = Some (last (items (rocks_view R C w) CollectionSuffix.Wait)) \<and>
       changes {CollectionSuffix.Wait, CollectionSuffix.Active} (rocks_view R C w) (rocks_view R C w') \<and>
       items (rocks_view R C w') CollectionSuffix.Wait = butlast (items (rocks_view R C w) CollectionSuffix.Wait) \<and>
       items (rocks_view R C w') CollectionSuffix.Active =
         last (items (rocks_view R C w) CollectionSuffix.Wait) # items (rocks_view R C w) CollectionSuffix.Active)"
proof -
  let ?s = "list_or_default R C CollectionSuffix.Wait w" and ?d = "list_or_default R C CollectionSuffix.Active w"
  have l: "is_list_col CollectionSuffix.Wait" "is_list_col CollectionSuffix.Active" by (simp_all add: is_list_col_def)
  note cols = l [THEN rocks_view_cols(1), of R C]
  show ?thesis
  proof (cases "?s = []")
    case True
    then show ?thesis using ok r w' by (simp add: Rocks_Store.pop_back_push_front_def Let_def cols)
  next
    case False
    obtain b w1 where p1: "list_to_vec C (butlast ?s) = Inr b" "put R CollectionSuffix.Wait b w = (Inr (), w1)"
      and ok1: "rocks_ok R C w1" and w1: "cells w1 = cells w"
        "changes {CollectionSuffix.Wait} (rocks_view R C w) (rocks_view R C w1)"
        "items (rocks_view R C w1) CollectionSuffix.Wait = butlast ?s"
      by (rule put_list_run [OF ok l(1)])
    obtain b' w2 where p2: "list_to_vec C (last ?s # ?d) = Inr b'" "put R CollectionSuffix.Active b' w1 = (Inr (), w2)"
      and ok2: "rocks_ok R C w2" and w2: "cells w2 = cells w1"
        "changes {CollectionSuffix.Active} (rocks_view R C w1) (rocks_view R C w2)"
        "items (rocks_view R C w2) CollectionSuffix.Active = last ?s # ?d"
      by (rule put_list_run [OF ok1 l(2)])
    have "Rocks_Store.pop_back_push_front R C CollectionSuffix.Wait CollectionSuffix.Active w = (Some (last ?s), w2)"
      using p1 p2 False by (simp add: Rocks_Store.pop_back_push_front_def Let_def kbind_def put_def family_of_def)
    then show ?thesis using False ok2 w1 w2 r w' by (auto simp: changes_def cols)
  qed
qed

lemma rocks_store_simps [simp]:
  "Store.exists_in (rocks_store rest ext R C) = Rocks_Store.exists_in R C"
  "Store.add_item (rocks_store rest ext R C) = Rocks_Store.add_item R C"
  "Store.remove_item (rocks_store rest ext R C) = Rocks_Store.remove_item R C"
  "Store.remove (rocks_store rest ext R C) = Rocks_Store.remove R"
  "Store.pop_set (rocks_store rest ext R C) = Rocks_Store.pop_set R C"
  "Store.pop_back_push_front (rocks_store rest ext R C) = Rocks_Store.pop_back_push_front R C"
  "Store.get_token (rocks_store rest ext R C) = Rocks_Store.get_token R C"
  "Store.set_lock (rocks_store rest ext R C) = Rocks_Store.set_lock"
  "Store.incr (rocks_store rest ext R C) = Rocks_Store.incr R C"
  by (simp_all add: rocks_store_def)

text \<open>The database bounds no list: \<open>n\<close> stands for any room.\<close>

interpretation rocks: collection_contract "rocks_store rest ext R C" "rocks_ok R C" "rocks_view R C" "\<lambda>_. n"
  for rest ext R C n
  by (unfold_locales, unfold rocks_store_simps)
    (simp_all add: rocks_exists_in rocks_add_list rocks_add_scored rocks_remove_item rocks_pop_wait
      rocks_pop_prioritized rocks_remove_counter)

end
