(* ===== verification/Rocks_Properties.thy ===== *)
theory Rocks_Properties
  imports Rocks_Laws Insertion
begin

text \<open>
  Properties of the RocksDB store: on the lists of jobs it does what the in-memory store does, a new store
  numbers its jobs from 1, and a bulk insertion is written as a whole; its locks are never found again and
  its counter of attempts doubles. A database that is a function and a codec with one constructor per type
  show that the laws can hold.
\<close>

section \<open>A database for examples\<close>

datatype ('c, 'd, 'r, 'p) demo_value =
    List_value "u64 list" | Map_value "(u64, u64) skipmap" | Set_value "(u64, unit) skipmap" | Number_value u64
  | Meta_value Meta | Job_value "('c, 'd, 'r, 'p) Job" | Bytes_value "u8 list"

type_synonym ('c, 'd, 'r, 'p) demo_db = "family \<times> u8 list \<Rightarrow> ('c, 'd, 'r, 'p) demo_value option"

definition demo_write :: "(family \<times> u8 list \<times> ('c, 'd, 'r, 'p) demo_value) list \<Rightarrow> (('c, 'd, 'r, 'p) demo_db, unit) kio" where
  "demo_write entries d = (Inr (), d ++ last_write entries)"

definition demo_rocks :: "(('c, 'd, 'r, 'p) demo_db, ('c, 'd, 'r, 'p) demo_value) rocks" where
  "demo_rocks = \<lparr>get_cf = (\<lambda>f k d. Inr (d (f, k))), put_cf = (\<lambda>f k v d. (Inr (), d((f, k) \<mapsto> v))),
     delete_cf = (\<lambda>f k d. (Inr (), d((f, k) := None))), key_may_exist_cf = (\<lambda>f k d. d (f, k) \<noteq> None),
     write_opt = demo_write, commit_transaction = demo_write, compact_range_cf = (\<lambda>f d. d),
     create_cf = (\<lambda>nm d. (Inr (), d))\<rparr>"

definition demo_codec :: "(('c, 'd, 'r, 'p) demo_value, 'c, 'd, 'r, 'p) codec" where
  "demo_codec = \<lparr>list_to_vec = (\<lambda>xs. Inr (List_value xs)),
     list_from_slice = (\<lambda>b. case b of List_value xs \<Rightarrow> Inr xs | _ \<Rightarrow> Inl ''list''),
     map_to_vec = (\<lambda>m. Inr (Map_value m)), map_from_slice = (\<lambda>b. case b of Map_value m \<Rightarrow> Inr m | _ \<Rightarrow> Inl ''map''),
     set_to_vec = (\<lambda>m. Inr (Set_value m)), set_from_slice = (\<lambda>b. case b of Set_value m \<Rightarrow> Inr m | _ \<Rightarrow> Inl ''set''),
     number_to_vec = (\<lambda>n. Inr (Number_value n)),
     meta_to_vec = (\<lambda>m. Inr (Meta_value m)), meta_from_slice = (\<lambda>b. case b of Meta_value m \<Rightarrow> Inr m | _ \<Rightarrow> Inl ''meta''),
     job_to_vec = (\<lambda>j. Inr (Job_value j)), job_from_slice = (\<lambda>b. case b of Job_value j \<Rightarrow> Inr j | _ \<Rightarrow> Inl ''job''),
     token_from_slice = (\<lambda>b. Inl ''token''), of_bytes = Bytes_value,
     bytes_of = (\<lambda>b. case b of Bytes_value bs \<Rightarrow> bs | _ \<Rightarrow> [48])\<rparr>"

definition demo_rocks_world :: "((nat, nat, nat, unit) demo_db, (nat, nat, nat, unit) demo_value, nat, unit) rocks_world" where
  "demo_rocks_world =
    \<lparr>wall = 0, mono = 0, current_metrics = default_metrics, pause_workers = False, notified = 0, emitted = [],
     paused_cell = False, backoff_registry = Backoff.new, World.store = new_store None ''mail'' (\<lambda>_. None)\<rparr>"

lemma demo_rocks_laws: "rocks_laws demo_rocks"
  by (auto simp: rocks_laws_def demo_rocks_def put_laws_def delete_laws_def lookup_laws_def batch_law_def demo_write_def
    map_add_def split: option.split)

lemma demo_codec_laws: "codec_laws demo_codec"
  by (simp add: codec_laws_def demo_codec_def)

lemma demo_rocks_ok:
  "rocks_ok demo_rocks demo_codec demo_rocks_world"
  "items (rocks_view demo_rocks demo_codec demo_rocks_world) c = []"
  "value_at demo_rocks k demo_rocks_world = None"
proof -
  show v: "value_at demo_rocks k demo_rocks_world = None" for k
    by (simp add: value_at_def demo_rocks_def demo_rocks_world_def new_store_def okay_def Let_def)
  then show "rocks_ok demo_rocks demo_codec demo_rocks_world"
    "items (rocks_view demo_rocks demo_codec demo_rocks_world) c = []"
    by (simp_all add: rocks_ok_def demo_rocks_laws demo_codec_laws fetch_value rocks_view_def rocks_items_def)
qed

section \<open>The two stores agree\<close>

text \<open>
  C13. The stores are interchangeable for the lists of jobs. From states with the same lists, every sequence of
  additions at either end, removals, and moves of the oldest waiting job to \<^verbatim>\<open>Active\<close> succeeds in both stores
  with the same results and leaves the same lists, as long as the ring buffers of the in-memory store have
  room. The database and the codec are assumed to meet their laws.
\<close>

theorem stores_agree:
  assumes "mem_ok w" and "rocks_ok R C v" and "list_all op_ok xs" and "length xs \<le> mem_room w"
    and "same_lists (items (mem_view w)) (items (rocks_view R C v))"
  shows "\<exists>rs w' v'. run_ops (mem_store ext) xs w = (Inr rs, w') \<and> run_ops (rocks_store rest ext R C) xs v = (Inr rs, v') \<and>
    same_lists (items (mem_view w')) (items (rocks_view R C v')) \<and>
    same_lists (items (mem_view w')) (snd (list_steps xs (items (mem_view w))))"
proof -
  from iffD1 [OF kwp_def inmem.run_ops_refine [OF assms(1,3,4) drops_ok_any, where ext = ext]]
  obtain rs w' where w': "run_ops (mem_store ext) xs w = (Inr rs, w')" "rs = fst (list_steps xs (items (mem_view w)))"
    "same_lists (items (mem_view w')) (snd (list_steps xs (items (mem_view w))))" by blast
  from iffD1 [OF kwp_def rocks.run_ops_refine [OF assms(2,3) order_refl drops_ok_any, where ext = ext and rest = rest]]
  obtain rs' v' where v': "run_ops (rocks_store rest ext R C) xs v = (Inr rs', v')"
    "rs' = fst (list_steps xs (items (rocks_view R C v)))"
    "same_lists (items (rocks_view R C v')) (snd (list_steps xs (items (rocks_view R C v))))" by blast
  from list_steps_same [OF assms(3,5)] w' v' show ?thesis
    by (auto simp: same_lists_def)
qed

theorem stores_agree_witness:
  "\<forall>rest. \<exists>rs w' v'. run_ops (mem_store simple_calendar) [Add CollectionSuffix.Wait 7 True, Add CollectionSuffix.Wait 8 True, Take]
      (open_world 0) = (Inr rs, w') \<and>
    run_ops (rocks_store rest simple_calendar demo_rocks demo_codec)
      [Add CollectionSuffix.Wait 7 True, Add CollectionSuffix.Wait 8 True, Take] demo_rocks_world = (Inr rs, v') \<and>
    items (mem_view w') CollectionSuffix.Active = [7] \<and>
    items (rocks_view demo_rocks demo_codec v') CollectionSuffix.Wait = [8]" (is "\<forall>rest. ?P rest")
proof
  fix rest :: "(((nat, nat, nat, unit) demo_db, (nat, nat, nat, unit) demo_value, nat, unit) rocks_world, nat, nat, nat, unit) Store"
  have "same_lists (items (mem_view (open_world 0))) (items (rocks_view demo_rocks demo_codec demo_rocks_world))"
    by (simp add: same_lists_def demo_rocks_ok)
  from stores_agree [OF open_world_ok demo_rocks_ok(1) _ _ this, where ext = simple_calendar
      and rest = rest and xs = "[Add CollectionSuffix.Wait 7 True, Add CollectionSuffix.Wait 8 True, Take]"]
  show "?P rest" by (fastforce simp: list_cols_def same_lists_def)
qed

section \<open>Counters\<close>

lemma byte_step:
  fixes n :: u64
  shows "push_bit 8 (drop_bit (m + 8) n) OR ucast (ucast (drop_bit m n) :: u8) = drop_bit m n"
    and "ucast (ucast (drop_bit 56 n) :: u8) = drop_bit 56 n"
  by (rule bit_word_eqI; auto simp: bit_simps dest: bit_imp_le_length)+

lemma be_bytes_round_trip: "from_be_bytes (to_be_bytes n) = n"
  using byte_step(1) [of 0 n] byte_step(1) [of 8 n] byte_step(1) [of 16 n] byte_step(1) [of 24 n]
    byte_step(1) [of 32 n] byte_step(1) [of 40 n] byte_step(1) [of 48 n]
  by (simp add: from_be_bytes_def to_be_bytes_def byte_step(2))

lemma ivec_to_number_bytes: "ivec_to_number (to_be_bytes n) = n"
  by (simp add: ivec_to_number_def be_bytes_round_trip) (simp add: to_be_bytes_def)

text \<open>The value of a counter, as \<^verbatim>\<open>get_counter\<close> reads it.\<close>

lemma get_counter_value:
  "family_of c = Main_tree \<Longrightarrow>
    fst (Rocks_Store.get_counter R C c None w) = map_option (\<lambda>b. ivec_to_number (bytes_of C b)) (value_at R c w)"
  by (simp add: Rocks_Store.get_counter_def value_at_def)

lemma incr_counter_value:
  assumes "rocks_ok R C w" and "family_of c = Main_tree" and "fst (Rocks_Store.get_counter R C c None w) = Some n"
  shows "kwp (Rocks_Store.incr R C c 1 None) (\<lambda>r w'. r = n + 1 \<and> fst (Rocks_Store.get_counter R C c None w') = Some (n + 1) \<and>
    (\<forall>k. key_of k \<noteq> key_of c \<longrightarrow> value_at R k w' = value_at R k w)) w"
proof -
  have laws: "put_laws R" "\<And>bs. bytes_of C (of_bytes C bs) = bs"
    using assms(1) by (auto simp: rocks_ok_def rocks_laws_def codec_laws_def)
  have "kwp (put R c (of_bytes C (to_be_bytes (n + 1)))) (\<lambda>_ w'. fst (Rocks_Store.get_counter R C c None w') = Some (n + 1) \<and>
    (\<forall>k. key_of k \<noteq> key_of c \<longrightarrow> value_at R k w' = value_at R k w)) w"
    by (rule kwp_mono [OF put_value [OF laws(1)]])
      (simp add: get_counter_value assms(2) laws(2) ivec_to_number_bytes)
  then show ?thesis
    by (auto simp: Rocks_Store.incr_def incr_counter_def assms(3) unsigned_abs_def add.commute Let_def elim!: kwp_mono)
qed

lemma key_of_counter:
  "is_col k \<or> (\<exists>i. k = CollectionSuffix.Job i \<or> k = CollectionSuffix.Lock i) \<Longrightarrow> key_of k \<noteq> key_of Id"
  by (auto dest!: key_discriminant simp: is_col_def is_list_col_def is_scored_col_def)

fun draw_ids :: "('db, 'b) rocks \<Rightarrow> ('b, 'c, 'd, 'r, 'p) codec \<Rightarrow> nat \<Rightarrow> (('db, 'b, 'r, 'p) rocks_world, u64 list) kio" where
  "draw_ids R C 0 = kret []"
| "draw_ids R C (Suc k) =
    kbind (Rocks_Store.incr R C Id 1 None) (\<lambda>i. kbind (draw_ids R C k) (\<lambda>ids. kret (i # ids)))"

lemma draw_ids_from:
  "rocks_ok R C w \<Longrightarrow> fst (Rocks_Store.get_counter R C Id None w) = Some n \<Longrightarrow>
    kwp (draw_ids R C k) (\<lambda>ids w'. ids = map (\<lambda>j. n + of_nat j) [1..<Suc k] \<and> rocks_ok R C w' \<and>
      rocks_view R C w' = rocks_view R C w) w"
proof (induction k arbitrary: n w)
  case (Suc k)
  have shift: "map (\<lambda>j. n + of_nat j) [1..<Suc (Suc k)] = (n + 1) # map (\<lambda>j. (n + 1) + of_nat j) [1..<Suc k]"
    by (simp add: upt_conv_Cons map_Suc_upt [symmetric] add.assoc del: upt_Suc)
  have "family_of Id = Main_tree" by (simp add: family_of_def)
  from incr_counter_value [OF Suc.prems(1) this Suc.prems(2)]
  show ?case unfolding draw_ids.simps kwp_bind kwp_ret shift
  proof (rule kwp_mono)
    fix r w' assume w': "r = n + 1 \<and> fst (Rocks_Store.get_counter R C Id None w') = Some (n + 1) \<and>
      (\<forall>k. key_of k \<noteq> key_of Id \<longrightarrow> value_at R k w' = value_at R k w)"
    from view_same [OF Suc.prems(1), of w'] key_of_counter w'
    have "rocks_ok R C w'" and "rocks_view R C w' = rocks_view R C w" by blast+
    with Suc.IH [of w' "n + 1"] w' show "kwp (draw_ids R C k) (\<lambda>ids w''.
        r # ids = (n + 1) # map (\<lambda>j. (n + 1) + of_nat j) [1..<Suc k] \<and> rocks_ok R C w'' \<and>
        rocks_view R C w'' = rocks_view R C w) w'" by (simp del: upt_Suc)
  qed
qed simp

section \<open>A new store\<close>

lemma setup_type_put: "family_of c = Main_tree \<Longrightarrow> setup_type R (Inr b) c = put R c b"
  by (simp add: setup_type_def put_def json_def kbind_def kresult_def fun_eq_iff)

lemma setup_for:
  assumes "put_laws R" and "\<forall>c \<in> set cs. family_of c = Main_tree"
  shows "kwp (kfor (setup_type R (Inr b)) cs) (\<lambda>_ w'. \<forall>k. value_at R k w' =
    (if key_of k \<in> key_of ` set cs then Some b else value_at R k w)) w"
  using assms(2)
proof (induction cs arbitrary: w)
  case (Cons c cs)
  have "kwp (put R c b) (\<lambda>_ w1. kwp (kfor (setup_type R (Inr b)) cs) (\<lambda>_ w'. \<forall>k. value_at R k w' =
    (if key_of k \<in> key_of ` set (c # cs) then Some b else value_at R k w)) w1) w"
    by (rule kwp_mono [OF put_value [OF assms(1)]], rule kwp_mono [OF Cons.IH]) (use Cons.prems in auto)
  then show ?case using Cons.prems by (simp only: kfor.simps kwp_bind setup_type_put list.set_intros)
qed simp

lemma create_cf_ok:
  assumes "rocks_laws R" and "\<And>w'. Q () w'"
  shows "kwp (on_db (create_cf R nm)) Q w"
proof -
  obtain d' where "create_cf R nm (db (rdb w)) = (Inr (), d')" using assms(1) unfolding rocks_laws_def by meson
  then show ?thesis using assms(2) by (simp add: kwp_def on_db_def)
qed

lemma setup_keys:
  "key_of k \<in> key_of ` {CollectionSuffix.Wait, CollectionSuffix.Active} \<longleftrightarrow> k \<in> {CollectionSuffix.Wait, CollectionSuffix.Active}"
  "key_of k \<in> key_of ` {CollectionSuffix.Stalled} \<longleftrightarrow> k = CollectionSuffix.Stalled"
  "key_of k \<in> key_of ` {CollectionSuffix.Completed, CollectionSuffix.Prioritized, CollectionSuffix.Failed,
     CollectionSuffix.Delayed} \<longleftrightarrow> is_scored_col k"
  by (auto simp: key_of_col is_col_def is_list_col_def is_scored_col_def)

text \<open>The empty values, written to every collection but \<^verbatim>\<open>Paused\<close> and to both counters.\<close>

lemma empty_values:
  assumes R: "rocks_laws R" and C: "codec_laws C"
    and dec: "list_from_slice C l = Inr []" "set_from_slice C s = Inr []" "map_from_slice C m = Inr []"
      "length (bytes_of C n) \<noteq> 8"
    and at: "\<And>k. value_at R k w = (if key_of k \<in> key_of ` {Id, PriorityCounter} then Some n
      else if is_scored_col k then Some m else if k = CollectionSuffix.Stalled then Some s
      else if k \<in> {CollectionSuffix.Wait, CollectionSuffix.Active} then Some l else value_at R k w0)"
  shows "rocks_ok R C w \<and> (\<forall>c. c \<noteq> CollectionSuffix.Paused \<longrightarrow> items (rocks_view R C w) c = []) \<and>
    fst (Rocks_Store.get_counter R C Id None w) = Some 0"
proof -
  have "key_of k \<notin> key_of ` {Id, PriorityCounter}" if "is_col k" for k
    using that by (auto dest!: key_discriminant simp: is_col_def is_list_col_def is_scored_col_def)
  then have col: "value_at R k w = (if is_scored_col k then Some m else if k = CollectionSuffix.Stalled then Some s
    else if k \<in> {CollectionSuffix.Wait, CollectionSuffix.Active} then Some l else value_at R k w0)" if "is_col k" for k
    using at [of k] that by (simp only: if_False)
  have "fst (Rocks_Store.get_counter R C Id None w) = Some 0"
    using at [of Id] dec(4) by (simp add: get_counter_value family_of_def ivec_to_number_def)
  moreover have "fetch R (map_from_slice C) c w = Some []" if "is_scored_col c" for c
    using col [of c] that by (simp add: fetch_value is_col_def dec okay_def)
  moreover have "fetch R (set_from_slice C) CollectionSuffix.Stalled w = Some []"
    using col [of CollectionSuffix.Stalled] by (simp add: fetch_value is_col_def dec okay_def col_kinds)
  moreover have "fetch R (list_from_slice C) c w = Some []" if "is_list_col c" "c \<noteq> CollectionSuffix.Paused" for c
    using col [of c] that by (auto simp: fetch_value is_col_def dec okay_def is_list_col_def is_scored_col_def)
  ultimately show ?thesis by (auto simp: rocks_ok_def R C rocks_view_def rocks_items_def)
qed

lemma setup_run:
  assumes "rocks_laws R" and "\<forall>c \<in> set cs. family_of c = Main_tree"
  obtains w' where "kfor (setup_type R (Inr b)) cs w = (Inr (), w')"
    and "\<forall>k. value_at R k w' = (if key_of k \<in> key_of ` set cs then Some b else value_at R k w)"
  using setup_for [OF _ assms(2), of R b w] assms(1) by (auto simp: rocks_laws_def kwp_def)

lemma setup_stages:
  assumes R: "rocks_laws R"
  shows "kwp (kbind (kfor (setup_type R (Inr l)) [CollectionSuffix.Wait, CollectionSuffix.Active]) (\<lambda>_.
    kbind (setup_type R (Inr s) CollectionSuffix.Stalled) (\<lambda>_.
    kbind (kfor (setup_type R (Inr m)) [CollectionSuffix.Completed, CollectionSuffix.Prioritized,
        CollectionSuffix.Failed, CollectionSuffix.Delayed]) (\<lambda>_.
    kfor (setup_type R (Inr n)) [Id, PriorityCounter])))) (\<lambda>_ w'. \<forall>k. value_at R k w' =
      (if key_of k \<in> key_of ` {Id, PriorityCounter} then Some n
      else if is_scored_col k then Some m else if k = CollectionSuffix.Stalled then Some s
      else if k \<in> {CollectionSuffix.Wait, CollectionSuffix.Active} then Some l else value_at R k w)) w"
proof -
  let ?maps = "[CollectionSuffix.Completed, CollectionSuffix.Prioritized, CollectionSuffix.Failed, CollectionSuffix.Delayed]"
  have main: "\<forall>c \<in> set [CollectionSuffix.Wait, CollectionSuffix.Active]. family_of c = Main_tree"
    "\<forall>c \<in> set [CollectionSuffix.Stalled]. family_of c = Main_tree" "\<forall>c \<in> set ?maps. family_of c = Main_tree"
    "\<forall>c \<in> set [Id, PriorityCounter]. family_of c = Main_tree" by (simp_all add: family_of_def)
  obtain w1 where s1: "kfor (setup_type R (Inr l)) [CollectionSuffix.Wait, CollectionSuffix.Active] w = (Inr (), w1)"
    "\<forall>k. value_at R k w1 = (if key_of k \<in> key_of ` set [CollectionSuffix.Wait, CollectionSuffix.Active] then Some l
      else value_at R k w)" by (rule setup_run [OF R main(1)])
  obtain w2 where s2: "kfor (setup_type R (Inr s)) [CollectionSuffix.Stalled] w1 = (Inr (), w2)"
    "\<forall>k. value_at R k w2 = (if key_of k \<in> key_of ` set [CollectionSuffix.Stalled] then Some s else value_at R k w1)"
    by (rule setup_run [OF R main(2)])
  obtain w3 where s3: "kfor (setup_type R (Inr m)) ?maps w2 = (Inr (), w3)"
    "\<forall>k. value_at R k w3 = (if key_of k \<in> key_of ` set ?maps then Some m else value_at R k w2)"
    by (rule setup_run [OF R main(3)])
  obtain w4 where s4: "kfor (setup_type R (Inr n)) [Id, PriorityCounter] w3 = (Inr (), w4)"
    "\<forall>k. value_at R k w4 = (if key_of k \<in> key_of ` set [Id, PriorityCounter] then Some n else value_at R k w3)"
    by (rule setup_run [OF R main(4)])
  have "setup_type R (Inr s) CollectionSuffix.Stalled w1 = (Inr (), w2)" using s2(1) by simp
  then show ?thesis
    unfolding kwp_def kbind_apply
    using s4(2) [unfolded s3(2) [rule_format] s2(2) [rule_format] s1(2) [rule_format] list.set setup_keys] s1(1) s3(1) s4(1) by (simp del: kfor.simps)
qed

lemma initial_values:
  assumes R: "rocks_laws R" and C: "codec_laws C"
  shows "kwp (initial_collections R C) (\<lambda>_ w'. rocks_ok R C w' \<and>
    (\<forall>c. c \<noteq> CollectionSuffix.Paused \<longrightarrow> items (rocks_view R C w') c = []) \<and>
    fst (Rocks_Store.get_counter R C Id None w') = Some 0) w"
proof -
  obtain l s m n where enc: "list_to_vec C [] = Inr l" "set_to_vec C [] = Inr s" "map_to_vec C [] = Inr m"
      "number_to_vec C 0 = Inr n"
    and dec: "list_from_slice C l = Inr []" "set_from_slice C s = Inr []" "map_from_slice C m = Inr []"
      "length (bytes_of C n) \<noteq> 8"
    using C unfolding codec_laws_def by (metis sm_ok_Nil)
  show ?thesis
    unfolding initial_collections_def kwp_bind kwp_get split_beta enc
    by (rule create_cf_ok [OF R])+
      (rule kwp_mono [OF setup_stages [OF R], unfolded kwp_bind], rule empty_values [OF R C dec], blast)
qed

text \<open>
  A new store is empty and numbers its jobs from 1. \<^verbatim>\<open>RocksDbStore::new\<close> succeeds on every database that
  keeps its laws, every collection of the new store but \<^verbatim>\<open>Paused\<close>, which is not set up, is empty, and \<open>k\<close> calls
  of \<^verbatim>\<open>incr(Id, 1)\<close> return \<open>1\<close> to \<open>k\<close> and change no collection and no job.
\<close>

theorem new_store_counts_from_one:
  assumes "rocks_laws R" and "codec_laws C"
  shows "kwp (Rocks_Store.new R C pre nm d) (\<lambda>_ w1. rocks_ok R C w1 \<and>
    (\<forall>c. c \<noteq> CollectionSuffix.Paused \<longrightarrow> items (rocks_view R C w1) c = []) \<and>
    kwp (draw_ids R C k) (\<lambda>ids w2. ids = map of_nat [1..<Suc k] \<and> rocks_view R C w2 = rocks_view R C w1) w1) w"
  unfolding Rocks_Store.new_def kwp_bind kwp_mod
  by (rule kwp_mono [OF initial_values [OF assms]], elim conjE, intro conjI, assumption, assumption)
    (rule kwp_mono [OF draw_ids_from], auto)

theorem new_store_counts_from_one_witness:
  "kwp (Rocks_Store.new demo_rocks demo_codec None ''mail'' (\<lambda>_. None)) (\<lambda>_ w1.
    kwp (draw_ids demo_rocks demo_codec 3) (\<lambda>ids w2. ids = [1, 2, 3] \<and>
      items (rocks_view demo_rocks demo_codec w2) CollectionSuffix.Wait = []) w1) demo_rocks_world"
  by (rule kwp_mono [OF new_store_counts_from_one [OF demo_rocks_laws demo_codec_laws, where k = 3]], elim conjE,
      erule kwp_mono) (simp add: upt_rec)

section \<open>Locks and attempts\<close>

text \<open>
  C40. A lock is never extended. \<^verbatim>\<open>set_lock\<close> keeps the token in the map \<^verbatim>\<open>locks\<close>, \<^verbatim>\<open>get_token\<close> looks for it in the
  database, where nothing writes it: right after a worker has locked a job, \<^verbatim>\<open>extend_lock\<close> with the very
  token it used answers \<^verbatim>\<open>false\<close>.
\<close>

theorem lock_never_extended:
  assumes "fst (Rocks_Store.get_token R C i w) = None"
  shows "kwp (kbind (Store.set_lock (rocks_store rest ext R C) (CollectionSuffix.Lock i) (Some tok) ms)
      (\<lambda>_. Queues.extend_lock (rocks_store rest ext R C) i ms' tok))
    (\<lambda>b w'. \<not> b \<and> fst (Rocks_Store.get_token R C i w') = None) w"
  using assms
  by (simp add: Rocks_Store.set_lock_def Queues.extend_lock_def Rocks_Store.get_token_def fetch_def)

theorem lock_never_extended_witness:
  "\<forall>rest. kwp (kbind (Store.set_lock (rocks_store rest simple_calendar demo_rocks demo_codec) (CollectionSuffix.Lock 5)
      (Some (JobToken 1 2 5)) 30000)
      (\<lambda>_. Queues.extend_lock (rocks_store rest simple_calendar demo_rocks demo_codec) 5 30000 (JobToken 1 2 5)))
    (\<lambda>b w'. \<not> b) demo_rocks_world"
proof
  fix rest :: "(((nat, nat, nat, unit) demo_db, (nat, nat, nat, unit) demo_value, nat, unit) rocks_world, nat, nat, nat, unit) Store"
  have "fst (Rocks_Store.get_token demo_rocks demo_codec 5 demo_rocks_world) = None"
    by (simp add: Rocks_Store.get_token_def fetch_value demo_rocks_ok(3))
  from lock_never_extended [OF this, of rest simple_calendar "JobToken 1 2 5" 30000 30000]
  show "kwp (kbind (Store.set_lock (rocks_store rest simple_calendar demo_rocks demo_codec) (CollectionSuffix.Lock 5)
      (Some (JobToken 1 2 5)) 30000)
      (\<lambda>_. Queues.extend_lock (rocks_store rest simple_calendar demo_rocks demo_codec) 5 30000 (JobToken 1 2 5)))
    (\<lambda>b w'. \<not> b) demo_rocks_world" by (rule kwp_mono) simp
qed

text \<open>What reading a job back keeps of it: its number of attempts, among the rest.\<close>

definition job_law :: "('b, 'c, 'd, 'r, 'p) codec \<Rightarrow> bool" where
  "job_law C \<longleftrightarrow> (\<forall>j. \<exists>b j'. job_to_vec C j = Inr b \<and> job_from_slice C b = Inr j' \<and> attempts_made j' = attempts_made j)"

fun count_attempts :: "('db, 'b) rocks \<Rightarrow> ('b, 'c, 'd, 'r, 'p) codec \<Rightarrow> u64 \<Rightarrow> nat \<Rightarrow>
    (('db, 'b, 'r, 'p) rocks_world, unit) kio" where
  "count_attempts R C i 0 = kret ()"
| "count_attempts R C i (Suc k) =
    kbind (Rocks_Store.incr R C (CollectionSuffix.Job i) 1 (Some ''attemptsMade'')) (\<lambda>_. count_attempts R C i k)"

lemma incr_attempts:
  assumes "put_laws R" and "job_law C" and "fst (Rocks_Store.get_job R C i w) = Some j"
  shows "kwp (Rocks_Store.incr R C (CollectionSuffix.Job i) 1 (Some ''attemptsMade'')) (\<lambda>_ w'.
    \<exists>j'. fst (Rocks_Store.get_job R C i w') = Some j' \<and> attempts_made j' = 2 * attempts_made j + 1) w"
proof -
  let ?j = "j\<lparr>attempts_made := attempts_made j + (attempts_made j + 1)\<rparr>"
  obtain b j' where b: "job_to_vec C ?j = Inr b" "job_from_slice C b = Inr j'" "attempts_made j' = attempts_made ?j"
    using assms(2) unfolding job_law_def by meson
  have "kwp (put R (CollectionSuffix.Job i) b) (\<lambda>_ w'.
      \<exists>j'. fst (Rocks_Store.get_job R C i w') = Some j' \<and> attempts_made j' = 2 * attempts_made j + 1) w"
    by (rule kwp_mono [OF put_value [OF assms(1)]])
      (use b in \<open>simp add: Rocks_Store.get_job_def fetch_value okay_def\<close>)
  then show ?thesis
    using assms(3) b(1)
    by (simp add: Rocks_Store.incr_def Rocks_Store.get_job_def update_job_def put_json_def json_def Let_def)
qed

text \<open>
  The counter of attempts doubles. \<^verbatim>\<open>incr(Job, 1, "attemptsMade")\<close> adds the increased counter to the counter:
  after \<open>k\<close> calls on a job with \<open>n\<close> attempts it is \<open>2^k * (n + 1) - 1\<close> instead of \<open>n + k\<close>, so that a job with
  seven attempts left has none after three failures.
\<close>

theorem attempts_double:
  assumes "rocks_laws R" and "job_law C" and "fst (Rocks_Store.get_job R C i w) = Some j"
  shows "kwp (count_attempts R C i k) (\<lambda>_ w'. \<exists>j'. fst (Rocks_Store.get_job R C i w') = Some j' \<and>
    attempts_made j' = 2 ^ k * (attempts_made j + 1) - 1) w"
  using assms(3)
proof (induction k arbitrary: w j)
  case (Suc k)
  have "put_laws R" using assms(1) by (simp add: rocks_laws_def)
  from incr_attempts [OF this assms(2) Suc.prems] show ?case
    unfolding count_attempts.simps kwp_bind
  proof (rule kwp_mono, elim exE conjE)
    fix w' j' assume "fst (Rocks_Store.get_job R C i w') = Some j'" and "attempts_made j' = 2 * attempts_made j + 1"
    with Suc.IH [of w' j'] show "kwp (count_attempts R C i k) (\<lambda>_ w'. \<exists>j'. fst (Rocks_Store.get_job R C i w') = Some j' \<and>
      attempts_made j' = 2 ^ Suc k * (attempts_made j + 1) - 1) w'" by (simp add: algebra_simps)
  qed
qed simp

definition demo_rocks_job :: "((nat, nat, nat, unit) demo_db, (nat, nat, nat, unit) demo_value, nat, unit) rocks_world" where
  "demo_rocks_job = snd (put demo_rocks (CollectionSuffix.Job 1)
     (Job_value (Jobs.new 0 ''hello'' (Some 5) None None)) demo_rocks_world)"

theorem attempts_double_witness:
  "kwp (count_attempts demo_rocks demo_codec 1 3) (\<lambda>_ w'. \<exists>j'. fst (Rocks_Store.get_job demo_rocks demo_codec 1 w') = Some j' \<and>
    attempts_made j' = 7) demo_rocks_job"
proof -
  let ?j = "Jobs.new 0 ''hello'' (Some 5) None None :: (nat, nat, nat, unit) Job"
  have "fst (Rocks_Store.get_job demo_rocks demo_codec 1 demo_rocks_job) = Some ?j"
    by (simp add: demo_rocks_job_def put_def on_db_def demo_rocks_def Rocks_Store.get_job_def fetch_def okay_def demo_codec_def)
  moreover have "job_law demo_codec" by (simp add: job_law_def demo_codec_def)
  ultimately show ?thesis
    using attempts_double [OF demo_rocks_laws, of demo_codec 1 demo_rocks_job ?j 3] by (simp add: Jobs.new_def)
qed

section \<open>Bulk insertion\<close>

lemma write_value:
  assumes "batch_law R write"
  shows "kwp (on_db (write entries)) (\<lambda>_ w'. job_batch (rdb w') = job_batch (rdb w) \<and>
    (\<forall>k. value_at R k w' = (case last_write entries (key_of k) of Some b \<Rightarrow> Some b | None \<Rightarrow> value_at R k w))) w"
proof -
  obtain d' where d: "write entries (db (rdb w)) = (Inr (), d')" and g: "\<And>f k. get_cf R f k d' =
      (case last_write entries (f, k) of Some b \<Rightarrow> Inr (Some b) | None \<Rightarrow> get_cf R f k (db (rdb w)))"
    using assms unfolding batch_law_def by meson
  show ?thesis by (auto simp: on_db_def kwp_def d g value_at_def key_of_def okay_def split: option.split)
qed

lemma last_write_family: "\<forall>e \<in> set entries. fst e = Jobs_tree \<Longrightarrow> last_write entries (Main_tree, k) = None"
  by (force simp: last_write_def map_of_eq_None_iff)

lemma sm_ok_extend: "sm_ok m \<Longrightarrow> sm_ok (extend_map m es)"
  unfolding extend_map_def by (induction es arbitrary: m) auto

text \<open>Writing the batch and then three collections.\<close>

lemma commit_values:
  assumes R: "rocks_laws R" and batch: "\<forall>e \<in> set (job_batch (rdb w)). fst e = Jobs_tree"
    and t: "t = CollectionSuffix.Wait \<or> t = CollectionSuffix.Paused"
  shows "kwp (kbind (commit R) (\<lambda>_. on_db (commit_transaction R [(Main_tree, to_bytes t, l),
      (Main_tree, to_bytes CollectionSuffix.Delayed, d), (Main_tree, to_bytes CollectionSuffix.Prioritized, p)])))
    (\<lambda>_ w'. job_batch (rdb w') = [] \<and>
      (\<forall>k. is_col k \<longrightarrow> value_at R k w' = (if k = t then Some l else if k = CollectionSuffix.Delayed then Some d
         else if k = CollectionSuffix.Prioritized then Some p else value_at R k w)) \<and>
      (\<forall>i. value_at R (CollectionSuffix.Job i) w' =
         (case last_write (job_batch (rdb w)) (key_of (CollectionSuffix.Job i)) of
            Some b \<Rightarrow> Some b | None \<Rightarrow> value_at R (CollectionSuffix.Job i) w))) w"
proof -
  let ?es = "[(Main_tree, to_bytes t, l), (Main_tree, to_bytes CollectionSuffix.Delayed, d),
    (Main_tree, to_bytes CollectionSuffix.Prioritized, p)]"
  have laws: "batch_law R (write_opt R)" "batch_law R (commit_transaction R)" using R by (simp_all add: rocks_laws_def)
  have main: "key_of k = (Main_tree, to_bytes k)" if "is_col k" for k
    using that by (auto simp: key_of_def family_of_def is_col_def is_list_col_def is_scored_col_def)
  have cols: "is_col t" "is_col CollectionSuffix.Delayed" "is_col CollectionSuffix.Prioritized"
    using t by (auto simp: is_col_def is_list_col_def is_scored_col_def)
  have es: "last_write ?es (key_of k) = (if k = t then Some l else if k = CollectionSuffix.Delayed then Some d
      else if k = CollectionSuffix.Prioritized then Some p else None)" for k
    using t by (auto simp: last_write_def main [OF cols(1), symmetric] main [OF cols(2), symmetric]
      main [OF cols(3), symmetric] key_of_col cols)
  have kept: "value_at R k (on_rdb (\<lambda>s. s\<lparr>job_batch := []\<rparr>) w) = value_at R k w" for k by (simp add: value_at_def)
  have "kwp (on_db (write_opt R (job_batch (rdb w)))) (\<lambda>_. kwp (on_db (commit_transaction R ?es)) (\<lambda>_ w'.
      job_batch (rdb w') = [] \<and>
      (\<forall>k. is_col k \<longrightarrow> value_at R k w' = (if k = t then Some l else if k = CollectionSuffix.Delayed then Some d
         else if k = CollectionSuffix.Prioritized then Some p else value_at R k w)) \<and>
      (\<forall>i. value_at R (CollectionSuffix.Job i) w' =
         (case last_write (job_batch (rdb w)) (key_of (CollectionSuffix.Job i)) of
            Some b \<Rightarrow> Some b | None \<Rightarrow> value_at R (CollectionSuffix.Job i) w))))
      (on_rdb (\<lambda>s. s\<lparr>job_batch := []\<rparr>) w)"
    by (rule kwp_mono [OF write_value [OF laws(1)]], rule kwp_mono [OF write_value [OF laws(2)]])
      (use t batch in \<open>auto simp: es main last_write_family kept split: option.split\<close>)
  then show ?thesis by (simp add: commit_def)
qed

lemma written_view:
  assumes ok: "rocks_ok R C w" and t: "t = CollectionSuffix.Wait \<or> t = CollectionSuffix.Paused"
    and dec: "list_from_slice C bl = Inr q" "map_from_slice C bd = Inr d" "map_from_slice C bp = Inr p"
    and sorted: "sm_ok d" "sm_ok p"
    and at: "\<forall>k. is_col k \<longrightarrow> value_at R k w' = (if k = t then Some bl else if k = CollectionSuffix.Delayed then Some bd
      else if k = CollectionSuffix.Prioritized then Some bp else value_at R k w)"
  shows "rocks_ok R C w' \<and> items (rocks_view R C w') t = q \<and> map_or_default R C CollectionSuffix.Delayed w' = d \<and>
    map_or_default R C CollectionSuffix.Prioritized w' = p \<and>
    (\<forall>c. c \<notin> {t, CollectionSuffix.Delayed, CollectionSuffix.Prioritized} \<longrightarrow>
      items (rocks_view R C w') c = items (rocks_view R C w) c)"
proof -
  have l: "is_list_col t" and sc: "is_scored_col CollectionSuffix.Delayed" "is_scored_col CollectionSuffix.Prioritized"
    using t by (auto simp: is_scored_col_def is_list_col_def)
  have other: "fetch R f k w' = fetch R f k w" if "is_col k" "k \<notin> {t, CollectionSuffix.Delayed, CollectionSuffix.Prioritized}"
    for k and f :: "('x, _) decoder" using at that by (simp add: fetch_value)
  have "list_or_default R C t w' = q" using at l t dec by (auto simp: fetch_value is_col_def okay_def)
  moreover have d: "map_or_default R C CollectionSuffix.Delayed w' = d"
    and p: "map_or_default R C CollectionSuffix.Prioritized w' = p"
    using at sc t dec by (auto simp: fetch_value is_col_def okay_def)
  moreover have "sm_ok (map_or_default R C c w')" if "is_scored_col c" for c
  proof (cases "c = CollectionSuffix.Delayed \<or> c = CollectionSuffix.Prioritized")
    case False
    have "c \<noteq> t" using that l col_kinds(3) by blast
    then show ?thesis using False other [of c "map_from_slice C"] that rocks_ok_sorted(1) [OF ok that] by (simp add: is_col_def)
  qed (use d p sorted in auto)
  moreover have st: "fetch R (set_from_slice C) CollectionSuffix.Stalled w' = fetch R (set_from_slice C) CollectionSuffix.Stalled w"
    by (rule other) (use t in \<open>auto simp: is_col_def\<close>)
  moreover have "items (rocks_view R C w') c = items (rocks_view R C w) c"
    if "c \<notin> {t, CollectionSuffix.Delayed, CollectionSuffix.Prioritized}" for c
    by (simp add: rocks_view_def rocks_items_def is_col_def other [OF _ that] st)
  ultimately show ?thesis using ok l by (simp add: rocks_ok_def rocks_view_cols)
qed

text \<open>
  C26. A bulk insertion is written as a whole. \<^verbatim>\<open>submit_changes\<close> puts the collected ids before the ids of the list,
  adds the delayed and the prioritized ones to their maps, leaves every other collection as it is, stores
  the record of every job of the batch, the last one of each id, and empties the batch.
\<close>

theorem submit_changes_written:
  assumes ok: "rocks_ok R C w" and batch: "\<forall>e \<in> set (job_batch (rdb w)). fst e = Jobs_tree"
    and t: "t = (if on_hold then CollectionSuffix.Paused else CollectionSuffix.Wait)"
  shows "kwp (submit_changes R C on_hold ids) (\<lambda>_ w'. rocks_ok R C w' \<and> job_batch (rdb w') = [] \<and>
    items (rocks_view R C w') t = list_ids ids @ items (rocks_view R C w) t \<and>
    map_or_default R C CollectionSuffix.Delayed w' = extend_map (map_or_default R C CollectionSuffix.Delayed w) (delayed_ids ids) \<and>
    map_or_default R C CollectionSuffix.Prioritized w' =
      extend_map (map_or_default R C CollectionSuffix.Prioritized w) (priorized_ids ids) \<and>
    (\<forall>c. c \<notin> {t, CollectionSuffix.Delayed, CollectionSuffix.Prioritized} \<longrightarrow>
      items (rocks_view R C w') c = items (rocks_view R C w) c) \<and>
    (\<forall>i. value_at R (CollectionSuffix.Job i) w' =
      (case last_write (job_batch (rdb w)) (key_of (CollectionSuffix.Job i)) of
         Some b \<Rightarrow> Some b | None \<Rightarrow> value_at R (CollectionSuffix.Job i) w))) w"
proof -
  let ?q = "list_ids ids @ list_or_default R C t w"
  let ?d = "extend_map (map_or_default R C CollectionSuffix.Delayed w) (delayed_ids ids)"
  let ?p = "extend_map (map_or_default R C CollectionSuffix.Prioritized w) (priorized_ids ids)"
  have laws: "rocks_laws R" "codec_laws C" using ok by (simp_all add: rocks_ok_def)
  have sc: "is_scored_col CollectionSuffix.Delayed" "is_scored_col CollectionSuffix.Prioritized" and l: "is_list_col t"
    using t by (auto simp: is_scored_col_def is_list_col_def)
  have sorted: "sm_ok ?d" "sm_ok ?p" using rocks_ok_sorted(1) [OF ok] sc by (simp_all add: sm_ok_extend)
  obtain bl bd bp where enc: "list_to_vec C ?q = Inr bl" "map_to_vec C ?d = Inr bd" "map_to_vec C ?p = Inr bp"
    and dec: "list_from_slice C bl = Inr ?q" "map_from_slice C bd = Inr ?d" "map_from_slice C bp = Inr ?p"
    using laws(2) sorted unfolding codec_laws_def by meson
  have t': "t = CollectionSuffix.Wait \<or> t = CollectionSuffix.Paused" using t by auto
  have "kwp (kbind (commit R) (\<lambda>_. on_db (commit_transaction R [(Main_tree, to_bytes t, bl),
      (Main_tree, to_bytes CollectionSuffix.Delayed, bd), (Main_tree, to_bytes CollectionSuffix.Prioritized, bp)])))
    (\<lambda>_ w'. rocks_ok R C w' \<and> job_batch (rdb w') = [] \<and> items (rocks_view R C w') t = ?q \<and>
      map_or_default R C CollectionSuffix.Delayed w' = ?d \<and> map_or_default R C CollectionSuffix.Prioritized w' = ?p \<and>
      (\<forall>c. c \<notin> {t, CollectionSuffix.Delayed, CollectionSuffix.Prioritized} \<longrightarrow>
        items (rocks_view R C w') c = items (rocks_view R C w) c) \<and>
      (\<forall>i. value_at R (CollectionSuffix.Job i) w' =
        (case last_write (job_batch (rdb w)) (key_of (CollectionSuffix.Job i)) of
           Some b \<Rightarrow> Some b | None \<Rightarrow> value_at R (CollectionSuffix.Job i) w))) w"
    by (rule kwp_mono [OF commit_values [OF laws(1) batch t']]) (use written_view [OF ok t' dec sorted] in blast)
  then show ?thesis
    unfolding submit_changes_def Let_def t [symmetric] rocks_view_cols(1) [OF l]
    by (simp add: enc json_def)
qed

theorem submit_changes_written_witness:
  "kwp (submit_changes demo_rocks demo_codec False \<lparr>list_ids = [2, 1], priorized_ids = [], delayed_ids = [(900, 3)]\<rparr>)
    (\<lambda>_ w'. items (rocks_view demo_rocks demo_codec w') CollectionSuffix.Wait = [2, 1] \<and>
      map_or_default demo_rocks demo_codec CollectionSuffix.Delayed w' = [(900, 3)]) demo_rocks_world"
proof -
  have "job_batch (rdb demo_rocks_world) = []" by (simp add: demo_rocks_world_def new_store_def Let_def)
  with submit_changes_written [OF demo_rocks_ok(1) _ refl, of False
      "\<lparr>list_ids = [2, 1], priorized_ids = [], delayed_ids = [(900, 3)]\<rparr>"]
  have "kwp (submit_changes demo_rocks demo_codec False \<lparr>list_ids = [2, 1], priorized_ids = [], delayed_ids = [(900, 3)]\<rparr>)
    (\<lambda>_ w'. items (rocks_view demo_rocks demo_codec w') CollectionSuffix.Wait = [2, 1] \<and>
      map_or_default demo_rocks demo_codec CollectionSuffix.Delayed w' = extend_map [] [(900, 3)]) demo_rocks_world"
    by (auto elim!: kwp_mono simp: demo_rocks_ok fetch_value)
  then show ?thesis by (simp add: extend_map_def sm_insert_def)
qed

end
