(* ===== verification/Redis_Wire.thy ===== *)
theory Redis_Wire
  imports Store_Trait
begin

text \<open>
  What the Redis store exchanges with its server: the server's version (\<^verbatim>\<open>src/src/stores/redis_store.rs\<close>), the
  decoding of jobs, tokens, states and modes (\<^verbatim>\<open>src/src/job/mod.rs\<close>, \<^verbatim>\<open>src/src/queue/options.rs\<close>) and of the entries of
  the event stream (\<^verbatim>\<open>src/src/events/redis_events.rs\<close>).

  The values of the Redis client, the JSON library and the calendar are parameters, collected in the record
  \<open>wire\<close>: the conversions of the client from a value \<open>'v\<close>, the JSON library at the types that the source
  encodes and decodes, and the reading of a timestamp. A byte string is a \<open>string\<close>. A failed conversion is a
  message.
\<close>

section \<open>Strings\<close>

text \<open>\<^verbatim>\<open>str::split\<close>, \<^verbatim>\<open>split_once\<close>, \<^verbatim>\<open>splitn\<close>, \<^verbatim>\<open>lines\<close>, \<^verbatim>\<open>trim\<close> and \<^verbatim>\<open>starts_with\<close> on ASCII text.\<close>

fun split_on :: "char \<Rightarrow> string \<Rightarrow> string list" where
  "split_on c [] = [[]]"
| "split_on c (x # xs) =
    (if x = c then [] # split_on c xs
     else case split_on c xs of [] \<Rightarrow> [[x]] | y # ys \<Rightarrow> (x # y) # ys)"

fun split_once :: "char \<Rightarrow> string \<Rightarrow> (string \<times> string) option" where
  "split_once c [] = None"
| "split_once c (x # xs) =
    (if x = c then Some ([], xs) else map_option (\<lambda>(a, b). (x # a, b)) (split_once c xs))"

fun splitn :: "nat \<Rightarrow> char \<Rightarrow> string \<Rightarrow> string list" where
  "splitn 0 c s = []"
| "splitn (Suc n) c s =
    (if n = 0 then [s] else case split_once c s of None \<Rightarrow> [s] | Some (a, b) \<Rightarrow> a # splitn n c b)"

definition strip_cr :: "string \<Rightarrow> string" where
  "strip_cr s = (if s \<noteq> [] \<and> last s = CHR 0x0D then butlast s else s)"

definition lines :: "string \<Rightarrow> string list" where
  "lines s =
    (let parts = split_on CHR 0x0A s in
     map strip_cr (butlast parts) @ (if last parts = [] then [] else [last parts]))"

definition is_space :: "char \<Rightarrow> bool" where
  "is_space c \<longleftrightarrow> c \<in> {CHR '' '', CHR 0x09, CHR 0x0A, CHR 0x0B, CHR 0x0C, CHR 0x0D}"

definition trim :: "string \<Rightarrow> string" where
  "trim s = rev (dropWhile is_space (rev (dropWhile is_space s)))"

definition starts_with :: "string \<Rightarrow> string \<Rightarrow> bool" where
  "starts_with pat s \<longleftrightarrow> take (length pat) s = pat"

text \<open>\<^verbatim>\<open>str::parse\<close> for unsigned and signed numbers: digits after an optional sign, within the bounds of the type.\<close>

definition parse_digits :: "string \<Rightarrow> nat option" where
  "parse_digits s = (if s \<noteq> [] \<and> list_all is_digit s then Some (undecimal s) else None)"

definition unsigned_part :: "string \<Rightarrow> string" where
  "unsigned_part s = (case s of c # s' \<Rightarrow> if c = CHR ''+'' then s' else s | [] \<Rightarrow> [])"

definition parse_u32 :: "string \<Rightarrow> u32 option" where
  "parse_u32 s = Option.bind (parse_digits (unsigned_part s)) (\<lambda>n. if n < 2 ^ 32 then Some (of_nat n) else None)"

definition parse_u64 :: "string \<Rightarrow> u64 option" where
  "parse_u64 s = Option.bind (parse_digits (unsigned_part s)) (\<lambda>n. if n < 2 ^ 64 then Some (of_nat n) else None)"

definition parse_i64 :: "string \<Rightarrow> i64 option" where
  "parse_i64 s =
    (case s of
       c # s' \<Rightarrow>
         if c = CHR ''-''
         then Option.bind (parse_digits s') (\<lambda>n. if n \<le> 2 ^ 63 then Some (- of_nat n) else None)
         else Option.bind (parse_digits (unsigned_part s)) (\<lambda>n. if n < 2 ^ 63 then Some (of_nat n) else None)
     | [] \<Rightarrow> None)"

section \<open>The version of the server\<close>

record RedisVersion =
  major :: u32
  minor :: u32
  patch :: u32

text \<open>Both functions split a version text into at most three numbers; the third one may be missing.\<close>

definition version_of :: "string \<Rightarrow> RedisVersion option" where
  "version_of s =
    (case splitn 3 CHR ''.'' s of
       a # b # rest \<Rightarrow>
         Option.bind (parse_u32 a) (\<lambda>ma. Option.bind (parse_u32 b) (\<lambda>mi.
         Option.bind (parse_u32 (case rest of [] \<Rightarrow> ''0'' | c # _ \<Rightarrow> c)) (\<lambda>pa.
         Some \<lparr>major = ma, minor = mi, patch = pa\<rparr>)))
     | _ \<Rightarrow> None)"

definition parse :: "string \<Rightarrow> RedisVersion option" where
  "parse raw =
    Option.bind (find (starts_with ''redis_version:'') (lines raw)) (\<lambda>line.
    Option.bind (split_once CHR '':'' line) (\<lambda>(_, rest). version_of (trim rest)))"

text \<open>The derived order compares the three numbers in turn.\<close>

definition version_le :: "RedisVersion \<Rightarrow> RedisVersion \<Rightarrow> bool" where
  "version_le a b \<longleftrightarrow> major a < major b \<or> major a = major b \<and>
     (minor a < minor b \<or> minor a = minor b \<and> patch a \<le> patch b)"

definition is_at_least :: "RedisVersion \<Rightarrow> string \<Rightarrow> bool option" where
  "is_at_least self version = map_option (\<lambda>other. version_le other self) (version_of version)"

section \<open>Values of other libraries\<close>

type_synonym ('a, 'b) decoder = "'b \<Rightarrow> string + 'a"
type_synonym 'a json_decoder = "string \<Rightarrow> string + 'a"
type_synonym 'a json_encoder = "'a \<Rightarrow> string + string"

text \<open>
  \<open>is_nil\<close>, \<open>bulk_string\<close> and \<open>as_map_iter\<close> inspect a value of the client; \<open>bytes\<close> to \<open>elements\<close> are its conversions to
  \<^verbatim>\<open>Vec<u8>\<close>, \<^verbatim>\<open>String\<close>, \<^verbatim>\<open>u64\<close>, \<^verbatim>\<open>i64\<close>, \<^verbatim>\<open>u8\<close>, \<^verbatim>\<open>bool\<close>, \<^verbatim>\<open>Vec<(u64, u64)>\<close> and to a vector of values; \<open>from_utf8\<close> checks the bytes
  of a string. The \<open>_from\<close> fields are \<^verbatim>\<open>simd_json::from_slice\<close> at one type each, the \<open>_to\<close> fields \<^verbatim>\<open>to_string\<close> or
  \<^verbatim>\<open>to_string_pretty\<close>; \<open>job_object\<close> and \<open>event_object\<close> are \<^verbatim>\<open>to_borrowed_value\<close> where it gives an object, whose values
  \<open>'j\<close> are printed by \<open>value_to\<close>.
\<close>

record ('v, 'j, 'c, 'd, 'r, 'p) wire =
  is_nil :: "'v \<Rightarrow> bool"
  bulk_string :: "'v \<Rightarrow> string option"
  as_map_iter :: "'v \<Rightarrow> ('v \<times> 'v) list option"
  bytes :: "(string, 'v) decoder"
  text_of :: "(string, 'v) decoder"
  number :: "(u64, 'v) decoder"
  signed_number :: "(i64, 'v) decoder"
  byte :: "(u8, 'v) decoder"
  flag :: "(bool, 'v) decoder"
  pairs_of :: "((u64 \<times> u64) list, 'v) decoder"
  elements :: "('v list, 'v) decoder"
  from_utf8 :: "string \<Rightarrow> string + string"
  dt_from_millis :: "i64 \<Rightarrow> Dt option"
  number_from :: "u64 json_decoder"
  opt_number_from :: "u64 option json_decoder"
  string_from :: "string json_decoder"
  opt_string_from :: "string option json_decoder"
  strings_from :: "string list json_decoder"
  state_from :: "JobState json_decoder"
  opts_from :: "'c JobOptions json_decoder"
  token_from :: "JobToken json_decoder"
  opt_token_from :: "JobToken option json_decoder"
  opt_progress_from :: "'p option json_decoder"
  opt_data_from :: "'d option json_decoder"
  opt_returned_from :: "'r option json_decoder"
  opt_failed_from :: "FailedDetails option json_decoder"
  traces_from :: "Trace list json_decoder"
  opt_uuid_from :: "Uuid option json_decoder"
  opt_metrics_from :: "JobMetrics option json_decoder"
  worker_from :: "WorkerMetrics json_decoder"
  process_from :: "ProcessMetrics json_decoder"
  event_from :: "('r, 'p) QueueStreamEvent json_decoder"
  progress_to :: "'p json_encoder"
  returned_to :: "'r json_encoder"
  traces_to :: "Trace list json_encoder"
  field_to :: "'r JobField json_encoder"
  token_to :: "JobToken json_encoder"
  worker_to :: "WorkerMetrics json_encoder"
  process_to :: "ProcessMetrics json_encoder"
  event_to :: "('r, 'p) QueueStreamEvent json_encoder"
  job_object :: "('c, 'd, 'r, 'p) Job \<Rightarrow> (string \<times> 'j) list option"
  event_object :: "('r, 'p) QueueStreamEvent \<Rightarrow> (string \<times> 'j) list option"
  value_to :: "'j json_encoder"
  uuid_to_string :: "Uuid \<Rightarrow> string"

text \<open>The client's conversions to \<^verbatim>\<open>Option<T>\<close> and \<^verbatim>\<open>Vec<T>\<close>; a sum with the error on the left is bound by \<^verbatim>\<open>?\<close>.\<close>

definition sbind :: "'e + 'a \<Rightarrow> ('a \<Rightarrow> 'e + 'b) \<Rightarrow> 'e + 'b" where
  "sbind r f = (case r of Inl e \<Rightarrow> Inl e | Inr a \<Rightarrow> f a)"

lemma sbind_simps [simp]: "sbind (Inl e) f = Inl e" "sbind (Inr a) f = f a"
  by (simp_all add: sbind_def)

fun smap :: "('a \<Rightarrow> 'e + 'b) \<Rightarrow> 'a list \<Rightarrow> 'e + 'b list" where
  "smap f [] = Inr []"
| "smap f (x # xs) = sbind (f x) (\<lambda>y. sbind (smap f xs) (\<lambda>ys. Inr (y # ys)))"

fun sfold :: "('a \<Rightarrow> 's \<Rightarrow> 'e + 's) \<Rightarrow> 'a list \<Rightarrow> 's \<Rightarrow> 'e + 's" where
  "sfold f [] s = Inr s"
| "sfold f (x # xs) s = sbind (f x s) (sfold f xs)"

definition okay :: "'e + 'a \<Rightarrow> 'a option" where
  "okay r = (case r of Inl _ \<Rightarrow> None | Inr a \<Rightarrow> Some a)"

lemma okay_simps [simp]: "okay (Inl e) = None" "okay (Inr a) = Some a"
  by (simp_all add: okay_def)

definition option_value :: "('v, 'j, 'c, 'd, 'r, 'p) wire \<Rightarrow> ('a, 'v) decoder \<Rightarrow> ('a option, 'v) decoder" where
  "option_value C dec v = (if is_nil C v then Inr None else sbind (dec v) (\<lambda>a. Inr (Some a)))"

definition list_value :: "('v, 'j, 'c, 'd, 'r, 'p) wire \<Rightarrow> ('a, 'v) decoder \<Rightarrow> ('a list, 'v) decoder" where
  "list_value C dec v = sbind (elements C v) (smap dec)"

text \<open>\<^verbatim>\<open>serialize_into_pairs\<close> on the object of a value: a field that cannot be printed is left out.\<close>

definition serialize_into_pairs :: "('v, 'j, 'c, 'd, 'r, 'p) wire \<Rightarrow> (string \<times> 'j) list option \<Rightarrow> (string \<times> string) list" where
  "serialize_into_pairs C obj =
    (case obj of
       Some obj_fields \<Rightarrow> List.map_filter (\<lambda>(key, val). map_option (\<lambda>printed. (key, printed)) (okay (value_to C val))) obj_fields
     | None \<Rightarrow> [])"

section \<open>States, modes and tokens\<close>

fun state_name :: "JobState \<Rightarrow> string" where
  "state_name JobState.Wait = ''Wait''"
| "state_name JobState.Prioritized = ''Prioritized''"
| "state_name JobState.Stalled = ''Stalled''"
| "state_name JobState.Active = ''Active''"
| "state_name JobState.Paused = ''Paused''"
| "state_name JobState.Resumed = ''Resumed''"
| "state_name JobState.Completed = ''Completed''"
| "state_name JobState.Failed = ''Failed''"
| "state_name JobState.Delayed = ''Delayed''"
| "state_name JobState.Progress = ''Progress''"
| "state_name JobState.Obliterated = ''Obliterated''"
| "state_name JobState.Processing = ''Processing''"

definition all_states :: "JobState list" where
  "all_states = [JobState.Wait, JobState.Prioritized, JobState.Stalled, JobState.Active, JobState.Paused,
     JobState.Resumed, JobState.Completed, JobState.Failed, JobState.Delayed, JobState.Progress,
     JobState.Obliterated, JobState.Processing]"

text \<open>The derived \<^verbatim>\<open>FromStr\<close> ignores the case of the letters, as no two states differ in it only.\<close>

definition state_from_str :: "string \<Rightarrow> JobState option" where
  "state_from_str s = find (\<lambda>st. to_lowercase (state_name st) = to_lowercase s) all_states"

definition state_from_value :: "('v, 'j, 'c, 'd, 'r, 'p) wire \<Rightarrow> (JobState, 'v) decoder" where
  "state_from_value C v =
    sbind (bytes C v) (\<lambda>bs. sbind (from_utf8 C bs) (\<lambda>s.
    case state_from_str s of Some st \<Rightarrow> Inr st | None \<Rightarrow> state_from C bs))"

definition token_from_value :: "('v, 'j, 'c, 'd, 'r, 'p) wire \<Rightarrow> (JobToken, 'v) decoder" where
  "token_from_value C v =
    sbind (bytes C v) (\<lambda>bs. if bs = ''null'' then Inl ''null passed'' else token_from C bs)"

definition mode_from_value :: "('v, 'j, 'c, 'd, 'r, 'p) wire \<Rightarrow> (QueueEventMode, 'v) decoder" where
  "mode_from_value C v =
    sbind (if is_nil C v then Inr 0 else byte C v) (\<lambda>n. Inr (unwrap_or Stream (okay (event_mode_try_from n))))"

definition mode_to_arg :: "QueueEventMode \<Rightarrow> string" where
  "mode_to_arg mode = decimal (unat (event_mode_u8 mode))"

definition state_to_arg :: "JobState \<Rightarrow> string" where
  "state_to_arg st = to_lowercase (state_name st)"

definition suffix_to_arg :: "CollectionSuffix \<Rightarrow> string" where
  "suffix_to_arg col = to_lowercase (display col)"

definition token_to_arg :: "('v, 'j, 'c, 'd, 'r, 'p) wire \<Rightarrow> JobToken \<Rightarrow> string" where
  "token_to_arg C tok = unwrap_or [] (okay (token_to C tok))"

definition worker_from_value :: "('v, 'j, 'c, 'd, 'r, 'p) wire \<Rightarrow> (WorkerMetrics, 'v) decoder" where
  "worker_from_value C v = sbind (bytes C v) (worker_from C)"

definition process_from_value :: "('v, 'j, 'c, 'd, 'r, 'p) wire \<Rightarrow> (ProcessMetrics, 'v) decoder" where
  "process_from_value C v = sbind (bytes C v) (process_from C)"

section \<open>Jobs\<close>

text \<open>One field of the hash of a job; \<open>value\<close> is the bulk string \<open>bs\<close>. Unknown fields are skipped.\<close>

definition job_entry :: "('v, 'j, 'c, 'd, 'r, 'p) wire \<Rightarrow> 'c externals \<Rightarrow> string \<Rightarrow> string \<Rightarrow> 'v \<Rightarrow>
    ('c, 'd, 'r, 'p) Job \<Rightarrow> string + ('c, 'd, 'r, 'p) Job" where
  "job_entry C ext key bs value j =
    (if key = ''id'' then sbind (opt_number_from C bs) (\<lambda>i. Inr (j\<lparr>Job.job_id := i\<rparr>))
     else if key = ''timestamp'' then sbind (opt_number_from C bs) (\<lambda>t.
       Inr (j\<lparr>ts := unwrap_or 0 (Option.bind t (from_timestamp_micros ext))\<rparr>))
     else if key = ''opts'' then sbind (opts_from C bs) (\<lambda>v. Inr (j\<lparr>Job.opts := v\<rparr>))
     else if key = ''name'' then sbind (string_from C bs) (\<lambda>v. Inr (j\<lparr>Job.name := v\<rparr>))
     else if key = ''queuename'' \<or> key = ''queueName'' then
       sbind (opt_string_from C bs) (\<lambda>v. Inr (j\<lparr>Job.queue_name := v\<rparr>))
     else if key = ''state'' then sbind (state_from_value C value) (\<lambda>v. Inr (j\<lparr>Job.state := v\<rparr>))
     else if key = ''token'' then Inr (j\<lparr>Job.token := unwrap_or None (okay (opt_token_from C bs))\<rparr>)
     else if key = ''progress'' then sbind (opt_progress_from C bs) (\<lambda>v. Inr (j\<lparr>Job.progress := v\<rparr>))
     else if key = ''attemptsmade'' \<or> key = ''attemptsMade'' then
       sbind (number_from C bs) (\<lambda>v. Inr (j\<lparr>attempts_made := v\<rparr>))
     else if key = ''delay'' then sbind (number_from C bs) (\<lambda>v. Inr (j\<lparr>Job.delay := v\<rparr>))
     else if key = ''priority'' then sbind (number_from C bs) (\<lambda>v. Inr (j\<lparr>Job.priority := v\<rparr>))
     else if key = ''data'' then sbind (opt_data_from C bs) (\<lambda>v. Inr (j\<lparr>Job.data := v\<rparr>))
     else if key = ''returnedvalue'' \<or> key = ''returnedValue'' then
       sbind (opt_returned_from C bs) (\<lambda>v. Inr (j\<lparr>Job.returned_value := v\<rparr>))
     else if key = ''stacktrace'' \<or> key = ''stackTrace'' then
       sbind (traces_from C bs) (\<lambda>v. Inr (j\<lparr>stack_trace := v\<rparr>))
     else if key = ''logs'' then sbind (strings_from C bs) (\<lambda>v. Inr (j\<lparr>logs := v\<rparr>))
     else if key = ''failedreason'' \<or> key = ''failedReason'' then
       sbind (opt_failed_from C bs) (\<lambda>v. Inr (j\<lparr>Job.failed_reason := v\<rparr>))
     else if key = ''processedon'' \<or> key = ''processedOn'' then
       sbind (opt_number_from C bs) (\<lambda>t. Inr (j\<lparr>processed_on := Option.bind t (from_timestamp_micros ext)\<rparr>))
     else if key = ''finishedon'' \<or> key = ''finishedOn'' then
       sbind (opt_number_from C bs) (\<lambda>t. Inr (j\<lparr>finished_on := Option.bind t (from_timestamp_micros ext)\<rparr>))
     else if key = ''stalledcounter'' \<or> key = ''stalledCounter'' then
       sbind (number_from C bs) (\<lambda>v. Inr (j\<lparr>stalled_counter := v\<rparr>))
     else Inr j)"

definition job_from_value :: "('v, 'j, 'c, 'd, 'r, 'p) wire \<Rightarrow> 'c externals \<Rightarrow> Dt \<Rightarrow> (('c, 'd, 'r, 'p) Job, 'v) decoder" where
  "job_from_value C ext now v =
    (case as_map_iter C v of
       None \<Rightarrow> Inl ''failed to extract map''
     | Some entries \<Rightarrow>
         sfold (\<lambda>(key, value) j. case (bulk_string C key, bulk_string C value) of
             (Some k, Some bs) \<Rightarrow> job_entry C ext k bs value j
           | _ \<Rightarrow> Inr j) entries (Jobs.new now [] None None None))"

section \<open>Entries of the event stream\<close>

definition from_timestamp_millis :: "('v, 'j, 'c, 'd, 'r, 'p) wire \<Rightarrow> Dt \<Rightarrow> i64 \<Rightarrow> StreamEventId" where
  "from_timestamp_millis C now t = StreamEventId (unwrap_or now (dt_from_millis C t)) 0"

definition event_id_from_str :: "('v, 'j, 'c, 'd, 'r, 'p) wire \<Rightarrow> string \<Rightarrow> KioError + StreamEventId" where
  "event_id_from_str C s =
    (case split_once CHR ''-'' s of
       None \<Rightarrow> Inl (IoError ''invalid string format, expect timestamp-number'')
     | Some (t, num) \<Rightarrow>
        (case parse_i64 t of
           None \<Rightarrow> Inl (ParseIntError t)
         | Some ms \<Rightarrow>
            (case dt_from_millis C ms of
               None \<Rightarrow> Inl (IoError ''invalid timestamp format'')
             | Some dt \<Rightarrow>
                (case parse_u64 num of None \<Rightarrow> Inl (ParseIntError num) | Some n \<Rightarrow> Inr (StreamEventId dt n)))))"

text \<open>The errors of the two libraries, as \<^verbatim>\<open>?\<close> converts them.\<close>

definition parsing :: "string + 'a \<Rightarrow> KioError + 'a" where
  "parsing r = (case r of Inl m \<Rightarrow> Inl (RedisParsingError m) | Inr a \<Rightarrow> Inr a)"

definition json_result :: "string + 'a \<Rightarrow> KioError + 'a" where
  "json_result r = (case r of Inl m \<Rightarrow> Inl (JsonError m) | Inr a \<Rightarrow> Inr a)"

definition other_error :: "string + 'a \<Rightarrow> KioError + 'a" where
  "other_error r = (case r of Inl m \<Rightarrow> Inl (IoError m) | Inr a \<Rightarrow> Inr a)"

lemma error_simps [simp]:
  "parsing (Inl m) = Inl (RedisParsingError m)" "parsing (Inr a) = Inr a"
  "json_result (Inl m) = Inl (JsonError m)" "json_result (Inr b) = Inr b"
  "other_error (Inl m) = Inl (IoError m)" "other_error (Inr c) = Inr c"
  by (simp_all add: parsing_def json_result_def other_error_def)

definition event_entry :: "('v, 'j, 'c, 'd, 'r, 'p) wire \<Rightarrow> string \<Rightarrow> string \<Rightarrow> 'v \<Rightarrow> ('r, 'p) QueueStreamEvent \<Rightarrow>
    KioError + ('r, 'p) QueueStreamEvent" where
  "event_entry C key bs val e =
    (let k = to_lowercase key in
     if k = ''job_id'' \<or> k = ''jobid'' then sbind (parsing (number C val)) (\<lambda>v. Inr (e\<lparr>QueueStreamEvent.job_id := v\<rparr>))
     else if k = ''name'' then
       sbind (parsing (option_value C (text_of C) val)) (\<lambda>v. Inr (e\<lparr>QueueStreamEvent.name := v\<rparr>))
     else if k = ''delay'' then
       sbind (parsing (option_value C (number C) val)) (\<lambda>v. Inr (e\<lparr>QueueStreamEvent.delay := v\<rparr>))
     else if k = ''worker_id'' \<or> k = ''workerid'' then
       sbind (other_error (opt_uuid_from C bs)) (\<lambda>v. Inr (e\<lparr>QueueStreamEvent.worker_id := v\<rparr>))
     else if k = ''priority'' then
       sbind (parsing (option_value C (number C) val)) (\<lambda>v. Inr (e\<lparr>QueueStreamEvent.priority := v\<rparr>))
     else if k = ''data'' then sbind (json_result (opt_progress_from C bs)) (\<lambda>v. Inr (e\<lparr>progress_data := v\<rparr>))
     else if k = ''returnedvalue'' \<or> k = ''returned_value'' then
       sbind (json_result (opt_returned_from C bs)) (\<lambda>v. Inr (e\<lparr>QueueStreamEvent.returned_value := v\<rparr>))
     else if k = ''failedreason'' \<or> k = ''failed_reason'' then
       sbind (json_result (opt_failed_from C bs)) (\<lambda>v. Inr (e\<lparr>QueueStreamEvent.failed_reason := v\<rparr>))
     else if k = ''event'' then sbind (parsing (state_from_value C val)) (\<lambda>v. Inr (e\<lparr>event := v\<rparr>))
     else if k = ''prev'' then
       sbind (parsing (option_value C (state_from_value C) val)) (\<lambda>v. Inr (e\<lparr>prev := v\<rparr>))
     else if k = ''metrics'' \<or> k = ''Metrics'' then
       sbind (json_result (opt_metrics_from C bs)) (\<lambda>v. Inr (e\<lparr>QueueStreamEvent.metrics := v\<rparr>))
     else Inr e)"

text \<open>
  An entry of the stream: its id and its fields, in the order in which the client's map yields them. \<open>now\<close> is the
  time of the call.
\<close>

record 'v StreamId =
  entry_id :: string
  entry_map :: "(string \<times> 'v) list"

definition event_try_from :: "('v, 'j, 'c, 'd, 'r, 'p) wire \<Rightarrow> Dt \<Rightarrow> 'v StreamId \<Rightarrow> KioError + ('r, 'p) QueueStreamEvent" where
  "event_try_from C now entry =
    sbind (event_id_from_str C (entry_id entry)) (\<lambda>i.
    sfold (\<lambda>(key, val) e. case bulk_string C val of Some bs \<Rightarrow> event_entry C key bs val e | None \<Rightarrow> Inr e)
      (entry_map entry) ((default_event now)\<lparr>event_id := i\<rparr>))"

type_synonym 'v StreamReadReply = "(string \<times> 'v StreamId list) list"

definition from_stream_read_reply :: "('v, 'j, 'c, 'd, 'r, 'p) wire \<Rightarrow> Dt \<Rightarrow> string \<Rightarrow> 'v StreamReadReply \<Rightarrow>
    ('r, 'p) QueueStreamEvent list" where
  "from_stream_read_reply C now events_key reply =
    (case find (\<lambda>(key, _). key = events_key) reply of
       Some (_, ids) \<Rightarrow> List.map_filter (\<lambda>entry. okay (event_try_from C now entry)) ids
     | None \<Rightarrow> [])"

definition event_from_value :: "('v, 'j, 'c, 'd, 'r, 'p) wire \<Rightarrow> (('r, 'p) QueueStreamEvent, 'v) decoder" where
  "event_from_value C v = sbind (bytes C v) (event_from C)"

definition event_to_arg :: "('v, 'j, 'c, 'd, 'r, 'p) wire \<Rightarrow> ('r, 'p) QueueStreamEvent \<Rightarrow> string" where
  "event_to_arg C e = unwrap_or [] (okay (event_to C e))"

end
