(* ===== verification/Redis_Store.thy ===== *)
theory Redis_Store
  imports Redis_Wire Skip_Map
begin

text \<open>
  The Redis backend, \<^verbatim>\<open>src/src/stores/redis_store.rs\<close>, with the helpers of \<^verbatim>\<open>src/src/utils/mod.rs\<close> that only it uses:
  the record \<open>RedisStore\<close> with the struct's fields and one definition per function, collected in the dictionary
  \<open>redis_store\<close>.

  The client and the server behind it are the parameter \<open>redis\<close>, over a server state \<open>'srv\<close>: a connection is taken
  from the pool, and then single commands or pipelines of commands are sent. \<open>command\<close> lists the commands of the
  source with their arguments; a number that the source passes is kept as a number. The effect of a command is
  nowhere defined here; what theorems need of it they state as laws.
\<close>

section \<open>The client\<close>

datatype bound = Neg_inf | Incl int | Excl int

datatype (plugins only: code size) command =
    Get string
  | Incr string int
  | Exists string
  | Del string
  | Rename string string
  | Expire string int
  | Pexpire string int
  | Pset_ex string string u64
  | Hget string string
  | Hgetall string
  | Hvals string
  | Hset string string string
  | Hset_multiple string "(string \<times> string) list"
  | Hset_ex_fnx_px string u64 "(string \<times> string) list"
  | Hdel string string
  | Hexists string string
  | Hincr string string int
  | Zadd string u64 int
  | Zrem string u64
  | Zscore string u64
  | Zcard string
  | Zrange string int int
  | Zrangebyscore string bound bound
  | Zrembyscore string bound bound
  | Zpopmin string int
  | Zpopmax string int
  | Sadd string u64
  | Srem string u64
  | Sismember string u64
  | Scard string
  | Smembers string
  | Lpush string u64
  | Rpush string u64
  | Lrem string int u64
  | Lpos string u64
  | Llen string
  | Lrange string int int
  | Rpoplpush string string
  | Publish string string
  | Xadd string "(string \<times> string) list"
  | Xgroup_create_mkstream string string string
  | Info string

text \<open>
  \<open>transaction_async\<close> is the client's function of this name: it watches the keys and runs the closure until that
  returns a value. \<open>next_message\<close> waits for the next message of the subscription and is \<open>None\<close> when it ends;
  \<open>xread\<close> is \<^verbatim>\<open>xread_options\<close> for new entries of one stream, with group, consumer and blocking time.
\<close>

record ('srv, 'v, 'x) redis =
  pool_get :: "('srv, unit) kio"
  client_get_connection :: "('srv, unit) kio"
  get_async_pubsub :: "('srv, unit) kio"
  query :: "command \<Rightarrow> ('srv, 'v) kio"
  pipeline :: "bool \<Rightarrow> command list \<Rightarrow> ('srv, 'v list) kio"
  transaction_async :: "string list \<Rightarrow> ('srv, 'x option) kio \<Rightarrow> ('srv, 'x) kio"
  subscribe :: "string \<Rightarrow> ('srv, unit) kio"
  next_message :: "('srv, 'v option) kio"
  xread :: "string \<Rightarrow> string \<Rightarrow> string \<Rightarrow> nat option \<Rightarrow> ('srv, 'v StreamReadReply) kio"

record Pipeline =
  transaction_mode :: bool
  commands :: "command list"

definition pipe :: Pipeline where
  "pipe = \<lparr>transaction_mode = False, commands = []\<rparr>"

definition atomic :: "Pipeline \<Rightarrow> Pipeline" where
  "atomic p = p\<lparr>transaction_mode := True\<rparr>"

definition add_command :: "command \<Rightarrow> Pipeline \<Rightarrow> Pipeline" where
  "add_command c p = p\<lparr>commands := commands p @ [c]\<rparr>"

section \<open>State\<close>

record 'srv RedisStore =
  server :: 'srv
  prefix :: CompactString
  name :: CompactString
  consumer_group :: CompactString
  consumer_name :: CompactString
  stream_key :: CompactString
  subscribed :: bool
  redis_version :: RedisVersion

type_synonym ('srv, 'r, 'p) redis_world = "('srv RedisStore, 'r, 'p) World"

abbreviation rs :: "('srv, 'r, 'p) redis_world \<Rightarrow> 'srv RedisStore" where
  "rs w \<equiv> World.store w"

definition on_rs :: "('srv RedisStore \<Rightarrow> 'srv RedisStore) \<Rightarrow> ('srv, 'r, 'p) redis_world \<Rightarrow> ('srv, 'r, 'p) redis_world" where
  "on_rs f w = w\<lparr>World.store := f (rs w)\<rparr>"

text \<open>A call of the client inside the world.\<close>

definition on_srv :: "('srv, 'a) kio \<Rightarrow> (('srv, 'r, 'p) redis_world, 'a) kio" where
  "on_srv m w = (case m (server (rs w)) of (r, s) \<Rightarrow> (r, on_rs (\<lambda>st. st\<lparr>server := s\<rparr>) w))"

lemma on_rs_fields [simp]:
  "rs (on_rs f w) = f (rs w)" "wall (on_rs f w) = wall w" "mono (on_rs f w) = mono w"
  "current_metrics (on_rs f w) = current_metrics w" "emitted (on_rs f w) = emitted w"
  "pause_workers (on_rs f w) = pause_workers w" "notified (on_rs f w) = notified w"
  "paused_cell (on_rs f w) = paused_cell w" "backoff_registry (on_rs f w) = backoff_registry w"
  by (simp_all add: on_rs_def)

text \<open>The decoded reply of a command: a reply of another type is an error of the client. \<^verbatim>\<open>ok()\<close>.\<close>

definition decoded :: "string + 'a \<Rightarrow> ('w, 'a) kio" where
  "decoded r = kresult (case r of Inl m \<Rightarrow> Inl (Err (RedisError m)) | Inr a \<Rightarrow> Inr a)"

definition json :: "string + 'a \<Rightarrow> ('w, 'a) kio" where
  "json r = kresult (case r of Inl m \<Rightarrow> Inl (Err (JsonError m)) | Inr a \<Rightarrow> Inr a)"

definition attempt :: "('w, 'a) kio \<Rightarrow> 'w \<Rightarrow> 'a option \<times> 'w" where
  "attempt m w = (okay (fst (m w)), snd (m w))"

definition get_connection :: "('srv, 'v, 'x) redis \<Rightarrow> (('srv, 'r, 'p) redis_world, unit) kio" where
  "get_connection R = on_srv (pool_get R)"

definition ask :: "('srv, 'v, 'x) redis \<Rightarrow> ('a, 'v) decoder \<Rightarrow> command \<Rightarrow> (('srv, 'r, 'p) redis_world, 'a) kio" where
  "ask R dec c = kbind (on_srv (query R c)) (\<lambda>v. decoded (dec v))"

definition query_async :: "('srv, 'v, 'x) redis \<Rightarrow> Pipeline \<Rightarrow> (('srv, 'r, 'p) redis_world, 'v list) kio" where
  "query_async R p = on_srv (pipeline R (transaction_mode p) (commands p))"

definition key :: "CollectionSuffix \<Rightarrow> ('srv, 'r, 'p) redis_world \<Rightarrow> string" where
  "key col w = to_collection_name (prefix (rs w)) (RedisStore.name (rs w)) col"

text \<open>Most operations take a connection, compute a key and send one command.\<close>

definition call :: "('srv, 'v, 'x) redis \<Rightarrow> ('a, 'v) decoder \<Rightarrow> CollectionSuffix \<Rightarrow> (string \<Rightarrow> command) \<Rightarrow>
    (('srv, 'r, 'p) redis_world, 'a) kio" where
  "call R dec col c = kbind (get_connection R) (\<lambda>_. kbind (kget (key col)) (\<lambda>k. ask R dec (c k)))"

abbreviation unit_value :: "(unit, 'v) decoder" where
  "unit_value v \<equiv> Inr ()"

section \<open>Construction\<close>

text \<open>\<^verbatim>\<open>SharedRedis::create\<close>: \<open>create_pool\<close> and \<open>open_client\<close> are the client's functions on the configuration.\<close>

record ('pool, 'client) SharedRedis =
  conn_pool :: 'pool
  redis_client :: 'client

definition create :: "('cfg \<Rightarrow> string + 'pool) \<Rightarrow> ('info \<Rightarrow> string + 'client) \<Rightarrow> ('cfg \<Rightarrow> 'info option) \<Rightarrow> 'info \<Rightarrow> 'cfg \<Rightarrow>
    KioError + ('pool, 'client) SharedRedis" where
  "create create_pool open_client connection default_info cfg =
    (case create_pool cfg of
       Inl m \<Rightarrow> Inl (DealPoolConfig m)
     | Inr pool \<Rightarrow>
        (case open_client (unwrap_or default_info (connection cfg)) of
           Inl m \<Rightarrow> Inl (RedisError m)
         | Inr client \<Rightarrow> Inr \<lparr>conn_pool = pool, redis_client = client\<rparr>))"

definition new :: "('srv, 'v, 'x) redis \<Rightarrow> ('v, 'j, 'c, 'd, 'r, 'p) wire \<Rightarrow> Uuid \<Rightarrow> string option \<Rightarrow> string \<Rightarrow>
    ('srv, 'srv RedisStore) kio" where
  "new R C uuid pre nm =
    (let pre' = unwrap_or ''{kio}'' pre;
         group = pre' @ ''-'' @ pre' @ ''-group-'' @ uuid_to_string C uuid;
         consumer = ''consumer-'' @ uuid_to_string C uuid;
         stream = to_collection_name pre' nm Events
     in kbind (pool_get R) (\<lambda>_.
        kbind (get_async_pubsub R) (\<lambda>_.
        kbind (query R (Xgroup_create_mkstream stream group ''$'')) (\<lambda>_.
        kbind (query R (Info ''server'')) (\<lambda>v.
        kbind (decoded (text_of C v)) (\<lambda>raw.
        kbind (kok_or (parse raw) (IoError ''failed to fetch redis-version info '')) (\<lambda>version.
        kget (\<lambda>s. \<lparr>server = s, prefix = pre', name = nm, consumer_group = group, consumer_name = consumer,
          stream_key = stream, subscribed = False, redis_version = version\<rparr>))))))))"

section \<open>Insertion\<close>

text \<open>
  \<open>prepare_for_insert\<close> returns its result, the job it was given by reference and the extended pipeline; a panic is
  on the left. The job is changed by \<open>add_opts\<close> even when the delay is then refused. The keys are formed from the
  queue name without lower-casing it, except for the waiting list and the prioritized set.
\<close>

definition prepare_for_insert :: "('v, 'j, 'c, 'd, 'r, 'p) wire \<Rightarrow> 'c externals \<Rightarrow> Dt \<Rightarrow> string \<Rightarrow> QueueEventMode \<Rightarrow> bool \<Rightarrow>
    u64 \<Rightarrow> u64 \<Rightarrow> 'c JobOptions \<Rightarrow> ('c, 'd, 'r, 'p) Job \<Rightarrow> string \<Rightarrow> Pipeline \<Rightarrow>
    Failure + (KioError + unit) \<times> ('c, 'd, 'r, 'p) Job \<times> Pipeline" where
  "prepare_for_insert C ext now qname mode paused_flag i pc options j nm p =
    sbind (next_occurrance_timestamp_ms ext now (JobOptions.delay options)) (\<lambda>expected_dt_ts.
    sbind (as_diff_ms ext now (JobOptions.delay options)) (\<lambda>delay_ms.
    sbind (add_opts ext options j) (\<lambda>j1.
    if 0 < delay_ms \<and> delay_ms < MIN_DELAY_MS_LIMIT
    then Inr (Inl (KioError.QueueError (DelayBelowAllowedLimit MIN_DELAY_MS_LIMIT delay_ms)), j1, p)
    else
      let prio = JobOptions.priority options;
          to_delay = (0 < delay_ms);
          to_priorize = (0 < prio \<and> \<not> to_delay);
          waiting_key = to_lowercase (qname @ '':'' @
            display (if paused_flag then CollectionSuffix.Paused else CollectionSuffix.Wait));
          (j2, p2) =
            (if to_delay then
               (case expected_dt_ts of
                  Some expected_active_time \<Rightarrow>
                    (j1\<lparr>Job.state := JobState.Delayed\<rparr>,
                     add_command (Zadd (qname @ '':delayed'') i (sint expected_active_time)) (atomic p))
                | None \<Rightarrow> (j1, atomic p))
             else if to_priorize then
               (j1\<lparr>Job.state := JobState.Prioritized\<rparr>,
                add_command (Zadd (to_lowercase (qname @ '':'' @ display CollectionSuffix.Prioritized)) i
                  (uint (calculate_next_priority_score prio pc))) (atomic p))
             else (j1, add_command (Lpush waiting_key i) (atomic p)));
          j3 = j2\<lparr>Job.job_id := Some i\<rparr>;
          p3 = add_command (Hset_multiple (qname @ '':'' @ decimal (unat i))
                 (serialize_into_pairs C (job_object C j3))) p2;
          ev = (if to_delay then JobState.Delayed else if to_priorize then JobState.Prioritized else JobState.Wait);
          events_key = qname @ '':events''
      in Inr (Inr (), j3, add_command
           (case mode of
              PubSub \<Rightarrow> Publish events_key (event_to_arg C
                ((default_event now)\<lparr>QueueStreamEvent.job_id := i, event := ev, QueueStreamEvent.name := Some nm,
                   QueueStreamEvent.delay := (if to_delay then Some delay_ms else None),
                   QueueStreamEvent.priority := (if to_priorize then Some prio else None)\<rparr>))
            | Stream \<Rightarrow> Xadd events_key
                ([(''event'', state_to_arg ev), (''job_id'', decimal (unat i)), (''name'', nm)] @
                 (if to_delay then [(''delay'', decimal (unat delay_ms))] else []) @
                 (if to_priorize then [(''priority'', decimal (unat prio))] else []))) p3))))"

text \<open>
  The pipeline is sent in chunks. The commands are taken out of the pipeline and put into new ones, which are not
  transactions.
\<close>

function chunks :: "nat \<Rightarrow> 'a list \<Rightarrow> 'a list list" where
  "chunks n xs = (if xs = [] \<or> n = 0 then [] else take n xs # chunks n (drop n xs))"
  by pat_completeness auto

termination
  by (relation "measure (\<lambda>(n, xs). length xs)") auto

declare chunks.simps [simp del]

definition split_pipeline :: "Pipeline \<Rightarrow> nat \<Rightarrow> Pipeline list" where
  "split_pipeline p chunk_size = map (\<lambda>chunk. foldl (\<lambda>q c. add_command c q) pipe chunk) (chunks chunk_size (commands p))"

definition query_all_batched :: "('srv, 'v, 'x) redis \<Rightarrow> Pipeline \<Rightarrow> ('srv, unit) kio" where
  "query_all_batched R p =
    kfor (\<lambda>q. kbind (pipeline R (transaction_mode q) (commands q)) (\<lambda>_. kret ())) (split_pipeline p 10000)"

text \<open>
  The loop of \<open>add\<close> over the new jobs. Its state has the two counters, whether a job has a priority, the pipeline
  and the jobs to return. The result of \<open>prepare_for_insert\<close> is ignored.
\<close>

record ('c, 'd, 'r, 'p) insertion =
  id_counter :: u64
  pc_counter :: u64
  to_priorize :: bool
  inserted :: Pipeline
  created :: "('c, 'd, 'r, 'p) Job list"

definition add_one :: "('v, 'j, 'c, 'd, 'r, 'p) wire \<Rightarrow> 'c externals \<Rightarrow> Dt \<Rightarrow> string \<Rightarrow> 'c QueueOpts \<Rightarrow> QueueEventMode \<Rightarrow> bool \<Rightarrow>
    bool \<Rightarrow> ('c, 'd) new_job \<Rightarrow> ('c, 'd, 'r, 'p) insertion \<Rightarrow> Failure + ('c, 'd, 'r, 'p) insertion" where
  "add_one C ext now qname q mode paused_flag return_jobs = (\<lambda>(nm, opt, dat) st.
    let options = update_job_opts q (unwrap_or default_job_options opt);
        i = id_counter st;
        prio = (0 < JobOptions.priority options);
        pc = pc_counter st
    in sbind (prepare_for_insert C ext now qname mode paused_flag i pc options
         (Jobs.new now nm (Some dat) (JobOptions.job_id options) (Some qname)) nm (inserted st)) (\<lambda>(_, j, p).
       Inr \<lparr>id_counter = i + 1, pc_counter = (if prio then pc + 1 else pc), to_priorize = to_priorize st \<or> prio,
         inserted = p, created = created st @ (if return_jobs then [j\<lparr>Job.job_id := Some i\<rparr>] else [])\<rparr>))"

text \<open>\<^verbatim>\<open>AtomicCell::load().saturating_sub(1)\<close>.\<close>

definition saturating_sub :: "u64 \<Rightarrow> u64 \<Rightarrow> u64" where
  "saturating_sub a b = (if b \<le> a then a - b else 0)"

text \<open>The commands that \<open>add\<close> sends, and the jobs it returns, from the counters it has read.\<close>

definition add_pipeline :: "('v, 'j, 'c, 'd, 'r, 'p) wire \<Rightarrow> 'c externals \<Rightarrow> Dt \<Rightarrow> string \<Rightarrow> string \<Rightarrow> 'c QueueOpts \<Rightarrow>
    QueueEventMode \<Rightarrow> bool \<Rightarrow> bool \<Rightarrow> ('c, 'd) new_job list \<Rightarrow> u64 \<Rightarrow> u64 \<Rightarrow>
    Failure + Pipeline \<times> ('c, 'd, 'r, 'p) Job list" where
  "add_pipeline C ext now pre nm q mode paused_flag return_jobs xs i pc =
    sbind (sfold (add_one C ext now (pre @ '':'' @ nm) q mode paused_flag return_jobs) xs
      \<lparr>id_counter = i + 1, pc_counter = pc + 1, to_priorize = False, inserted = atomic pipe, created = []\<rparr>) (\<lambda>st.
    let p1 = add_command (Incr (to_collection_name pre nm Id) (uint (saturating_sub (id_counter st) 1))) (inserted st);
        p2 = (if to_priorize st
              then add_command (Incr (to_collection_name pre nm PriorityCounter)
                (uint (saturating_sub (pc_counter st) 1))) p1 else p1)
    in Inr (p2, created st))"

text \<open>The closure of the transaction: the two counters are read, then everything is sent.\<close>

definition counter :: "('srv, 'v, 'x) redis \<Rightarrow> ('v, 'j, 'c, 'd, 'r, 'p) wire \<Rightarrow> string \<Rightarrow> ('srv, u64) kio" where
  "counter R C k = kbind (query R (Get k)) (\<lambda>v.
    kbind (decoded (option_value C (number C) v)) (\<lambda>n. kret (unwrap_or 0 n)))"

definition read_counters :: "('srv, 'v, 'x) redis \<Rightarrow> ('v, 'j, 'c, 'd, 'r, 'p) wire \<Rightarrow> string \<Rightarrow> string \<Rightarrow> ('srv, u64 \<times> u64) kio" where
  "read_counters R C pre nm =
    kbind (counter R C (to_collection_name pre nm Id)) (\<lambda>i.
    kbind (counter R C (to_collection_name pre nm PriorityCounter)) (\<lambda>pc. kret (i, pc)))"

definition send_jobs :: "('srv, 'v, ('c, 'd, 'r, 'p) Job list) redis \<Rightarrow> ('v, 'j, 'c, 'd, 'r, 'p) wire \<Rightarrow> 'c externals \<Rightarrow> Dt \<Rightarrow>
    string \<Rightarrow> string \<Rightarrow> 'c QueueOpts \<Rightarrow> QueueEventMode \<Rightarrow> bool \<Rightarrow> bool \<Rightarrow> ('c, 'd) new_job list \<Rightarrow> u64 \<times> u64 \<Rightarrow>
    ('srv, ('c, 'd, 'r, 'p) Job list option) kio" where
  "send_jobs R C ext now pre nm q mode paused_flag return_jobs xs = (\<lambda>(i, pc).
    kbind (kresult (add_pipeline C ext now pre nm q mode paused_flag return_jobs xs i pc)) (\<lambda>(p, js).
    kbind (query_all_batched R p) (\<lambda>_. kret (Some js))))"

definition add_closure :: "('srv, 'v, ('c, 'd, 'r, 'p) Job list) redis \<Rightarrow> ('v, 'j, 'c, 'd, 'r, 'p) wire \<Rightarrow> 'c externals \<Rightarrow> Dt \<Rightarrow>
    string \<Rightarrow> string \<Rightarrow> 'c QueueOpts \<Rightarrow> QueueEventMode \<Rightarrow> bool \<Rightarrow> bool \<Rightarrow> ('c, 'd) new_job list \<Rightarrow>
    ('srv, ('c, 'd, 'r, 'p) Job list option) kio" where
  "add_closure R C ext now pre nm q mode paused_flag return_jobs xs =
    kbind (read_counters R C pre nm) (send_jobs R C ext now pre nm q mode paused_flag return_jobs xs)"

definition add :: "('srv, 'v, ('c, 'd, 'r, 'p) Job list) redis \<Rightarrow> ('v, 'j, 'c, 'd, 'r, 'p) wire \<Rightarrow> 'c externals \<Rightarrow>
    ('c, 'd) new_job list \<Rightarrow> 'c QueueOpts \<Rightarrow> QueueEventMode \<Rightarrow> bool \<Rightarrow> bool \<Rightarrow>
    (('srv, 'r, 'p) redis_world, ('c, 'd, 'r, 'p) Job list) kio" where
  "add R C ext xs q mode paused_flag return_jobs =
    kbind (get_connection R) (\<lambda>_.
    kbind (kget (\<lambda>w. (wall w, prefix (rs w), RedisStore.name (rs w)))) (\<lambda>(now, pre, nm).
    on_srv (transaction_async R [to_collection_name pre nm Id, to_collection_name pre nm PriorityCounter]
      (add_closure R C ext now pre nm q mode paused_flag return_jobs xs))))"

definition add_bulk :: "('srv, 'v, ('c, 'd, 'r, 'p) Job list) redis \<Rightarrow> ('v, 'j, 'c, 'd, 'r, 'p) wire \<Rightarrow> 'c externals \<Rightarrow>
    ('c, 'd) new_job list \<Rightarrow> 'c QueueOpts \<Rightarrow> QueueEventMode \<Rightarrow> bool \<Rightarrow>
    (('srv, 'r, 'p) redis_world, ('c, 'd, 'r, 'p) Job list) kio" where
  "add_bulk R C ext xs q mode paused_flag = add R C ext xs q mode paused_flag True"

definition add_bulk_only :: "('srv, 'v, ('c, 'd, 'r, 'p) Job list) redis \<Rightarrow> ('v, 'j, 'c, 'd, 'r, 'p) wire \<Rightarrow> 'c externals \<Rightarrow>
    ('c, 'd) new_job list \<Rightarrow> 'c QueueOpts \<Rightarrow> QueueEventMode \<Rightarrow> bool \<Rightarrow> (('srv, 'r, 'p) redis_world, unit) kio" where
  "add_bulk_only R C ext xs q mode paused_flag = kbind (add R C ext xs q mode paused_flag False) (\<lambda>_. kret ())"

section \<open>Metrics\<close>

datatype MetricsType = Process ProcessMetrics | Worker WorkerMetrics

definition get_collection_suffix :: "MetricsType \<Rightarrow> CollectionSuffix" where
  "get_collection_suffix m =
    (case m of Process _ \<Rightarrow> CollectionSuffix.ProcessMetrics | Worker _ \<Rightarrow> CollectionSuffix.WorkerMetrics)"

definition saturating_mul :: "u64 \<Rightarrow> u64 \<Rightarrow> u64" where
  "saturating_mul a b = (if unat a * unat b < 2 ^ 64 then a * b else - 1)"

text \<open>
  From version 7.4 on a field has its own expiry and is written only if it does not exist; before, the whole hash
  expires.
\<close>

definition store_metrics :: "('srv, 'v, 'x) redis \<Rightarrow> ('v, 'j, 'c, 'd, 'r, 'p) wire \<Rightarrow> MetricsType \<Rightarrow> u64 \<Rightarrow>
    (('srv, 'r, 'p) redis_world, unit) kio" where
  "store_metrics R C m ttl =
    kbind (kget (key (get_collection_suffix m))) (\<lambda>k.
    kbind (get_connection R) (\<lambda>_.
    kbind (case m of
        Process pm \<Rightarrow> kbind (json (process_to C pm)) (\<lambda>s. kret (hostname pm @ ''-Pid('' @ decimal (unat (pid pm)) @ '')'', s))
      | Worker wm \<Rightarrow> kbind (json (worker_to C wm)) (\<lambda>s. kret (uuid_to_string C (WorkerMetrics.worker_id wm), s)))
      (\<lambda>(field_key, metrics_string).
    kbind (kget (\<lambda>w. unwrap_or False (is_at_least (redis_version (rs w)) ''7.4.0''))) (\<lambda>recent.
    if recent then ask R unit_value (Hset_ex_fnx_px k ttl [(field_key, metrics_string)])
    else
      kbind (query_async R (add_command (Pexpire k (sint (saturating_mul ttl 100)))
        (add_command (Hset k field_key metrics_string) (atomic pipe)))) (\<lambda>_. kret ())))))"

definition store_worker_metrics :: "('srv, 'v, 'x) redis \<Rightarrow> ('v, 'j, 'c, 'd, 'r, 'p) wire \<Rightarrow> WorkerMetrics \<Rightarrow> u64 \<Rightarrow>
    (('srv, 'r, 'p) redis_world, unit) kio" where
  "store_worker_metrics R C m ttl = store_metrics R C (Worker m) ttl"

definition store_process_metrics :: "('srv, 'v, 'x) redis \<Rightarrow> ('v, 'j, 'c, 'd, 'r, 'p) wire \<Rightarrow> ProcessMetrics \<Rightarrow> u64 \<Rightarrow>
    (('srv, 'r, 'p) redis_world, unit) kio" where
  "store_process_metrics R C m ttl = store_metrics R C (Process m) ttl"

text \<open>Collecting pairs into a \<^verbatim>\<open>BTreeMap\<close>: sorted by key, a later entry replaces an earlier one.\<close>

definition btree :: "('k::linorder \<times> 'a) list \<Rightarrow> ('k \<times> 'a) list" where
  "btree ps = foldl (\<lambda>m (k, a). sm_insert k a m) [] ps"

definition fresh_worker :: "Dt \<Rightarrow> WorkerMetrics \<Rightarrow> bool" where
  "fresh_worker now m \<longleftrightarrow> sint (num_milliseconds (now - WorkerMetrics.last_updated m)) \<le> sint (ttl_ms m + 20)"

definition fetch_worker_metrics :: "('srv, 'v, 'x) redis \<Rightarrow> ('v, 'j, 'c, 'd, 'r, 'p) wire \<Rightarrow>
    (('srv, 'r, 'p) redis_world, (Uuid \<times> WorkerMetrics) list) kio" where
  "fetch_worker_metrics R C =
    kbind (call R (list_value C (worker_from_value C)) CollectionSuffix.WorkerMetrics Hvals) (\<lambda>ms.
    kget (\<lambda>w. btree (map (\<lambda>m. (WorkerMetrics.worker_id m, m)) (filter (fresh_worker (wall w)) ms))))"

definition fetch_process_metrics :: "('srv, 'v, 'x) redis \<Rightarrow> ('v, 'j, 'c, 'd, 'r, 'p) wire \<Rightarrow>
    (('srv, 'r, 'p) redis_world, (u32 \<times> ProcessMetrics) list) kio" where
  "fetch_process_metrics R C =
    kbind (call R (list_value C (process_from_value C)) CollectionSuffix.ProcessMetrics Hvals) (\<lambda>ms.
    kret (btree (map (\<lambda>m. (pid m, m)) ms)))"

text \<open>The reply of the pipeline of \<^verbatim>\<open>get_queue_metrics\<close> is decoded as a tuple of twelve values.\<close>

definition metrics_from_replies :: "('v, 'j, 'c, 'd, 'r, 'p) wire \<Rightarrow> 'v list \<Rightarrow> string + QueueMetrics" where
  "metrics_from_replies C vs =
    (case vs of
       [completed', failed', prioritized', active', stalled', delayed', waiting', paused', last', processing', mode', flag'] \<Rightarrow>
         sbind (smap (option_value C (number C)) [completed', failed', prioritized', active', stalled', delayed',
           waiting', paused', last', processing']) (\<lambda>ns.
         sbind (option_value C (mode_from_value C) mode') (\<lambda>mode.
         sbind (flag C flag') (\<lambda>is_p.
         let n = (\<lambda>k. unwrap_or 0 (ns ! k)) in
         Inr (metrics_new (n 8) (n 9) (n 3) (n 4) (n 0) (n 5) (n 2) (n 7) (n 1) (n 6) is_p (unwrap_or Stream mode)))))
     | _ \<Rightarrow> Inl ''Not a tuple of twelve'')"

definition get_queue_metrics :: "('srv, 'v, 'x) redis \<Rightarrow> ('v, 'j, 'c, 'd, 'r, 'p) wire \<Rightarrow> string \<Rightarrow> string \<Rightarrow>
    (('srv, 'r, 'p) redis_world, QueueMetrics) kio" where
  "get_queue_metrics R C pre nm =
    (let k = to_collection_name pre nm in
     kbind (query_async R \<lparr>transaction_mode = True, commands =
       [Zcard (k CollectionSuffix.Completed), Zcard (k CollectionSuffix.Failed), Zcard (k CollectionSuffix.Prioritized),
        Llen (k CollectionSuffix.Active), Scard (k CollectionSuffix.Stalled), Zcard (k CollectionSuffix.Delayed),
        Llen (k CollectionSuffix.Wait), Llen (k CollectionSuffix.Paused), Get (k Id),
        Hget (k CollectionSuffix.Meta) ''processing'', Hget (k CollectionSuffix.Meta) ''event_mode'',
        Hexists (k CollectionSuffix.Meta) (state_to_arg JobState.Paused)]\<rparr>) (\<lambda>vs. decoded (metrics_from_replies C vs)))"

definition get_metrics :: "('srv, 'v, 'x) redis \<Rightarrow> ('v, 'j, 'c, 'd, 'r, 'p) wire \<Rightarrow>
    (('srv, 'r, 'p) redis_world, QueueMetrics) kio" where
  "get_metrics R C =
    kbind (get_connection R) (\<lambda>_.
    kbind (kget (\<lambda>w. (prefix (rs w), RedisStore.name (rs w)))) (\<lambda>(pre, nm). get_queue_metrics R C pre nm))"

section \<open>Collections\<close>

definition metadata_field_exists :: "('srv, 'v, 'x) redis \<Rightarrow> ('v, 'j, 'c, 'd, 'r, 'p) wire \<Rightarrow> string \<Rightarrow>
    (('srv, 'r, 'p) redis_world, bool) kio" where
  "metadata_field_exists R C field = call R (flag C) CollectionSuffix.Meta (\<lambda>k. Hexists k field)"

definition is_scored_col :: "CollectionSuffix \<Rightarrow> bool" where
  "is_scored_col col \<longleftrightarrow> col = CollectionSuffix.Completed \<or> col = CollectionSuffix.Delayed \<or>
     col = CollectionSuffix.Failed \<or> col = CollectionSuffix.Prioritized"

definition is_list_col :: "CollectionSuffix \<Rightarrow> bool" where
  "is_list_col col \<longleftrightarrow> col = CollectionSuffix.Active \<or> col = CollectionSuffix.Wait \<or> col = CollectionSuffix.Paused"

text \<open>Membership of the paused list is not looked up: any other key exists or not.\<close>

definition exists_in :: "('srv, 'v, 'x) redis \<Rightarrow> ('v, 'j, 'c, 'd, 'r, 'p) wire \<Rightarrow> CollectionSuffix \<Rightarrow> u64 \<Rightarrow>
    (('srv, 'r, 'p) redis_world, bool) kio" where
  "exists_in R C col item =
    (if is_scored_col col then
       kbind (call R (option_value C (number C)) col (\<lambda>k. Zscore k item)) (\<lambda>score. kret (score \<noteq> None))
     else if col = CollectionSuffix.Stalled then call R (flag C) col (\<lambda>k. Sismember k item)
     else if col = CollectionSuffix.Active \<or> col = CollectionSuffix.Wait then
       kbind (call R (option_value C Inr) col (\<lambda>k. Lpos k item)) (\<lambda>pos. kret (\<not> Option.is_none pos))
     else call R (flag C) col Exists)"

definition set_event_mode :: "('srv, 'v, 'x) redis \<Rightarrow> QueueEventMode \<Rightarrow> (('srv, 'r, 'p) redis_world, unit) kio" where
  "set_event_mode R mode = call R unit_value CollectionSuffix.Meta (\<lambda>k. Hset k ''event_mode'' (mode_to_arg mode))"

definition get_delayed_at :: "('srv, 'v, 'x) redis \<Rightarrow> ('v, 'j, 'c, 'd, 'r, 'p) wire \<Rightarrow> i64 \<Rightarrow> i64 \<Rightarrow>
    (('srv, 'r, 'p) redis_world, u64 list \<times> u64 list) kio" where
  "get_delayed_at R C start stop =
    kbind (kget (key CollectionSuffix.Delayed)) (\<lambda>k.
    kbind (get_connection R) (\<lambda>_.
    kbind (query_async R \<lparr>transaction_mode = True, commands =
      [Zrangebyscore k (Incl (sint start)) (Incl (sint stop)), Zrangebyscore k Neg_inf (Excl (sint start)),
       Zrembyscore k (Incl (sint start)) (Incl (sint stop)), Zrembyscore k Neg_inf (Incl (sint start))]\<rparr>) (\<lambda>vs.
    decoded (case vs of
        [due, missed, done1, done2] \<Rightarrow>
          sbind (list_value C (number C) due) (\<lambda>js. sbind (list_value C (number C) missed) (\<lambda>ms.
          sbind (signed_number C done1) (\<lambda>_. sbind (signed_number C done2) (\<lambda>_. Inr (js, ms)))))
      | _ \<Rightarrow> Inl ''Not a tuple of four''))))"

definition pop_back_push_front :: "('srv, 'v, 'x) redis \<Rightarrow> ('v, 'j, 'c, 'd, 'r, 'p) wire \<Rightarrow> CollectionSuffix \<Rightarrow> CollectionSuffix \<Rightarrow>
    ('srv, 'r, 'p) redis_world \<Rightarrow> u64 option \<times> ('srv, 'r, 'p) redis_world" where
  "pop_back_push_front R C src dst =
    attempt (kbind (kget (\<lambda>w. (key src w, key dst w))) (\<lambda>(src_key, dst_key).
      kbind (get_connection R) (\<lambda>_. ask R (number C) (Rpoplpush src_key dst_key))))"

definition remove :: "('srv, 'v, 'x) redis \<Rightarrow> CollectionSuffix \<Rightarrow> (('srv, 'r, 'p) redis_world, unit) kio" where
  "remove R col = call R unit_value col Del"

text \<open>The pipelines of \<open>add_item\<close> and \<open>remove_item\<close> are empty for a collection that is neither set nor list.\<close>

definition remove_item :: "('srv, 'v, 'x) redis \<Rightarrow> CollectionSuffix \<Rightarrow> u64 \<Rightarrow> (('srv, 'r, 'p) redis_world, unit) kio" where
  "remove_item R col item =
    kbind (get_connection R) (\<lambda>_.
    kbind (kget (key col)) (\<lambda>k.
    kbind (query_async R
      (if is_scored_col col then add_command (Zrem k item) pipe
       else if col = CollectionSuffix.Stalled then add_command (Srem k item) pipe
       else if is_list_col col then add_command (Lrem k 1 item) pipe
       else pipe)) (\<lambda>_. kret ())))"

definition add_item :: "('srv, 'v, 'x) redis \<Rightarrow> CollectionSuffix \<Rightarrow> u64 \<Rightarrow> i64 option \<Rightarrow> bool \<Rightarrow>
    (('srv, 'r, 'p) redis_world, unit) kio" where
  "add_item R col item score app =
    kbind (get_connection R) (\<lambda>_.
    kbind (kget (key col)) (\<lambda>k.
    kbind (query_async R
      (if is_scored_col col then add_command (Zadd k item (sint (unwrap_or 0 score))) pipe
       else if col = CollectionSuffix.Stalled then add_command (Sadd k item) pipe
       else if is_list_col col then add_command (if app then Lpush k item else Rpush k item) pipe
       else pipe)) (\<lambda>_. kret ())))"

definition pop_set :: "('srv, 'v, 'x) redis \<Rightarrow> ('v, 'j, 'c, 'd, 'r, 'p) wire \<Rightarrow> CollectionSuffix \<Rightarrow> bool \<Rightarrow>
    (('srv, 'r, 'p) redis_world, (u64 \<times> u64) list) kio" where
  "pop_set R C col smallest =
    kbind (kget (key col)) (\<lambda>k. kbind (get_connection R) (\<lambda>_.
    ask R (pairs_of C) (if smallest then Zpopmin k 1 else Zpopmax k 1)))"

text \<open>
  \<^verbatim>\<open>VecDeque::range\<close> with an inclusive end panics unless the end lies inside the deque. A \<^verbatim>\<open>usize\<close> becomes signed by
  \<^verbatim>\<open>cast_signed\<close>.
\<close>

definition deque_range :: "nat \<Rightarrow> nat \<Rightarrow> 'a list \<Rightarrow> Failure + 'a list" where
  "deque_range a b xs =
    (if a \<le> Suc b \<and> Suc b \<le> length xs then Inr (take (Suc b - a) (drop a xs))
     else Inl (Panic ''range end index out of range''))"

definition cast_signed :: "nat \<Rightarrow> int" where
  "cast_signed n = sint (of_nat n :: i64)"

definition get_job_ids_in_state :: "('srv, 'v, 'x) redis \<Rightarrow> ('v, 'j, 'c, 'd, 'r, 'p) wire \<Rightarrow> JobState \<Rightarrow> nat option \<Rightarrow> nat option \<Rightarrow>
    (('srv, 'r, 'p) redis_world, u64 list) kio" where
  "get_job_ids_in_state R C st start stop =
    (let a = unwrap_or 0 start; ids = list_value C (number C);
         ranged = (\<lambda>k size_cmd range_cmd.
           kbind (ask R (number C) (size_cmd k)) (\<lambda>list_len.
           if 0 < list_len then
             ask R ids (range_cmd k (cast_signed a)
               (cast_signed (case stop of None \<Rightarrow> unat list_len | Some value \<Rightarrow> (value + 1) mod 2 ^ 64)))
           else kret []))
     in kbind (get_connection R) (\<lambda>_.
        kbind (kget (key (suffix_of_state st))) (\<lambda>k.
        if st \<in> {JobState.Prioritized, JobState.Completed, JobState.Failed, JobState.Delayed} then ranged k Zcard Zrange
        else if st = JobState.Stalled then
          kbind (ask R ids (Smembers k)) (\<lambda>members.
          if members \<noteq> [] then kresult (deque_range a (unwrap_or (length members) stop) members) else kret [])
        else if st \<in> {JobState.Active, JobState.Wait, JobState.Paused} then ranged k Llen Lrange
        else kret [])))"

definition pause :: "('srv, 'v, 'x) redis \<Rightarrow> ('v, 'j, 'c, 'd, 'r, 'p) wire \<Rightarrow> bool \<Rightarrow> QueueEventMode \<Rightarrow>
    (('srv, 'r, 'p) redis_world, unit) kio" where
  "pause R C pausing mode =
    kbind (kget (\<lambda>w. (key CollectionSuffix.Wait w, key CollectionSuffix.Meta w, key CollectionSuffix.Paused w)))
      (\<lambda>(wait_key, meta_key, paused_key).
    kbind (get_connection R) (\<lambda>_.
    let src = (if pausing then wait_key else paused_key);
        dst = (if pausing then paused_key else wait_key)
    in kbind (klift (attempt (ask R (flag C) (Exists src)))) (\<lambda>there.
       let p1 = (if unwrap_or False there then add_command (Rename src dst) (atomic pipe) else atomic pipe);
           p2 = add_command (if pausing then Hset meta_key (suffix_to_arg CollectionSuffix.Paused) ''1''
                  else Hdel meta_key (suffix_to_arg CollectionSuffix.Paused)) p1
       in kbind (query_async R p2) (\<lambda>_. kret ()))))"

section \<open>Jobs, locks and counters\<close>

text \<open>\<^verbatim>\<open>get_job\<close> decodes an \<^verbatim>\<open>Option<Job>\<close>; the default time stamp of a decoded job is the time of the call.\<close>

definition get_job :: "('srv, 'v, 'x) redis \<Rightarrow> ('v, 'j, 'c, 'd, 'r, 'p) wire \<Rightarrow> 'c externals \<Rightarrow> u64 \<Rightarrow> ('srv, 'r, 'p) redis_world \<Rightarrow>
    ('c, 'd, 'r, 'p) Job option \<times> ('srv, 'r, 'p) redis_world" where
  "get_job R C ext i w =
    (case attempt (call R (option_value C (job_from_value C ext (wall w))) (CollectionSuffix.Job i) Hgetall) w of
       (value, w') \<Rightarrow> (Option.bind value (\<lambda>j. j), w'))"

definition fetch_jobs :: "('srv, 'v, 'x) redis \<Rightarrow> ('v, 'j, 'c, 'd, 'r, 'p) wire \<Rightarrow> 'c externals \<Rightarrow> u64 list \<Rightarrow>
    (('srv, 'r, 'p) redis_world, ('c, 'd, 'r, 'p) Job list) kio" where
  "fetch_jobs R C ext ids =
    (if ids = [] then kret []
     else
       kbind (get_connection R) (\<lambda>_.
       kbind (kget (\<lambda>w. (wall w, map (\<lambda>i. key (CollectionSuffix.Job i) w) ids))) (\<lambda>(now, ks).
       kbind (query_async R \<lparr>transaction_mode = True, commands = map Hgetall ks\<rparr>) (\<lambda>vs.
       decoded (smap (job_from_value C ext now) vs)))))"

text \<open>A lock that has expired is not found; the token in the hash of the job is then returned.\<close>

definition get_token :: "('srv, 'v, 'x) redis \<Rightarrow> ('v, 'j, 'c, 'd, 'r, 'p) wire \<Rightarrow> u64 \<Rightarrow> ('srv, 'r, 'p) redis_world \<Rightarrow>
    JobToken option \<times> ('srv, 'r, 'p) redis_world" where
  "get_token R C i =
    attempt (kbind (get_connection R) (\<lambda>_.
      kbind (kget (\<lambda>w. (key (CollectionSuffix.Lock i) w, key (CollectionSuffix.Job i) w))) (\<lambda>(lock_key, job_key).
      kbind (klift (attempt (ask R (token_from_value C) (Get lock_key)))) (\<lambda>found.
      case found of
        Some result \<Rightarrow> kret result
      | None \<Rightarrow> ask R (token_from_value C) (Hget job_key ''token'')))))"

definition get_state :: "('srv, 'v, 'x) redis \<Rightarrow> ('v, 'j, 'c, 'd, 'r, 'p) wire \<Rightarrow> u64 \<Rightarrow> ('srv, 'r, 'p) redis_world \<Rightarrow>
    JobState option \<times> ('srv, 'r, 'p) redis_world" where
  "get_state R C i = attempt (call R (state_from_value C) (CollectionSuffix.Job i) (\<lambda>k. Hget k ''state''))"

text \<open>The method panics when the pool has no connection; an error of the command counts as absence.\<close>

definition job_exists :: "('srv, 'v, 'x) redis \<Rightarrow> ('v, 'j, 'c, 'd, 'r, 'p) wire \<Rightarrow> u64 \<Rightarrow>
    (('srv, 'r, 'p) redis_world, bool) kio" where
  "job_exists R C i =
    kbind (klift (attempt (get_connection R))) (\<lambda>conn.
    if conn = None then kfail (Panic ''failed to get connection'')
    else kbind (kget (key (CollectionSuffix.Job i))) (\<lambda>k.
      kbind (klift (attempt (ask R (flag C) (Exists k)))) (\<lambda>result. kret (unwrap_or False result))))"

definition signed_decimal :: "i64 \<Rightarrow> string" where
  "signed_decimal n = (if sint n < 0 then CHR ''-'' # decimal (nat (- sint n)) else decimal (nat (sint n)))"

definition set_lock :: "('srv, 'v, 'x) redis \<Rightarrow> ('v, 'j, 'c, 'd, 'r, 'p) wire \<Rightarrow> CollectionSuffix \<Rightarrow> JobToken option \<Rightarrow> u64 \<Rightarrow>
    (('srv, 'r, 'p) redis_world, unit) kio" where
  "set_lock R C col tok ttl =
    kbind (get_connection R) (\<lambda>_.
    kbind (kget (\<lambda>w. (key col w, wall w))) (\<lambda>(k, now).
    case col of
      CollectionSuffix.Lock _ \<Rightarrow>
        (case tok of
           Some t \<Rightarrow> ask R unit_value (Pset_ex k (token_to_arg C t) ttl)
         | None \<Rightarrow> kret ())
    | StalledCheck \<Rightarrow> ask R unit_value (Pset_ex k (signed_decimal (timestamp_micros now)) ttl)
    | _ \<Rightarrow> kret ()))"

definition field_pair :: "('srv, 'v, 'x) redis \<Rightarrow> ('v, 'j, 'c, 'd, 'r, 'p) wire \<Rightarrow> string \<Rightarrow> 'r JobField \<Rightarrow>
    (('srv, 'r, 'p) redis_world, string \<times> string) kio" where
  "field_pair R C job_key field =
    (case field of
       Payload (ProcessedResult.Success result _) \<Rightarrow>
         kbind (json (returned_to C result)) (\<lambda>s. kret (field_name field, s))
     | BackTrace trace \<Rightarrow>
         kbind (klift (attempt (ask R (bytes C) (Hget job_key ''stackTrace'')))) (\<lambda>raw.
         let raw_bytes = unwrap_or [] raw;
             previous = (if raw_bytes = [] then [] else unwrap_or [] (okay (traces_from C raw_bytes)))
         in kbind (json (traces_to C (previous @ [trace]))) (\<lambda>s. kret (field_name field, s)))
     | _ \<Rightarrow> kbind (json (field_to C field)) (\<lambda>s. kret (field_name field, s)))"

fun field_pairs :: "('srv, 'v, 'x) redis \<Rightarrow> ('v, 'j, 'c, 'd, 'r, 'p) wire \<Rightarrow> string \<Rightarrow> 'r JobField list \<Rightarrow>
    (('srv, 'r, 'p) redis_world, (string \<times> string) list) kio" where
  "field_pairs R C job_key [] = kret []"
| "field_pairs R C job_key (field # rest) =
    kbind (field_pair R C job_key field) (\<lambda>x. kbind (field_pairs R C job_key rest) (\<lambda>xs. kret (x # xs)))"

definition set_fields :: "('srv, 'v, 'x) redis \<Rightarrow> ('v, 'j, 'c, 'd, 'r, 'p) wire \<Rightarrow> u64 \<Rightarrow> 'r JobField list \<Rightarrow>
    (('srv, 'r, 'p) redis_world, unit) kio" where
  "set_fields R C i job_fields =
    kbind (get_connection R) (\<lambda>_.
    kbind (kget (key (CollectionSuffix.Job i))) (\<lambda>job_key.
    kbind (field_pairs R C job_key job_fields) (\<lambda>next_fields.
    ask R unit_value (Hset_multiple job_key next_fields))))"

definition incr :: "('srv, 'v, 'x) redis \<Rightarrow> ('v, 'j, 'c, 'd, 'r, 'p) wire \<Rightarrow> CollectionSuffix \<Rightarrow> i64 \<Rightarrow> string option \<Rightarrow>
    (('srv, 'r, 'p) redis_world, u64) kio" where
  "incr R C col delta hash_key =
    call R (number C) col (\<lambda>k. case hash_key of Some f \<Rightarrow> Hincr k f (sint delta) | None \<Rightarrow> Incr k (sint delta))"

definition get_counter :: "('srv, 'v, 'x) redis \<Rightarrow> ('v, 'j, 'c, 'd, 'r, 'p) wire \<Rightarrow> CollectionSuffix \<Rightarrow> string option \<Rightarrow>
    ('srv, 'r, 'p) redis_world \<Rightarrow> u64 option \<times> ('srv, 'r, 'p) redis_world" where
  "get_counter R C col hash_key =
    attempt (call R (number C) col (\<lambda>k. case hash_key of Some f \<Rightarrow> Hget k f | None \<Rightarrow> Get k))"

definition expire :: "('srv, 'v, 'x) redis \<Rightarrow> CollectionSuffix \<Rightarrow> i64 \<Rightarrow> (('srv, 'r, 'p) redis_world, unit) kio" where
  "expire R col secs = call R unit_value col (\<lambda>k. Expire k (sint secs))"

definition cleared_collections :: "CollectionSuffix list" where
  "cleared_collections = [CollectionSuffix.Delayed, CollectionSuffix.Wait, CollectionSuffix.Active,
     CollectionSuffix.Completed, CollectionSuffix.Failed, Events, Id, Events, CollectionSuffix.Stalled, Marker,
     CollectionSuffix.Prioritized, PriorityCounter, CollectionSuffix.Meta, CollectionSuffix.Paused]"

definition clear_collections :: "('srv, 'v, 'x) redis \<Rightarrow> (('srv, 'r, 'p) redis_world, unit) kio" where
  "clear_collections R =
    kbind (get_connection R) (\<lambda>_.
    kbind (kget (\<lambda>w. map (\<lambda>col. Del (key col w)) cleared_collections)) (\<lambda>dels.
    kbind (query_async R \<lparr>transaction_mode = False, commands = dels\<rparr>) (\<lambda>_. kret ())))"

definition clear_jobs :: "('srv, 'v, 'x) redis \<Rightarrow> u64 \<Rightarrow> (('srv, 'r, 'p) redis_world, unit) kio" where
  "clear_jobs R last_i =
    kbind (get_connection R) (\<lambda>_.
    kbind (kget (\<lambda>w. map (\<lambda>i. Del (key (CollectionSuffix.Job (of_nat i)) w)) [1..<Suc (unat last_i)])) (\<lambda>dels.
    kbind (query_async R \<lparr>transaction_mode = True, commands = dels\<rparr>) (\<lambda>_. kret ())))"

section \<open>Events\<close>

text \<open>The commands of \<^verbatim>\<open>update_job_progress\<close> and of its blocking variant, which differ in the connection only.\<close>

definition progress_command :: "('v, 'j, 'c, 'd, 'r, 'p) wire \<Rightarrow> Dt \<Rightarrow> QueueEventMode \<Rightarrow> string \<Rightarrow> string \<Rightarrow> u64 \<Rightarrow> 'p \<Rightarrow> string \<Rightarrow>
    command" where
  "progress_command C now mode events_key nm i value progress_str =
    (case mode of
       PubSub \<Rightarrow> Publish events_key (event_to_arg C
         ((default_event now)\<lparr>QueueStreamEvent.job_id := i, event := JobState.Progress,
            QueueStreamEvent.name := Some nm, progress_data := Some value\<rparr>))
     | Stream \<Rightarrow> Xadd events_key
         [(''event'', to_lowercase (state_name JobState.Progress)), (''job_id'', decimal (unat i)),
          (''data'', progress_str), (''name'', nm)])"

definition write_progress :: "('srv, 'v, 'x) redis \<Rightarrow> ('v, 'j, 'c, 'd, 'r, 'p) wire \<Rightarrow> ('c, 'd, 'r, 'p) Job \<Rightarrow> 'p \<Rightarrow>
    (('srv, 'r, 'p) redis_world, ('c, 'd, 'r, 'p) Job) kio" where
  "write_progress R C j value =
    (case Job.job_id j of
       None \<Rightarrow> kret j
     | Some i \<Rightarrow>
         kbind (json (progress_to C value)) (\<lambda>progress_str.
         kbind (kget (\<lambda>w. (wall w, RedisStore.name (rs w), key (CollectionSuffix.Job i) w, key Events w,
           key CollectionSuffix.Meta w))) (\<lambda>(now, nm, job_key, events_key, meta_key).
         kbind (ask R (option_value C (mode_from_value C)) (Hget meta_key ''event_mode'')) (\<lambda>mode.
         kbind (query_async R
           (add_command (progress_command C now (unwrap_or Stream mode) events_key nm i value progress_str)
             (add_command (Hset job_key ''progress'' progress_str) (atomic pipe)))) (\<lambda>_.
         kret (j\<lparr>Job.progress := Some value\<rparr>))))))"

definition update_job_progress :: "('srv, 'v, 'x) redis \<Rightarrow> ('v, 'j, 'c, 'd, 'r, 'p) wire \<Rightarrow> ('c, 'd, 'r, 'p) Job \<Rightarrow> 'p \<Rightarrow>
    (('srv, 'r, 'p) redis_world, ('c, 'd, 'r, 'p) Job) kio" where
  "update_job_progress R C j value = kbind (get_connection R) (\<lambda>_. write_progress R C j value)"

definition update_job_progress_sync :: "('srv, 'v, 'x) redis \<Rightarrow> ('v, 'j, 'c, 'd, 'r, 'p) wire \<Rightarrow> ('c, 'd, 'r, 'p) Job \<Rightarrow> 'p \<Rightarrow>
    (('srv, 'r, 'p) redis_world, ('c, 'd, 'r, 'p) Job) kio" where
  "update_job_progress_sync R C j value =
    kbind (on_srv (client_get_connection R)) (\<lambda>_. write_progress R C j value)"

text \<open>\<^verbatim>\<open>str::contains\<close>.\<close>

fun contains :: "string \<Rightarrow> string \<Rightarrow> bool" where
  "contains pat [] \<longleftrightarrow> pat = []"
| "contains pat (c # cs) \<longleftrightarrow> starts_with pat (c # cs) \<or> contains pat cs"

definition event_items :: "('v, 'j, 'c, 'd, 'r, 'p) wire \<Rightarrow> ('r, 'p) QueueStreamEvent \<Rightarrow> (string \<times> string) list" where
  "event_items C e =
    filter (\<lambda>(_, val). \<not> contains ''null'' val)
      (filter (\<lambda>(k, _). k \<noteq> ''id'') (serialize_into_pairs C (event_object C e)))"

definition publish_event :: "('srv, 'v, 'x) redis \<Rightarrow> ('v, 'j, 'c, 'd, 'r, 'p) wire \<Rightarrow> QueueEventMode \<Rightarrow>
    ('r, 'p) QueueStreamEvent \<Rightarrow> (('srv, 'r, 'p) redis_world, unit) kio" where
  "publish_event R C mode e =
    kbind (get_connection R) (\<lambda>_.
    kbind (kget (key Events)) (\<lambda>k.
    kbind (query_async R (add_command
      (case mode of PubSub \<Rightarrow> Publish k (event_to_arg C e) | Stream \<Rightarrow> Xadd k (event_items C e)) pipe)) (\<lambda>_. kret ())))"

section \<open>Listening\<close>

text \<open>The body of the \<^verbatim>\<open>while let\<close> loop on the subscription.\<close>

definition handle_message :: "('srv, 'v, 'x) redis \<Rightarrow> ('v, 'j, 'c, 'd, 'r, 'p) wire \<Rightarrow> 'v \<Rightarrow>
    (('srv, 'r, 'p) redis_world, unit) kio" where
  "handle_message R C msg =
    kbind (kresult (case parsing (event_from_value C msg) of Inl e \<Rightarrow> Inl (Err e) | Inr e \<Rightarrow> Inr e))
      (process_each_event (get_metrics R C))"

text \<open>The loop runs as long as messages arrive; \<open>None\<close> is a loop that does not end.\<close>

partial_function (option) pubsub_loop :: "('srv, 'v, 'x) redis \<Rightarrow> ('v, 'j, 'c, 'd, 'r, 'p) wire \<Rightarrow> ('srv, 'r, 'p) redis_world \<Rightarrow>
    ((Failure + unit) \<times> ('srv, 'r, 'p) redis_world) option" where
  "pubsub_loop R C w =
    (case on_srv (next_message R) w of
       (Inl e, w1) \<Rightarrow> Some (Inl e, w1)
     | (Inr None, w1) \<Rightarrow> Some (Inr (), w1)
     | (Inr (Some msg), w1) \<Rightarrow>
        (case handle_message R C msg w1 of
           (Inl e, w2) \<Rightarrow> Some (Inl e, w2)
         | (Inr _, w2) \<Rightarrow> pubsub_loop R C w2))"

definition ensure_subscribed :: "('srv, 'v, 'x) redis \<Rightarrow> (('srv, 'r, 'p) redis_world, unit) kio" where
  "ensure_subscribed R =
    kbind (kget (\<lambda>w. (subscribed (rs w), stream_key (rs w)))) (\<lambda>(sub, k).
    if sub then kret ()
    else kbind (on_srv (subscribe R k)) (\<lambda>_. kmod (on_rs (\<lambda>s. s\<lparr>subscribed := True\<rparr>))))"

definition read_stream :: "('srv, 'v, 'x) redis \<Rightarrow> ('v, 'j, 'c, 'd, 'r, 'p) wire \<Rightarrow> u64 option \<Rightarrow>
    (('srv, 'r, 'p) redis_world, unit) kio" where
  "read_stream R C block_interval =
    kbind (get_connection R) (\<lambda>_.
    kbind (kget (\<lambda>w. (stream_key (rs w), consumer_group (rs w), consumer_name (rs w)))) (\<lambda>(k, group, consumer).
    kbind (on_srv (xread R k group consumer (map_option unat block_interval))) (\<lambda>reply.
    kbind (kget (\<lambda>w. from_stream_read_reply C (wall w) k reply)) (\<lambda>es.
    kfor (process_each_event (get_metrics R C)) es))))"

definition listen_to_events :: "('srv, 'v, 'x) redis \<Rightarrow> ('v, 'j, 'c, 'd, 'r, 'p) wire \<Rightarrow> QueueEventMode \<Rightarrow> u64 option \<Rightarrow>
    ('srv, 'r, 'p) redis_world \<Rightarrow> ((Failure + unit) \<times> ('srv, 'r, 'p) redis_world) option" where
  "listen_to_events R C mode block_interval w =
    (case ensure_subscribed R w of
       (Inl e, w1) \<Rightarrow> Some (Inl e, w1)
     | (Inr _, w1) \<Rightarrow>
        (case mode of PubSub \<Rightarrow> pubsub_loop R C w1 | Stream \<Rightarrow> Some (read_stream R C block_interval w1)))"

definition process_queue_events :: "('srv, 'v, 'x) redis \<Rightarrow> ('v, 'j, 'c, 'd, 'r, 'p) wire \<Rightarrow> QueueEventMode \<Rightarrow> u64 \<Rightarrow>
    ('srv, 'r, 'p) redis_world \<Rightarrow> ((Failure + unit) \<times> ('srv, 'r, 'p) redis_world) option" where
  "process_queue_events R C mode block_interval = listen_to_events R C mode (Some block_interval)"

text \<open>
  The future of \<^verbatim>\<open>create_listener_handle\<close>: an endless loop that only an error leaves. \<^verbatim>\<open>create_stream_listener\<close> returns
  it without running it.
\<close>

partial_function (option) create_listener_handle :: "('srv, 'v, 'x) redis \<Rightarrow> ('v, 'j, 'c, 'd, 'r, 'p) wire \<Rightarrow> QueueEventMode \<Rightarrow>
    bool \<Rightarrow> ('srv, 'r, 'p) redis_world \<Rightarrow> ((Failure + unit) \<times> ('srv, 'r, 'p) redis_world) option" where
  "create_listener_handle R C mode is_initial w =
    (case process_queue_events R C mode 5000 w of
       None \<Rightarrow> None
     | Some (Inl e, w1) \<Rightarrow> Some (Inl e, w1)
     | Some (Inr _, w1) \<Rightarrow>
        (case pause_or_resume_workers is_initial w1 of (is_initial', w2) \<Rightarrow>
           create_listener_handle R C mode is_initial' w2))"

definition create_stream_listener :: "QueueEventMode \<Rightarrow> ('srv, 'r, 'p) redis_world \<Rightarrow> ('srv, 'r, 'p) redis_world" where
  "create_stream_listener mode w = w"

section \<open>The dictionary\<close>

text \<open>
  \<^verbatim>\<open>job_exists\<close> is infallible in the interface; where the method panics for want of a connection the entry of the
  dictionary answers that the job does not exist. \<^verbatim>\<open>purge_expired\<close> is the default method of the trait.
\<close>

definition redis_store :: "'c externals \<Rightarrow> ('srv, 'v, ('c, 'd, 'r, 'p) Job list) redis \<Rightarrow> ('v, 'j, 'c, 'd, 'r, 'p) wire \<Rightarrow>
    (('srv, 'r, 'p) redis_world, 'c, 'd, 'r, 'p) Store" where
  "redis_store ext R C = \<lparr>queue_name = (\<lambda>w. RedisStore.name (rs w)), queue_prefix = (\<lambda>w. prefix (rs w)),
     fetch_jobs = fetch_jobs R C ext, metadata_field_exists = metadata_field_exists R C, exists_in = exists_in R C,
     set_event_mode = set_event_mode R, get_job_ids_in_state = get_job_ids_in_state R C,
     create_stream_listener = create_stream_listener, add_bulk_only = add_bulk_only R C ext,
     add_bulk = add_bulk R C ext, get_delayed_at = get_delayed_at R C, pop_set = pop_set R C, expire = expire R,
     get_metrics = get_metrics R C, get_job = get_job R C ext, get_token = get_token R C, get_state = get_state R C,
     add_item = add_item R, pop_back_push_front = pop_back_push_front R C, set_lock = set_lock R C,
     set_fields = set_fields R C, incr = incr R C, get_counter = get_counter R C,
     publish_event = publish_event R C,
     job_exists = (\<lambda>i w. case attempt (job_exists R C i) w of (b, w') \<Rightarrow> (unwrap_or False b, w')),
     remove_item = remove_item R, remove = remove R,
     clear_collections = clear_collections R, clear_jobs = clear_jobs R, pause = pause R C,
     purge_expired = (\<lambda>w. w), fetch_worker_metrics = fetch_worker_metrics R C,
     fetch_process_metrics = fetch_process_metrics R C, store_process_metrics = store_process_metrics R C,
     store_worker_metrics = store_worker_metrics R C, update_job_progress = update_job_progress R C\<rparr>"

end
