(* ===== verification/Redis_Codec.thy ===== *)
theory Redis_Codec
  imports Redis_Store "HOL-Library.Multiset"
begin

text \<open>
  What the Redis store writes it can read: versions, states, entries of the event stream and hashes of jobs. The
  laws of the client and of the JSON library are named hypotheses.
\<close>

section \<open>Strings\<close>

lemma split_on_Cons: "c \<notin> set l \<Longrightarrow> split_on c (l @ c # r) = l # split_on c r"
  by (induction l) auto

lemma split_on_not_Nil [simp]: "split_on c s \<noteq> []"
  by (induction s) (auto split: list.splits)

lemma lines_Cons: "CHR 0x0A \<notin> set l \<Longrightarrow> lines (l @ CHR 0x0A # r) = strip_cr l # lines r"
  by (simp add: lines_def split_on_Cons Let_def)

lemma split_once_at: "c \<notin> set a \<Longrightarrow> split_once c (a @ c # b) = Some (a, b)"
  by (induction a) auto

lemma split_once_none: "c \<notin> set a \<Longrightarrow> split_once c a = None"
  by (induction a) auto

lemma strip_cr_crlf [simp]: "strip_cr (l @ [CHR 0x0D]) = l"
  by (simp add: strip_cr_def)

lemma decimal_char: "c \<in> set (decimal n) \<Longrightarrow> is_digit c"
  by (rule decimal_digits)

lemma digit_not [simp]:
  "\<not> is_digit CHR ''.''" "\<not> is_digit CHR '':''" "\<not> is_digit CHR ''+''" "\<not> is_digit CHR ''-''" "\<not> is_digit CHR 0x0A"
  "\<not> is_digit CHR 0x0D" "\<not> is_digit CHR '' ''" "\<not> is_digit CHR 0x09" "\<not> is_digit CHR 0x0B" "\<not> is_digit CHR 0x0C"
  by (simp_all add: is_digit_def)

lemma not_in_decimal [simp]: "\<not> is_digit c \<Longrightarrow> c \<notin> set (decimal n)"
  using decimal_char by blast

lemma unsigned_part_decimal [simp]: "unsigned_part (decimal n) = decimal n"
proof (cases "decimal n")
  case (Cons c cs)
  then have "is_digit c" using decimal_char [of c n] by simp
  then show ?thesis using Cons by (auto simp: unsigned_part_def)
qed simp

lemma parse_digits_decimal [simp]: "parse_digits (decimal n) = Some n"
  by (simp add: parse_digits_def undecimal_decimal list_all_iff decimal_char)

lemma unat_less_exp: "unat v < 2 ^ LENGTH('a)" for v :: "'a::len word"
  by (rule unsigned_less)

lemma parse_u32_decimal [simp]: "parse_u32 (decimal (unat v)) = Some v" for v :: u32
  using unat_less_exp [of v] by (simp add: parse_u32_def)

lemma parse_u64_decimal [simp]: "parse_u64 (decimal (unat v)) = Some v" for v :: u64
  using unat_less_exp [of v] by (simp add: parse_u64_def)

section \<open>Versions\<close>

text \<open>A version as the server prints it.\<close>

definition show_version :: "RedisVersion \<Rightarrow> string" where
  "show_version v = decimal (unat (major v)) @ ''.'' @ decimal (unat (minor v)) @ ''.'' @ decimal (unat (patch v))"

lemma version_of_show [simp]: "version_of (show_version v) = Some v"
  by (simp add: version_of_def show_version_def numeral_eq_Suc split_once_at)

lemma show_version_chars: "c \<in> set (show_version v) \<Longrightarrow> is_digit c \<or> c = CHR ''.''"
  using decimal_char by (auto simp: show_version_def)

lemma dropWhile_none: "(\<And>c. c \<in> set s \<Longrightarrow> \<not> P c) \<Longrightarrow> dropWhile P s = s"
  by (cases s) auto

lemma trim_show [simp]: "trim (show_version v) = show_version v"
proof -
  have "\<not> is_space c" if "c \<in> set (show_version v)" for c
    using show_version_chars [OF that] by (auto simp: is_space_def)
  then show ?thesis using dropWhile_none [of "show_version v" is_space] dropWhile_none [of "rev (show_version v)" is_space]
    by (simp add: trim_def)
qed

lemma find_line:
  assumes "\<forall>l \<in> set ls. CHR 0x0A \<notin> set l \<and> \<not> starts_with p l" and "starts_with p x" and "CHR 0x0A \<notin> set x"
  shows "find (starts_with p) (lines (concat (map (\<lambda>l. l @ [CHR 0x0D, CHR 0x0A]) ls) @ x @ CHR 0x0D # CHR 0x0A # r)) = Some x"
  using assms
proof (induction ls)
  case Nil
  then show ?case using lines_Cons [of "x @ [CHR 0x0D]" r] by simp
next
  case (Cons l ls)
  then show ?case
    using lines_Cons [of "l @ [CHR 0x0D]" "concat (map (\<lambda>l. l @ [CHR 0x0D, CHR 0x0A]) ls) @ x @ CHR 0x0D # CHR 0x0A # r"]
    by simp
qed

text \<open>
  The version of the server is read back from its information text, whatever lines come before and after it,
  and the test for a minimal version is the comparison of the three numbers in turn.
\<close>

theorem version_round_trip:
  assumes "\<forall>l \<in> set ls. CHR 0x0A \<notin> set l \<and> \<not> starts_with ''redis_version:'' l"
  shows "parse (concat (map (\<lambda>l. l @ [CHR 0x0D, CHR 0x0A]) ls) @ ''redis_version:'' @ show_version v @
      CHR 0x0D # CHR 0x0A # rest) = Some v \<and>
    is_at_least v (show_version v') = Some (version_le v' v)"
proof -
  let ?x = "''redis_version:'' @ show_version v"
  have "CHR 0x0A \<notin> set (show_version v)" using show_version_chars by fastforce
  then have "find (starts_with ''redis_version:'') (lines (concat (map (\<lambda>l. l @ [CHR 0x0D, CHR 0x0A]) ls) @ ?x @
      CHR 0x0D # CHR 0x0A # rest)) = Some ?x"
    by (intro find_line [OF assms]) (simp_all add: starts_with_def)
  then show ?thesis
    using split_once_at [of "CHR '':''" "''redis_version''" "show_version v"] by (simp add: parse_def is_at_least_def)
qed

lemma show_version_examples:
  "show_version \<lparr>major = 7, minor = 2, patch = 4\<rparr> = ''7.2.4''" "show_version \<lparr>major = 7, minor = 4, patch = 0\<rparr> = ''7.4.0''"
  by code_simp+

theorem version_round_trip_witness:
  "parse (''# Server'' @ [CHR 0x0D, CHR 0x0A] @ ''redis_version:7.2.4'' @ [CHR 0x0D, CHR 0x0A] @ ''os:Linux'') =
     Some \<lparr>major = 7, minor = 2, patch = 4\<rparr> \<and>
   is_at_least \<lparr>major = 7, minor = 2, patch = 4\<rparr> ''7.4.0'' = Some False"
  using version_round_trip [of "[''# Server'']" "\<lparr>major = 7, minor = 2, patch = 4\<rparr>" "''os:Linux''"
      "\<lparr>major = 7, minor = 4, patch = 0\<rparr>"]
  by (simp add: show_version_examples starts_with_def version_le_def)

section \<open>Entries of the event stream\<close>

definition ascii :: "string \<Rightarrow> bool" where
  "ascii s \<longleftrightarrow> list_all (\<lambda>c. of_char c < (128 :: nat)) s"

text \<open>
  \<open>enc s\<close> is the value in which the server returns a string: a bulk string, whose conversions to bytes, to a number
  and, for text, to a string give back what was written.
\<close>

definition bulk_laws :: "('v, 'j, 'c, 'd, 'r, 'p) wire \<Rightarrow> (string \<Rightarrow> 'v) \<Rightarrow> bool" where
  "bulk_laws C enc \<longleftrightarrow> (\<forall>s. bulk_string C (enc s) = Some s \<and> \<not> is_nil C (enc s) \<and> bytes C (enc s) = Inr s \<and>
     (ascii s \<longrightarrow> text_of C (enc s) = Inr s \<and> from_utf8 C s = Inr s)) \<and>
   (\<forall>n. number C (enc (decimal (unat n))) = Inr n)"

lemma bulk_lawsD:
  assumes "bulk_laws C enc"
  shows "bulk_string C (enc s) = Some s" "is_nil C (enc s) \<longleftrightarrow> False" "bytes C (enc s) = Inr s"
    "ascii s \<Longrightarrow> text_of C (enc s) = Inr s" "ascii s \<Longrightarrow> from_utf8 C s = Inr s"
    "number C (enc (decimal (unat n))) = Inr n"
  using assms by (simp_all add: bulk_laws_def)

lemma state_to_arg_simps:
  "state_to_arg JobState.Wait = ''wait''" "state_to_arg JobState.Prioritized = ''prioritized''"
  "state_to_arg JobState.Stalled = ''stalled''" "state_to_arg JobState.Active = ''active''"
  "state_to_arg JobState.Paused = ''paused''" "state_to_arg JobState.Resumed = ''resumed''"
  "state_to_arg JobState.Completed = ''completed''" "state_to_arg JobState.Failed = ''failed''"
  "state_to_arg JobState.Delayed = ''delayed''" "state_to_arg JobState.Progress = ''progress''"
  "state_to_arg JobState.Obliterated = ''obliterated''" "state_to_arg JobState.Processing = ''processing''"
  by (simp_all add: state_to_arg_def) (simp_all add: to_lowercase_def lower_char_def char_of_eq_iff)

lemma lower_char_idem: "lower_char (lower_char c) = lower_char c"
  by (simp add: lower_char_def Let_def)

lemma lower_state: "to_lowercase (state_to_arg st) = state_to_arg st"
  by (simp add: state_to_arg_def to_lowercase_def lower_char_idem)

lemma lower_quote: "lower_char CHR 0x22 = CHR 0x22"
  by (simp add: lower_char_def)

lemma state_arg:
  "state_from_str (state_to_arg st) = Some st" "ascii (state_to_arg st)"
  "state_from_str (CHR 0x22 # state_to_arg st @ [CHR 0x22]) = None" "ascii (CHR 0x22 # state_to_arg st @ [CHR 0x22])"
proof -
  show a: "ascii (state_to_arg st)" by (cases st) (simp_all add: state_to_arg_simps ascii_def)
  have "state_from_str (state_to_arg st) = find (\<lambda>st'. state_to_arg st' = state_to_arg st) all_states"
    unfolding state_from_str_def lower_state unfolding state_to_arg_def ..
  then show "state_from_str (state_to_arg st) = Some st"
    by (cases st) (simp_all add: all_states_def state_to_arg_simps)
  have "hd (state_to_arg st') \<noteq> CHR 0x22 \<and> state_to_arg st' \<noteq> []" for st' by (cases st') (simp_all add: state_to_arg_simps)
  then have "state_to_arg st' \<noteq> CHR 0x22 # x" for st' x by (metis list.sel(1))
  then show "state_from_str (CHR 0x22 # state_to_arg st @ [CHR 0x22]) = None"
    by (simp add: state_from_str_def find_None_iff state_to_arg_def [symmetric] to_lowercase_def [of "CHR 0x22 # _"] lower_quote)
  show "ascii (CHR 0x22 # state_to_arg st @ [CHR 0x22])" using a by (simp add: ascii_def)
qed

lemma state_value: "bulk_laws C enc \<Longrightarrow> state_from_value C (enc (state_to_arg st)) = Inr st"
  by (simp add: state_from_value_def bulk_lawsD state_arg)

lemma event_keys [simp]:
  "to_lowercase ''event'' = ''event''" "to_lowercase ''job_id'' = ''job_id''" "to_lowercase ''name'' = ''name''"
  "to_lowercase ''delay'' = ''delay''" "to_lowercase ''priority'' = ''priority''" "to_lowercase ''data'' = ''data''"
  by code_simp+

lemma event_entries:
  assumes "bulk_laws C enc"
  shows "event_entry C ''event'' s (enc (state_to_arg st)) e = Inr (e\<lparr>event := st\<rparr>)"
    "event_entry C ''job_id'' s (enc (decimal (unat n))) e = Inr (e\<lparr>QueueStreamEvent.job_id := n\<rparr>)"
    "ascii nm \<Longrightarrow> event_entry C ''name'' s (enc nm) e = Inr (e\<lparr>QueueStreamEvent.name := Some nm\<rparr>)"
    "event_entry C ''delay'' s (enc (decimal (unat n))) e = Inr (e\<lparr>QueueStreamEvent.delay := Some n\<rparr>)"
    "event_entry C ''priority'' s (enc (decimal (unat n))) e = Inr (e\<lparr>QueueStreamEvent.priority := Some n\<rparr>)"
  using assms by (simp_all add: event_entry_def Let_def bulk_lawsD option_value_def state_value)

lemma sfold_total:
  "(\<And>x s. x \<in> set xs \<Longrightarrow> f x s = Inr (g x s)) \<Longrightarrow> sfold f xs s = Inr (fold g xs s)"
  by (induction xs arbitrary: s) simp_all

text \<open>The fields of an entry may arrive in any order.\<close>

lemma sfold_any_order:
  assumes "\<And>x s. x \<in> set xs \<Longrightarrow> f x s = Inr (g x s)" and "mset ys = mset xs"
    and "\<And>x y s. x \<in> set xs \<Longrightarrow> y \<in> set xs \<Longrightarrow> g x (g y s) = g y (g x s)"
  shows "sfold f ys s = Inr (fold g xs s)"
proof -
  have "set ys = set xs" using assms(2) by (metis set_mset_mset)
  then have "sfold f ys s = Inr (fold g ys s)" using assms(1) by (intro sfold_total) simp
  moreover have "fold g ys = fold g xs"
    using assms(2,3) \<open>set ys = set xs\<close> by (intro fold_multiset_equiv) (simp_all add: fun_eq_iff)
  ultimately show ?thesis by simp
qed

lemma event_id_parsed:
  assumes "unat t < 2 ^ 63" and "dt_from_millis C t = Some dt"
  shows "event_id_from_str C (decimal (unat t) @ ''-'' @ decimal (unat n)) = Inr (StreamEventId dt n)"
proof -
  obtain c cs where d: "decimal (unat t) = c # cs" by (cases "decimal (unat t)") simp_all
  then have "is_digit c" using decimal_char [of c "unat t"] by simp
  then have "c \<noteq> CHR ''-''" by auto
  then have "parse_i64 (c # cs) = Option.bind (parse_digits (unsigned_part (c # cs))) (\<lambda>n. if n < 2 ^ 63 then Some (of_nat n) else None)"
    by (simp add: parse_i64_def)
  then have "parse_i64 (decimal (unat t)) = Some t"
    unfolding d [symmetric] using assms(1) by simp
  then show ?thesis by (simp add: event_id_from_str_def split_once_at assms(2))
qed

section \<open>Hashes of jobs\<close>

text \<open>
  The names under which the struct \<^verbatim>\<open>Job\<close> is serialized, from its attributes, and what the JSON text of each field is
  read as: the JSON library reads back what it has written, times are in microseconds, a state is its name in
  quotes.
\<close>

definition job_names :: "string list" where
  "job_names = [''id'', ''timestamp'', ''name'', ''state'', ''progress'', ''attemptsMade'', ''opts'', ''delay'', ''data'',
     ''returnedValue'', ''stackTrace'', ''failedReason'', ''processedOn'', ''finishedOn'', ''queueName'', ''token'',
     ''stalledCounter'', ''logs'', ''priority'']"

definition field_reads :: "('v, 'j, 'c, 'd, 'r, 'p) wire \<Rightarrow> 'c externals \<Rightarrow> ('c, 'd, 'r, 'p) Job \<Rightarrow> string \<Rightarrow> string \<Rightarrow> bool" where
  "field_reads C ext j k s \<longleftrightarrow>
    (k = ''id'' \<longrightarrow> opt_number_from C s = Inr (Job.job_id j)) \<and>
    (k = ''timestamp'' \<longrightarrow> (\<exists>t. opt_number_from C s = Inr (Some t) \<and> from_timestamp_micros ext t = Some (ts j))) \<and>
    (k = ''name'' \<longrightarrow> string_from C s = Inr (Job.name j)) \<and>
    (k = ''state'' \<longrightarrow> s = CHR 0x22 # state_to_arg (Job.state j) @ [CHR 0x22] \<and> state_from C s = Inr (Job.state j)) \<and>
    (k = ''progress'' \<longrightarrow> opt_progress_from C s = Inr (Job.progress j)) \<and>
    (k = ''attemptsMade'' \<longrightarrow> number_from C s = Inr (attempts_made j)) \<and>
    (k = ''opts'' \<longrightarrow> opts_from C s = Inr (Job.opts j)) \<and>
    (k = ''delay'' \<longrightarrow> number_from C s = Inr (Job.delay j)) \<and>
    (k = ''data'' \<longrightarrow> opt_data_from C s = Inr (Job.data j)) \<and>
    (k = ''returnedValue'' \<longrightarrow> opt_returned_from C s = Inr (Job.returned_value j)) \<and>
    (k = ''stackTrace'' \<longrightarrow> traces_from C s = Inr (stack_trace j)) \<and>
    (k = ''failedReason'' \<longrightarrow> opt_failed_from C s = Inr (Job.failed_reason j)) \<and>
    (k = ''processedOn'' \<longrightarrow> (\<exists>t. opt_number_from C s = Inr t \<and> Option.bind t (from_timestamp_micros ext) = processed_on j)) \<and>
    (k = ''finishedOn'' \<longrightarrow> (\<exists>t. opt_number_from C s = Inr t \<and> Option.bind t (from_timestamp_micros ext) = finished_on j)) \<and>
    (k = ''queueName'' \<longrightarrow> opt_string_from C s = Inr (Job.queue_name j)) \<and>
    (k = ''token'' \<longrightarrow> opt_token_from C s = Inr (Job.token j)) \<and>
    (k = ''stalledCounter'' \<longrightarrow> number_from C s = Inr (stalled_counter j)) \<and>
    (k = ''logs'' \<longrightarrow> strings_from C s = Inr (logs j)) \<and>
    (k = ''priority'' \<longrightarrow> number_from C s = Inr (Job.priority j))"

definition serde_law :: "('v, 'j, 'c, 'd, 'r, 'p) wire \<Rightarrow> 'c externals \<Rightarrow> ('c, 'd, 'r, 'p) Job \<Rightarrow> bool" where
  "serde_law C ext j \<longleftrightarrow>
    set (map fst (serialize_into_pairs C (job_object C j))) = set job_names \<and>
    (\<forall>(k, s) \<in> set (serialize_into_pairs C (job_object C j)). field_reads C ext j k s)"

text \<open>The fields with names in \<open>D\<close> are equal.\<close>

definition agrees :: "string set \<Rightarrow> ('c, 'd, 'r, 'p) Job \<Rightarrow> ('c, 'd, 'r, 'p) Job \<Rightarrow> bool" where
  "agrees D j' j \<longleftrightarrow>
    (''id'' \<in> D \<longrightarrow> Job.job_id j' = Job.job_id j) \<and>
    (''timestamp'' \<in> D \<longrightarrow> ts j' = ts j) \<and>
    (''name'' \<in> D \<longrightarrow> Job.name j' = Job.name j) \<and>
    (''state'' \<in> D \<longrightarrow> Job.state j' = Job.state j) \<and>
    (''progress'' \<in> D \<longrightarrow> Job.progress j' = Job.progress j) \<and>
    (''attemptsMade'' \<in> D \<longrightarrow> attempts_made j' = attempts_made j) \<and>
    (''opts'' \<in> D \<longrightarrow> Job.opts j' = Job.opts j) \<and>
    (''delay'' \<in> D \<longrightarrow> Job.delay j' = Job.delay j) \<and>
    (''data'' \<in> D \<longrightarrow> Job.data j' = Job.data j) \<and>
    (''returnedValue'' \<in> D \<longrightarrow> Job.returned_value j' = Job.returned_value j) \<and>
    (''stackTrace'' \<in> D \<longrightarrow> stack_trace j' = stack_trace j) \<and>
    (''failedReason'' \<in> D \<longrightarrow> Job.failed_reason j' = Job.failed_reason j) \<and>
    (''processedOn'' \<in> D \<longrightarrow> processed_on j' = processed_on j) \<and>
    (''finishedOn'' \<in> D \<longrightarrow> finished_on j' = finished_on j) \<and>
    (''queueName'' \<in> D \<longrightarrow> Job.queue_name j' = Job.queue_name j) \<and>
    (''token'' \<in> D \<longrightarrow> Job.token j' = Job.token j) \<and>
    (''stalledCounter'' \<in> D \<longrightarrow> stalled_counter j' = stalled_counter j) \<and>
    (''logs'' \<in> D \<longrightarrow> logs j' = logs j) \<and>
    (''priority'' \<in> D \<longrightarrow> Job.priority j' = Job.priority j)"

lemma agrees_none [simp]: "agrees {} j' j"
  by (simp add: agrees_def)

lemma agrees_all: "agrees (set job_names) j' j \<Longrightarrow> j' = j"
  by (cases j; cases j') (simp add: agrees_def job_names_def)

lemma quoted_state:
  assumes "bulk_laws C enc" and "state_from C (CHR 0x22 # state_to_arg st @ [CHR 0x22]) = Inr st"
  shows "state_from_value C (enc (CHR 0x22 # state_to_arg st @ [CHR 0x22])) = Inr st"
  using assms state_arg(3,4) [of st] by (simp add: state_from_value_def bulk_lawsD)

lemma job_entry_agrees:
  assumes "bulk_laws C enc" and "k \<in> set job_names" and "field_reads C ext j k s" and "agrees D j0 j"
  shows "\<exists>j1. job_entry C ext k s (enc s) j0 = Inr j1 \<and> agrees (insert k D) j1 j"
proof -
  from assms(2) have "k \<in> {''id'', ''timestamp'', ''name'', ''state'', ''progress'', ''attemptsMade'', ''opts'', ''delay'', ''data'', ''returnedValue'', ''stackTrace'', ''failedReason'', ''processedOn'', ''finishedOn'', ''queueName'', ''token'', ''stalledCounter'', ''logs'', ''priority''}" by (simp add: job_names_def)
  then show ?thesis
    using assms(3,4) unfolding insert_iff
    by (elim disjE emptyE; hypsubst; simp add: job_entry_def field_reads_def del: insert_iff; (elim exE conjE)?; simp add: quoted_state [OF assms(1)] agrees_def)
qed

lemma job_entries_agree:
  assumes "bulk_laws C enc"
  shows "\<forall>(k, s) \<in> set fs. k \<in> set job_names \<and> field_reads C ext j k s \<Longrightarrow> agrees D j0 j \<Longrightarrow>
    \<exists>j1. sfold (\<lambda>(k, s). job_entry C ext k s (enc s)) fs j0 = Inr j1 \<and> agrees (D \<union> fst ` set fs) j1 j"
proof (induction fs arbitrary: D j0)
  case (Cons x fs)
  obtain k s where x: "x = (k, s)" by (cases x)
  then obtain j1 where "job_entry C ext k s (enc s) j0 = Inr j1" and "agrees (insert k D) j1 j"
    using job_entry_agrees [OF assms, of k ext j s D j0] Cons.prems by auto
  then show ?case using Cons.IH [of "insert k D" j1] Cons.prems x by auto
qed auto

end
