(* ===== verification/Redis_Laws.thy ===== *)
theory Redis_Laws
  imports Collection_Contract Redis_Codec
begin

text \<open>
  What the Redis store relies on in its server, stated as laws over views of the server's state: the lists and the
  counters it holds under every key. The operations on lists then do what they do on plain lists.
\<close>

section \<open>Pipelines\<close>

text \<open>The commands one after another, if each of them succeeds.\<close>

primrec run_all :: "('srv, 'v, 'x) redis \<Rightarrow> command list \<Rightarrow> 'srv \<Rightarrow> ('v list \<times> 'srv) option" where
  "run_all R [] s = Some ([], s)"
| "run_all R (c # cs) s =
    (case query R c s of
       (Inr v, s1) \<Rightarrow> map_option (\<lambda>r. (v # fst r, snd r)) (run_all R cs s1)
     | (Inl _, _) \<Rightarrow> None)"

text \<open>A pipeline runs its commands in order and returns their replies.\<close>

definition pipeline_law :: "('srv, 'v, 'x) redis \<Rightarrow> bool" where
  "pipeline_law R \<longleftrightarrow> (\<forall>b cs s vs s'. run_all R cs s = Some (vs, s') \<longrightarrow> pipeline R b cs s = (Inr vs, s'))"

lemma pipeline_lawD: "pipeline_law R \<Longrightarrow> run_all R cs s = Some (vs, s') \<Longrightarrow> pipeline R b cs s = (Inr vs, s')"
  by (simp add: pipeline_law_def)

lemma run_all_append:
  "run_all R (as @ bs) s =
    (case run_all R as s of
       None \<Rightarrow> None
     | Some a \<Rightarrow> map_option (\<lambda>b. (fst a @ fst b, snd b)) (run_all R bs (snd a)))"
  by (induction as arbitrary: s) (auto simp: option.map_comp o_def option.map_ident split: prod.splits sum.splits option.splits)

section \<open>Batches\<close>

lemma chunks_Nil [simp]: "chunks n [] = []"
  by (simp add: chunks.simps)

lemma chunks_step: "xs \<noteq> [] \<Longrightarrow> 0 < n \<Longrightarrow> chunks n xs = take n xs # chunks n (drop n xs)"
  by (simp add: chunks.simps [of n xs])

lemma concat_chunks: "0 < n \<Longrightarrow> concat (chunks n xs) = xs"
proof (induction n xs rule: chunks.induct)
  case (1 n xs)
  then show ?case by (cases "xs = []") (simp_all add: chunks_step)
qed

lemma in_chunks: "c \<in> set (chunks n xs) \<Longrightarrow> c \<noteq> [] \<and> length c \<le> n"
proof (induction n xs rule: chunks.induct)
  case (1 n xs)
  then show ?case by (cases "xs = [] \<or> n = 0") (auto simp: chunks.simps [of n xs])
qed

lemma refill: "foldl (\<lambda>q c. add_command c q) p cs = p\<lparr>commands := commands p @ cs\<rparr>"
  by (induction cs arbitrary: p) (simp_all add: add_command_def)

lemma split_pipeline_eq:
  "split_pipeline p n = map (\<lambda>cs. \<lparr>transaction_mode = False, commands = cs\<rparr>) (chunks n (commands p))"
  by (simp add: split_pipeline_def refill pipe_def)

lemma batches_run:
  assumes "pipeline_law R" and "run_all R (concat css) s = Some (vs, s')"
  shows "kfor (\<lambda>q. kbind (pipeline R (transaction_mode q) (commands q)) (\<lambda>_. kret ()))
    (map (\<lambda>cs. \<lparr>transaction_mode = False, commands = cs\<rparr>) css) s = (Inr (), s')"
  using assms(2)
proof (induction css arbitrary: s vs)
  case (Cons cs css)
  then obtain us s1 ws where "run_all R cs s = Some (us, s1)" and "run_all R (concat css) s1 = Some (ws, s')"
    by (auto simp: run_all_append split: option.splits)
  then show ?case using Cons.IH by (simp add: kbind_apply pipeline_lawD [OF assms(1)])
qed simp

lemma query_all_batched_run:
  assumes "pipeline_law R" and "run_all R (commands p) s = Some (vs, s')"
  shows "query_all_batched R p s = (Inr (), s')"
  unfolding query_all_batched_def split_pipeline_eq
  by (rule batches_run [OF assms(1)]) (simp add: concat_chunks assms(2))

section \<open>Lists\<close>

text \<open>
  \<open>lst s k\<close> is the list under a key, empty when there is none. A connection is to be had, a pipeline runs its
  commands, and the commands on lists do what their documentation says: the head is on the left, \<^verbatim>\<open>LREM\<close> with the
  count one removes the first occurrence, and \<^verbatim>\<open>RPOPLPUSH\<close> of an empty list replies with a nil, which is no number.
\<close>

definition list_laws :: "('srv, 'v, 'x) redis \<Rightarrow> ('v, 'j, 'c, 'd, 'r, 'p) wire \<Rightarrow> ('srv \<Rightarrow> string \<Rightarrow> u64 list) \<Rightarrow> bool" where
  "list_laws R C lst \<longleftrightarrow> (\<forall>s. pool_get R s = (Inr (), s)) \<and> pipeline_law R \<and>
    (\<forall>k i s. \<exists>v s'. query R (Lpush k i) s = (Inr v, s') \<and> lst s' = (lst s)(k := i # lst s k)) \<and>
    (\<forall>k i s. \<exists>v s'. query R (Rpush k i) s = (Inr v, s') \<and> lst s' = (lst s)(k := lst s k @ [i])) \<and>
    (\<forall>k i s. \<exists>v s'. query R (Lrem k 1 i) s = (Inr v, s') \<and> lst s' = (lst s)(k := remove1 i (lst s k))) \<and>
    (\<forall>a b s. a \<noteq> b \<longrightarrow> (\<exists>v s'. query R (Rpoplpush a b) s = (Inr v, s') \<and>
      (if lst s a = [] then (\<exists>m. number C v = Inl m) \<and> lst s' = lst s
       else number C v = Inr (last (lst s a)) \<and>
         lst s' = (lst s)(a := butlast (lst s a), b := last (lst s a) # lst s b))))"

lemma list_lawsD:
  assumes "list_laws R C lst"
  shows "pool_get R s = (Inr (), s)" "pipeline_law R"
    "\<exists>v s'. query R (Lpush k i) s = (Inr v, s') \<and> lst s' = (lst s)(k := i # lst s k)"
    "\<exists>v s'. query R (Rpush k i) s = (Inr v, s') \<and> lst s' = (lst s)(k := lst s k @ [i])"
    "\<exists>v s'. query R (Lrem k 1 i) s = (Inr v, s') \<and> lst s' = (lst s)(k := remove1 i (lst s k))"
  using assms by (simp_all add: list_laws_def)

lemma list_laws_pop:
  assumes "list_laws R C lst" and "a \<noteq> b"
  obtains v s' where "query R (Rpoplpush a b) s = (Inr v, s')"
    and "if lst s a = [] then (\<exists>m. number C v = Inl m) \<and> lst s' = lst s
       else number C v = Inr (last (lst s a)) \<and>
         lst s' = (lst s)(a := butlast (lst s a), b := last (lst s a) # lst s b)"
  using assms unfolding list_laws_def by metis

abbreviation with_server :: "'srv \<Rightarrow> ('srv, 'r, 'p) redis_world \<Rightarrow> ('srv, 'r, 'p) redis_world" where
  "with_server s \<equiv> on_rs (\<lambda>st. st\<lparr>server := s\<rparr>)"

lemma kwp_on_srv [simp]: "kwp (on_srv m) Q w \<longleftrightarrow> kwp m (\<lambda>a s. Q a (with_server s w)) (server (rs w))"
  by (auto simp: kwp_def on_srv_def split: prod.splits)

lemma key_with_server [simp]: "key c (with_server s w) = key c w"
  by (simp add: key_def)

lemma key_inj [simp]: "key c w = key c' w \<longleftrightarrow> c = c'"
  using stem_inj [of c c'] by (auto simp: key_def to_collection_name_def stem_def to_lowercase_def)

lemma with_server_simps [simp]:
  "with_server s (with_server t w) = with_server s w" "with_server (server (rs w)) w = w"
  by (simp_all add: on_rs_def)

lemma kwp_get_connection [simp]: "list_laws R C lst \<Longrightarrow> kwp (get_connection R) Q w \<longleftrightarrow> Q () w"
  by (simp add: get_connection_def) (simp add: kwp_def list_lawsD)

lemma kwp_query_async:
  assumes "pipeline_law R" and "run_all R (commands p) (server (rs w)) = Some (vs, s')"
  shows "kwp (query_async R p) Q w \<longleftrightarrow> Q vs (with_server s' w)"
  by (simp add: query_async_def) (simp add: kwp_def pipeline_lawD [OF assms])

definition redis_lists :: "('srv \<Rightarrow> string \<Rightarrow> u64 list) \<Rightarrow> ('srv, 'r, 'p) redis_world \<Rightarrow> CollectionSuffix \<Rightarrow> u64 list" where
  "redis_lists lst w c = lst (server (rs w)) (key c w)"

lemma redis_lists_server [simp]: "redis_lists lst (with_server s w) c = lst s (key c w)"
  by (simp add: redis_lists_def)

text \<open>A pipeline with one command on one list.\<close>

lemma one_list_command:
  assumes laws: "list_laws R C lst" and c: "query R c (server (rs w)) = (Inr v, s')"
    and s': "lst s' = (lst (server (rs w)))(key col w := ys)"
  shows "kwp (query_async R (add_command c pipe)) (\<lambda>_ w'. same_lists (redis_lists lst w') ((redis_lists lst w)(col := ys))) w"
proof -
  have "run_all R (commands (add_command c pipe)) (server (rs w)) = Some ([v], s')"
    by (simp add: add_command_def pipe_def c)
  from kwp_query_async [OF list_lawsD(2) [OF laws] this] show ?thesis
    by (simp add: same_lists_def s') (simp add: redis_lists_def)
qed

lemma list_col_kinds:
  assumes "c \<in> list_cols"
  shows "\<not> is_scored_col c" "c \<noteq> CollectionSuffix.Stalled" "is_list_col c"
  using assms by (auto simp: list_cols_def is_scored_col_def is_list_col_def)

lemma redis_add_list:
  assumes "list_laws R C lst" and "c \<in> list_cols"
  shows "kwp (Redis_Store.add_item R c i osc app)
    (\<lambda>_ w'. same_lists (redis_lists lst w') (snd (list_step (Add c i app) (redis_lists lst w)))) w"
proof -
  let ?c = "if app then Lpush (key c w) i else Rpush (key c w) i"
  obtain v s' where "query R ?c (server (rs w)) = (Inr v, s')"
    and "lst s' = (lst (server (rs w)))(key c w := (if app then i # redis_lists lst w c else redis_lists lst w c @ [i]))"
    using list_lawsD(3,4) [OF assms(1), where k = "key c w" and i = i and s = "server (rs w)"]
    by (cases app) (auto simp: redis_lists_def)
  from one_list_command [OF assms(1) this] show ?thesis
    using assms list_col_kinds [OF assms(2)]
    by (simp add: Redis_Store.add_item_def split del: if_split)
qed

lemma redis_drop_list:
  assumes "list_laws R C lst" and "c \<in> list_cols" and "count_list (redis_lists lst w c) i \<le> 1"
  shows "kwp (Redis_Store.remove_item R c i)
    (\<lambda>_ w'. same_lists (redis_lists lst w') (snd (list_step (Drop c i) (redis_lists lst w)))) w"
proof -
  have "remove1 i xs = removeAll i xs" if "count_list xs i \<le> 1" for xs :: "u64 list"
    using that by (induction xs) (auto simp: count_list_0_iff removeAll_id)
  then obtain v s' where "query R (Lrem (key c w) 1 i) (server (rs w)) = (Inr v, s')"
    and "lst s' = (lst (server (rs w)))(key c w := removeAll i (redis_lists lst w c))"
    using list_lawsD(5) [OF assms(1), where k = "key c w" and i = i and s = "server (rs w)"] assms(3)
    by (auto simp: redis_lists_def)
  from one_list_command [OF assms(1) this] show ?thesis
    using assms list_col_kinds [OF assms(2)] by (simp add: Redis_Store.remove_item_def)
qed

lemma redis_take:
  assumes "list_laws R C lst"
  shows "kwp (klift (Redis_Store.pop_back_push_front R C CollectionSuffix.Wait CollectionSuffix.Active))
    (\<lambda>r w'. r = fst (list_step Take (redis_lists lst w)) \<and>
      same_lists (redis_lists lst w') (snd (list_step Take (redis_lists lst w)))) w"
proof -
  let ?a = "key CollectionSuffix.Wait w" and ?b = "key CollectionSuffix.Active w" and ?s = "server (rs w)"
  obtain v s' where q: "query R (Rpoplpush ?a ?b) ?s = (Inr v, s')"
    and v: "if lst ?s ?a = [] then (\<exists>m. number C v = Inl m) \<and> lst s' = lst ?s
       else number C v = Inr (last (lst ?s ?a)) \<and> lst s' = (lst ?s)(?a := butlast (lst ?s ?a), ?b := last (lst ?s ?a) # lst ?s ?b)"
    by (rule list_laws_pop [OF assms, of ?a ?b]) simp
  have "Redis_Store.pop_back_push_front R C CollectionSuffix.Wait CollectionSuffix.Active w =
      (okay (number C v), with_server s' w)"
    using q by (cases "number C v") (simp_all add: Redis_Store.pop_back_push_front_def attempt_def kbind_apply ask_def
        get_connection_def on_srv_def list_lawsD [OF assms] decoded_def)
  then show ?thesis
    using v by (auto simp: same_lists_def redis_lists_def split: if_splits)
qed

section \<open>The contract of lists\<close>

lemma redis_store_simps [simp]:
  "Store.add_item (redis_store ext R C) = Redis_Store.add_item R"
  "Store.remove_item (redis_store ext R C) = Redis_Store.remove_item R"
  "Store.pop_back_push_front (redis_store ext R C) = Redis_Store.pop_back_push_front R C"
  by (simp_all add: redis_store_def)

text \<open>
  The store satisfies the contract of lists; a removal removes every occurrence of an item only where there is at
  most one.
\<close>

interpretation redis: list_contract "redis_store ext R C" "\<lambda>_. list_laws R C lst" "redis_lists lst" "\<lambda>_. n"
  "\<lambda>xs i. count_list xs i \<le> 1" for ext R C lst n
  by unfold_locales (simp_all add: redis_add_list redis_drop_list redis_take [unfolded kwp_lift] del: list_step.simps)

end
