(* ===== verification/Redis_Example.thy ===== *)
theory Redis_Example
  imports Redis_Laws
begin

text \<open>
  A small server and a small wire format, on which the laws of the Redis theories hold. The server keeps lists,
  counters and the messages of one subscription, and answers every other command with a nil; the wire format prints
  numbers in decimal and strings in quotes.
\<close>

section \<open>Replies and the wire format\<close>

datatype reply = Nil_reply | Number u64 | Bulk string | Entries "(reply \<times> reply) list" | Many "reply list"

definition demo_number :: "(u64, reply) decoder" where
  "demo_number v =
    (case v of
       Number n \<Rightarrow> Inr n
     | Bulk s \<Rightarrow> (case parse_u64 s of Some n \<Rightarrow> Inr n | None \<Rightarrow> Inl ''not a number'')
     | _ \<Rightarrow> Inl ''not a number'')"

definition demo_bytes :: "(string, reply) decoder" where
  "demo_bytes v = (case v of Bulk s \<Rightarrow> Inr s | Nil_reply \<Rightarrow> Inr [] | _ \<Rightarrow> Inl ''not a string'')"

definition json_option :: "'a json_decoder \<Rightarrow> 'a option json_decoder" where
  "json_option dec s = (if s = ''null'' then Inr None else sbind (dec s) (\<lambda>a. Inr (Some a)))"

definition json_number :: "u64 json_decoder" where
  "json_number s = (case parse_u64 s of Some n \<Rightarrow> Inr n | None \<Rightarrow> Inl ''not a number'')"

definition quoted :: "string \<Rightarrow> string" where
  "quoted s = CHR 0x22 # s @ [CHR 0x22]"

definition json_string :: "string json_decoder" where
  "json_string s = (if length s < 2 then Inl ''not a string'' else Inr (butlast (tl s)))"

definition json_unit :: "unit json_decoder" where
  "json_unit s = (if s = ''null'' then Inr () else Inl ''not a unit'')"

definition json_state :: "JobState json_decoder" where
  "json_state s =
    (case find (\<lambda>st. quoted (state_to_arg st) = s) all_states of Some st \<Rightarrow> Inr st | None \<Rightarrow> Inl ''not a state'')"

definition print_option :: "('a \<Rightarrow> string) \<Rightarrow> 'a option \<Rightarrow> string" where
  "print_option f x = (case x of None \<Rightarrow> ''null'' | Some a \<Rightarrow> f a)"

definition print_micros :: "Dt \<Rightarrow> string" where
  "print_micros t = decimal (unat (timestamp_micros t))"

text \<open>The text of the jobs and events of the examples; the empty vectors and default options are printed as such.\<close>

definition demo_job_object :: "(nat, unit, unit, unit) Job \<Rightarrow> (string \<times> string) list option" where
  "demo_job_object j = Some
    [(''id'', print_option (\<lambda>n. decimal (unat n)) (Job.job_id j)), (''timestamp'', print_micros (ts j)),
     (''name'', quoted (Job.name j)), (''state'', quoted (state_to_arg (Job.state j))), (''progress'', ''null''),
     (''attemptsMade'', decimal (unat (attempts_made j))), (''opts'', ''{}''), (''delay'', decimal (unat (Job.delay j))),
     (''data'', ''null''), (''returnedValue'', ''null''), (''stackTrace'', ''[]''), (''failedReason'', ''null''),
     (''processedOn'', print_option print_micros (processed_on j)),
     (''finishedOn'', print_option print_micros (finished_on j)),
     (''queueName'', print_option quoted (Job.queue_name j)), (''token'', ''null''),
     (''stalledCounter'', decimal (unat (stalled_counter j))), (''logs'', ''[]''),
     (''priority'', decimal (unat (Job.priority j)))]"

definition demo_event_object :: "(unit, unit) QueueStreamEvent \<Rightarrow> (string \<times> string) list option" where
  "demo_event_object e = Some
    [(''id'', ''null''), (''event'', quoted (state_to_arg (event e))), (''job_id'', decimal (unat (QueueStreamEvent.job_id e))),
     (''returned_value'', ''null''), (''name'', print_option quoted (QueueStreamEvent.name e))]"

definition demo_wire :: "(reply, string, nat, unit, unit, unit) wire" where
  "demo_wire = \<lparr>is_nil = (\<lambda>v. v = Nil_reply), bulk_string = (\<lambda>v. case v of Bulk s \<Rightarrow> Some s | _ \<Rightarrow> None),
     as_map_iter = (\<lambda>v. case v of Entries es \<Rightarrow> Some es | _ \<Rightarrow> None), bytes = demo_bytes, text_of = demo_bytes,
     number = demo_number, signed_number = demo_number, byte = (\<lambda>v. sbind (demo_number v) (\<lambda>n. Inr (ucast n))),
     flag = (\<lambda>v. sbind (demo_number v) (\<lambda>n. Inr (n \<noteq> 0))), pairs_of = (\<lambda>_. Inr []),
     elements = (\<lambda>v. case v of Many vs \<Rightarrow> Inr vs | _ \<Rightarrow> Inr []), from_utf8 = Inr, dt_from_millis = (\<lambda>t. Some (sint t * 1000000)),
     number_from = json_number, opt_number_from = json_option json_number, string_from = json_string,
     opt_string_from = json_option json_string, strings_from = (\<lambda>_. Inr []), state_from = json_state,
     opts_from = (\<lambda>_. Inr default_job_options), token_from = (\<lambda>_. Inl ''no token''), opt_token_from = (\<lambda>_. Inr None),
     opt_progress_from = json_option json_unit, opt_data_from = (\<lambda>s. Inr (Some ())), opt_returned_from = json_option json_unit,
     opt_failed_from = (\<lambda>_. Inr None), traces_from = (\<lambda>_. Inr []), opt_uuid_from = (\<lambda>_. Inr None),
     opt_metrics_from = (\<lambda>_. Inr None), worker_from = (\<lambda>_. Inl ''no metrics''), process_from = (\<lambda>_. Inl ''no metrics''),
     event_from = (\<lambda>s. sbind (json_number s) (\<lambda>n. Inr ((default_event 0)\<lparr>QueueStreamEvent.job_id := n\<rparr>))),
     progress_to = (\<lambda>_. Inr ''null''), returned_to = (\<lambda>_. Inr ''null''), traces_to = (\<lambda>_. Inr ''[]''),
     field_to = (\<lambda>_. Inr ''null''), token_to = (\<lambda>_. Inr ''null''), worker_to = (\<lambda>_. Inr ''{}''), process_to = (\<lambda>_. Inr ''{}''),
     event_to = (\<lambda>e. Inr (decimal (unat (QueueStreamEvent.job_id e)))), job_object = demo_job_object,
     event_object = demo_event_object, value_to = Inr, uuid_to_string = (\<lambda>u. decimal (unat u))\<rparr>"

section \<open>The server\<close>

record keyspace =
  k_lists :: "string \<Rightarrow> u64 list"
  k_counters :: "string \<Rightarrow> u64"
  k_messages :: "reply list"

fun demo_query :: "command \<Rightarrow> keyspace \<Rightarrow> reply \<times> keyspace" where
  "demo_query (Get k) s = (if k_counters s k = 0 then Nil_reply else Number (k_counters s k), s)"
| "demo_query (Incr k n) s =
    (Number (k_counters s k + of_int n), s\<lparr>k_counters := (k_counters s)(k := k_counters s k + of_int n)\<rparr>)"
| "demo_query (Exists k) s = (Number (if k_lists s k = [] then 0 else 1), s)"
| "demo_query (Rename a b) s = (Nil_reply, s\<lparr>k_lists := (k_lists s)(a := [], b := k_lists s a)\<rparr>)"
| "demo_query (Hgetall k) s = (Entries [], s)"
| "demo_query (Lpush k i) s = (Nil_reply, s\<lparr>k_lists := (k_lists s)(k := i # k_lists s k)\<rparr>)"
| "demo_query (Rpush k i) s = (Nil_reply, s\<lparr>k_lists := (k_lists s)(k := k_lists s k @ [i])\<rparr>)"
| "demo_query (Lrem k n i) s = (Nil_reply, s\<lparr>k_lists := (k_lists s)(k := remove1 i (k_lists s k))\<rparr>)"
| "demo_query (Rpoplpush a b) s =
    (if k_lists s a = [] then (Nil_reply, s)
     else (Number (last (k_lists s a)),
       s\<lparr>k_lists := (k_lists s)(a := butlast (k_lists s a), b := last (k_lists s a) # k_lists s b)\<rparr>))"
| "demo_query _ s = (Nil_reply, s)"

fun demo_run :: "command list \<Rightarrow> keyspace \<Rightarrow> reply list \<times> keyspace" where
  "demo_run [] s = ([], s)"
| "demo_run (c # cs) s = (let (v, s1) = demo_query c s; (vs, s2) = demo_run cs s1 in (v # vs, s2))"

definition demo_redis :: "(keyspace, reply, 'x) redis" where
  "demo_redis = \<lparr>pool_get = kret (), client_get_connection = kret (), get_async_pubsub = kret (),
     query = (\<lambda>c. klift (demo_query c)), pipeline = (\<lambda>b cs. klift (demo_run cs)),
     transaction_async = (\<lambda>ks m. kbind m (\<lambda>x. kok_or x (RedisError ''aborted''))), subscribe = (\<lambda>_. kret ()),
     next_message = klift (\<lambda>s. case k_messages s of [] \<Rightarrow> (None, s) | m # ms \<Rightarrow> (Some m, s\<lparr>k_messages := ms\<rparr>)),
     xread = (\<lambda>_ _ _ _. kret [])\<rparr>"

definition empty_keyspace :: keyspace where
  "empty_keyspace = \<lparr>k_lists = (\<lambda>_. []), k_counters = (\<lambda>_. 0), k_messages = []\<rparr>"

definition demo_redis_world :: "keyspace \<Rightarrow> (keyspace, 'r, 'p) redis_world" where
  "demo_redis_world s = \<lparr>wall = 0, mono = 0, current_metrics = default_metrics, pause_workers = False, notified = 0,
     emitted = [], paused_cell = False, backoff_registry = Backoff.new,
     store = \<lparr>server = s, prefix = ''kio'', name = ''q'', consumer_group = ''g'', consumer_name = ''c'',
       stream_key = ''kio:q:events'', subscribed = True, redis_version = \<lparr>major = 7, minor = 4, patch = 0\<rparr>\<rparr>\<rparr>"

section \<open>The laws hold\<close>

lemma demo_redis_simps [simp]:
  "pool_get demo_redis s = (Inr (), s)" "query demo_redis c s = (Inr (fst (demo_query c s)), snd (demo_query c s))"
  "pipeline demo_redis b cs s = (Inr (fst (demo_run cs s)), snd (demo_run cs s))"
  by (simp_all add: demo_redis_def klift_apply)

lemma demo_run_all: "run_all demo_redis cs s = Some (demo_run cs s)"
  by (induction cs arbitrary: s) (simp_all add: split_beta)

lemma demo_pipeline_law: "pipeline_law demo_redis"
  by (simp add: pipeline_law_def demo_run_all)

lemma demo_list_laws: "list_laws demo_redis demo_wire k_lists"
  by (auto simp: list_laws_def demo_pipeline_law demo_wire_def demo_number_def)

lemma demo_bulk_laws: "bulk_laws demo_wire Bulk"
  by (simp add: bulk_laws_def demo_wire_def demo_bytes_def demo_number_def)

lemma demo_keys:
  "to_collection_name ''kio'' ''q'' Id = ''kio:q:id''" "to_collection_name ''kio'' ''q'' PriorityCounter \<noteq> ''kio:q:id''"
  "to_collection_name ''kio'' ''q'' CollectionSuffix.Wait = ''kio:q:wait''"
  "to_collection_name ''kio'' ''q'' CollectionSuffix.Paused = ''kio:q:paused''"
  by code_simp+

end
