(* ===== verification/Redis_Round_Trip.thy ===== *)
theory Redis_Round_Trip
  imports Redis_Example
begin

text \<open>
  What the Redis store writes for a new job and for an event, and what is read back from it.
\<close>

section \<open>Examples\<close>

definition demo_job :: "(nat, unit, unit, unit) Job" where
  "demo_job = Jobs.new 5000 ''a'' (Some ()) None (Some ''kio:q'')"

lemma demo_prepared_delay:
  "\<exists>j' p'. prepare_for_insert demo_wire simple_calendar 5000 ''kio:q'' Stream False 7 1
    (default_job_options\<lparr>JobOptions.delay := TimeMilis 500\<rparr>) demo_job ''a'' (atomic pipe) = Inr (Inr (), j', p')"
  by (simp add: prepare_for_insert_def add_opts_def Let_def split_beta dt_plus_def simple_calendar_def MIN_DELAY_MS_LIMIT_def demo_job_def
      sbind_def)

lemma demo_prepared:
  "\<exists>p'. prepare_for_insert demo_wire simple_calendar 5000 ''kio:q'' Stream False 7 1 default_job_options demo_job ''a'' (atomic pipe) =
    Inr (Inr (), demo_job\<lparr>Job.job_id := Some 7\<rparr>, p')"
  by (simp add: prepare_for_insert_def add_opts_def Let_def default_job_options_def default_delay_def demo_job_def Jobs.new_def)

lemma json_number_decimal [simp]: "json_number (decimal (unat n)) = Inr n"
  by (simp add: json_number_def)

lemma json_string_quoted [simp]: "json_string (quoted s) = Inr s"
  by (simp add: json_string_def quoted_def)

lemma json_state_quoted: "json_state (CHR 0x22 # state_to_arg st @ [CHR 0x22]) = Inr st"
  by (cases st) (simp_all add: json_state_def quoted_def all_states_def state_to_arg_simps)

lemma decimal_not_null [simp]: "decimal n \<noteq> ''null''" "quoted s \<noteq> ''null''"
  using decimal_char [of "CHR ''n''" n] by (auto simp: quoted_def is_digit_def)

lemma demo_micros: "from_timestamp_micros simple_calendar (timestamp_micros 5000) = Some 5000"
  by (simp add: simple_calendar_def timestamp_micros_def)

lemma demo_serde_law: "serde_law demo_wire simple_calendar (demo_job\<lparr>Job.job_id := Some 7\<rparr>)"
  unfolding serde_law_def
  by (simp add: serialize_into_pairs_def demo_wire_def demo_job_object_def demo_job_def Jobs.new_def job_names_def
      List.map_filter_simps okay_def field_reads_def print_option_def print_micros_def json_option_def json_state_quoted
      quoted_def [of "state_to_arg _"] json_unit_def demo_micros json_number_decimal [of 7, simplified]
      json_number_decimal [of 0, simplified])

section \<open>New jobs\<close>

text \<open>
  C17. What the insertion of a job writes into the event stream is read back as the event it means. The entry may
  list its fields in any order; the event has the id of the entry, the id and name of the job, the state the job is
  placed in, and its delay or its priority where that decides the state.
\<close>

theorem inserted_event_round_trip:
  assumes laws: "bulk_laws C enc" "ascii nm" and t: "unat t < 2 ^ 63" "dt_from_millis C t = Some dt"
    and d: "as_diff_ms ext now (JobOptions.delay options) = Inr d"
    and p: "prepare_for_insert C ext now qname Stream pf i pc options j nm p = Inr (Inr (), j', p')"
  shows "\<exists>items. last (commands p') = Xadd (qname @ '':events'') items \<and>
    (\<forall>fs. mset fs = mset items \<longrightarrow>
      event_try_from C now' \<lparr>entry_id = decimal (unat t) @ ''-'' @ decimal (unat n), entry_map = map (\<lambda>(k, s). (k, enc s)) fs\<rparr> =
      Inr ((default_event now')\<lparr>event_id := StreamEventId dt n, QueueStreamEvent.job_id := i,
        event := (if 0 < d then JobState.Delayed else if 0 < JobOptions.priority options then JobState.Prioritized else JobState.Wait),
        QueueStreamEvent.name := Some nm, QueueStreamEvent.delay := (if 0 < d then Some d else None),
        QueueStreamEvent.priority := (if \<not> 0 < d \<and> 0 < JobOptions.priority options then Some (JobOptions.priority options) else None)\<rparr>))"
proof -
  let ?ev = "if 0 < d then JobState.Delayed else if 0 < JobOptions.priority options then JobState.Prioritized else JobState.Wait"
  let ?items = "[(''event'', state_to_arg ?ev), (''job_id'', decimal (unat i)), (''name'', nm)] @
     (if 0 < d then [(''delay'', decimal (unat d))] else []) @
     (if 0 < JobOptions.priority options \<and> \<not> 0 < d then [(''priority'', decimal (unat (JobOptions.priority options)))] else [])"
  define step where "step = (\<lambda>(key, s). \<lambda>e. event_entry C key s (enc s) e)"
  define g where "g = (\<lambda>x e. case step x e of Inr e' \<Rightarrow> e' | Inl _ \<Rightarrow> e)"
  note entries = event_entries [OF laws(1)] event_entries(3) [OF laws]
  have step: "step x e = Inr (g x e)" if "x \<in> set ?items" for x e
    using that laws(2) by (auto simp: step_def g_def entries split: if_splits)
  have comm: "g x (g y e) = g y (g x e)" if "x \<in> set ?items" "y \<in> set ?items" for x y e
    using that laws(2) by (auto simp: step_def g_def entries split: if_splits)
  have "last (commands p') = Xadd (qname @ '':events'') ?items"
    using p d by (auto simp: prepare_for_insert_def sbind_def Let_def add_command_def split: sum.splits if_splits option.splits)
  moreover have "event_try_from C now' \<lparr>entry_id = decimal (unat t) @ ''-'' @ decimal (unat n),
      entry_map = map (\<lambda>(k, s). (k, enc s)) fs\<rparr> = Inr (fold g ?items ((default_event now')\<lparr>event_id := StreamEventId dt n\<rparr>))"
    if "mset fs = mset ?items" for fs
  proof -
    have "sfold (\<lambda>(key, val) e. case bulk_string C val of Some bs \<Rightarrow> event_entry C key bs val e | None \<Rightarrow> Inr e)
        (map (\<lambda>(k, s). (k, enc s)) fs) e = sfold step fs e" for e
      by (induction fs arbitrary: e) (auto simp: step_def bulk_lawsD [OF laws(1)] sbind_def split: sum.split)
    then show ?thesis
      using sfold_any_order [where xs = ?items and f = step and g = g, OF step that comm] event_id_parsed [OF t, of n] by (simp add: event_try_from_def)
  qed
  moreover have "fold g ?items e = e\<lparr>QueueStreamEvent.job_id := i, event := ?ev, QueueStreamEvent.name := Some nm,
      QueueStreamEvent.delay := (if 0 < d then Some d else QueueStreamEvent.delay e), QueueStreamEvent.priority :=
        (if \<not> 0 < d \<and> 0 < JobOptions.priority options then Some (JobOptions.priority options) else QueueStreamEvent.priority e)\<rparr>" for e
    using laws(2) by (simp add: step_def g_def entries)
  ultimately show ?thesis by (intro exI [of _ ?items]) (auto simp: default_event_def)
qed

theorem inserted_event_round_trip_witness:
  "\<exists>j' p' items. prepare_for_insert demo_wire simple_calendar 5000 ''kio:q'' Stream False 7 1
      (default_job_options\<lparr>JobOptions.delay := TimeMilis 500\<rparr>) demo_job ''a'' (atomic pipe) = Inr (Inr (), j', p') \<and>
    last (commands p') = Xadd ''kio:q:events'' items \<and>
    event_try_from demo_wire 9 \<lparr>entry_id = decimal (unat (3 :: u64)) @ ''-'' @ decimal (unat (0 :: u64)),
        entry_map = map (\<lambda>(k, s). (k, Bulk s)) (rev items)\<rparr> =
      Inr ((default_event 9)\<lparr>event_id := StreamEventId 3000000 0, QueueStreamEvent.job_id := 7, event := JobState.Delayed,
        QueueStreamEvent.name := Some ''a'', QueueStreamEvent.delay := Some 500, QueueStreamEvent.priority := None\<rparr>)"
proof -
  obtain j' p' where p: "prepare_for_insert demo_wire simple_calendar 5000 ''kio:q'' Stream False 7 1
      (default_job_options\<lparr>JobOptions.delay := TimeMilis 500\<rparr>) demo_job ''a'' (atomic pipe) = Inr (Inr (), j', p')"
    using demo_prepared_delay by blast
  have "ascii ''a''" by (simp add: ascii_def)
  moreover have "dt_from_millis demo_wire 3 = Some 3000000" by (simp add: demo_wire_def)
  ultimately obtain items where "last (commands p') = Xadd ''kio:q:events'' items"
    and "\<And>fs. mset fs = mset items \<Longrightarrow> event_try_from demo_wire 9 \<lparr>entry_id = decimal (unat (3 :: u64)) @ ''-'' @ decimal (unat (0 :: u64)),
        entry_map = map (\<lambda>(k, s). (k, Bulk s)) fs\<rparr> =
      Inr ((default_event 9)\<lparr>event_id := StreamEventId 3000000 0, QueueStreamEvent.job_id := 7, event := JobState.Delayed,
        QueueStreamEvent.name := Some ''a'', QueueStreamEvent.delay := Some 500, QueueStreamEvent.priority := None\<rparr>)"
    using inserted_event_round_trip [OF demo_bulk_laws _ _ _ _ p, of 3 3000000 500 9 0] by auto
  with p show ?thesis by (intro exI [of _ j'] exI [of _ p'] exI [of _ items]) simp
qed



section \<open>Published events\<close>

lemma event_entry_keeps_result:
  assumes "event_entry C k bs v e = Inr e'" and "to_lowercase k \<noteq> ''returned_value''" and "to_lowercase k \<noteq> ''returnedvalue''"
  shows "QueueStreamEvent.returned_value e' = QueueStreamEvent.returned_value e"
  using assms by (auto simp: event_entry_def Let_def sbind_def split: if_splits sum.splits)

lemma entries_keep_result:
  "sfold (\<lambda>(key, val) e. case bulk_string C val of Some bs \<Rightarrow> event_entry C key bs val e | None \<Rightarrow> Inr e) kvs e = Inr e' \<Longrightarrow>
    \<forall>(k, v) \<in> set kvs. to_lowercase k \<noteq> ''returned_value'' \<and> to_lowercase k \<noteq> ''returnedvalue'' \<Longrightarrow>
    QueueStreamEvent.returned_value e' = QueueStreamEvent.returned_value e"
proof (induction kvs arbitrary: e)
  case (Cons x kvs)
  then show ?case
    using event_entry_keeps_result [of C "fst x" _ "snd x" e]
    by (auto simp: sbind_def split_beta split: sum.splits option.splits)
qed simp

text \<open>
  C31. A completion whose result prints as text with \<^verbatim>\<open>null\<close> in it loses the result on its way through the event stream:
  \<^verbatim>\<open>publish_event\<close> drops every field whose text contains these letters. The entry still decodes, and turning it into an
  event for the listeners then panics.
\<close>

theorem null_result_panics:
  assumes "\<forall>(k, val) \<in> set (serialize_into_pairs C (event_object C e)).
      to_lowercase k \<in> {''returned_value'', ''returnedvalue''} \<longrightarrow> contains ''null'' val"
    and "set fs = set (event_items C e)"
    and "event_try_from C now \<lparr>entry_id = eid, entry_map = map (\<lambda>(k, s). (k, enc s)) fs\<rparr> = Inr e'"
    and "event e' = JobState.Completed"
  shows "from_queue_event e' = Inl (Panic ''there is no result'')"
proof -
  have "\<forall>(k, v) \<in> set (map (\<lambda>(k, s). (k, enc s)) fs). to_lowercase k \<noteq> ''returned_value'' \<and> to_lowercase k \<noteq> ''returnedvalue''"
    using assms(1,2) by (fastforce simp: event_items_def)
  moreover obtain i where "sfold (\<lambda>(key, val) e. case bulk_string C val of Some bs \<Rightarrow> event_entry C key bs val e | None \<Rightarrow> Inr e)
      (map (\<lambda>(k, s). (k, enc s)) fs) ((default_event now)\<lparr>event_id := i\<rparr>) = Inr e'"
    using assms(3) by (auto simp: event_try_from_def sbind_def split: sum.splits)
  ultimately have "QueueStreamEvent.returned_value e' = None"
    using entries_keep_result [of C "map (\<lambda>(k, s). (k, enc s)) fs"] by (simp add: default_event_def)
  then show ?thesis using assms(4) by (simp add: from_queue_event_def)
qed

definition null_event :: "(unit, unit) QueueStreamEvent" where
  "null_event = (default_event 0)\<lparr>QueueStreamEvent.job_id := 7, event := JobState.Completed, QueueStreamEvent.returned_value := Some ()\<rparr>"

lemma null_event_items:
  "event_items demo_wire null_event =
    [(''event'', CHR 0x22 # state_to_arg JobState.Completed @ [CHR 0x22]), (''job_id'', decimal (unat (7 :: u64)))]"
  by (simp add: event_items_def serialize_into_pairs_def demo_wire_def demo_event_object_def null_event_def List.map_filter_simps okay_def
      print_option_def default_event_def quoted_def state_to_arg_simps starts_with_def) code_simp

theorem null_result_panics_witness:
  "\<exists>e'. event_try_from demo_wire 0 \<lparr>entry_id = decimal (unat (3 :: u64)) @ ''-'' @ decimal (unat (0 :: u64)),
      entry_map = map (\<lambda>(k, s). (k, Bulk s)) (event_items demo_wire null_event)\<rparr> = Inr e' \<and>
    from_queue_event e' = Inl (Panic ''there is no result'')"
proof -
  have "event_id_from_str demo_wire (decimal (unat (3 :: u64)) @ ''-'' @ decimal (unat (0 :: u64))) = Inr (StreamEventId 3000000 0)"
    by (rule event_id_parsed) (simp_all add: demo_wire_def)
  moreover have "state_from_value demo_wire (Bulk (CHR 0x22 # state_to_arg JobState.Completed @ [CHR 0x22])) = Inr JobState.Completed"
    by (rule quoted_state [OF demo_bulk_laws]) (simp add: demo_wire_def json_state_quoted)
  ultimately obtain e' where e': "event_try_from demo_wire 0 \<lparr>entry_id = decimal (unat (3 :: u64)) @ ''-'' @ decimal (unat (0 :: u64)),
      entry_map = map (\<lambda>(k, s). (k, Bulk s)) (event_items demo_wire null_event)\<rparr> = Inr e'" "event e' = JobState.Completed"
    unfolding null_event_items
    by (simp add: event_try_from_def bulk_lawsD(1) [OF demo_bulk_laws] event_entry_def Let_def
        bulk_lawsD(6) [OF demo_bulk_laws, of 7, simplified])
  have "\<forall>(k, val) \<in> set (serialize_into_pairs demo_wire (event_object demo_wire null_event)).
      to_lowercase k \<in> {''returned_value'', ''returnedvalue''} \<longrightarrow> contains ''null'' val"
    by (simp add: serialize_into_pairs_def demo_wire_def demo_event_object_def List.map_filter_simps okay_def starts_with_def)
  from null_result_panics [OF this refl e'] e'(1) show ?thesis by blast
qed

end
