(* ===== verification/Redis_Insertion.thy ===== *)
theory Redis_Insertion
  imports Redis_Example
begin

text \<open>
  Adding jobs to the Redis store: the ids it hands out and what it leaves in the counters, alone and with another
  client in between. The laws of the server speak of the counters only.
\<close>

section \<open>Laws\<close>

text \<open>The commands that the insertion of a job consists of.\<close>

fun writes_job :: "command \<Rightarrow> bool" where
  "writes_job (Zadd _ _ _) \<longleftrightarrow> True"
| "writes_job (Lpush _ _) \<longleftrightarrow> True"
| "writes_job (Hset_multiple _ _) \<longleftrightarrow> True"
| "writes_job (Publish _ _) \<longleftrightarrow> True"
| "writes_job (Xadd _ _) \<longleftrightarrow> True"
| "writes_job _ \<longleftrightarrow> False"

text \<open>\<open>cnt s k\<close> is the number under a key, zero when there is none. An increment must stay a signed number.\<close>

definition counter_laws :: "('srv, 'v, 'x) redis \<Rightarrow> ('v, 'j, 'c, 'd, 'r, 'p) wire \<Rightarrow> ('srv \<Rightarrow> string \<Rightarrow> u64) \<Rightarrow> bool" where
  "counter_laws R C cnt \<longleftrightarrow> (\<forall>s. pool_get R s = (Inr (), s)) \<and> pipeline_law R \<and>
    (\<forall>k s. \<exists>v x. query R (Get k) s = (Inr v, s) \<and> option_value C (number C) v = Inr x \<and> unwrap_or 0 x = cnt s k) \<and>
    (\<forall>k n s. unat (cnt s k) + n < 2 ^ 63 \<longrightarrow>
      (\<exists>v s'. query R (Incr k (int n)) s = (Inr v, s') \<and> cnt s' = (cnt s)(k := cnt s k + of_nat n))) \<and>
    (\<forall>c s. writes_job c \<longrightarrow> (\<exists>v s'. query R c s = (Inr v, s') \<and> cnt s' = cnt s))"

text \<open>
  The transaction of the client watches keys, which changes no counter, and returns what the closure returns. As
  the closure sends no transaction of the server, the watched keys have no say.
\<close>

definition transaction_law :: "('srv, 'v, 'x) redis \<Rightarrow> ('srv \<Rightarrow> string \<Rightarrow> u64) \<Rightarrow> bool" where
  "transaction_law R cnt \<longleftrightarrow> (\<forall>ks m s. \<exists>s0. cnt s0 = cnt s \<and>
    (\<forall>x s1. m s0 = (Inr (Some x), s1) \<longrightarrow> (\<exists>s2. transaction_async R ks m s = (Inr x, s2) \<and> cnt s2 = cnt s1)))"

lemma counter_lawsD:
  assumes "counter_laws R C cnt"
  shows "writes_job c \<Longrightarrow> \<exists>v s'. query R c s = (Inr v, s') \<and> cnt s' = cnt s"
    "unat (cnt s k) + n < 2 ^ 63 \<Longrightarrow> \<exists>v s'. query R (Incr k (int n)) s = (Inr v, s') \<and> cnt s' = (cnt s)(k := cnt s k + of_nat n)"
  using assms by (simp_all add: counter_laws_def)

lemma run_writes:
  assumes "counter_laws R C cnt" and "list_all writes_job cs"
  shows "\<exists>vs s'. run_all R cs s = Some (vs, s') \<and> cnt s' = cnt s"
  using assms(2)
proof (induction cs arbitrary: s)
  case (Cons c cs)
  then obtain v s1 where "query R c s = (Inr v, s1)" and "cnt s1 = cnt s"
    using counter_lawsD(1) [OF assms(1), of c s] by auto
  moreover obtain vs s2 where "run_all R cs s1 = Some (vs, s2)" and "cnt s2 = cnt s1"
    using Cons.IH [of s1] Cons.prems by auto
  ultimately show ?case by simp
qed simp

lemma read_counters_run:
  assumes "counter_laws R C cnt"
  shows "read_counters R C pre nm s = (Inr (cnt s (to_collection_name pre nm Id), cnt s (to_collection_name pre nm PriorityCounter)), s)"
proof -
  have "counter R C k s = (Inr (cnt s k), s)" for k
  proof -
    obtain v x where "query R (Get k) s = (Inr v, s)" "option_value C (number C) v = Inr x" "unwrap_or 0 x = cnt s k"
      using assms unfolding counter_laws_def by blast
    then show ?thesis by (simp add: counter_def kbind_apply decoded_def)
  qed
  then show ?thesis by (simp add: read_counters_def kbind_apply)
qed

section \<open>The loop over the new jobs\<close>

lemma prepare_writes:
  assumes "prepare_for_insert C ext now qname mode pf i pc options j nm p = Inr (r, j', p')"
  shows "\<exists>cs. commands p' = commands p @ cs \<and> list_all writes_job cs"
  using assms
  by (auto simp: prepare_for_insert_def sbind_def Let_def add_command_def atomic_def
      split: sum.splits if_splits option.splits QueueEventMode.splits)

lemma add_one_counts:
  assumes "add_one C ext now qname q mode pf ret x st = Inr st'"
  shows "id_counter st' = id_counter st + 1 \<and>
    pc_counter st' \<in> {pc_counter st, pc_counter st + 1} \<and>
    map Job.job_id (created st') = map Job.job_id (created st) @ (if ret then [Some (id_counter st)] else []) \<and>
    (\<exists>cs. commands (inserted st') = commands (inserted st) @ cs \<and> list_all writes_job cs)"
  using assms by (cases x) (auto simp: add_one_def sbind_def Let_def split: sum.splits dest: prepare_writes)

definition ids_from :: "u64 \<Rightarrow> nat \<Rightarrow> u64 option list" where
  "ids_from i n = map (\<lambda>k. Some (i + of_nat k)) [0..<n]"

lemma ids_from_Suc: "ids_from i (Suc n) = Some i # ids_from (i + 1) n"
  by (simp add: ids_from_def upt_conv_Cons map_Suc_upt [symmetric] o_def algebra_simps del: upt_Suc)

lemma add_all_counts:
  "sfold (add_one C ext now qname q mode pf ret) xs st = Inr st' \<Longrightarrow>
    id_counter st' = id_counter st + of_nat (length xs) \<and>
    (\<exists>k. k \<le> length xs \<and> pc_counter st' = pc_counter st + of_nat k) \<and>
    map Job.job_id (created st') = map Job.job_id (created st) @ (if ret then ids_from (id_counter st) (length xs) else []) \<and>
    (\<exists>cs. commands (inserted st') = commands (inserted st) @ cs \<and> list_all writes_job cs)"
proof (induction xs arbitrary: st)
  case (Cons x xs)
  then obtain st1 where x: "add_one C ext now qname q mode pf ret x st = Inr st1"
    and xs: "sfold (add_one C ext now qname q mode pf ret) xs st1 = Inr st'"
    by (auto simp: sbind_def split: sum.splits)
  obtain k where k: "k \<le> length xs" "pc_counter st' = pc_counter st1 + of_nat k" using Cons.IH [OF xs] by blast
  have "\<exists>k. k \<le> length (x # xs) \<and> pc_counter st' = pc_counter st + of_nat k"
  proof (cases "pc_counter st1 = pc_counter st")
    case True
    then show ?thesis using k by (intro exI [of _ k]) simp
  next
    case False
    then show ?thesis using k add_one_counts [OF x] by (intro exI [of _ "Suc k"]) (auto simp: algebra_simps)
  qed
  moreover have "\<exists>cs. commands (inserted st') = commands (inserted st) @ cs \<and> list_all writes_job cs"
    using add_one_counts [OF x] Cons.IH [OF xs] by fastforce
  ultimately show ?case
    using add_one_counts [OF x] Cons.IH [OF xs] by (simp add: ids_from_Suc algebra_simps)
qed (simp add: ids_from_def exI [of _ 0])

section \<open>Sending\<close>

lemma saturating_pred: "i + 1 + n \<noteq> 0 \<Longrightarrow> saturating_sub (i + 1 + n) 1 = i + n" for i n :: u64
  by (auto simp: saturating_sub_def word_le_nat_alt Suc_le_eq unat_gt_0)

lemma small_sum: "unat i + n < 2 ^ 63 \<Longrightarrow> unat (i + of_nat n) = unat i + n" for i :: u64
  by (simp add: unat_word_ariths unat_of_nat)

lemma small_not_0: "unat i + n < 2 ^ 63 \<Longrightarrow> i + 1 + of_nat n \<noteq> 0" for i :: u64
  using unat_of_nat_u64 [of "unat i + 1 + n"] by (auto simp: unat_eq_0 [symmetric] algebra_simps)

lemma unat_add_le: "unat (a + b) \<le> unat a + unat b" for a b :: u64
  by (simp add: unat_word_ariths)

lemma unat_of_nat_le: "unat (of_nat n :: u64) \<le> n"
  by (simp add: unat_of_nat)

lemma incr_run:
  assumes "counter_laws R C cnt" and "unat (cnt s k) + unat n < 2 ^ 63"
  obtains v s' where "query R (Incr k (uint n)) s = (Inr v, s')" and "cnt s' = (cnt s)(k := cnt s k + n)"
  using counter_lawsD(2) [OF assms(1), of s k "unat n"] assms(2) by auto

text \<open>What is sent after the counters \<open>i\<close> and \<open>pc\<close> have been read, whatever they have become meanwhile.\<close>

lemma send_jobs_run:
  assumes laws: "counter_laws R C cnt"
    and p: "add_pipeline C ext now pre nm q mode pf True xs i pc = Inr r"
    and i: "unat (cnt s (to_collection_name pre nm Id)) + unat i + length xs < 2 ^ 63"
    and pc: "unat (cnt s (to_collection_name pre nm PriorityCounter)) + unat pc + length xs < 2 ^ 63"
  shows "\<exists>js s'. send_jobs R C ext now pre nm q mode pf True xs (i, pc) s = (Inr (Some js), s') \<and>
    map Job.job_id js = ids_from (i + 1) (length xs) \<and>
    cnt s' (to_collection_name pre nm Id) = cnt s (to_collection_name pre nm Id) + (i + of_nat (length xs)) \<and>
    unat (cnt s' (to_collection_name pre nm Id)) \<le> unat (cnt s (to_collection_name pre nm Id)) + unat i + length xs \<and>
    unat (cnt s' (to_collection_name pre nm PriorityCounter)) \<le>
      unat (cnt s (to_collection_name pre nm PriorityCounter)) + unat pc + length xs"
proof -
  let ?id = "to_collection_name pre nm Id" and ?pc = "to_collection_name pre nm PriorityCounter"
  obtain st where st: "sfold (add_one C ext now (pre @ '':'' @ nm) q mode pf True) xs
      \<lparr>id_counter = i + 1, pc_counter = pc + 1, to_priorize = False, inserted = atomic pipe, created = []\<rparr> = Inr st"
    using p by (auto simp: add_pipeline_def sbind_def split: sum.splits)
  from add_all_counts [OF this] obtain k cs where k: "k \<le> length xs" "pc_counter st = pc + 1 + of_nat k"
    and cs: "commands (inserted st) = cs" "list_all writes_job cs"
    and js: "map Job.job_id (created st) = ids_from (i + 1) (length xs)" "id_counter st = i + 1 + of_nat (length xs)"
    by (auto simp: atomic_def pipe_def)
  let ?n = "saturating_sub (id_counter st) 1" and ?m = "saturating_sub (pc_counter st) 1"
  have n: "?n = i + of_nat (length xs)" "unat (cnt s ?id) + unat ?n < 2 ^ 63"
    using i js(2) small_sum [of i "length xs"] small_not_0 [of i "length xs"] by (simp_all add: saturating_pred)
  have m: "unat (cnt s ?pc) + unat ?m < 2 ^ 63"
    using pc k small_sum [of pc k] small_not_0 [of pc k] by (simp add: saturating_pred)
  have neq: "?id \<noteq> ?pc" using stem_inj [of Id PriorityCounter] by (auto simp: to_collection_name_def stem_def to_lowercase_def)
  obtain vs s1 where s1: "run_all R cs s = Some (vs, s1)" "cnt s1 = cnt s" using run_writes [OF laws cs(2)] by blast
  obtain v s2 where s2: "query R (Incr ?id (uint ?n)) s1 = (Inr v, s2)" "cnt s2 = (cnt s)(?id := cnt s ?id + ?n)"
    using incr_run [OF laws, of s1 ?id ?n] n(2) s1(2) by auto
  obtain u s3 where s3: "query R (Incr ?pc (uint ?m)) s2 = (Inr u, s3)" "cnt s3 = (cnt s2)(?pc := cnt s2 ?pc + ?m)"
    using incr_run [OF laws, of s2 ?pc ?m] m s2(2) neq by auto
  define fin where "fin = (if to_priorize st then s3 else s2)"
  let ?p = "if to_priorize st
      then add_command (Incr ?pc (uint ?m)) (add_command (Incr ?id (uint ?n)) (inserted st))
      else add_command (Incr ?id (uint ?n)) (inserted st)"
  have "\<exists>vs. run_all R (commands ?p) s = Some (vs, fin)"
    using s1 s2(1) s3(1) cs(1) by (simp add: add_command_def run_all_append fin_def)
  then have "query_all_batched R ?p s = (Inr (), fin)"
    using laws by (auto simp: counter_laws_def intro: query_all_batched_run)
  moreover have "cnt fin ?id = cnt s ?id + ?n" using s2(2) s3(2) neq by (simp add: fin_def)
  moreover have "add_pipeline C ext now pre nm q mode pf True xs i pc = Inr (?p, created st)"
    by (simp only: add_pipeline_def st sbind_simps Let_def)
  moreover have "unat (cnt fin ?id) \<le> unat (cnt s ?id) + unat i + length xs"
    using n unat_add_le [of "cnt s ?id" ?n] unat_add_le [of i "of_nat (length xs)"] unat_of_nat_le [of "length xs"] calculation(2) by simp
  moreover have "unat (cnt fin ?pc) \<le> unat (cnt s ?pc) + unat pc + length xs"
    using s2(2) s3(2) neq k unat_add_le [of "cnt s ?pc" ?m] small_sum [of pc k] small_not_0 [of pc k] pc
    by (simp add: fin_def saturating_pred)
  ultimately show ?thesis using js(1) n(1) by (simp add: send_jobs_def kbind_apply)
qed

section \<open>Examples\<close>

lemma plain_job_added:
  assumes "JobOptions.delay (unwrap_or default_job_options opt) = TimeMilis 0"
  shows "\<exists>st'. add_one C ext now qname q mode pf ret (jn, opt, dat) st = Inr st'"
  using assms by (simp add: add_one_def prepare_for_insert_def add_opts_def Let_def split_beta)

lemma plain_jobs_prepared:
  assumes "list_all (\<lambda>(jn, opt, dat). opt = None) xs"
  shows "\<exists>r. add_pipeline C ext now pre nm q mode pf ret xs i pc = Inr r"
proof -
  have "\<exists>st'. sfold (add_one C ext now qname q mode pf ret) xs st = Inr st'" for qname st
    using assms
  proof (induction xs arbitrary: st)
    case (Cons x xs)
    obtain jn dat where x: "x = (jn, None, dat)" using Cons.prems by (cases x) auto
    obtain st1 where "add_one C ext now qname q mode pf ret x st = Inr st1"
      using plain_job_added [of None C ext now qname q mode pf ret jn dat st] x by (auto simp: default_job_options_def default_delay_def)
    then show ?case using Cons by simp
  qed simp
  then obtain st' where "sfold (add_one C ext now (pre @ '':'' @ nm) q mode pf ret) xs
      \<lparr>id_counter = i + 1, pc_counter = pc + 1, to_priorize = False, inserted = atomic pipe, created = []\<rparr> = Inr st'" by blast
  then show ?thesis by (simp add: add_pipeline_def Let_def del: append.simps)
qed

lemma demo_counter_laws: "counter_laws demo_redis demo_wire k_counters"
proof -
  have "\<exists>v s'. query demo_redis c s = (Inr v, s') \<and> k_counters s' = k_counters s" if "writes_job c" for c s
    using that by (cases c) simp_all
  then show ?thesis
    by (auto simp: counter_laws_def demo_pipeline_law demo_wire_def option_value_def demo_number_def unwrap_or_def)
qed

lemma demo_transaction_law: "transaction_law demo_redis k_counters"
  unfolding transaction_law_def by (intro allI exI conjI) (auto simp: demo_redis_def kbind_apply)

section \<open>Properties\<close>



text \<open>
  Two clients that add jobs at the same time: the first has read the counters when the second adds its jobs, and
  sends its own afterwards.
\<close>

definition interleaved_adds :: "('srv, 'v, ('c, 'd, 'r, 'p) Job list) redis \<Rightarrow> ('v, 'j, 'c, 'd, 'r, 'p) wire \<Rightarrow> 'c externals \<Rightarrow>
    Dt \<Rightarrow> string \<Rightarrow> string \<Rightarrow> 'c QueueOpts \<Rightarrow> QueueEventMode \<Rightarrow> bool \<Rightarrow> ('c, 'd) new_job list \<Rightarrow> ('c, 'd) new_job list \<Rightarrow>
    ('srv, ('c, 'd, 'r, 'p) Job list option \<times> ('c, 'd, 'r, 'p) Job list option) kio" where
  "interleaved_adds R C ext now pre nm q mode pf xs ys =
    kbind (read_counters R C pre nm) (\<lambda>counters.
    kbind (add_closure R C ext now pre nm q mode pf True ys) (\<lambda>second.
    kbind (send_jobs R C ext now pre nm q mode pf True xs counters) (\<lambda>first. kret (first, second))))"



text \<open>
  C29. A job whose delay is positive but below the limit is lost without an error: preparing it fails, the failure is
  ignored, and nothing is sent for the job but the increment of the id counter. The caller gets the job back with
  the id it does not have in the store.
\<close>

theorem redis_short_delay_lost:
  assumes "0 < ms" and "ms < MIN_DELAY_MS_LIMIT" and "JobOptions.delay opt = TimeMilis ms" and "JobOptions.priority opt = 0"
    and "dt_add_ms ext now ms = Some due" and "i + 2 \<noteq> 0"
  shows "\<exists>p j. add_pipeline C ext now pre nm q mode pf True [(jn, Some opt, dat)] i pc = Inr (p, [j]) \<and>
    commands p = [Incr (to_collection_name pre nm Id) (uint (i + 1))] \<and> Job.job_id j = Some (i + 1)"
proof -
  let ?opt = "update_job_opts q opt"
  have opt: "JobOptions.delay ?opt = TimeMilis ms" "JobOptions.priority ?opt = 0" using assms by simp_all
  have "\<exists>x. next_occurrance_timestamp_ms ext now (TimeMilis ms) = Inr x" using assms(5) by (simp add: dt_plus_def)
  then have "\<exists>j. prepare_for_insert C ext now (pre @ '':'' @ nm) mode pf (i + 1) (pc + 1) ?opt
      (Jobs.new now jn (Some dat) (JobOptions.job_id ?opt) (Some (pre @ '':'' @ nm))) jn (atomic pipe) =
      Inr (Inl (KioError.QueueError (DelayBelowAllowedLimit MIN_DELAY_MS_LIMIT ms)), j, atomic pipe)"
    using assms(1,2) unfolding prepare_for_insert_def opt by (elim exE) (simp add: add_opts_def assms(3,4) del: next_occurrance_timestamp_ms.simps)
  then obtain j where prep: "prepare_for_insert C ext now (pre @ '':'' @ nm) mode pf (i + 1) (pc + 1) ?opt
      (Jobs.new now jn (Some dat) (JobOptions.job_id ?opt) (Some (pre @ '':'' @ nm))) jn (atomic pipe) =
      Inr (Inl (KioError.QueueError (DelayBelowAllowedLimit MIN_DELAY_MS_LIMIT ms)), j, atomic pipe)" ..
  have one: "Redis_Store.add_one C ext now (pre @ '':'' @ nm) q mode pf True (jn, Some opt, dat)
      \<lparr>id_counter = i + 1, pc_counter = pc + 1, to_priorize = False, inserted = atomic pipe, created = []\<rparr> =
      Inr \<lparr>id_counter = i + 1 + 1, pc_counter = pc + 1, to_priorize = False, inserted = atomic pipe,
        created = [j\<lparr>Job.job_id := Some (i + 1)\<rparr>]\<rparr>"
    using prep opt(2) unfolding Redis_Store.add_one_def Let_def by (simp del: append.simps)
  have "saturating_sub (i + 1 + 1) 1 = i + 1"
    using saturating_pred [of i 1] assms(6) by (simp add: add.assoc)
  then show ?thesis
    unfolding add_pipeline_def sfold.simps one sbind_simps Let_def
    by (simp add: atomic_def pipe_def add_command_def)
qed

theorem redis_short_delay_lost_witness:
  "\<exists>p j. add_pipeline demo_wire simple_calendar 0 ''kio'' ''q'' default_queue_opts Stream False True
      [(''a'', Some (default_job_options\<lparr>JobOptions.delay := TimeMilis 20\<rparr>), ())] 5 0 = Inr (p, [j]) \<and>
    commands p = [Incr (to_collection_name ''kio'' ''q'' Id) 6] \<and> Job.job_id j = Some 6"
  using redis_short_delay_lost [of 20 "default_job_options\<lparr>JobOptions.delay := TimeMilis 20\<rparr>" simple_calendar 0 20000000 5
      demo_wire "''kio''" "''q''" default_queue_opts Stream False "''a''" "()" 0]
  by (simp add: MIN_DELAY_MS_LIMIT_def simple_calendar_def default_job_options_def)

end
