(* ===== verification/Redis_Properties.thy ===== *)
theory Redis_Properties
  imports Redis_Insertion Insertion
begin

text \<open>
  Properties of the Redis store: that its lists behave as those of the in-memory store, and where it departs from the
  other stores.
\<close>

section \<open>Lists\<close>

text \<open>
  C15. The Redis store and the in-memory store are interchangeable as far as lists go: any sequence of additions,
  removals and takings gives on both the answers that it gives on plain lists, and leaves the lists that it leaves
  there, provided the lists agree at first and no removal meets an item that occurs twice.
\<close>

theorem redis_agrees_with_memory:
  assumes "mem_ok w" and laws: "list_laws R C lst" and "list_all op_ok xs" and "length xs \<le> mem_room w"
    and same: "same_lists (items (mem_view w)) (redis_lists lst v)"
    and drops: "drops_ok (\<lambda>ys i. count_list ys i \<le> 1) xs (redis_lists lst v)"
  shows "\<exists>rs ls w' v'. list_steps xs (items (mem_view w)) = (rs, ls) \<and>
    run_ops (mem_store ext) xs w = (Inr rs, w') \<and> run_ops (redis_store ext R C) xs v = (Inr rs, v') \<and>
    same_lists (items (mem_view w')) ls \<and> same_lists (redis_lists lst v') ls"
proof -
  obtain rs ls where l: "list_steps xs (items (mem_view w)) = (rs, ls)" by force
  from iffD1 [OF kwp_def inmem.run_ops_refine [OF assms(1,3,4) drops_ok_any, where ext = ext]]
  obtain w' where w': "run_ops (mem_store ext) xs w = (Inr rs, w')" "same_lists (items (mem_view w')) ls"
    unfolding l by auto
  from iffD1 [OF kwp_def redis.run_ops_refine [OF laws assms(3) order_refl drops, where ext = ext]]
  obtain v' where v': "run_ops (redis_store ext R C) xs v = (Inr (fst (list_steps xs (redis_lists lst v))), v')"
    "same_lists (redis_lists lst v') (snd (list_steps xs (redis_lists lst v)))" by blast
  from list_steps_same [OF assms(3) same, unfolded l] v' have "run_ops (redis_store ext R C) xs v = (Inr rs, v')"
    and "same_lists (redis_lists lst v') ls"
    by (auto simp: same_lists_def)
  with l w' show ?thesis by blast
qed

theorem redis_agrees_with_memory_witness:
  "\<exists>rs w' v'. run_ops (mem_store simple_calendar) [Add CollectionSuffix.Wait 7 True, Add CollectionSuffix.Wait 8 True, Take,
      Drop CollectionSuffix.Wait 8] (open_world 0 :: (nat, unit, unit, unit) mem_world) = (Inr rs, w') \<and>
    run_ops (redis_store simple_calendar demo_redis demo_wire) [Add CollectionSuffix.Wait 7 True, Add CollectionSuffix.Wait 8 True,
      Take, Drop CollectionSuffix.Wait 8] (demo_redis_world empty_keyspace) = (Inr rs, v') \<and>
    items (mem_view w') CollectionSuffix.Active = [7] \<and> redis_lists k_lists v' CollectionSuffix.Active = [7] \<and>
    redis_lists k_lists v' CollectionSuffix.Wait = []"
proof -
  let ?v = "demo_redis_world empty_keyspace :: (keyspace, unit, unit) redis_world"
  have v: "redis_lists k_lists ?v c = []" for c by (simp add: redis_lists_def demo_redis_world_def empty_keyspace_def)
  then have "same_lists (items (mem_view (open_world 0 :: (nat, unit, unit, unit) mem_world))) (redis_lists k_lists ?v)"
    by (simp add: same_lists_def)
  from redis_agrees_with_memory [OF open_world_ok demo_list_laws _ _ this, where ext = simple_calendar
      and xs = "[Add CollectionSuffix.Wait 7 True, Add CollectionSuffix.Wait 8 True, Take, Drop CollectionSuffix.Wait 8]"]
  show ?thesis by (fastforce simp: v list_cols_def same_lists_def)
qed

section \<open>Looking up\<close>

text \<open>
  A job that does not exist is found nevertheless: the reply to an absent hash is a map without entries, which
  decodes to a blank job in the state \<^verbatim>\<open>Wait\<close> without id, name and data.
\<close>

theorem missing_job_is_blank:
  assumes "pool_get R (server (rs w)) = (Inr (), s)" and "query R (Hgetall (key (CollectionSuffix.Job i) w)) s = (Inr v, s')"
    and "\<not> is_nil C v" and "as_map_iter C v = Some []"
  shows "fst (Redis_Store.get_job R C ext i w) = Some (Jobs.new (wall w) [] None None None)"
  using assms
  by (simp add: Redis_Store.get_job_def attempt_def call_def ask_def get_connection_def on_srv_def kbind_apply key_def
      decoded_def option_value_def job_from_value_def)

text \<open>
  The stalled jobs are never listed: without an upper bound the method returns an empty list, an error or a
  panic, whatever the server holds. It asks for the members of the wrong key and then takes a range that ends one
  past the last member.
\<close>

theorem stalled_listing_empty:
  "Redis_Store.get_job_ids_in_state R C JobState.Stalled start None w = (Inr ids, w') \<Longrightarrow> ids = []"
proof -
  have "returns (\<lambda>ids. ids = []) (kresult (deque_range a (length xs) xs))" for a and xs :: "u64 list"
    by (simp add: returns_def deque_range_def)
  then have "returns (\<lambda>ids. ids = []) (Redis_Store.get_job_ids_in_state R C JobState.Stalled start None)"
    by (simp add: Redis_Store.get_job_ids_in_state_def Let_def) (intro returns_intros; simp)
  then show "Redis_Store.get_job_ids_in_state R C JobState.Stalled start None w = (Inr ids, w') \<Longrightarrow> ids = []"
    unfolding returns_def by blast
qed

section \<open>Pausing\<close>

text \<open>
  The commands that \<^verbatim>\<open>pause\<close> sends besides those on lists: a key exists if its list is not empty, renaming replaces the
  list under the new name, and the hash of the queue has no effect on lists.
\<close>

definition rename_laws :: "('srv, 'v, 'x) redis \<Rightarrow> ('v, 'j, 'c, 'd, 'r, 'p) wire \<Rightarrow> ('srv \<Rightarrow> string \<Rightarrow> u64 list) \<Rightarrow> bool" where
  "rename_laws R C lst \<longleftrightarrow>
    (\<forall>k s. \<exists>v. query R (Exists k) s = (Inr v, s) \<and> flag C v = Inr (lst s k \<noteq> [])) \<and>
    (\<forall>a b s. a \<noteq> b \<longrightarrow> lst s a \<noteq> [] \<longrightarrow> (\<exists>v s'. query R (Rename a b) s = (Inr v, s') \<and> lst s' = (lst s)(a := [], b := lst s a))) \<and>
    (\<forall>k f x s. \<exists>v s'. query R (Hset k f x) s = (Inr v, s') \<and> lst s' = lst s) \<and>
    (\<forall>k f s. \<exists>v s'. query R (Hdel k f) s = (Inr v, s') \<and> lst s' = lst s)"

lemma rename_lawsD:
  assumes "rename_laws R C lst"
  shows "\<exists>v. query R (Exists k) s = (Inr v, s) \<and> flag C v = Inr (lst s k \<noteq> [])"
    "a \<noteq> b \<Longrightarrow> lst s a \<noteq> [] \<Longrightarrow> \<exists>v s'. query R (Rename a b) s = (Inr v, s') \<and> lst s' = (lst s)(a := [], b := lst s a)"
    "\<exists>v s'. query R (Hdel k f) s = (Inr v, s') \<and> lst s' = lst s"
  using assms by (simp_all add: rename_laws_def)

text \<open>
  C30. Resuming a queue discards the jobs that wait in it: the list of paused jobs replaces the list of waiting jobs.
  A job that was added to the waiting list in the meantime is in neither list afterwards.
\<close>

theorem resume_overwrites_waiting:
  assumes laws: "list_laws R C lst" "rename_laws R C lst" and "redis_lists lst w CollectionSuffix.Paused \<noteq> []"
  shows "kwp (Redis_Store.pause R C False mode) (\<lambda>_ w'.
    redis_lists lst w' CollectionSuffix.Wait = redis_lists lst w CollectionSuffix.Paused \<and>
    redis_lists lst w' CollectionSuffix.Paused = [] \<and>
    redis_lists lst w' CollectionSuffix.Active = redis_lists lst w CollectionSuffix.Active) w"
proof -
  let ?a = "key CollectionSuffix.Paused w" and ?b = "key CollectionSuffix.Wait w" and ?s = "server (rs w)"
  let ?h = "Hdel (key CollectionSuffix.Meta w) (suffix_to_arg CollectionSuffix.Paused)"
  have ne: "lst ?s ?a \<noteq> []" using assms(3) by (simp add: redis_lists_def)
  obtain v where v: "query R (Exists ?a) ?s = (Inr v, ?s)" "flag C v = Inr True"
    using rename_lawsD(1) [OF laws(2), of ?a ?s] ne by auto
  obtain v1 s1 where s1: "query R (Rename ?a ?b) ?s = (Inr v1, s1)" "lst s1 = (lst ?s)(?a := [], ?b := lst ?s ?a)"
    using rename_lawsD(2) [OF laws(2) _ ne, of ?b] by auto
  obtain v2 s2 where s2: "query R ?h s1 = (Inr v2, s2)" "lst s2 = lst s1"
    using rename_lawsD(3) [OF laws(2), of "key CollectionSuffix.Meta w" "suffix_to_arg CollectionSuffix.Paused" s1] by auto
  have "run_all R [Rename ?a ?b, ?h] ?s = Some ([v1, v2], s2)" by (simp add: s1(1) s2(1))
  then have q: "query_async R \<lparr>transaction_mode = True, commands = [Rename ?a ?b, ?h]\<rparr> w = (Inr [v1, v2], with_server s2 w)"
    using pipeline_lawD [OF list_lawsD(2) [OF laws(1)]] by (simp add: query_async_def on_srv_def)
  have "attempt (ask R (flag C) (Exists ?a)) w = (Some True, w)"
    by (simp add: attempt_def ask_def kbind_apply on_srv_def v decoded_def)
  then have "Redis_Store.pause R C False mode w = (Inr (), with_server s2 w)"
    using q list_lawsD(1) [OF laws(1)]
    by (simp add: Redis_Store.pause_def kbind_apply klift_apply get_connection_def on_srv_def Let_def add_command_def
        atomic_def pipe_def)
  then show ?thesis by (simp add: kwp_def s1(2) s2(2)) (simp add: redis_lists_def)
qed

lemma demo_rename_laws: "rename_laws demo_redis demo_wire k_lists"
  by (simp add: rename_laws_def demo_wire_def demo_number_def)

theorem resume_overwrites_waiting_witness:
  "kwp (Redis_Store.pause demo_redis demo_wire False Stream) (\<lambda>_ w'.
    redis_lists k_lists w' CollectionSuffix.Wait = [3, 4] \<and> redis_lists k_lists w' CollectionSuffix.Paused = [])
    (demo_redis_world (empty_keyspace\<lparr>k_lists := (\<lambda>k. if k = ''kio:q:paused'' then [3, 4] else if k = ''kio:q:wait'' then [5] else [])\<rparr>))"
  by (rule kwp_mono [OF resume_overwrites_waiting [OF demo_list_laws demo_rename_laws]])
    (auto simp: redis_lists_def key_def demo_keys demo_redis_world_def)

section \<open>Batches\<close>

text \<open>
  Sending a pipeline in batches has the effect of running all its commands in order: the batches are non-empty,
  have at most ten thousand commands each and together are the pipeline. None of them is a transaction, whatever
  the pipeline was.
\<close>

theorem batched_runs_all:
  assumes "pipeline_law R" and "run_all R (commands p) s = Some (vs, s')"
  shows "query_all_batched R p s = (Inr (), s') \<and>
    concat (map commands (split_pipeline p 10000)) = commands p \<and>
    (\<forall>q \<in> set (split_pipeline p 10000). commands q \<noteq> [] \<and> length (commands q) \<le> 10000 \<and> \<not> transaction_mode q)"
  using query_all_batched_run [OF assms] in_chunks [of _ 10000 "commands p"]
  by (auto simp: split_pipeline_eq o_def concat_chunks)

section \<open>Listening\<close>

text \<open>
  \<open>msgs s\<close> are the messages that the subscription has yet to deliver before it ends; reading metrics neither takes one
  nor panics.
\<close>

definition message_laws :: "('srv, 'v, 'x) redis \<Rightarrow> ('srv \<Rightarrow> 'v list) \<Rightarrow> bool" where
  "message_laws R msgs \<longleftrightarrow>
    (\<forall>s m ms. msgs s = m # ms \<longrightarrow> (\<exists>s'. next_message R s = (Inr (Some m), s') \<and> msgs s' = ms)) \<and>
    (\<forall>s. msgs s = [] \<longrightarrow> (\<exists>s'. next_message R s = (Inr None, s'))) \<and>
    (\<forall>s m. msgs (snd (pool_get R s)) = msgs s \<and> fst (pool_get R s) \<noteq> Inl (Panic m)) \<and>
    (\<forall>b cs s m. msgs (snd (pipeline R b cs s)) = msgs s \<and> fst (pipeline R b cs s) \<noteq> Inl (Panic m))"

text \<open>An operation that emits nothing, takes no message and does not panic.\<close>

definition quiet :: "('srv \<Rightarrow> 'v list) \<Rightarrow> (('srv, 'r, 'p) redis_world, 'a) kio \<Rightarrow> bool" where
  "quiet msgs m \<longleftrightarrow> (\<forall>w r w'. m w = (r, w') \<longrightarrow> emitted w' = emitted w \<and> msgs (server (rs w')) = msgs (server (rs w)) \<and>
     (\<forall>txt. r \<noteq> Inl (Panic txt)))"

lemma quiet_intros:
  "quiet msgs (kget g)" "quiet msgs (decoded x)"
  "(\<And>s txt. msgs (snd (f s)) = msgs s \<and> fst (f s) \<noteq> Inl (Panic txt)) \<Longrightarrow> quiet msgs (on_srv f)"
  by (auto simp: quiet_def decoded_def on_srv_def split: sum.splits prod.splits) (metis fst_conv snd_conv)+

lemma quietD:
  assumes "quiet msgs m" and "m w = (r, w')"
  shows "emitted w' = emitted w" "msgs (server (rs w')) = msgs (server (rs w))" "r \<noteq> Inl (Panic txt)"
  using assms by (auto simp: quiet_def)

lemma quiet_bind:
  assumes m: "quiet msgs m" and f: "\<And>a. quiet msgs (f a)"
  shows "quiet msgs (kbind m f)"
  unfolding quiet_def
proof (intro allI impI)
  fix w r w'
  assume r: "kbind m f w = (r, w')"
  obtain x w1 where x: "m w = (x, w1)" by force
  show "emitted w' = emitted w \<and> msgs (server (rs w')) = msgs (server (rs w)) \<and> (\<forall>txt. r \<noteq> Inl (Panic txt))"
    using r x quietD [OF m x] quietD [OF f, of _ w1 r w'] by (cases x) (auto simp: kbind_apply)
qed

lemma get_metrics_quiet:
  assumes "message_laws R msgs"
  shows "quiet msgs (Redis_Store.get_metrics R C)"
  unfolding Redis_Store.get_metrics_def get_connection_def get_queue_metrics_def query_async_def Let_def
  by (intro quiet_bind quiet_intros; (simp add: assms [unfolded message_laws_def])?)
    (clarsimp, intro quiet_bind quiet_intros; simp add: assms [unfolded message_laws_def])

lemma process_event_emits:
  assumes "quiet msgs mop" and "from_queue_event e = Inr p"
  shows "\<exists>w'. process_each_event mop e w = (Inr (), w') \<and> emitted w' = emitted w @ [(event e, p)] \<and>
    msgs (server (rs w')) = msgs (server (rs w))"
proof -
  let ?w = "w\<lparr>emitted := emitted w @ [(event e, p)]\<rparr>"
  obtain r w1 where r: "mop ?w = (r, w1)" by force
  then have q: "emitted w1 = emitted ?w" "msgs (server (rs w1)) = msgs (server (rs ?w))" "\<And>txt. r \<noteq> Inl (Panic txt)"
    using assms(1) unfolding quiet_def by blast+
  then show ?thesis
    using assms(2) r by (cases r) (auto simp: process_each_event_def kbind_apply split: Failure.splits)
qed


lemma demo_message_laws: "message_laws demo_redis k_messages"
proof -
  have "k_messages (snd (demo_query c s)) = k_messages s" for c s by (cases c) simp_all
  then have "k_messages (snd (demo_run cs s)) = k_messages s" for cs s
    by (induction cs arbitrary: s) (simp_all add: split_beta)
  then show ?thesis by (simp add: message_laws_def demo_redis_simps) (simp add: demo_redis_def klift_apply)
qed


end
