(* ===== verification/Spec2Isabelle.thy ===== *)
theory Spec2Isabelle
  imports Timer_Properties Interval_Timer Store_Types Rocks_Properties Redis_Round_Trip Redis_Properties
begin

text \<open>
  \<^bold>\<open>Verification of the kiomq task queue\<close>

  \<^bold>\<open>The program.\<close> kiomq is an asynchronous job queue. A \<^verbatim>\<open>Queue\<close> (\<^verbatim>\<open>src/src/queue/mod.rs\<close>) moves jobs between
  collections of a store, which implements the trait \<^verbatim>\<open>Store\<close> (\<^verbatim>\<open>src/src/stores/mod.rs\<close>). A \<^verbatim>\<open>Worker\<close>
  (\<^verbatim>\<open>src/src/worker/mod.rs\<close>) runs a main loop (\<^verbatim>\<open>main_loop\<close> of \<^verbatim>\<open>src/src/utils/mod.rs\<close>) that takes jobs and spawns
  \<^verbatim>\<open>process_job\<close> for each of them. Each queue has a timer task (\<^verbatim>\<open>src/src/timers/delay_queue_timer.rs\<close>) that promotes
  delayed jobs and answers timers; one coordinator per process (\<^verbatim>\<open>src/src/metrics/process_metrics.rs\<close>) owns
  the delay queue of all of them.

  \<^bold>\<open>Conventions.\<close> \<open>u64\<close> and \<open>i64\<close> are 64-bit words, the latter read with \<open>sint\<close>; arithmetic wraps as in a release
  build. Times are integers in nanoseconds. A fallible operation on a state \<open>'w\<close> has the type \<open>('w, 'a) kio\<close>:
  it returns an error, a panic or a value, and always a state. \<open>kwp m Q w\<close> says that \<open>m\<close> started in \<open>w\<close> returns a
  value and that \<open>Q\<close> holds of the value and the state, so every statement with \<open>kwp\<close> is one of total
  correctness. Random ids, the clock, calendar and cron libraries, task monitors and the callbacks of the
  user are parameters (\<open>externals\<close>, \<open>runtime\<close>, \<open>rocks\<close>, \<open>codec\<close>, \<open>redis\<close>, \<open>wire\<close>, \<open>Callback\<close>, or arguments).

  \<^bold>\<open>Theories and what they model.\<close>

  \<^item> \<open>Prelude\<close>: errors of \<^verbatim>\<open>src/src/error/mod.rs\<close>, the operations \<open>kio\<close>, weakest preconditions and frame rules.
  \<^item> \<open>Skip_Map\<close>: the ordered map of \<^verbatim>\<open>crossbeam_skiplist\<close> as a sorted association list; shared by the rest.
  \<^item> \<open>Concurrent_Deque\<close>: \<^verbatim>\<open>ConcurrentDeque\<close> of \<^verbatim>\<open>src/src/utils/concurrent_structures.rs\<close>. It refines a list, and
    no interleaving of the halves of concurrent pushes and pops loses or duplicates a value.
  \<^item> \<open>Timed_Map\<close>: \<^verbatim>\<open>TimedMap\<close> of \<^verbatim>\<open>src/src/timers/concurrent_timed_map.rs\<close>, with lookups until the deadline.
  \<^item> \<open>Backoff\<close>, \<open>Schedule\<close>, \<open>Jobs\<close>, \<open>Options\<close>, \<open>Metrics\<close>, \<open>Events\<close>: the data of \<^verbatim>\<open>src/src/job\<close>, \<^verbatim>\<open>src/src/queue/options.rs\<close>,
    \<^verbatim>\<open>src/src/worker/worker_opts.rs\<close>, \<^verbatim>\<open>src/src/metrics\<close> and \<^verbatim>\<open>src/src/events\<close>, with due times, repetition, tags,
    collection names and the conversion of events.
  \<^item> \<open>Store_Trait\<close>: the trait as a record of operations over a world (clock, metrics and cells of the queue,
    emitted events, store), and the helpers shared by stores and queue.
  \<^item> \<open>In_Memory_Store\<close>: every operation of \<^verbatim>\<open>src/src/stores/inmemory_store.rs\<close>.
  \<^item> \<open>Queues\<close>: every operation of \<^verbatim>\<open>Queue\<close>, over an arbitrary store.
  \<^item> \<open>Collection_Contract\<close>: the locale \<open>list_contract\<close> states what the operations on the lists of a store do, and proves
    that sequences of them do what they do on plain lists. The locale \<open>collection_contract\<close> states what a queue
    relies on in all collections of a store, over an abstract view of it (jobs, locks, the items and scores of
    each collection); a sublocale derives \<open>list_contract\<close> from it. \<open>Queue_Contract\<close> extends it by job records,
    locks and events to \<open>store_contract\<close> and proves the transitions of the queue from that. \<open>In_Memory_Laws\<close>
    interprets these for the in-memory store as \<open>inmem\<close>; \<open>Store_Types\<close> shows that every method of the trait keeps
    its maps well formed.
  \<^item> \<open>Rocks_Store\<close>: every function of \<^verbatim>\<open>src/src/stores/rocksdb_store.rs\<close>, over a database and a JSON library that are
    parameters (\<open>rocks\<close>, \<open>codec\<close>). \<open>Rocks_Laws\<close> states what is assumed of them (\<open>rocks_laws\<close>: reads return the last
    write, no call fails; \<open>codec_laws\<close>: decoding inverts encoding) and interprets \<open>collection_contract\<close> as \<open>rocks\<close>.
    \<open>Rocks_Properties\<close>: the two stores agree on lists, ids count from 1, a bulk insertion is written as a whole;
    locks are not found again and the counter of attempts doubles, which is why the laws of \<open>store_contract\<close>
    do not hold of this store. A database that is a function meets the assumptions.
  \<^item> \<open>Redis_Wire\<close>: the conversions between values of the program and the replies and arguments of the client, in
    \<^verbatim>\<open>src/src/job/mod.rs\<close>, \<^verbatim>\<open>src/src/queue/options.rs\<close>, \<^verbatim>\<open>src/src/events/redis_events.rs\<close> and the version of the server in
    \<^verbatim>\<open>src/src/stores/redis_store.rs\<close>. The elementary conversions of the client and of the JSON library are the
    parameter \<open>wire\<close>.
  \<^item> \<open>Redis_Store\<close>: every function of \<^verbatim>\<open>src/src/stores/redis_store.rs\<close> and its helpers in \<^verbatim>\<open>src/src/utils/mod.rs\<close>. A command
    is a value of the datatype \<open>command\<close>; what the server does with it is the parameter \<open>redis\<close>. The listening loops
    are partial functions, so that a loop that does not end is \<open>None\<close>.
  \<^item> \<open>Redis_Codec\<close>, \<open>Redis_Round_Trip\<close>: what is written for a job or an event is read back, and which results are lost.
    \<open>bulk_laws\<close> and \<open>serde_law\<close> say what is assumed of the conversions: strings and numbers come back as written.
  \<^item> \<open>Redis_Laws\<close> interprets \<open>list_contract\<close> for the Redis store as \<open>redis\<close>, from what the commands on lists do
    (\<open>list_laws\<close>) and from a pipeline running its commands in order (\<open>pipeline_law\<close>); batches have the effect of the
    whole pipeline. \<open>Redis_Insertion\<close>: the ids that an insertion hands out, alone and with a second client in
    between (\<open>counter_laws\<close>, \<open>transaction_law\<close>), and jobs it loses. \<open>Redis_Properties\<close>: agreement with the in-memory
    store on lists, pausing (\<open>rename_laws\<close>), lookups, and the delivery of messages (\<open>message_laws\<close>). The other laws of
    \<open>collection_contract\<close> are not claimed of this store. \<open>Redis_Example\<close> is a server and a wire format that meet all
    these assumptions.
  \<^item> \<open>Insertion\<close>, \<open>Queue_Properties\<close>, \<open>Maintenance\<close>, \<open>Placement\<close>: the properties of the queue on the in-memory
    store, from single operations to the invariant that every job is in exactly one collection.
  \<^item> \<open>Interval_Timer\<close>: \<^verbatim>\<open>Timer\<close> of \<^verbatim>\<open>src/src/timers/mod.rs\<close> with its tasks as a step relation.
  \<^item> \<open>Coordinator\<close>: registries, requests and expiries of the coordinator, its step relation and the
    invariant of its timer table.
  \<^item> \<open>Engine\<close>: the queue with its workers, jobs in progress, timer task and coordinator; every timer handler.
  \<^item> \<open>Workers\<close>: failure capture (\<^verbatim>\<open>src/src/error/backtrace_utils.rs\<close>), \<^verbatim>\<open>process_job\<close>, the main loop and the
    methods of a worker. \<open>Worker_Lifecycle\<close> is the step relation of the engine, its refinement to the moves of
    one worker, the invariants and the measure of shutting down; \<open>Worker_Properties\<close>, \<open>Job_Processing\<close> and
    \<open>Timer_Properties\<close> hold the properties that span these components.

  \<^bold>\<open>Granularity of steps.\<close> In \<open>worker_step\<close> the steps of a main loop lie between two accesses to cells that
  other tasks share, and loops, tasks, calls of the worker's methods and everything else interleave in any
  order. A call of a method, the fetching of a job and the processing of a job are one step each: the
  statements of \<open>Worker_Properties\<close> are about the cells of the workers, which these touch once. Statements with
  \<open>kwp\<close> are about one operation that runs undisturbed.

  \<^bold>\<open>Bounds.\<close> Job ids are below \<open>2 ^ 56\<close> (\<open>small_id\<close>), because a tag keeps 56 bits of its payload. \<open>mem_room\<close> is the
  number of pushes a deque accepts before its 64-bit index wraps; an operation that pushes needs a positive
  one. Attempt counters are below \<open>2 ^ 62\<close>, so that the signed addition of \<^verbatim>\<open>incr\<close> does not wrap. The channels of the
  coordinator (capacity 10,000) are taken as unbounded. The counters
  of the Redis store are below \<open>2 ^ 63\<close> after an increment, the largest number of the server. No definition uses
  fuel: loops are recursions over lists, steps of a relation or partial functions. That closing a worker ends
  is proved with a measure, and that listening ends by induction on the messages.

  \<^bold>\<open>Not modelled.\<close> The inside of the Redis client and server, of the database under the RocksDB store and of the
  JSON libraries: these are parameters. Their failures are branches of the definitions, but the laws assume
  none, so the statements that rest on these laws are about runs without failures of the connection. Other
  clients of a Redis server, except where a statement names one. The sampling of the process tree, the
  runtime monitor and the allocator, which read the operating system. Tracing. The dispatch of events to the
  listeners of the emitter crate: the model records the emitted events. The macros that generate tests and
  the root of the crate, which has re-exports only.
\<close>

end
